(* ===== verification/Prelude.thy ===== *)
theory Prelude
  imports Main "HOL-Library.Word" "HOL-Library.Char_ord" "HOL-Library.List_Lexorder"
begin

text \<open>
  Shared vocabulary of the development.

  \<^item> Names for the model's base types: an identifier (\<open>Ulid\<close>) is its 128-bit value as a natural
    number, an instant (\<open>DateTime<Utc>\<close>) the number of microseconds since the Unix epoch, a
    byte an 8-bit word, a Rust \<open>String\<close> the list of its UTF-8 bytes.
  \<^item> The effect type of the services: a function from the state to a result or an error and the
    next state (\<open>Result\<close> with \<open>?\<close>), with the inversion lemmas that the proofs about
    services use.
  \<^item> Database tables as lists of rows, with the statements the repositories issue: select the
    first row that satisfies a condition, update, count, insert and delete.
  \<^item> The string operations of the Rust standard library the sources use.
\<close>

type_synonym ulid = nat
type_synonym time = int
type_synonym duration = int
type_synonym u8 = "8 word"
type_synonym u32 = "32 word"

named_theorems run_simps \<open>equations that evaluate the effect combinators\<close>
named_theorems run_elims \<open>inversion of a successful run\<close>
named_theorems table_simps \<open>rewriting of table operations\<close>

section \<open>Results with state\<close>

type_synonym ('s, 'e, 'a) exc = "'s \<Rightarrow> ('e + 'a) \<times> 's"

definition ret :: "'a \<Rightarrow> ('s, 'e, 'a) exc" where
  "ret x s = (Inr x, s)"

definition throw :: "'e \<Rightarrow> ('s, 'e, 'a) exc" where
  "throw e s = (Inl e, s)"

definition bindE :: "('s, 'e, 'a) exc \<Rightarrow> ('a \<Rightarrow> ('s, 'e, 'b) exc) \<Rightarrow> ('s, 'e, 'b) exc" where
  "bindE m f s = (case m s of (Inl e, s') \<Rightarrow> (Inl e, s') | (Inr x, s') \<Rightarrow> f x s')"

definition thenE :: "('s, 'e, 'a) exc \<Rightarrow> ('s, 'e, 'b) exc \<Rightarrow> ('s, 'e, 'b) exc" where
  "thenE m n = bindE m (\<lambda>_. n)"

text \<open>The \<open>From\<close> conversion that \<open>?\<close> applies to the error of a callee.\<close>

definition map_err :: "('d \<Rightarrow> 'e) \<Rightarrow> ('s, 'd, 'a) exc \<Rightarrow> ('s, 'e, 'a) exc" where
  "map_err g m s = (case m s of (Inl e, s') \<Rightarrow> (Inl (g e), s') | (Inr x, s') \<Rightarrow> (Inr x, s'))"

definition ok_or :: "'e \<Rightarrow> 'a option \<Rightarrow> ('s, 'e, 'a) exc" where
  "ok_or e x = (case x of None \<Rightarrow> throw e | Some y \<Rightarrow> ret y)"

definition ensure :: "bool \<Rightarrow> 'e \<Rightarrow> ('s, 'e, unit) exc" where
  "ensure b e = (if b then ret () else throw e)"

definition gets :: "('s \<Rightarrow> 'a) \<Rightarrow> ('s, 'e, 'a) exc" where
  "gets f s = (Inr (f s), s)"

definition of_result :: "'e + 'a \<Rightarrow> ('s, 'e, 'a) exc" where
  "of_result r s = (r, s)"

definition whenE :: "bool \<Rightarrow> ('s, 'e, unit) exc \<Rightarrow> ('s, 'e, unit) exc" where
  "whenE b m = (if b then m else ret ())"

fun forE :: "'a list \<Rightarrow> ('a \<Rightarrow> ('s, 'e, unit) exc) \<Rightarrow> ('s, 'e, unit) exc" where
  "forE [] f = ret ()"
| "forE (x # xs) f = thenE (f x) (forE xs f)"

lemma ret_run [run_simps, simp]: "ret x s = (Inr x, s)"
  by (simp add: ret_def)

lemma throw_run [run_simps, simp]: "throw e s = (Inl e, s)"
  by (simp add: throw_def)

lemma gets_run [run_simps, simp]: "gets f s = (Inr (f s), s)"
  by (simp add: gets_def)

lemma of_result_run [run_simps, simp]: "of_result r s = (r, s)"
  by (simp add: of_result_def)

lemma ensure_run: "ensure b e s = (if b then (Inr (), s) else (Inl e, s))"
  by (simp add: ensure_def)

lemma ensure_Inr [run_simps]: "ensure b e s = (Inr u, s') \<longleftrightarrow> b \<and> s' = s"
  by (auto simp: ensure_run)

lemma ensure_Inl [run_simps]: "ensure b e s = (Inl e', s') \<longleftrightarrow> \<not> b \<and> e' = e \<and> s' = s"
  by (auto simp: ensure_run)

lemma ok_or_run: "ok_or e x s = (case x of None \<Rightarrow> (Inl e, s) | Some y \<Rightarrow> (Inr y, s))"
  by (simp add: ok_or_def split: option.split)

lemma ok_or_Inr [run_simps]: "ok_or e x s = (Inr y, s') \<longleftrightarrow> x = Some y \<and> s' = s"
  by (auto simp: ok_or_run split: option.split)

lemma ok_or_Inl [run_simps]: "ok_or e x s = (Inl e', s') \<longleftrightarrow> x = None \<and> e' = e \<and> s' = s"
  by (auto simp: ok_or_run split: option.split)

lemma whenE_run: "whenE b m s = (if b then m s else (Inr (), s))"
  by (simp add: whenE_def)

lemma whenE_Inr [run_simps]:
  "whenE b m s = (Inr u, s') \<longleftrightarrow> (if b then m s = (Inr u, s') else s' = s)"
  by (simp add: whenE_run eq_commute)

lemma whenE_Inl [run_simps]: "whenE b m s = (Inl e, s') \<longleftrightarrow> b \<and> m s = (Inl e, s')"
  by (simp add: whenE_run)

lemma bindE_Inr [run_simps]:
  "bindE m f s = (Inr y, s') \<longleftrightarrow> (\<exists>x s1. m s = (Inr x, s1) \<and> f x s1 = (Inr y, s'))"
  by (auto simp: bindE_def split: prod.splits sum.splits)

lemma bindE_Inl [run_simps]:
  "bindE m f s = (Inl e, s') \<longleftrightarrow>
     m s = (Inl e, s') \<or> (\<exists>x s1. m s = (Inr x, s1) \<and> f x s1 = (Inl e, s'))"
  by (auto simp: bindE_def split: prod.splits sum.splits)

lemma thenE_Inr [run_simps]:
  "thenE m n s = (Inr y, s') \<longleftrightarrow> (\<exists>x s1. m s = (Inr x, s1) \<and> n s1 = (Inr y, s'))"
  by (simp add: thenE_def bindE_Inr)

lemma thenE_Inl [run_simps]:
  "thenE m n s = (Inl e, s') \<longleftrightarrow>
     m s = (Inl e, s') \<or> (\<exists>x s1. m s = (Inr x, s1) \<and> n s1 = (Inl e, s'))"
  by (simp add: thenE_def bindE_Inl)

lemma map_err_Inr [run_simps]: "map_err g m s = (Inr y, s') \<longleftrightarrow> m s = (Inr y, s')"
  by (auto simp: map_err_def split: prod.splits sum.splits)

lemma map_err_Inl [run_simps]:
  "map_err g m s = (Inl e, s') \<longleftrightarrow> (\<exists>d. e = g d \<and> m s = (Inl d, s'))"
  by (auto simp: map_err_def split: prod.splits sum.splits)

text \<open>Forward evaluation: rewriting a run whose first step is known.\<close>

lemma bindE_step_Inr: "m s = (Inr x, s1) \<Longrightarrow> bindE m f s = f x s1"
  by (simp add: bindE_def)

lemma bindE_step_Inl: "m s = (Inl e, s1) \<Longrightarrow> bindE m f s = (Inl e, s1)"
  by (simp add: bindE_def)

lemma bindE_ret [simp]: "bindE (ret x) f = f x"
  by (rule ext) (simp add: bindE_def)

lemma bindE_throw [simp]: "bindE (throw e) f = throw e"
  by (rule ext) (simp add: bindE_def)

text \<open>
  A property of the state that every step keeps is kept by a composition of steps, whatever
  its result.
\<close>

definition keeps :: "('s \<Rightarrow> bool) \<Rightarrow> ('s, 'e, 'a) exc \<Rightarrow> bool" where
  "keeps P m \<longleftrightarrow> (\<forall>s. P s \<longrightarrow> P (snd (m s)))"

lemma keepsI: "(\<And>s. P s \<Longrightarrow> P (snd (m s))) \<Longrightarrow> keeps P m"
  by (simp add: keeps_def)

lemma keepsD: "keeps P m \<Longrightarrow> m s = (r, s') \<Longrightarrow> P s \<Longrightarrow> P s'"
  by (auto simp: keeps_def dest!: spec [where x = s])

lemma keeps_ret [intro!]: "keeps P (ret x)"
  by (simp add: keeps_def)

lemma keeps_throw [intro!]: "keeps P (throw e)"
  by (simp add: keeps_def)

lemma keeps_gets [intro!]: "keeps P (gets f)"
  by (simp add: keeps_def)

lemma keeps_of_result [intro!]: "keeps P (of_result r)"
  by (simp add: keeps_def)

lemma keeps_ensure [intro!]: "keeps P (ensure b e)"
  by (simp add: keeps_def ensure_def)

lemma keeps_ok_or [intro!]: "keeps P (ok_or e x)"
  by (simp add: keeps_def ok_or_run split: option.split)

lemma keeps_bindE [intro]:
  assumes "keeps P m" and "\<And>x. keeps P (f x)"
  shows "keeps P (bindE m f)"
  using assms by (fastforce simp: keeps_def bindE_def split: prod.splits sum.splits)

lemma keeps_thenE [intro]: "keeps P m \<Longrightarrow> keeps P n \<Longrightarrow> keeps P (thenE m n)"
  by (auto simp: thenE_def)

lemma keeps_map_err [intro]: "keeps P m \<Longrightarrow> keeps P (map_err g m)"
  by (fastforce simp: keeps_def map_err_def split: prod.splits sum.splits)

lemma keeps_whenE [intro]: "keeps P m \<Longrightarrow> keeps P (whenE b m)"
  by (auto simp: whenE_def)

lemma keeps_if [intro]: "keeps P m \<Longrightarrow> keeps P n \<Longrightarrow> keeps P (if b then m else n)"
  by simp

lemma keeps_forE [intro]: "(\<And>x. keeps P (f x)) \<Longrightarrow> keeps P (forE xs f)"
  by (induction xs) auto

section \<open>Tables\<close>

text \<open>
  A table is the list of its rows. \<open>upd_rows\<close> is \<open>UPDATE .. SET .. WHERE\<close>, \<open>n_rows\<close> the
  number of rows it reports, \<open>del_rows\<close> is \<open>DELETE .. WHERE\<close>; a select of at most one row
  is \<open>List.find\<close>.
\<close>

definition upd_rows :: "('r \<Rightarrow> bool) \<Rightarrow> ('r \<Rightarrow> 'r) \<Rightarrow> 'r list \<Rightarrow> 'r list" where
  "upd_rows p f t = map (\<lambda>r. if p r then f r else r) t"

definition n_rows :: "('r \<Rightarrow> bool) \<Rightarrow> 'r list \<Rightarrow> nat" where
  "n_rows p t = length (filter p t)"

definition del_rows :: "('r \<Rightarrow> bool) \<Rightarrow> 'r list \<Rightarrow> 'r list" where
  "del_rows p t = filter (\<lambda>r. \<not> p r) t"

definition has_row :: "('r \<Rightarrow> bool) \<Rightarrow> 'r list \<Rightarrow> bool" where
  "has_row p t = list_ex p t"

lemma set_upd_rows [table_simps]: "set (upd_rows p f t) = (\<lambda>r. if p r then f r else r) ` set t"
  by (simp add: upd_rows_def)

lemma set_del_rows [table_simps]: "set (del_rows p t) = {r \<in> set t. \<not> p r}"
  by (auto simp: del_rows_def)

lemma has_row_iff [table_simps]: "has_row p t \<longleftrightarrow> (\<exists>r \<in> set t. p r)"
  by (simp add: has_row_def list_ex_iff)

lemma length_upd_rows [simp]: "length (upd_rows p f t) = length t"
  by (simp add: upd_rows_def)

lemma map_upd_rows:
  "(\<And>r. p r \<Longrightarrow> g (f r) = g r) \<Longrightarrow> map g (upd_rows p f t) = map g t"
  by (simp add: upd_rows_def)

lemma find_SomeD: "List.find p t = Some r \<Longrightarrow> r \<in> set t \<and> p r"
  by (auto simp: find_Some_iff)

lemma find_key_eq:
  assumes "distinct (map key t)"
  shows "List.find (\<lambda>r. key r = k) t = Some r \<longleftrightarrow> r \<in> set t \<and> key r = k"
  using assms by (induction t) auto

lemma find_key_None: "List.find (\<lambda>r. key r = k) t = None \<longleftrightarrow> k \<notin> key ` set t"
  by (auto simp: find_None_iff)

lemma n_rows_key:
  assumes "distinct (map key t)"
  shows "n_rows (\<lambda>r. key r = k) t = (if k \<in> key ` set t then 1 else 0)"
  using assms unfolding n_rows_def by (induction t) (auto simp: image_iff)

lemma n_rows_pos: "0 < n_rows p t \<longleftrightarrow> (\<exists>r \<in> set t. p r)"
  by (auto simp: n_rows_def filter_empty_conv)

lemma distinct_map_key_inj:
  "distinct (map key t) \<Longrightarrow> r \<in> set t \<Longrightarrow> r' \<in> set t \<Longrightarrow> key r = key r' \<Longrightarrow> r = r'"
  by (auto simp: distinct_map inj_on_def)

lemma find_upd_rows_same:
  assumes "\<And>r. key (f r) = key r"
  shows "List.find (\<lambda>r. key r = k) (upd_rows (\<lambda>r. key r = k) f t) =
    map_option f (List.find (\<lambda>r. key r = k) t)"
  using assms unfolding upd_rows_def by (induction t) auto

lemma find_upd_rows_other:
  assumes "k \<noteq> k'" and "\<And>r. key (f r) = key r"
  shows "List.find (\<lambda>r. key r = k') (upd_rows (\<lambda>r. key r = k) f t) = List.find (\<lambda>r. key r = k') t"
  using assms unfolding upd_rows_def by (induction t) auto

lemma upd_rows_none: "(\<And>r. r \<in> set t \<Longrightarrow> \<not> p r) \<Longrightarrow> upd_rows p f t = t"
  by (simp add: upd_rows_def map_idI)

section \<open>Strings\<close>

definition starts_with :: "string \<Rightarrow> string \<Rightarrow> bool" where
  "starts_with pre s \<longleftrightarrow> take (length pre) s = pre"

definition strip_prefix :: "string \<Rightarrow> string \<Rightarrow> string option" where
  "strip_prefix pre s = (if starts_with pre s then Some (drop (length pre) s) else None)"

text \<open>\<open>str::split\<close> on one character: always at least one piece.\<close>

fun split_on :: "char \<Rightarrow> string \<Rightarrow> string list" where
  "split_on c [] = [[]]"
| "split_on c (x # xs) =
     (if x = c then [] # split_on c xs
      else (case split_on c xs of [] \<Rightarrow> [[x]] | p # ps \<Rightarrow> (x # p) # ps))"

fun join_with :: "char \<Rightarrow> string list \<Rightarrow> string" where
  "join_with c [] = []"
| "join_with c [p] = p"
| "join_with c (p # q # ps) = p @ c # join_with c (q # ps)"

lemma split_on_not_Nil [simp]: "split_on c s \<noteq> []"
  by (induction s) (auto split: list.splits)

lemma split_on_no_sep: "c \<notin> set p \<Longrightarrow> split_on c p = [p]"
  by (induction p) auto

lemma split_on_append: "c \<notin> set p \<Longrightarrow> split_on c (p @ c # s) = p # split_on c s"
  by (induction p) auto

lemma split_on_pieces: "p \<in> set (split_on c s) \<Longrightarrow> c \<notin> set p"
proof (induction s arbitrary: p)
  case Nil
  then show ?case by simp
next
  case (Cons x xs)
  show ?case
  proof (cases "split_on c xs")
    case Nil
    then show ?thesis by simp
  next
    case (Cons q qs)
    with Cons.IH Cons.prems show ?thesis by (auto split: if_splits)
  qed
qed

lemma join_with_Cons: "ps \<noteq> [] \<Longrightarrow> join_with c (p # ps) = p @ c # join_with c ps"
  by (cases ps) auto

lemma join_split_on: "join_with c (split_on c s) = s"
proof (induction s)
  case Nil
  then show ?case by simp
next
  case (Cons x xs)
  then show ?case
    by (cases "split_on c xs"; cases "tl (split_on c xs)") (auto simp: join_with_Cons)
qed

lemma split_join:
  assumes "ps \<noteq> []" and "\<And>p. p \<in> set ps \<Longrightarrow> c \<notin> set p"
  shows "split_on c (join_with c ps) = ps"
  using assms
  by (induction c ps rule: join_with.induct) (auto simp: split_on_no_sep split_on_append)

lemma starts_with_append [simp]: "starts_with pre (pre @ s)"
  by (simp add: starts_with_def)

lemma starts_with_iff: "starts_with pre s \<longleftrightarrow> (\<exists>t. s = pre @ t)"
  by (metis append_take_drop_id starts_with_append starts_with_def)

lemma strip_prefix_Some: "strip_prefix pre s = Some t \<longleftrightarrow> s = pre @ t"
  by (auto simp: strip_prefix_def starts_with_iff)

end
