(* ===== verification/Identifiers.thy ===== *)
theory Identifiers
  imports Prelude
begin

text \<open>
  The sources of non-determinism every service receives (the \<open>Clock\<close> trait object and the
  \<open>RngCore\<close>), and the identifiers drawn from them (\<open>new_id\<close> of \<open>crates/data/src/lib.rs\<close>).

  The clock is the sequence of instants its successive readings return, the random generator
  the sequence of bytes it will produce, each with the position of the next value. No relation
  between successive readings is assumed. Instants are whole microseconds, the resolution of the
  \<open>timestamptz\<close> columns: \<open>Utc::now\<close> may read finer ones, which storing them cuts off, so that a
  value returned by an operation and the value read back from its row can differ below a
  microsecond where the model has them equal.
\<close>

record clock =
  clock_at :: "nat \<Rightarrow> time"
  clock_pos :: nat

definition clock_now :: "clock \<Rightarrow> time \<times> clock" where
  "clock_now c = (clock_at c (clock_pos c), c\<lparr>clock_pos := clock_pos c + 1\<rparr>)"

record rng =
  rng_bytes :: "nat \<Rightarrow> u8"
  rng_pos :: nat

definition fill_bytes :: "nat \<Rightarrow> rng \<Rightarrow> u8 list \<times> rng" where
  "fill_bytes n g =
     (map (\<lambda>i. rng_bytes g (rng_pos g + i)) [0..<n], g\<lparr>rng_pos := rng_pos g + n\<rparr>)"

section \<open>Bytes, big endian\<close>

definition of_be_bytes :: "u8 list \<Rightarrow> nat" where
  "of_be_bytes bs = foldl (\<lambda>acc b. acc * 256 + unat b) 0 bs"

text \<open>The last six bytes of the eight-byte big-endian form of the millisecond count.\<close>

definition be_bytes_48 :: "nat \<Rightarrow> u8 list" where
  "be_bytes_48 m = map (\<lambda>i. word_of_nat (m div 256 ^ (5 - i))) [0..<6]"

text \<open>\<open>DateTime::timestamp_millis\<close> rounds towards minus infinity.\<close>

definition timestamp_millis :: "time \<Rightarrow> int" where
  "timestamp_millis ts = ts div 1000"

text \<open>\<open>u64::try_from(..).unwrap_or_default()\<close>: an instant before the epoch counts as zero.\<close>

definition id_millis :: "time \<Rightarrow> nat" where
  "id_millis ts = nat (timestamp_millis ts)"

definition set_version_7 :: "u8 \<Rightarrow> u8" where
  "set_version_7 b = or (and b 0x0F) 0x70"

definition set_variant_10 :: "u8 \<Rightarrow> u8" where
  "set_variant_10 b = or (and b 0x3F) 0x80"

definition new_id_bytes :: "time \<Rightarrow> u8 list \<Rightarrow> u8 list" where
  "new_id_bytes ts random =
     (let bytes = be_bytes_48 (id_millis ts) @ random;
          bytes = bytes[6 := set_version_7 (bytes ! 6)];
          bytes = bytes[8 := set_variant_10 (bytes ! 8)]
      in bytes)"

definition new_id :: "time \<Rightarrow> rng \<Rightarrow> ulid \<times> rng" where
  "new_id ts g = (let (random, g') = fill_bytes 10 g in (of_be_bytes (new_id_bytes ts random), g'))"

section \<open>Lemmas\<close>

lemma fill_bytes_length [simp]: "length (fst (fill_bytes n g)) = n"
  by (simp add: fill_bytes_def)

lemma foldl_be_acc:
  "foldl (\<lambda>acc b. acc * 256 + unat b) a bs =
     a * 256 ^ length bs + foldl (\<lambda>acc b. acc * 256 + unat (b :: u8)) 0 bs"
proof (induction bs rule: rev_induct)
  case Nil
  then show ?case by simp
next
  case (snoc b bs)
  then show ?case by (simp add: algebra_simps)
qed

lemma of_be_bytes_append:
  "of_be_bytes (xs @ ys) = of_be_bytes xs * 256 ^ length ys + of_be_bytes ys"
  unfolding of_be_bytes_def using foldl_be_acc [of "foldl (\<lambda>acc b. acc * 256 + unat b) 0 xs" ys]
  by simp

lemma of_be_bytes_Cons: "of_be_bytes (b # bs) = unat b * 256 ^ length bs + of_be_bytes bs"
  using of_be_bytes_append [of "[b]" bs] by (simp add: of_be_bytes_def)

lemma of_be_bytes_Nil [simp]: "of_be_bytes [] = 0"
  by (simp add: of_be_bytes_def)

lemma of_be_bytes_bound: "of_be_bytes bs < 256 ^ length bs"
proof (induction bs)
  case Nil
  then show ?case by simp
next
  case (Cons b bs)
  have "unat b < 256"
    using unsigned_less [of b, where ?'a = nat] by simp
  then have "unat b * 256 ^ length bs + 256 ^ length bs \<le> 256 * 256 ^ length bs"
    using mult_le_mono1 [of "unat b + 1" 256 "256 ^ length bs"] by (simp add: algebra_simps)
  with Cons have "unat b * 256 ^ length bs + of_be_bytes bs < 256 * 256 ^ length bs"
    by linarith
  then show ?case
    by (simp add: of_be_bytes_Cons)
qed

lemma be_bytes_48_length [simp]: "length (be_bytes_48 m) = 6"
  by (simp add: be_bytes_48_def)

lemma of_be_bytes_48: "of_be_bytes (be_bytes_48 m) = m mod 2 ^ 48"
proof -
  have split: "m mod (256 * k) = m div k mod 256 * k + m mod k" for k :: nat
    by (simp add: mod_mult2_eq mult.commute)
  show ?thesis
    using split [of 1] split [of 256] split [of "256 ^ 2"] split [of "256 ^ 3"]
      split [of "256 ^ 4"] split [of "256 ^ 5"]
    by (simp add: be_bytes_48_def of_be_bytes_Cons upt_rec unat_of_nat)
qed

lemma new_id_bytes_split:
  assumes "length random = 10"
  obtains r where "new_id_bytes ts random = be_bytes_48 (id_millis ts) @ r" and "length r = 10"
    and "r ! 0 = set_version_7 (random ! 0)" and "r ! 2 = set_variant_10 (random ! 2)"
proof
  let ?r = "random[0 := set_version_7 (random ! 0), 2 := set_variant_10 (random ! 2)]"
  show "new_id_bytes ts random = be_bytes_48 (id_millis ts) @ ?r"
    by (simp add: new_id_bytes_def list_update_append nth_append nth_list_update)
  show "length ?r = 10" "?r ! 0 = set_version_7 (random ! 0)"
    "?r ! 2 = set_variant_10 (random ! 2)"
    using assms by (auto simp: nth_list_update)
qed

lemma new_id_split:
  obtains r where "fst (new_id ts g) = id_millis ts mod 2 ^ 48 * 2 ^ 80 + r" and "r < 2 ^ 80"
proof -
  obtain random g' where fb: "fill_bytes 10 g = (random, g')"
    by (cases "fill_bytes 10 g")
  then have "length random = 10"
    using fill_bytes_length [of 10 g] by simp
  then obtain r where nb: "new_id_bytes ts random = be_bytes_48 (id_millis ts) @ r" "length r = 10"
    by (rule new_id_bytes_split [of random ts])
  show thesis
  proof
    show "fst (new_id ts g) = id_millis ts mod 2 ^ 48 * 2 ^ 80 + of_be_bytes r"
      using nb by (simp add: new_id_def fb of_be_bytes_append of_be_bytes_48)
    show "of_be_bytes r < 2 ^ 80"
      using of_be_bytes_bound [of r] nb by simp
  qed
qed

lemma set_version_7_nibble: "drop_bit 4 (set_version_7 b) = 7"
  unfolding set_version_7_def by (rule bit_word_eqI)
    (auto simp: bit_simps numeral_eq_Suc less_Suc_eq bit_or_iff bit_and_iff)

lemma set_variant_10_bits: "drop_bit 6 (set_variant_10 b) = 2"
  unfolding set_variant_10_def by (rule bit_word_eqI)
    (auto simp: bit_simps numeral_eq_Suc less_Suc_eq bit_or_iff bit_and_iff)

end
