(* ===== verification/Token_Format.thy ===== *)
theory Token_Format
  imports Identifiers
begin

text \<open>
  The token strings of \<open>crates/data/src/tokens.rs\<close>: \<open>TokenType::generate\<close> draws a token from the
  random generator, \<open>TokenType::check\<close> recovers the type of a presented token.

  The CRC-32 (\<open>crc\<close> crate) and the unpadded URL-safe Base64 decoder (\<open>base64ct\<close> crate) are
  parameters: \<open>crc\<close> and \<open>decode_vec\<close>.
\<close>

section \<open>Token types\<close>

datatype token_type = TT_AccessToken | TT_RefreshToken | TT_PersonalAccessToken

datatype token_format_error =
    InvalidFormat
  | UnknownPrefix string
  | InvalidCrc (expected: string) (got: string)

text \<open>
  \<open>OAuthTokenTypeHint\<close> of \<open>crates/iana/src/oauth.rs\<close>, an open enumeration.
\<close>

datatype token_type_hint = Hint_AccessToken | Hint_RefreshToken | Hint_Pct | Hint_Unknown string

fun matches_hint :: "token_type \<Rightarrow> token_type_hint \<Rightarrow> bool" where
  "matches_hint TT_AccessToken Hint_AccessToken = True"
| "matches_hint TT_PersonalAccessToken Hint_AccessToken = True"
| "matches_hint TT_RefreshToken Hint_RefreshToken = True"
| "matches_hint _ _ = False"

fun token_prefix :: "token_type \<Rightarrow> string" where
  "token_prefix TT_AccessToken = ''mat''"
| "token_prefix TT_RefreshToken = ''mar''"
| "token_prefix TT_PersonalAccessToken = ''mpt''"

definition match_prefix :: "string \<Rightarrow> token_type option" where
  "match_prefix p =
     (if p = ''mat'' then Some TT_AccessToken
      else if p = ''mar'' then Some TT_RefreshToken
      else if p = ''mpt'' then Some TT_PersonalAccessToken
      else None)"

section \<open>Generation\<close>

definition alphanumeric_charset :: string where
  "alphanumeric_charset = ''ABCDEFGHIJKLMNOPQRSTUVWXYZabcdefghijklmnopqrstuvwxyz0123456789''"

definition generate_alphanumeric :: "nat \<Rightarrow> rng \<Rightarrow> string \<times> rng" where
  "generate_alphanumeric len g =
     (let (bytes, g') = fill_bytes len g
      in (map (\<lambda>b. alphanumeric_charset ! (unat b mod length alphanumeric_charset)) bytes, g'))"

definition base62_num :: string where
  "base62_num = ''0123456789ABCDEFGHIJKLMNOPQRSTUVWXYZabcdefghijklmnopqrstuvwxyz''"

text \<open>The loop of \<open>base62_encode\<close>: digits are pushed least significant first.\<close>

function base62_loop :: "u32 \<Rightarrow> string" where
  "base62_loop num =
     (if num > 0 then base62_num ! unat (num mod 62) # base62_loop (num div 62) else [])"
  by pat_completeness auto
termination
  by (relation "measure unat") (auto simp: unat_div word_greater_zero_iff unat_gt_0)

declare base62_loop.simps [simp del]

text \<open>\<open>format!("{res:0>6}")\<close> pads on the left with the character 0 up to six characters.\<close>

definition pad_left_6 :: "string \<Rightarrow> string" where
  "pad_left_6 s = replicate (6 - length s) (CHR ''0'') @ s"

definition base62_encode :: "u32 \<Rightarrow> string" where
  "base62_encode num = pad_left_6 (base62_loop num)"

definition generate :: "(string \<Rightarrow> u32) \<Rightarrow> token_type \<Rightarrow> rng \<Rightarrow> string \<times> rng" where
  "generate crc t g =
     (let (random_part, g') = generate_alphanumeric 30 g;
          base = token_prefix t @ ''_'' @ random_part
      in (base @ ''_'' @ base62_encode (crc base), g'))"

section \<open>Validation\<close>

definition is_likely_palpo_macaroon :: "(string \<Rightarrow> u8 list option) \<Rightarrow> string \<Rightarrow> bool" where
  "is_likely_palpo_macaroon decode_vec token =
     (case decode_vec token of
        None \<Rightarrow> False
      | Some decoded \<Rightarrow>
          13 \<le> length decoded \<and>
          take 9 (drop 4 decoded) = map (\<lambda>c. word_of_nat (of_char c)) ''location '')"

definition check :: "(string \<Rightarrow> u32) \<Rightarrow> (string \<Rightarrow> u8 list option) \<Rightarrow> string \<Rightarrow>
    token_format_error + token_type" where
  "check crc decode_vec token =
     (if starts_with ''pst_'' token \<or> starts_with ''syr_'' token
         \<or> is_likely_palpo_macaroon decode_vec token
      then Inl InvalidFormat
      else (case split_on (CHR ''_'') token of
              [prefix, random_part, crc_part] \<Rightarrow>
                (if length prefix \<noteq> 3 \<or> length random_part \<noteq> 30 \<or> length crc_part \<noteq> 6
                 then Inl InvalidFormat
                 else (case match_prefix prefix of
                         None \<Rightarrow> Inl (UnknownPrefix prefix)
                       | Some token_type \<Rightarrow>
                           (let base = token_prefix token_type @ ''_'' @ random_part;
                                expected_crc = base62_encode (crc base)
                            in if crc_part \<noteq> expected_crc
                               then Inl (InvalidCrc expected_crc crc_part)
                               else Inr token_type)))
            | _ \<Rightarrow> Inl InvalidFormat))"

section \<open>Lemmas\<close>

lemma match_prefix_iff: "match_prefix p = Some t \<longleftrightarrow> p = token_prefix t"
  by (cases t) (auto simp: match_prefix_def)

lemma token_prefix_length [simp]: "length (token_prefix t) = 3"
  by (cases t) auto

lemma token_prefix_no_sep: "CHR ''_'' \<notin> set (token_prefix t)"
  by (cases t) auto

lemma base62_num_length: "length base62_num = 62"
  by (simp add: base62_num_def)

lemma base62_num_no_sep: "CHR ''_'' \<notin> set base62_num"
  by (simp add: base62_num_def)

lemma base62_loop_digits: "set (base62_loop num) \<subseteq> set base62_num"
proof (induction num rule: base62_loop.induct)
  case (1 num)
  have "unat (num mod 62) < 62"
    by (simp add: unat_mod)
  then have "base62_num ! unat (num mod 62) \<in> set base62_num"
    by (intro nth_mem) (simp add: base62_num_length)
  with 1 show ?case
    by (subst base62_loop.simps) auto
qed

lemma base62_loop_length: "unat num < 62 ^ k \<Longrightarrow> length (base62_loop num) \<le> k"
proof (induction k arbitrary: num)
  case 0
  then have "num = 0" by (simp add: unat_eq_zero)
  then show ?case by (simp add: base62_loop.simps)
next
  case (Suc k)
  have "unat (num div 62) < 62 ^ k"
    using Suc.prems by (simp add: unat_div less_mult_imp_div_less mult.commute)
  with Suc.IH show ?case
    by (subst base62_loop.simps) simp
qed

lemma base62_encode_length [simp]: "length (base62_encode num) = 6"
proof -
  have "unat num < 2 ^ 32"
    using unsigned_less [of num, where ?'a = nat] by simp
  then have "length (base62_loop num) \<le> 6"
    by (intro base62_loop_length) simp
  then show ?thesis
    by (simp add: base62_encode_def pad_left_6_def)
qed

lemma base62_encode_digits: "set (base62_encode num) \<subseteq> set base62_num"
  using base62_loop_digits [of num]
  by (auto simp: base62_encode_def pad_left_6_def base62_num_def set_replicate_conv_if)

lemma base62_encode_no_sep: "CHR ''_'' \<notin> set (base62_encode num)"
  using base62_encode_digits base62_num_no_sep by blast

lemma alphanumeric_charset_length: "length alphanumeric_charset = 62"
  by (simp add: alphanumeric_charset_def)

lemma generate_alphanumeric_spec:
  assumes "generate_alphanumeric n g = (s, g')"
  shows "length s = n" and "set s \<subseteq> set alphanumeric_charset"
proof -
  from assms have s: "s = map (\<lambda>b. alphanumeric_charset ! (unat b mod 62)) (fst (fill_bytes n g))"
    by (auto simp: generate_alphanumeric_def alphanumeric_charset_length split: prod.splits)
  then show "length s = n" by simp
  show "set s \<subseteq> set alphanumeric_charset"
    unfolding s by (auto simp: alphanumeric_charset_length intro!: nth_mem)
qed

lemma alphanumeric_no_sep: "set s \<subseteq> set alphanumeric_charset \<Longrightarrow> CHR ''_'' \<notin> set s"
  by (auto simp: alphanumeric_charset_def)

lemma generate_shape:
  assumes "generate crc t g = (tok, g')"
  obtains r where "tok = token_prefix t @ ''_'' @ r @ ''_'' @
      base62_encode (crc (token_prefix t @ ''_'' @ r))"
    and "length r = 30" and "CHR ''_'' \<notin> set r"
  using assms generate_alphanumeric_spec alphanumeric_no_sep
  by (auto simp: generate_def Let_def split: prod.splits)

lemma split_three:
  "split_on c s = [p, q, r] \<longleftrightarrow>
     s = p @ c # q @ c # r \<and> c \<notin> set p \<and> c \<notin> set q \<and> c \<notin> set r"
proof
  assume eq: "split_on c s = [p, q, r]"
  then have "s = join_with c [p, q, r]"
    by (metis join_split_on)
  moreover have "c \<notin> set x" if "x \<in> {p, q, r}" for x
    using split_on_pieces [of x c s] that by (auto simp: eq)
  ultimately show "s = p @ c # q @ c # r \<and> c \<notin> set p \<and> c \<notin> set q \<and> c \<notin> set r"
    by simp
next
  assume "s = p @ c # q @ c # r \<and> c \<notin> set p \<and> c \<notin> set q \<and> c \<notin> set r"
  then show "split_on c s = [p, q, r]"
    by (simp add: split_on_append split_on_no_sep)
qed

text \<open>The tokens \<open>check\<close> accepts, written out.\<close>

definition well_formed_token :: "(string \<Rightarrow> u32) \<Rightarrow> token_type \<Rightarrow> string \<Rightarrow> bool" where
  "well_formed_token crc t token \<longleftrightarrow>
     (\<exists>r. length r = 30 \<and> CHR ''_'' \<notin> set r \<and>
        token = token_prefix t @ ''_'' @ r @ ''_'' @
          base62_encode (crc (token_prefix t @ ''_'' @ r)))"

lemma well_formed_not_legacy:
  "well_formed_token crc t token \<Longrightarrow> \<not> starts_with ''pst_'' token \<and> \<not> starts_with ''syr_'' token"
  by (cases t) (auto simp: well_formed_token_def starts_with_def)

lemma check_Inr_iff:
  "check crc decode_vec token = Inr t \<longleftrightarrow>
     well_formed_token crc t token \<and> \<not> is_likely_palpo_macaroon decode_vec token"
proof
  assume ok: "check crc decode_vec token = Inr t"
  then obtain p r c where sp: "split_on (CHR ''_'') token = [p, r, c]"
    and "length r = 30" "p = token_prefix t"
      "c = base62_encode (crc (token_prefix t @ ''_'' @ r))"
    by (auto simp: check_def Let_def match_prefix_iff split: if_splits list.splits option.splits)
  with ok show "well_formed_token crc t token \<and> \<not> is_likely_palpo_macaroon decode_vec token"
    by (auto simp: check_def well_formed_token_def split_three split: if_splits)
next
  assume wf: "well_formed_token crc t token \<and> \<not> is_likely_palpo_macaroon decode_vec token"
  then obtain r where r: "length r = 30"
    and sp: "split_on (CHR ''_'') token =
      [token_prefix t, r, base62_encode (crc (token_prefix t @ ''_'' @ r))]"
    by (auto simp: well_formed_token_def split_three token_prefix_no_sep base62_encode_no_sep)
  with wf well_formed_not_legacy [of crc t token] show "check crc decode_vec token = Inr t"
    by (simp add: check_def sp match_prefix_iff [THEN iffD2, OF refl])
qed

lemma well_formed_token_length: "well_formed_token crc t token \<Longrightarrow> length token = 41"
  by (auto simp: well_formed_token_def)

lemma well_formed_token_type_unique:
  "well_formed_token crc t token \<Longrightarrow> well_formed_token crc t' token \<Longrightarrow> t = t'"
  by (cases t; cases t') (auto simp: well_formed_token_def)

lemma generate_well_formed:
  "generate crc t g = (token, g') \<Longrightarrow> well_formed_token crc t token"
  by (erule generate_shape) (auto simp: well_formed_token_def)

text \<open>
  Unpadded Base64 has no encoding of length \<open>1\<close> modulo \<open>4\<close>: the decoder rejects such input.
\<close>

definition rejects_impossible_length :: "(string \<Rightarrow> u8 list option) \<Rightarrow> bool" where
  "rejects_impossible_length decode_vec \<longleftrightarrow> (\<forall>s. length s mod 4 = 1 \<longrightarrow> decode_vec s = None)"

lemma well_formed_not_macaroon:
  "rejects_impossible_length decode_vec \<Longrightarrow> well_formed_token crc t token \<Longrightarrow>
     \<not> is_likely_palpo_macaroon decode_vec token"
  by (simp add: rejects_impossible_length_def is_likely_palpo_macaroon_def well_formed_token_length)

end
