(* ===== verification/Scope.thy ===== *)
theory Scope
  imports Prelude
begin

text \<open>
  Scopes (\<open>crates/oauth2-types/src/scope.rs\<close>) and the administrative scope rules
  (\<open>crates/backend/src/handlers/admin/mod.rs\<close>).

  A \<open>Scope\<close> is a \<open>BTreeSet<ScopeToken>\<close>: the model is the list of its tokens in iteration order,
  strictly increasing in the byte order of the tokens. \<open>valid_scope\<close> says that the list is such a
  set and that every token satisfies the grammar \<open>ScopeToken::from_str\<close> enforces.
\<close>

section \<open>Scope tokens\<close>

type_synonym scope_token = string
type_synonym scope = "scope_token list"

definition is_nqchar :: "char \<Rightarrow> bool" where
  "is_nqchar ch \<longleftrightarrow>
     (let n = (of_char ch :: nat)
      in n = 0x21 \<or> (0x23 \<le> n \<and> n \<le> 0x5B) \<or> (0x5D \<le> n \<and> n \<le> 0x7E))"

definition parse_scope_token :: "string \<Rightarrow> scope_token option" where
  "parse_scope_token s = (if s = [] \<or> \<not> list_all is_nqchar s then None else Some s)"

section \<open>Scopes\<close>

text \<open>Collecting an iterator into a \<open>BTreeSet\<close>.\<close>

definition collect_set :: "'a::linorder list \<Rightarrow> 'a list" where
  "collect_set xs = sort (remdups xs)"

fun parse_tokens :: "string list \<Rightarrow> scope_token list option" where
  "parse_tokens [] = Some []"
| "parse_tokens (p # ps) =
     (case parse_scope_token p of
        None \<Rightarrow> None
      | Some t \<Rightarrow> (case parse_tokens ps of None \<Rightarrow> None | Some ts \<Rightarrow> Some (t # ts)))"

definition parse_scope :: "string \<Rightarrow> scope option" where
  "parse_scope s = map_option collect_set (parse_tokens (split_on (CHR '' '') s))"

definition scope_contains :: "scope \<Rightarrow> string \<Rightarrow> bool" where
  "scope_contains sc token =
     (case parse_scope_token token of None \<Rightarrow> False | Some t \<Rightarrow> t \<in> set sc)"

definition scope_insert :: "scope_token \<Rightarrow> scope \<Rightarrow> scope" where
  "scope_insert t sc = collect_set (t # sc)"

text \<open>\<open>Display\<close>: the tokens in order, each but the first preceded by a space.\<close>

fun display_rest :: "scope \<Rightarrow> string" where
  "display_rest [] = []"
| "display_rest (t # ts) = '' '' @ t @ display_rest ts"

fun display_scope :: "scope \<Rightarrow> string" where
  "display_scope [] = []"
| "display_scope (t # ts) = t @ display_rest ts"

definition valid_token :: "scope_token \<Rightarrow> bool" where
  "valid_token t \<longleftrightarrow> t \<noteq> [] \<and> list_all is_nqchar t"

definition valid_scope :: "scope \<Rightarrow> bool" where
  "valid_scope sc \<longleftrightarrow> sorted sc \<and> distinct sc \<and> list_all valid_token sc"

section \<open>Administrative scopes\<close>

definition OPENID :: scope_token where "OPENID = ''openid''"

definition ADMIN_SCOPE :: string where "ADMIN_SCOPE = ''urn:pasion:admin''"

definition ADMIN_SCOPE_LEGACY :: string where "ADMIN_SCOPE_LEGACY = ''urn:mas:admin''"

definition has_admin_scope :: "scope \<Rightarrow> bool" where
  "has_admin_scope sc \<longleftrightarrow> scope_contains sc ADMIN_SCOPE \<or> scope_contains sc ADMIN_SCOPE_LEGACY"

definition is_privileged_scope_token :: "string \<Rightarrow> bool" where
  "is_privileged_scope_token token \<longleftrightarrow>
     token = ADMIN_SCOPE \<or> token = ADMIN_SCOPE_LEGACY
     \<or> starts_with ''urn:palpo:admin'' token \<or> starts_with ''urn:synapse:admin'' token"

definition strip_admin_scope_unless :: "scope \<Rightarrow> bool \<Rightarrow> scope" where
  "strip_admin_scope_unless sc is_admin =
     (if is_admin then sc
      else collect_set (filter (\<lambda>token. \<not> is_privileged_scope_token token) sc))"

definition requires_admin :: "scope \<Rightarrow> bool" where
  "requires_admin sc \<longleftrightarrow> list_ex is_privileged_scope_token sc"

section \<open>Device identifiers\<close>

definition device_id_of_token :: "string \<Rightarrow> string option" where
  "device_id_of_token token =
     (case strip_prefix ''urn:matrix:client:device:'' token of
        Some d \<Rightarrow> Some d
      | None \<Rightarrow> strip_prefix ''urn:matrix:org.matrix.msc2967.client:device:'' token)"

definition matrix_device_ids :: "scope \<Rightarrow> string list" where
  "matrix_device_ids sc = List.map_filter device_id_of_token sc"

section \<open>Lemmas\<close>

lemma set_collect_set [simp]: "set (collect_set xs) = set xs"
  by (simp add: collect_set_def)

lemma sorted_collect_set [simp]: "sorted (collect_set xs)"
  by (simp add: collect_set_def)

lemma distinct_collect_set [simp]: "distinct (collect_set xs)"
  by (simp add: collect_set_def)

lemma collect_set_id: "sorted xs \<Longrightarrow> distinct xs \<Longrightarrow> collect_set xs = xs"
  by (simp add: collect_set_def distinct_remdups_id sorted_sort_id)

lemma collect_set_Nil_iff [simp]: "collect_set xs = [] \<longleftrightarrow> xs = []"
  by (metis set_collect_set set_empty)

lemma collect_set_eq_iff: "collect_set xs = collect_set ys \<longleftrightarrow> set xs = set ys"
  by (metis sorted_collect_set distinct_collect_set set_collect_set sorted_distinct_set_unique)

lemma nqchar_not_space: "is_nqchar ch \<Longrightarrow> ch \<noteq> CHR '' ''"
  by (auto simp: is_nqchar_def)

lemma parse_scope_token_Some: "parse_scope_token s = Some t \<longleftrightarrow> s = t \<and> valid_token t"
  by (auto simp: parse_scope_token_def valid_token_def)

lemma parse_scope_token_None: "parse_scope_token s = None \<longleftrightarrow> \<not> valid_token s"
  by (auto simp: parse_scope_token_def valid_token_def)

lemma parse_scope_token_eq: "parse_scope_token s = (if valid_token s then Some s else None)"
  by (auto simp: parse_scope_token_def valid_token_def)

lemma parse_tokens_eq: "parse_tokens ps = (if list_all valid_token ps then Some ps else None)"
  by (induction ps) (auto simp: parse_scope_token_eq)

lemma parse_tokens_Some: "parse_tokens ps = Some ts \<longleftrightarrow> ts = ps \<and> list_all valid_token ps"
  by (auto simp: parse_tokens_eq)

lemma parse_scope_Some:
  "parse_scope s = Some sc \<longleftrightarrow>
     list_all valid_token (split_on (CHR '' '') s) \<and> sc = collect_set (split_on (CHR '' '') s)"
  by (auto simp: parse_scope_def parse_tokens_Some)

lemma parse_scope_valid: "parse_scope s = Some sc \<Longrightarrow> valid_scope sc \<and> sc \<noteq> []"
  by (auto simp: parse_scope_Some valid_scope_def list_all_iff)

lemma display_scope_join: "display_scope sc = join_with (CHR '' '') sc"
proof (cases sc)
  case (Cons t ts)
  have "t @ display_rest ts = join_with (CHR '' '') (t # ts)" for t
    by (induction ts arbitrary: t) auto
  with Cons show ?thesis by simp
qed simp

lemma valid_token_no_space: "valid_token t \<Longrightarrow> CHR '' '' \<notin> set t"
  by (auto simp: valid_token_def list_all_iff dest: nqchar_not_space)

lemma parse_display:
  assumes "valid_scope sc" and "sc \<noteq> []"
  shows "parse_scope (display_scope sc) = Some sc"
proof -
  have "split_on (CHR '' '') (display_scope sc) = sc"
    unfolding display_scope_join
    using assms by (intro split_join) (auto simp: valid_scope_def list_all_iff valid_token_no_space)
  with assms show ?thesis
    by (simp add: parse_scope_Some valid_scope_def collect_set_id)
qed

lemma parse_scope_empty: "parse_scope [] = None"
  by (simp add: parse_scope_def parse_scope_token_def)

lemma scope_contains_valid:
  "valid_token token \<Longrightarrow> scope_contains sc token \<longleftrightarrow> token \<in> set sc"
  using parse_scope_token_Some [of token token] by (simp add: scope_contains_def)

lemma valid_scope_insert:
  "valid_scope sc \<Longrightarrow> valid_token t \<Longrightarrow> valid_scope (scope_insert t sc)"
  by (auto simp: valid_scope_def scope_insert_def list_all_iff)

lemma set_scope_insert [simp]: "set (scope_insert t sc) = insert t (set sc)"
  by (simp add: scope_insert_def)

lemma set_strip_admin:
  "set (strip_admin_scope_unless sc is_admin) =
     {t \<in> set sc. is_admin \<or> \<not> is_privileged_scope_token t}"
  by (auto simp: strip_admin_scope_unless_def)

lemma requires_admin_iff: "requires_admin sc \<longleftrightarrow> (\<exists>t \<in> set sc. is_privileged_scope_token t)"
  by (simp add: requires_admin_def list_ex_iff)

lemma requires_admin_strip [simp]: "\<not> requires_admin (strip_admin_scope_unless sc False)"
  by (auto simp: requires_admin_iff set_strip_admin)

lemma strip_admin_id: "valid_scope sc \<Longrightarrow> \<not> requires_admin sc \<Longrightarrow> strip_admin_scope_unless sc b = sc"
  by (auto simp: strip_admin_scope_unless_def valid_scope_def requires_admin_iff collect_set_id
      filter_id_conv)

lemma valid_scope_strip: "valid_scope sc \<Longrightarrow> valid_scope (strip_admin_scope_unless sc b)"
  by (auto simp: strip_admin_scope_unless_def valid_scope_def list_all_iff)

lemma has_admin_requires_admin: "has_admin_scope sc \<Longrightarrow> requires_admin sc"
  by (auto simp: has_admin_scope_def requires_admin_iff scope_contains_def parse_scope_token_def
      is_privileged_scope_token_def ADMIN_SCOPE_def ADMIN_SCOPE_LEGACY_def split: if_splits)

end
