(* ===== verification/Pkce.thy ===== *)
theory Pkce
  imports Prelude
begin

text \<open>
  Proof keys for code exchange: \<open>crates/oauth2-types/src/pkce.rs\<close>. The digest
  (\<open>Base64UrlUnpadded::encode_string(Sha256::digest(..))\<close>, third-party crates) is the parameter
  \<open>s256\<close>.
\<close>

text \<open>\<open>PkceCodeChallengeMethod\<close> of \<open>crates/iana/src/oauth.rs\<close>, an open enumeration.\<close>

datatype challenge_method = Plain | S256 | UnknownMethod string

datatype code_challenge_error =
    TooShort
  | TooLong
  | InvalidCharacters
  | VerificationFailed
  | UnknownChallengeMethod

definition VERIFIER_MIN_LEN :: nat where "VERIFIER_MIN_LEN = 43"

definition VERIFIER_MAX_LEN :: nat where "VERIFIER_MAX_LEN = 128"

definition is_ascii_alphanumeric :: "char \<Rightarrow> bool" where
  "is_ascii_alphanumeric ch \<longleftrightarrow>
     (let n = (of_char ch :: nat)
      in (0x30 \<le> n \<and> n \<le> 0x39) \<or> (0x41 \<le> n \<and> n \<le> 0x5A) \<or> (0x61 \<le> n \<and> n \<le> 0x7A))"

definition is_unreserved :: "char \<Rightarrow> bool" where
  "is_unreserved b \<longleftrightarrow>
     is_ascii_alphanumeric b \<or> b = CHR ''-'' \<or> b = CHR ''.'' \<or> b = CHR ''_'' \<or> b = CHR ''~''"

definition check_verifier :: "string \<Rightarrow> code_challenge_error + unit" where
  "check_verifier verifier =
     (if length verifier < VERIFIER_MIN_LEN then Inl TooShort
      else if length verifier > VERIFIER_MAX_LEN then Inl TooLong
      else if \<not> list_all is_unreserved verifier then Inl InvalidCharacters
      else Inr ())"

definition compute_challenge ::
    "(string \<Rightarrow> string) \<Rightarrow> challenge_method \<Rightarrow> string \<Rightarrow> code_challenge_error + string" where
  "compute_challenge s256 method verifier =
     (case check_verifier verifier of
        Inl e \<Rightarrow> Inl e
      | Inr _ \<Rightarrow> (case method of
                   Plain \<Rightarrow> Inr verifier
                 | S256 \<Rightarrow> Inr (s256 verifier)
                 | UnknownMethod _ \<Rightarrow> Inl UnknownChallengeMethod))"

definition verify ::
    "(string \<Rightarrow> string) \<Rightarrow> challenge_method \<Rightarrow> string \<Rightarrow> string \<Rightarrow> code_challenge_error + unit" where
  "verify s256 method challenge verifier =
     (case compute_challenge s256 method verifier of
        Inl e \<Rightarrow> Inl e
      | Inr computed \<Rightarrow> if computed = challenge then Inr () else Inl VerificationFailed)"

lemma check_verifier_ok:
  "check_verifier v = Inr u \<longleftrightarrow> 43 \<le> length v \<and> length v \<le> 128 \<and> list_all is_unreserved v"
  by (auto simp: check_verifier_def VERIFIER_MIN_LEN_def VERIFIER_MAX_LEN_def)

lemma verify_ok:
  "verify s256 m challenge v = Inr u \<longleftrightarrow>
     43 \<le> length v \<and> length v \<le> 128 \<and> list_all is_unreserved v \<and>
     (m = Plain \<and> challenge = v \<or> m = S256 \<and> challenge = s256 v)"
  using check_verifier_ok [of v "()"]
  by (cases "check_verifier v"; cases m)
    (auto simp: verify_def compute_challenge_def split: if_splits)

lemma verify_computed:
  "compute_challenge s256 method v = Inr c \<Longrightarrow> verify s256 method c v = Inr ()"
  by (simp add: verify_def)

end
