(* ===== verification/OAuth_Model.thy ===== *)
theory OAuth_Model
  imports Identifiers Scope Pkce
begin

text \<open>
  The domain types of \<open>crates/data/src\<close>: users, browser sessions, clients, OAuth 2.0 sessions,
  authorization grants, device code grants, access and refresh tokens, personal sessions and
  personal access tokens, with the state machines that govern them. A transition that the code
  refuses with \<open>InvalidTransitionError\<close> is the left value of the sum.

  An IP address, a URL and a signature algorithm are their serialised strings.
\<close>

datatype invalid_transition = InvalidTransition

section \<open>Users, browser sessions, clients\<close>

record user =
  u_id :: ulid
  u_username :: string
  u_sub :: string
  u_created_at :: time
  u_updated_at :: time
  u_locked_at :: "time option"
  u_deactivated_at :: "time option"
  u_can_request_admin :: bool
  u_is_guest :: bool
  u_display_name :: "string option"
  u_avatar_url :: "string option"
  u_preferred_locale :: "string option"

definition user_is_valid :: "user \<Rightarrow> bool" where
  "user_is_valid u \<longleftrightarrow> u_locked_at u = None \<and> u_deactivated_at u = None"

definition user_is_valid_actor :: "user \<Rightarrow> bool" where
  "user_is_valid_actor u \<longleftrightarrow> u_deactivated_at u = None"

definition may_hold_admin_scope :: "user option \<Rightarrow> bool" where
  "may_hold_admin_scope u = (case u of None \<Rightarrow> False | Some u \<Rightarrow> u_can_request_admin u)"

definition admin_scope_allowed :: "user \<Rightarrow> scope \<Rightarrow> bool" where
  "admin_scope_allowed u sc \<longleftrightarrow> \<not> requires_admin sc \<or> may_hold_admin_scope (Some u)"

record browser_session =
  bs_id :: ulid
  bs_user :: user
  bs_created_at :: time
  bs_finished_at :: "time option"
  bs_user_agent :: "string option"
  bs_last_active_at :: "time option"
  bs_last_active_ip :: "string option"

definition bs_active :: "browser_session \<Rightarrow> bool" where
  "bs_active b \<longleftrightarrow> bs_finished_at b = None \<and> user_is_valid (bs_user b)"

datatype authentication_method =
    AM_Password (am_user_password_id: ulid)
  | AM_UpstreamOAuth2 (am_upstream_session_id: ulid)
  | AM_Unknown

record authentication =
  au_id :: ulid
  au_created_at :: time
  au_method :: authentication_method

datatype grant_type =
    GT_AuthorizationCode
  | GT_RefreshToken
  | GT_Implicit
  | GT_ClientCredentials
  | GT_Password
  | GT_DeviceCode
  | GT_JwtBearer
  | GT_Ciba
  | GT_Unknown string

text \<open>The fields of \<open>Client\<close> that the services of this development read.\<close>

record client =
  c_id :: ulid
  c_client_id :: string
  c_redirect_uris :: "string list"
  c_grant_types :: "grant_type list"
  c_client_name :: "string option"
  c_id_token_signed_response_alg :: "string option"

section \<open>OAuth 2.0 sessions\<close>

datatype session_state = S_Valid | S_Finished (s_finished_at: time)

fun session_is_valid :: "session_state \<Rightarrow> bool" where
  "session_is_valid S_Valid = True"
| "session_is_valid (S_Finished _) = False"

fun session_state_finish :: "time \<Rightarrow> session_state \<Rightarrow> invalid_transition + session_state" where
  "session_state_finish finished_at S_Valid = Inr (S_Finished finished_at)"
| "session_state_finish finished_at (S_Finished _) = Inl InvalidTransition"

record session =
  s_id :: ulid
  s_state :: session_state
  s_created_at :: time
  s_user_id :: "ulid option"
  s_user_session_id :: "ulid option"
  s_client_id :: ulid
  s_scope :: scope
  s_user_agent :: "string option"
  s_last_active_at :: "time option"
  s_last_active_ip :: "string option"
  s_human_name :: "string option"

definition session_finish :: "time \<Rightarrow> session \<Rightarrow> invalid_transition + session" where
  "session_finish finished_at s =
     map_sum id (\<lambda>st. s\<lparr>s_state := st\<rparr>) (session_state_finish finished_at (s_state s))"

section \<open>Access tokens\<close>

datatype access_token_state = AT_Valid | AT_Revoked (at_revoked_at: time)

fun access_token_state_revoke ::
    "time \<Rightarrow> access_token_state \<Rightarrow> invalid_transition + access_token_state" where
  "access_token_state_revoke revoked_at AT_Valid = Inr (AT_Revoked revoked_at)"
| "access_token_state_revoke revoked_at (AT_Revoked _) = Inl InvalidTransition"

record access_token =
  at_id :: ulid
  at_state :: access_token_state
  at_session_id :: ulid
  at_access_token :: string
  at_created_at :: time
  at_expires_at :: "time option"
  at_first_used_at :: "time option"

definition at_is_expired :: "time \<Rightarrow> access_token \<Rightarrow> bool" where
  "at_is_expired now t =
     (case at_expires_at t of Some expires_at \<Rightarrow> expires_at < now | None \<Rightarrow> False)"

definition at_is_valid :: "time \<Rightarrow> access_token \<Rightarrow> bool" where
  "at_is_valid now t \<longleftrightarrow> at_state t = AT_Valid \<and> \<not> at_is_expired now t"

definition at_is_used :: "access_token \<Rightarrow> bool" where
  "at_is_used t \<longleftrightarrow> at_first_used_at t \<noteq> None"

definition at_is_revoked :: "access_token \<Rightarrow> bool" where
  "at_is_revoked t \<longleftrightarrow> at_state t \<noteq> AT_Valid"

definition access_token_revoke :: "time \<Rightarrow> access_token \<Rightarrow> invalid_transition + access_token" where
  "access_token_revoke revoked_at t =
     map_sum id (\<lambda>st. t\<lparr>at_state := st\<rparr>) (access_token_state_revoke revoked_at (at_state t))"

section \<open>Refresh tokens\<close>

datatype refresh_token_state =
    RT_Valid
  | RT_Consumed (rt_consumed_at: time) (rt_next: "ulid option")
  | RT_Revoked (rt_revoked_at: time)

fun refresh_token_state_consume ::
    "time \<Rightarrow> ulid \<Rightarrow> refresh_token_state \<Rightarrow> invalid_transition + refresh_token_state" where
  "refresh_token_state_consume consumed_at replaced_by (RT_Revoked _) = Inl InvalidTransition"
| "refresh_token_state_consume consumed_at replaced_by _ =
     Inr (RT_Consumed consumed_at (Some replaced_by))"

fun refresh_token_state_revoke ::
    "time \<Rightarrow> refresh_token_state \<Rightarrow> invalid_transition + refresh_token_state" where
  "refresh_token_state_revoke revoked_at RT_Valid = Inr (RT_Revoked revoked_at)"
| "refresh_token_state_revoke revoked_at _ = Inl InvalidTransition"

fun next_refresh_token_id :: "refresh_token_state \<Rightarrow> ulid option" where
  "next_refresh_token_id (RT_Consumed _ next) = next"
| "next_refresh_token_id _ = None"

record refresh_token =
  rt_id :: ulid
  rt_state :: refresh_token_state
  rt_refresh_token :: string
  rt_session_id :: ulid
  rt_created_at :: time
  rt_access_token_id :: "ulid option"

definition rt_is_valid :: "refresh_token \<Rightarrow> bool" where
  "rt_is_valid t \<longleftrightarrow> rt_state t = RT_Valid"

definition refresh_token_consume ::
    "time \<Rightarrow> refresh_token \<Rightarrow> refresh_token \<Rightarrow> invalid_transition + refresh_token" where
  "refresh_token_consume consumed_at replaced_by t =
     map_sum id (\<lambda>st. t\<lparr>rt_state := st\<rparr>)
       (refresh_token_state_consume consumed_at (rt_id replaced_by) (rt_state t))"

definition refresh_token_revoke :: "time \<Rightarrow> refresh_token \<Rightarrow> invalid_transition + refresh_token" where
  "refresh_token_revoke revoked_at t =
     map_sum id (\<lambda>st. t\<lparr>rt_state := st\<rparr>) (refresh_token_state_revoke revoked_at (rt_state t))"

section \<open>Authorization grants\<close>

record pkce =
  pk_method :: challenge_method
  pk_challenge :: string

definition pkce_verify :: "(string \<Rightarrow> string) \<Rightarrow> pkce \<Rightarrow> string \<Rightarrow> code_challenge_error + unit" where
  "pkce_verify s256 p verifier = verify s256 (pk_method p) (pk_challenge p) verifier"

record authorization_code =
  ac_code :: string
  ac_pkce :: "pkce option"

datatype response_mode = RM_Query | RM_Fragment | RM_FormPost | RM_Unknown string

fun response_mode_to_string :: "response_mode \<Rightarrow> string" where
  "response_mode_to_string RM_Query = ''query''"
| "response_mode_to_string RM_Fragment = ''fragment''"
| "response_mode_to_string RM_FormPost = ''form_post''"
| "response_mode_to_string (RM_Unknown s) = s"

definition parse_response_mode :: "string \<Rightarrow> response_mode" where
  "parse_response_mode s =
     (if s = ''query'' then RM_Query
      else if s = ''fragment'' then RM_Fragment
      else if s = ''form_post'' then RM_FormPost
      else RM_Unknown s)"

datatype grant_stage =
    G_Pending
  | G_Fulfilled (g_session_id: ulid) (g_fulfilled_at: time)
  | G_Exchanged (g_session_id: ulid) (g_fulfilled_at: time) (g_exchanged_at: time)
  | G_Cancelled (g_cancelled_at: time)

fun grant_stage_fulfill :: "time \<Rightarrow> ulid \<Rightarrow> grant_stage \<Rightarrow> invalid_transition + grant_stage" where
  "grant_stage_fulfill fulfilled_at session_id G_Pending = Inr (G_Fulfilled session_id fulfilled_at)"
| "grant_stage_fulfill fulfilled_at session_id _ = Inl InvalidTransition"

fun grant_stage_exchange :: "time \<Rightarrow> grant_stage \<Rightarrow> invalid_transition + grant_stage" where
  "grant_stage_exchange exchanged_at (G_Fulfilled session_id fulfilled_at) =
     Inr (G_Exchanged session_id fulfilled_at exchanged_at)"
| "grant_stage_exchange exchanged_at _ = Inl InvalidTransition"

fun grant_stage_cancel :: "time \<Rightarrow> grant_stage \<Rightarrow> invalid_transition + grant_stage" where
  "grant_stage_cancel cancelled_at G_Pending = Inr (G_Cancelled cancelled_at)"
| "grant_stage_cancel cancelled_at _ = Inl InvalidTransition"

record authorization_grant =
  ag_id :: ulid
  ag_stage :: grant_stage
  ag_code :: "authorization_code option"
  ag_client_id :: ulid
  ag_redirect_uri :: string
  ag_raw_redirect_uri :: string
  ag_scope :: scope
  ag_state :: "string option"
  ag_nonce :: "string option"
  ag_response_mode :: response_mode
  ag_response_type_id_token :: bool
  ag_created_at :: time
  ag_login_hint :: "string option"
  ag_locale :: "string option"

definition grant_fulfill ::
    "time \<Rightarrow> session \<Rightarrow> authorization_grant \<Rightarrow> invalid_transition + authorization_grant" where
  "grant_fulfill fulfilled_at session g =
     map_sum id (\<lambda>st. g\<lparr>ag_stage := st\<rparr>) (grant_stage_fulfill fulfilled_at (s_id session) (ag_stage g))"

definition grant_exchange ::
    "time \<Rightarrow> authorization_grant \<Rightarrow> invalid_transition + authorization_grant" where
  "grant_exchange exchanged_at g =
     map_sum id (\<lambda>st. g\<lparr>ag_stage := st\<rparr>) (grant_stage_exchange exchanged_at (ag_stage g))"

definition grant_cancel ::
    "time \<Rightarrow> authorization_grant \<Rightarrow> invalid_transition + authorization_grant" where
  "grant_cancel cancelled_at g =
     map_sum id (\<lambda>st. g\<lparr>ag_stage := st\<rparr>) (grant_stage_cancel cancelled_at (ag_stage g))"

section \<open>Device code grants\<close>

datatype device_state =
    D_Pending
  | D_Fulfilled (d_browser_session_id: ulid) (d_fulfilled_at: time)
  | D_Rejected (d_browser_session_id: ulid) (d_rejected_at: time)
  | D_Exchanged (d_browser_session_id: ulid) (d_fulfilled_at: time) (d_exchanged_at: time)
      (d_session_id: ulid)

fun device_state_fulfill :: "ulid \<Rightarrow> time \<Rightarrow> device_state \<Rightarrow> invalid_transition + device_state" where
  "device_state_fulfill browser_session_id fulfilled_at D_Pending =
     Inr (D_Fulfilled browser_session_id fulfilled_at)"
| "device_state_fulfill browser_session_id fulfilled_at _ = Inl InvalidTransition"

fun device_state_reject :: "ulid \<Rightarrow> time \<Rightarrow> device_state \<Rightarrow> invalid_transition + device_state" where
  "device_state_reject browser_session_id rejected_at D_Pending =
     Inr (D_Rejected browser_session_id rejected_at)"
| "device_state_reject browser_session_id rejected_at _ = Inl InvalidTransition"

fun device_state_exchange :: "ulid \<Rightarrow> time \<Rightarrow> device_state \<Rightarrow> invalid_transition + device_state" where
  "device_state_exchange session_id exchanged_at (D_Fulfilled browser_session_id fulfilled_at) =
     Inr (D_Exchanged browser_session_id fulfilled_at exchanged_at session_id)"
| "device_state_exchange session_id exchanged_at _ = Inl InvalidTransition"

record device_code_grant =
  dg_id :: ulid
  dg_state :: device_state
  dg_client_id :: ulid
  dg_scope :: scope
  dg_user_code :: string
  dg_device_code :: string
  dg_created_at :: time
  dg_expires_at :: time
  dg_ip_address :: "string option"
  dg_user_agent :: "string option"

definition device_grant_fulfill ::
    "browser_session \<Rightarrow> time \<Rightarrow> device_code_grant \<Rightarrow> invalid_transition + device_code_grant" where
  "device_grant_fulfill b fulfilled_at g =
     map_sum id (\<lambda>st. g\<lparr>dg_state := st\<rparr>) (device_state_fulfill (bs_id b) fulfilled_at (dg_state g))"

definition device_grant_reject ::
    "browser_session \<Rightarrow> time \<Rightarrow> device_code_grant \<Rightarrow> invalid_transition + device_code_grant" where
  "device_grant_reject b rejected_at g =
     map_sum id (\<lambda>st. g\<lparr>dg_state := st\<rparr>) (device_state_reject (bs_id b) rejected_at (dg_state g))"

definition device_grant_exchange ::
    "session \<Rightarrow> time \<Rightarrow> device_code_grant \<Rightarrow> invalid_transition + device_code_grant" where
  "device_grant_exchange s exchanged_at g =
     map_sum id (\<lambda>st. g\<lparr>dg_state := st\<rparr>) (device_state_exchange (s_id s) exchanged_at (dg_state g))"

section \<open>Personal sessions and tokens\<close>

datatype personal_session_state = PS_Valid | PS_Revoked (ps_revoked_at: time)

fun personal_state_revoke ::
    "time \<Rightarrow> personal_session_state \<Rightarrow> invalid_transition + personal_session_state" where
  "personal_state_revoke revoked_at PS_Valid = Inr (PS_Revoked revoked_at)"
| "personal_state_revoke revoked_at (PS_Revoked _) = Inl InvalidTransition"

datatype personal_session_owner = OwnerUser ulid | OwnerOAuth2Client ulid

record personal_session =
  ps_id :: ulid
  ps_state :: personal_session_state
  ps_owner :: personal_session_owner
  ps_actor_user_id :: ulid
  ps_human_name :: string
  ps_scope :: scope
  ps_created_at :: time
  ps_last_active_at :: "time option"
  ps_last_active_ip :: "string option"

definition personal_session_finish ::
    "time \<Rightarrow> personal_session \<Rightarrow> invalid_transition + personal_session" where
  "personal_session_finish revoked_at s =
     map_sum id (\<lambda>st. s\<lparr>ps_state := st\<rparr>) (personal_state_revoke revoked_at (ps_state s))"

definition has_device :: "personal_session \<Rightarrow> bool" where
  "has_device s =
     list_ex (\<lambda>t. starts_with ''urn:matrix:client:device:'' t
                \<or> starts_with ''urn:matrix:org.matrix.msc2967.client:device:'' t) (ps_scope s)"

record personal_access_token =
  pt_id :: ulid
  pt_session_id :: ulid
  pt_created_at :: time
  pt_expires_at :: "time option"
  pt_revoked_at :: "time option"

definition pt_is_valid :: "time \<Rightarrow> personal_access_token \<Rightarrow> bool" where
  "pt_is_valid now t =
     (if pt_revoked_at t \<noteq> None then False
      else (case pt_expires_at t of Some deadline \<Rightarrow> now < deadline | None \<Rightarrow> True))"

section \<open>Lemmas\<close>

text \<open>
  Every state machine of this theory is one-shot in the same sense: the transitions leave a set of
  final states that no transition of the machine leaves.
\<close>

locale one_shot =
  fixes step :: "'a \<Rightarrow> 's \<Rightarrow> invalid_transition + 's"
    and source :: "'s \<Rightarrow> bool"
    and target :: "'s \<Rightarrow> bool"
  assumes step_source: "step a s = Inr s' \<Longrightarrow> source s"
    and step_target: "step a s = Inr s' \<Longrightarrow> target s'"
    and source_target: "source s \<Longrightarrow> \<not> target s"
begin

lemma not_twice: "step a s = Inr s' \<Longrightarrow> step b s' = Inl InvalidTransition"
  using step_source [of b s'] step_target [of a s s'] source_target [of s']
  by (cases "step b s'") (auto intro: invalid_transition.exhaust)

end

interpretation session_machine: one_shot session_state_finish session_is_valid
  "\<lambda>s. \<not> session_is_valid s"
proof
  fix a s s'
  assume "session_state_finish a s = Inr s'"
  then show "session_is_valid s" "\<not> session_is_valid s'"
    by (cases s; auto)+
qed simp

interpretation access_token_machine: one_shot access_token_state_revoke "\<lambda>s. s = AT_Valid"
  "\<lambda>s. s \<noteq> AT_Valid"
proof
  fix a s s'
  assume "access_token_state_revoke a s = Inr s'"
  then show "s = AT_Valid" "s' \<noteq> AT_Valid"
    by (cases s; auto)+
qed simp

interpretation refresh_token_machine: one_shot refresh_token_state_revoke "\<lambda>s. s = RT_Valid"
  "\<lambda>s. s \<noteq> RT_Valid"
proof
  fix a s s'
  assume "refresh_token_state_revoke a s = Inr s'"
  then show "s = RT_Valid" "s' \<noteq> RT_Valid"
    by (cases s; auto)+
qed simp

interpretation grant_machine: one_shot grant_stage_exchange "\<lambda>s. \<exists>i t. s = G_Fulfilled i t"
  "\<lambda>s. \<exists>i t x. s = G_Exchanged i t x"
proof
  fix a s s'
  assume "grant_stage_exchange a s = Inr s'"
  then show "\<exists>i t. s = G_Fulfilled i t" "\<exists>i t x. s' = G_Exchanged i t x"
    by (cases s; auto)+
qed auto

interpretation device_machine: one_shot "device_state_exchange i" "\<lambda>s. \<exists>b t. s = D_Fulfilled b t"
  "\<lambda>s. \<exists>b t x. s = D_Exchanged b t x i" for i
proof
  fix a s s'
  assume "device_state_exchange i a s = Inr s'"
  then show "\<exists>b t. s = D_Fulfilled b t" "\<exists>b t x. s' = D_Exchanged b t x i"
    by (cases s; auto)+
qed auto

lemma parse_response_mode_display: "parse_response_mode (response_mode_to_string m) = m \<or>
    (\<exists>s. m = RM_Unknown s \<and> s \<in> {''query'', ''fragment'', ''form_post''})"
  by (cases m) (auto simp: parse_response_mode_def)

lemma session_finish_Inr:
  "session_finish t s = Inr s' \<longleftrightarrow> s_state s = S_Valid \<and> s' = s\<lparr>s_state := S_Finished t\<rparr>"
  by (cases "s_state s") (auto simp: session_finish_def)

lemma access_token_revoke_Inr:
  "access_token_revoke t a = Inr a' \<longleftrightarrow> at_state a = AT_Valid \<and> a' = a\<lparr>at_state := AT_Revoked t\<rparr>"
  by (cases "at_state a") (auto simp: access_token_revoke_def)

lemma refresh_token_revoke_Inr:
  "refresh_token_revoke t r = Inr r' \<longleftrightarrow> rt_state r = RT_Valid \<and> r' = r\<lparr>rt_state := RT_Revoked t\<rparr>"
  by (cases "rt_state r") (auto simp: refresh_token_revoke_def)

lemma refresh_token_consume_Inr:
  "refresh_token_consume t n r = Inr r' \<longleftrightarrow>
     (\<forall>x. rt_state r \<noteq> RT_Revoked x) \<and> r' = r\<lparr>rt_state := RT_Consumed t (Some (rt_id n))\<rparr>"
  by (cases "rt_state r") (auto simp: refresh_token_consume_def)

lemma grant_fulfill_Inr:
  "grant_fulfill t s g = Inr g' \<longleftrightarrow>
     ag_stage g = G_Pending \<and> g' = g\<lparr>ag_stage := G_Fulfilled (s_id s) t\<rparr>"
  by (cases "ag_stage g") (auto simp: grant_fulfill_def)

lemma grant_exchange_Inr:
  "grant_exchange t g = Inr g' \<longleftrightarrow>
     (\<exists>i f. ag_stage g = G_Fulfilled i f \<and> g' = g\<lparr>ag_stage := G_Exchanged i f t\<rparr>)"
  by (cases "ag_stage g") (auto simp: grant_exchange_def)

lemma device_grant_fulfill_Inr:
  "device_grant_fulfill b t g = Inr g' \<longleftrightarrow>
     dg_state g = D_Pending \<and> g' = g\<lparr>dg_state := D_Fulfilled (bs_id b) t\<rparr>"
  by (cases "dg_state g") (auto simp: device_grant_fulfill_def)

lemma device_grant_reject_Inr:
  "device_grant_reject b t g = Inr g' \<longleftrightarrow>
     dg_state g = D_Pending \<and> g' = g\<lparr>dg_state := D_Rejected (bs_id b) t\<rparr>"
  by (cases "dg_state g") (auto simp: device_grant_reject_def)

lemma device_grant_exchange_Inr:
  "device_grant_exchange s t g = Inr g' \<longleftrightarrow>
     (\<exists>b f. dg_state g = D_Fulfilled b f \<and> g' = g\<lparr>dg_state := D_Exchanged b f t (s_id s)\<rparr>)"
  by (cases "dg_state g") (auto simp: device_grant_exchange_def)

lemma personal_session_finish_Inr:
  "personal_session_finish t s = Inr s' \<longleftrightarrow>
     ps_state s = PS_Valid \<and> s' = s\<lparr>ps_state := PS_Revoked t\<rparr>"
  by (cases "ps_state s") (auto simp: personal_session_finish_def)

lemmas transition_Inr =
  session_finish_Inr access_token_revoke_Inr refresh_token_revoke_Inr refresh_token_consume_Inr
  grant_fulfill_Inr grant_exchange_Inr device_grant_fulfill_Inr device_grant_reject_Inr
  device_grant_exchange_Inr personal_session_finish_Inr

end
