(* ===== verification/Database.thy ===== *)
theory Database
  imports OAuth_Model
begin

text \<open>
  The relational state the services share: the rows of the tables of
  \<open>crates/data/migrations\<close> the development covers, the constraints the schema declares, the
  errors of \<open>crates/data/src/pg/errors.rs\<close>, and the world a request runs in.

  A statement is a function on the database. \<open>execute\<close> runs one and then checks every declared
  constraint, as PostgreSQL does at the end of a statement: a violation is an error of the
  driver. A request works on its transaction's view \<open>w_db\<close>; \<open>save\<close> (\<open>COMMIT\<close>) makes that view
  the committed one and dropping the repository loses it (\<open>crates/data/src/pg/repository.rs\<close>).
  Requests run one after the other; failures of the connection itself are not modelled.

  The constraints are those on the columns and tables below. Foreign keys into tables that have no
  rows here are left out: \<open>user_session_authentications.user_password_id\<close>,
  \<open>upstream_oauth_authorization_sessions.upstream_oauth_provider_id\<close> and
  \<open>.upstream_oauth_link_id\<close>, and the \<open>user_registration_id\<close> of the e-mail and phone
  authentications.
\<close>

section \<open>Rows\<close>

text \<open>JSON values, for the \<open>JSONB\<close> columns.\<close>

datatype json = JNull | JBool bool | JNum int | JStr string | JArr "json list"
  | JObj "(string \<times> json) list"

record user_row =
  ur_id :: ulid
  ur_username :: string
  ur_created_at :: time
  ur_updated_at :: time
  ur_locked_at :: "time option"
  ur_deactivated_at :: "time option"
  ur_can_request_admin :: bool
  ur_is_guest :: bool
  ur_display_name :: "string option"
  ur_avatar_url :: "string option"
  ur_preferred_locale :: "string option"

record user_session_row =
  us_id :: ulid
  us_user_id :: ulid
  us_created_at :: time
  us_finished_at :: "time option"
  us_user_agent :: "string option"
  us_last_active_at :: "time option"
  us_last_active_ip :: "string option"

record authentication_row =
  ua_id :: ulid
  ua_user_session_id :: ulid
  ua_created_at :: time
  ua_user_password_id :: "ulid option"
  ua_upstream_session_id :: "ulid option"

record user_email_row =
  em_id :: ulid
  em_user_id :: ulid
  em_email :: string
  em_created_at :: time
  em_updated_at :: time
  em_confirmed_at :: "time option"
  em_is_primary :: bool

record email_authentication_row =
  ea_id :: ulid
  ea_user_session_id :: "ulid option"
  ea_user_registration_id :: "ulid option"
  ea_email :: string
  ea_created_at :: time
  ea_completed_at :: "time option"

record email_code_row =
  ec_id :: ulid
  ec_authentication_id :: ulid
  ec_code :: string
  ec_created_at :: time
  ec_expires_at :: time

record registration_token_row =
  gt_id :: ulid
  gt_token :: string
  gt_usage_limit :: "int option"
  gt_times_used :: int
  gt_created_at :: time
  gt_last_used_at :: "time option"
  gt_expires_at :: "time option"
  gt_revoked_at :: "time option"

record upstream_session_row =
  uo_id :: ulid
  uo_provider_id :: ulid
  uo_link_id :: "ulid option"
  uo_state :: string
  uo_code_challenge_verifier :: "string option"
  uo_nonce :: "string option"
  uo_id_token :: "string option"
  uo_id_token_claims :: "json option"
  uo_userinfo :: "json option"
  uo_created_at :: time
  uo_completed_at :: "time option"
  uo_consumed_at :: "time option"
  uo_unlinked_at :: "time option"
  uo_extra_callback_parameters :: "json option"
  uo_user_session_id :: "ulid option"

text \<open>A client with the column \<open>is_static\<close>, which \<open>Client\<close> does not carry.\<close>

record client_row =
  cr_client :: client
  cr_is_static :: bool

record session_row =
  os_id :: ulid
  os_user_id :: "ulid option"
  os_user_session_id :: "ulid option"
  os_client_id :: ulid
  os_scope_list :: "string list"
  os_created_at :: time
  os_finished_at :: "time option"
  os_user_agent :: "string option"
  os_last_active_at :: "time option"
  os_last_active_ip :: "string option"
  os_human_name :: "string option"

record access_token_row =
  oa_id :: ulid
  oa_session_id :: ulid
  oa_access_token :: string
  oa_created_at :: time
  oa_expires_at :: "time option"
  oa_revoked_at :: "time option"
  oa_first_used_at :: "time option"

record refresh_token_row =
  or_id :: ulid
  or_refresh_token :: string
  or_created_at :: time
  or_consumed_at :: "time option"
  or_revoked_at :: "time option"
  or_access_token_id :: "ulid option"
  or_session_id :: ulid
  or_next_id :: "ulid option"

record grant_row =
  og_id :: ulid
  og_created_at :: time
  og_cancelled_at :: "time option"
  og_fulfilled_at :: "time option"
  og_exchanged_at :: "time option"
  og_scope :: string
  og_state :: "string option"
  og_nonce :: "string option"
  og_redirect_uri :: string
  og_response_mode :: string
  og_response_type_code :: bool
  og_response_type_id_token :: bool
  og_authorization_code :: "string option"
  og_code_challenge :: "string option"
  og_code_challenge_method :: "string option"
  og_login_hint :: "string option"
  og_locale :: "string option"
  og_client_id :: ulid
  og_session_id :: "ulid option"

record device_grant_row =
  od_id :: ulid
  od_client_id :: ulid
  od_scope :: string
  od_device_code :: string
  od_user_code :: string
  od_created_at :: time
  od_expires_at :: time
  od_fulfilled_at :: "time option"
  od_rejected_at :: "time option"
  od_exchanged_at :: "time option"
  od_user_session_id :: "ulid option"
  od_session_id :: "ulid option"
  od_ip_address :: "string option"
  od_user_agent :: "string option"

record personal_session_row =
  pr_id :: ulid
  pr_owner_user_id :: "ulid option"
  pr_owner_client_id :: "ulid option"
  pr_actor_user_id :: ulid
  pr_human_name :: string
  pr_scope_list :: "string list"
  pr_created_at :: time
  pr_revoked_at :: "time option"
  pr_last_active_at :: "time option"
  pr_last_active_ip :: "string option"

record personal_token_row =
  pa_id :: ulid
  pa_session_id :: ulid
  pa_sha256 :: "u8 list"
  pa_created_at :: time
  pa_expires_at :: "time option"
  pa_revoked_at :: "time option"

record job_row =
  qj_id :: ulid
  qj_status :: string
  qj_created_at :: time
  qj_started_at :: "time option"
  qj_started_by :: "ulid option"
  qj_completed_at :: "time option"
  qj_queue_name :: string
  qj_payload :: json
  qj_metadata :: json
  qj_failed_at :: "time option"
  qj_failed_reason :: "string option"
  qj_attempt :: int
  qj_next_attempt_id :: "ulid option"
  qj_scheduled_at :: "time option"
  qj_schedule_name :: "string option"

record worker_row =
  qw_id :: ulid
  qw_registered_at :: time
  qw_last_seen_at :: time
  qw_shutdown_at :: "time option"

record schedule_row =
  qs_name :: string
  qs_last_scheduled_at :: "time option"
  qs_last_scheduled_job_id :: "ulid option"

record leader_row =
  ql_active :: bool
  ql_elected_at :: time
  ql_expires_at :: time
  ql_worker_id :: ulid

record db =
  users :: "user_row list"
  user_sessions :: "user_session_row list"
  user_session_authentications :: "authentication_row list"
  user_emails :: "user_email_row list"
  user_email_authentications :: "email_authentication_row list"
  user_email_authentication_codes :: "email_code_row list"
  user_registration_tokens :: "registration_token_row list"
  upstream_oauth_authorization_sessions :: "upstream_session_row list"
  oauth2_clients :: "client_row list"
  oauth2_sessions :: "session_row list"
  oauth2_access_tokens :: "access_token_row list"
  oauth2_refresh_tokens :: "refresh_token_row list"
  oauth2_authorization_grants :: "grant_row list"
  oauth2_device_code_grant :: "device_grant_row list"
  personal_sessions :: "personal_session_row list"
  personal_access_tokens :: "personal_token_row list"
  queue_jobs :: "job_row list"
  queue_workers :: "worker_row list"
  queue_schedules :: "schedule_row list"
  queue_leader :: "leader_row list"

section \<open>Constraints\<close>

datatype violation = UniqueViolation string | ForeignKeyViolation string | NotNullViolation string
  | CheckViolation string

definition unique_on :: "string \<Rightarrow> ('r \<Rightarrow> 'k) \<Rightarrow> 'r list \<Rightarrow> violation list" where
  "unique_on n key t = (if distinct (map key t) then [] else [UniqueViolation n])"

text \<open>A \<open>UNIQUE\<close> constraint on a nullable column ignores nulls.\<close>

definition unique_non_null :: "string \<Rightarrow> ('r \<Rightarrow> 'k option) \<Rightarrow> 'r list \<Rightarrow> violation list" where
  "unique_non_null n key t =
     (if distinct (List.map_filter key t) then [] else [UniqueViolation n])"

definition references :: "string \<Rightarrow> ('r \<Rightarrow> 'k option) \<Rightarrow> 'r list \<Rightarrow> 'k list \<Rightarrow> violation list" where
  "references n key t ids =
     (if list_all (\<lambda>r. case key r of None \<Rightarrow> True | Some k \<Rightarrow> k \<in> set ids) t then []
      else [ForeignKeyViolation n])"

definition not_null :: "string \<Rightarrow> ('r \<Rightarrow> 'k option) \<Rightarrow> 'r list \<Rightarrow> violation list" where
  "not_null n key t = (if list_all (\<lambda>r. key r \<noteq> None) t then [] else [NotNullViolation n])"

definition check_on :: "string \<Rightarrow> ('r \<Rightarrow> bool) \<Rightarrow> 'r list \<Rightarrow> violation list" where
  "check_on n p t = (if list_all p t then [] else [CheckViolation n])"

definition user_violations :: "db \<Rightarrow> violation list" where
  "user_violations d =
     unique_on ''users'' ur_id (users d)
     @ unique_on ''users.username'' ur_username (users d)
     @ unique_on ''user_sessions'' us_id (user_sessions d)
     @ references ''user_sessions.user_id'' (Some \<circ> us_user_id) (user_sessions d)
         (map ur_id (users d))
     @ unique_on ''user_session_authentications'' ua_id (user_session_authentications d)
     @ references ''user_session_authentications.user_session_id'' (Some \<circ> ua_user_session_id)
         (user_session_authentications d) (map us_id (user_sessions d))
     @ references ''user_session_authentications.upstream_oauth_authorization_session_id''
         ua_upstream_session_id (user_session_authentications d)
         (map uo_id (upstream_oauth_authorization_sessions d))
     @ unique_on ''upstream_oauth_authorization_sessions'' uo_id
         (upstream_oauth_authorization_sessions d)
     @ unique_on ''upstream_oauth_authorization_sessions.state'' uo_state
         (upstream_oauth_authorization_sessions d)
     @ references ''upstream_oauth_authorization_sessions.user_session_id'' uo_user_session_id
         (upstream_oauth_authorization_sessions d) (map us_id (user_sessions d))"

definition account_violations :: "db \<Rightarrow> violation list" where
  "account_violations d =
     unique_on ''user_emails'' em_id (user_emails d)
     @ references ''user_emails.user_id'' (Some \<circ> em_user_id) (user_emails d) (map ur_id (users d))
     @ unique_on ''user_email_authentications'' ea_id (user_email_authentications d)
     @ references ''user_email_authentications.user_session_id'' ea_user_session_id
         (user_email_authentications d) (map us_id (user_sessions d))
     @ unique_on ''user_email_authentication_codes'' ec_id (user_email_authentication_codes d)
     @ unique_on ''user_email_authentication_codes.code'' (\<lambda>r. (ec_authentication_id r, ec_code r))
         (user_email_authentication_codes d)
     @ references ''user_email_authentication_codes.user_email_authentication_id''
         (Some \<circ> ec_authentication_id) (user_email_authentication_codes d)
         (map ea_id (user_email_authentications d))
     @ unique_on ''user_registration_tokens'' gt_id (user_registration_tokens d)
     @ unique_on ''user_registration_tokens.token'' gt_token (user_registration_tokens d)"

definition session_violations :: "db \<Rightarrow> violation list" where
  "session_violations d =
     unique_on ''oauth2_clients'' (c_id \<circ> cr_client) (oauth2_clients d)
     @ unique_on ''oauth2_sessions'' os_id (oauth2_sessions d)
     @ not_null ''oauth2_sessions.user_id'' os_user_id (oauth2_sessions d)
     @ references ''oauth2_sessions.user_id'' os_user_id (oauth2_sessions d) (map ur_id (users d))
     @ references ''oauth2_sessions.user_session_id'' os_user_session_id (oauth2_sessions d)
         (map us_id (user_sessions d))
     @ references ''oauth2_sessions.oauth2_client_id'' (Some \<circ> os_client_id) (oauth2_sessions d)
         (map (c_id \<circ> cr_client) (oauth2_clients d))"

definition token_violations :: "db \<Rightarrow> violation list" where
  "token_violations d =
     unique_on ''oauth2_access_tokens'' oa_id (oauth2_access_tokens d)
     @ unique_on ''oauth2_access_tokens.access_token'' oa_access_token (oauth2_access_tokens d)
     @ references ''oauth2_access_tokens.oauth2_session_id'' (Some \<circ> oa_session_id)
         (oauth2_access_tokens d) (map os_id (oauth2_sessions d))
     @ unique_on ''oauth2_refresh_tokens'' or_id (oauth2_refresh_tokens d)
     @ unique_on ''oauth2_refresh_tokens.refresh_token'' or_refresh_token (oauth2_refresh_tokens d)
     @ references ''oauth2_refresh_tokens.oauth2_session_id'' (Some \<circ> or_session_id)
         (oauth2_refresh_tokens d) (map os_id (oauth2_sessions d))
     @ references ''oauth2_refresh_tokens.oauth2_access_token_id'' or_access_token_id
         (oauth2_refresh_tokens d) (map oa_id (oauth2_access_tokens d))
     @ references ''oauth2_refresh_tokens.next_oauth2_refresh_token_id'' or_next_id
         (oauth2_refresh_tokens d) (map or_id (oauth2_refresh_tokens d))"

definition grant_violations :: "db \<Rightarrow> violation list" where
  "grant_violations d =
     unique_on ''oauth2_authorization_grants'' og_id (oauth2_authorization_grants d)
     @ unique_non_null ''oauth2_authorization_grants.authorization_code'' og_authorization_code
         (oauth2_authorization_grants d)
     @ references ''oauth2_authorization_grants.oauth2_client_id'' (Some \<circ> og_client_id)
         (oauth2_authorization_grants d) (map (c_id \<circ> cr_client) (oauth2_clients d))
     @ references ''oauth2_authorization_grants.oauth2_session_id'' og_session_id
         (oauth2_authorization_grants d) (map os_id (oauth2_sessions d))
     @ unique_on ''oauth2_device_code_grant'' od_id (oauth2_device_code_grant d)
     @ unique_on ''oauth2_device_code_grant.user_code'' od_user_code (oauth2_device_code_grant d)
     @ unique_on ''oauth2_device_code_grant.device_code'' od_device_code
         (oauth2_device_code_grant d)
     @ references ''oauth2_device_code_grant.oauth2_client_id'' (Some \<circ> od_client_id)
         (oauth2_device_code_grant d) (map (c_id \<circ> cr_client) (oauth2_clients d))
     @ references ''oauth2_device_code_grant.oauth2_session_id'' od_session_id
         (oauth2_device_code_grant d) (map os_id (oauth2_sessions d))
     @ references ''oauth2_device_code_grant.user_session_id'' od_user_session_id
         (oauth2_device_code_grant d) (map us_id (user_sessions d))"

definition personal_violations :: "db \<Rightarrow> violation list" where
  "personal_violations d =
     unique_on ''personal_sessions'' pr_id (personal_sessions d)
     @ references ''personal_sessions.owner_user_id'' pr_owner_user_id (personal_sessions d)
         (map ur_id (users d))
     @ references ''personal_sessions.owner_oauth2_client_id'' pr_owner_client_id
         (personal_sessions d) (map (c_id \<circ> cr_client) (oauth2_clients d))
     @ references ''personal_sessions.actor_user_id'' (Some \<circ> pr_actor_user_id)
         (personal_sessions d) (map ur_id (users d))
     @ unique_on ''personal_access_tokens'' pa_id (personal_access_tokens d)
     @ unique_on ''personal_access_tokens.access_token_sha256'' pa_sha256 (personal_access_tokens d)
     @ check_on ''personal_access_tokens.access_token_sha256'' (\<lambda>r. length (pa_sha256 r) = 32)
         (personal_access_tokens d)
     @ references ''personal_access_tokens.personal_session_id'' (Some \<circ> pa_session_id)
         (personal_access_tokens d) (map pr_id (personal_sessions d))"

definition queue_violations :: "db \<Rightarrow> violation list" where
  "queue_violations d =
     unique_on ''queue_workers'' qw_id (queue_workers d)
     @ unique_on ''queue_schedules'' qs_name (queue_schedules d)
     @ unique_on ''queue_jobs'' qj_id (queue_jobs d)
     @ references ''queue_jobs.started_by'' qj_started_by (queue_jobs d)
         (map qw_id (queue_workers d))
     @ references ''queue_jobs.next_attempt_id'' qj_next_attempt_id (queue_jobs d)
         (map qj_id (queue_jobs d))
     @ references ''queue_jobs.schedule_name'' qj_schedule_name (queue_jobs d)
         (map qs_name (queue_schedules d))
     @ references ''queue_schedules.last_scheduled_job_id'' qs_last_scheduled_job_id
         (queue_schedules d) (map qj_id (queue_jobs d))
     @ unique_on ''queue_leader.active'' ql_active (queue_leader d)
     @ references ''queue_leader.queue_worker_id'' (Some \<circ> ql_worker_id) (queue_leader d)
         (map qw_id (queue_workers d))"

definition violations :: "db \<Rightarrow> violation list" where
  "violations d =
     user_violations d @ account_violations d @ session_violations d @ token_violations d
     @ grant_violations d @ personal_violations d @ queue_violations d"

definition db_ok :: "db \<Rightarrow> bool" where
  "db_ok d \<longleftrightarrow> violations d = []"

section \<open>Errors\<close>

datatype db_error =
    Diesel violation
  | DieselOutOfRange
  | DieselNotFound
  | Inconsistency (de_table: string) (de_column: "string option") (de_row: "ulid option")
  | InvalidOperation
  | RowsAffected (de_expected: nat) (de_actual: nat)

definition ensure_affected_rows :: "nat \<Rightarrow> nat \<Rightarrow> ('w, db_error, unit) exc" where
  "ensure_affected_rows actual expected =
     (if actual = expected then ret () else throw (RowsAffected expected actual))"

definition to_invalid_operation :: "invalid_transition + 'a \<Rightarrow> ('w, db_error, 'a) exc" where
  "to_invalid_operation r = (case r of Inl _ \<Rightarrow> throw InvalidOperation | Inr x \<Rightarrow> ret x)"

section \<open>The world of a request\<close>

datatype session_kind = SK_OAuth2 | SK_Personal | SK_Browser

record world =
  w_db :: db
  w_committed :: db
  w_clock :: clock
  w_rng :: rng
  w_locks :: "int list"
  w_devices :: "(string \<times> string \<times> string option) list"
  w_activity :: "(session_kind \<times> ulid \<times> time \<times> string option) list"

type_synonym ('e, 'a) io = "(world, 'e, 'a) exc"

text \<open>Reading the clock and drawing from the random generator.\<close>

definition clock_reading :: "world \<Rightarrow> time" where
  "clock_reading w = fst (clock_now (w_clock w))"

definition tick :: "world \<Rightarrow> world" where
  "tick w = w\<lparr>w_clock := snd (clock_now (w_clock w))\<rparr>"

definition now :: "('e, time) io" where
  "now w = (Inr (clock_reading w), tick w)"

definition draw :: "(rng \<Rightarrow> 'a \<times> rng) \<Rightarrow> ('e, 'a) io" where
  "draw f w = (Inr (fst (f (w_rng w))), w\<lparr>w_rng := snd (f (w_rng w))\<rparr>)"

definition draw_id :: "time \<Rightarrow> ('e, ulid) io" where
  "draw_id ts = draw (new_id ts)"

definition query :: "(db \<Rightarrow> 'a) \<Rightarrow> ('e, 'a) io" where
  "query f w = (Inr (f (w_db w)), w)"

definition execute :: "(db \<Rightarrow> 'a \<times> db) \<Rightarrow> (db_error, 'a) io" where
  "execute f w =
     (let (x, d) = f (w_db w)
      in case violations d of
           [] \<Rightarrow> (Inr x, w\<lparr>w_db := d\<rparr>)
         | v # _ \<Rightarrow> (Inl (Diesel v), w))"

text \<open>The repository's transaction: \<open>RepositoryTransaction::save\<close> and dropping it unsaved.\<close>

definition save :: "('e, unit) io" where
  "save w = (Inr (), w\<lparr>w_committed := w_db w, w_locks := []\<rparr>)"

definition drop_repo :: "world \<Rightarrow> world" where
  "drop_repo w = w\<lparr>w_db := w_committed w, w_locks := []\<rparr>"

section \<open>Lemmas\<close>

lemma now_run [run_simps]: "now w = (Inr (clock_reading w), tick w)"
  by (simp add: now_def)

lemma tick_fields [simp]:
  "w_db (tick w) = w_db w" "w_committed (tick w) = w_committed w" "w_rng (tick w) = w_rng w"
  "w_locks (tick w) = w_locks w" "w_devices (tick w) = w_devices w"
  "w_activity (tick w) = w_activity w"
  by (simp_all add: tick_def)

lemma draw_run [run_simps]:
  "draw f w = (Inr (fst (f (w_rng w))), w\<lparr>w_rng := snd (f (w_rng w))\<rparr>)"
  by (simp add: draw_def)

lemma draw_id_run [run_simps]:
  "draw_id ts w = (Inr (fst (new_id ts (w_rng w))), w\<lparr>w_rng := snd (new_id ts (w_rng w))\<rparr>)"
  by (simp add: draw_id_def draw_run)

text \<open>The world after a clock reading and an identifier drawn at that instant.\<close>

definition after_new_id :: "world \<Rightarrow> world" where
  "after_new_id w = (tick w)\<lparr>w_rng := snd (new_id (clock_reading w) (w_rng w))\<rparr>"

definition next_id :: "world \<Rightarrow> ulid" where
  "next_id w = fst (new_id (clock_reading w) (w_rng w))"

lemma after_new_id_fields [simp]:
  "w_db (after_new_id w) = w_db w" "w_committed (after_new_id w) = w_committed w"
  by (simp_all add: after_new_id_def)

lemma query_run [run_simps]: "query f w = (Inr (f (w_db w)), w)"
  by (simp add: query_def)

lemma execute_Inr [run_simps]:
  "execute f w = (Inr x, w') \<longleftrightarrow>
     (\<exists>d. f (w_db w) = (x, d) \<and> db_ok d \<and> w' = w\<lparr>w_db := d\<rparr>)"
  by (auto simp: execute_def db_ok_def split: prod.splits list.splits)

lemma execute_Inl [run_simps]:
  "execute f w = (Inl e, w') \<longleftrightarrow>
     (\<exists>v vs. violations (snd (f (w_db w))) = v # vs \<and> e = Diesel v \<and> w' = w)"
  by (auto simp: execute_def split: prod.splits list.splits)

lemma ensure_affected_rows_Inr [run_simps]:
  "ensure_affected_rows a b w = (Inr u, w') \<longleftrightarrow> a = b \<and> w' = w"
  by (auto simp: ensure_affected_rows_def)

lemma ensure_affected_rows_Inl [run_simps]:
  "ensure_affected_rows a b w = (Inl e, w') \<longleftrightarrow> a \<noteq> b \<and> e = RowsAffected b a \<and> w' = w"
  by (auto simp: ensure_affected_rows_def)

lemma to_invalid_operation_run:
  "to_invalid_operation r w = (case r of Inl _ \<Rightarrow> (Inl InvalidOperation, w) | Inr x \<Rightarrow> (Inr x, w))"
  by (simp add: to_invalid_operation_def split: sum.split)

lemma to_invalid_operation_Inr [run_simps]:
  "to_invalid_operation r w = (Inr x, w') \<longleftrightarrow> r = Inr x \<and> w' = w"
  by (auto simp: to_invalid_operation_run split: sum.split)

lemma to_invalid_operation_Inl [run_simps]:
  "to_invalid_operation r w = (Inl e, w') \<longleftrightarrow>
     r = Inl InvalidTransition \<and> e = InvalidOperation \<and> w' = w"
  by (auto simp: to_invalid_operation_run intro: invalid_transition.exhaust split: sum.split)

text \<open>
  What every statement keeps: a consistent view stays consistent, the committed database does not
  change before \<open>save\<close>.
\<close>

definition consistent :: "world \<Rightarrow> bool" where
  "consistent w \<longleftrightarrow> db_ok (w_db w)"

definition committed_is :: "db \<Rightarrow> world \<Rightarrow> bool" where
  "committed_is d w \<longleftrightarrow> w_committed w = d"

lemma consistent_now [intro!]: "keeps consistent now"
  by (simp add: keeps_def now_run consistent_def)

lemma consistent_draw [intro!]: "keeps consistent (draw f)"
  by (simp add: keeps_def draw_def consistent_def)

lemma consistent_draw_id [intro!]: "keeps consistent (draw_id t)"
  by (auto simp: draw_id_def)

lemma consistent_query [intro!]: "keeps consistent (query f)"
  by (simp add: keeps_def query_run)

lemma consistent_execute [intro!]: "keeps consistent (execute f)"
  by (auto simp: keeps_def execute_def consistent_def db_ok_def split: prod.splits list.splits)

lemma consistent_save [intro!]: "keeps consistent save"
  by (simp add: keeps_def save_def consistent_def)

lemma consistent_ensure_affected_rows [intro!]: "keeps P (ensure_affected_rows a b)"
  by (simp add: keeps_def ensure_affected_rows_def)

lemma keeps_to_invalid_operation [intro!]: "keeps P (to_invalid_operation r)"
  by (simp add: keeps_def to_invalid_operation_run split: sum.split)

lemma committed_now [intro!]: "keeps (committed_is d) now"
  by (simp add: keeps_def now_run committed_is_def)

lemma committed_draw [intro!]: "keeps (committed_is d) (draw f)"
  by (simp add: keeps_def draw_def committed_is_def)

lemma committed_draw_id [intro!]: "keeps (committed_is d) (draw_id t)"
  by (auto simp: draw_id_def)

lemma committed_query [intro!]: "keeps (committed_is d) (query f)"
  by (simp add: keeps_def query_run)

lemma committed_execute [intro!]: "keeps (committed_is d) (execute f)"
  by (auto simp: keeps_def execute_def committed_is_def split: prod.splits list.splits)

text \<open>The constraints, as facts about rows.\<close>

lemma unique_on_Nil [simp]: "unique_on n key t = [] \<longleftrightarrow> distinct (map key t)"
  by (simp add: unique_on_def)

lemma unique_non_null_Nil [simp]:
  "unique_non_null n key t = [] \<longleftrightarrow> distinct (List.map_filter key t)"
  by (simp add: unique_non_null_def)

lemma references_Nil [simp]:
  "references n key t ids = [] \<longleftrightarrow> (\<forall>r \<in> set t. \<forall>k. key r = Some k \<longrightarrow> k \<in> set ids)"
  by (auto simp: references_def list_all_iff split: option.splits)

lemma not_null_Nil [simp]: "not_null n key t = [] \<longleftrightarrow> (\<forall>r \<in> set t. key r \<noteq> None)"
  by (simp add: not_null_def list_all_iff)

lemma check_on_Nil [simp]: "check_on n p t = [] \<longleftrightarrow> (\<forall>r \<in> set t. p r)"
  by (simp add: check_on_def list_all_iff)

lemmas violations_defs =
  violations_def user_violations_def account_violations_def session_violations_def
  token_violations_def grant_violations_def personal_violations_def queue_violations_def

lemma db_ok_distinct:
  assumes "db_ok d"
  shows "distinct (map ur_id (users d))" "distinct (map us_id (user_sessions d))"
    "distinct (map (c_id \<circ> cr_client) (oauth2_clients d))" "distinct (map os_id (oauth2_sessions d))"
    "distinct (map oa_id (oauth2_access_tokens d))"
    "distinct (map oa_access_token (oauth2_access_tokens d))"
    "distinct (map or_id (oauth2_refresh_tokens d))"
    "distinct (map or_refresh_token (oauth2_refresh_tokens d))"
    "distinct (map og_id (oauth2_authorization_grants d))"
    "distinct (map od_id (oauth2_device_code_grant d))"
    "distinct (map qj_id (queue_jobs d))" "distinct (map qw_id (queue_workers d))"
    "distinct (map ql_active (queue_leader d))" "distinct (map qs_name (queue_schedules d))"
    "distinct (map pr_id (personal_sessions d))" "distinct (map pa_id (personal_access_tokens d))"
    "distinct (map em_id (user_emails d))" "distinct (map ea_id (user_email_authentications d))"
    "distinct (map gt_id (user_registration_tokens d))"
    "distinct (map gt_token (user_registration_tokens d))"
  using assms by (simp_all add: db_ok_def violations_defs)

lemma db_ok_session_user:
  "db_ok d \<Longrightarrow> r \<in> set (oauth2_sessions d) \<Longrightarrow> os_user_id r \<noteq> None"
  by (simp add: db_ok_def violations_defs)

lemma db_ok_refresh_access:
  "db_ok d \<Longrightarrow> r \<in> set (oauth2_refresh_tokens d) \<Longrightarrow> or_access_token_id r = Some i \<Longrightarrow>
     i \<in> oa_id ` set (oauth2_access_tokens d)"
  by (auto simp: db_ok_def violations_defs)

end
