(* ===== verification/Repository.thy ===== *)
theory Repository
  imports Database
begin

text \<open>
  The shape the PostgreSQL repositories of \<open>crates/data/src/pg\<close> share, and the contract they
  implement.

  A repository keeps domain values in a table: a row decodes to a value or to a
  \<open>DatabaseInconsistencyError\<close>. Its state, as its callers see it, is the partial map \<open>store\<close> from
  identifiers to values. A state change is one \<open>UPDATE\<close> of the row with the value's identifier and
  the domain transition on the value in memory; the repositories differ in which comes first. The
  locales state what a table has to provide for the two to agree, and prove that the operation
  then updates \<open>store\<close> at exactly that identifier.
\<close>

section \<open>Queries and statements\<close>

definition fetch :: "('r \<Rightarrow> db_error + 'm) \<Rightarrow> (db \<Rightarrow> 'r option) \<Rightarrow> (db_error, 'm option) io" where
  "fetch dec sel w =
     (case sel (w_db w) of
        None \<Rightarrow> (Inr None, w)
      | Some r \<Rightarrow> (case dec r of Inl e \<Rightarrow> (Inl e, w) | Inr m \<Rightarrow> (Inr (Some m), w)))"

definition update_table ::
    "(db \<Rightarrow> 'r list) \<Rightarrow> ('r list \<Rightarrow> db \<Rightarrow> db) \<Rightarrow> ('r \<Rightarrow> bool) \<Rightarrow> ('r \<Rightarrow> 'r) \<Rightarrow> (db_error, nat) io" where
  "update_table get put p f =
     execute (\<lambda>d. (n_rows p (get d), put (upd_rows p f (get d)) d))"

definition insert_row :: "(db \<Rightarrow> 'r list) \<Rightarrow> ('r list \<Rightarrow> db \<Rightarrow> db) \<Rightarrow> 'r \<Rightarrow> (db_error, unit) io" where
  "insert_row get put r = execute (\<lambda>d. ((), put (get d @ [r]) d))"

text \<open>\<open>UPDATE\<close> by identifier, expecting one row, then the transition on the value.\<close>

definition update_then_transition ::
    "(db \<Rightarrow> 'r list) \<Rightarrow> ('r list \<Rightarrow> db \<Rightarrow> db) \<Rightarrow> ('r \<Rightarrow> ulid) \<Rightarrow> ('m \<Rightarrow> ulid) \<Rightarrow>
     (time \<Rightarrow> 'r \<Rightarrow> 'r) \<Rightarrow> (time \<Rightarrow> 'm \<Rightarrow> invalid_transition + 'm) \<Rightarrow> 'm \<Rightarrow> (db_error, 'm) io" where
  "update_then_transition get put key ident upd tr m =
     bindE now (\<lambda>at.
     bindE (update_table get put (\<lambda>r. key r = ident m) (upd at)) (\<lambda>rows_affected.
     thenE (ensure_affected_rows rows_affected 1)
       (to_invalid_operation (tr at m))))"

text \<open>The transition on the value, then the \<open>UPDATE\<close> by identifier, expecting one row.\<close>

definition transition_then_update ::
    "(db \<Rightarrow> 'r list) \<Rightarrow> ('r list \<Rightarrow> db \<Rightarrow> db) \<Rightarrow> ('r \<Rightarrow> ulid) \<Rightarrow> ('m \<Rightarrow> ulid) \<Rightarrow>
     (time \<Rightarrow> 'r \<Rightarrow> 'r) \<Rightarrow> (time \<Rightarrow> 'm \<Rightarrow> invalid_transition + 'm) \<Rightarrow> 'm \<Rightarrow> (db_error, 'm) io" where
  "transition_then_update get put key ident upd tr m =
     bindE now (\<lambda>at.
     bindE (to_invalid_operation (tr at m)) (\<lambda>m'.
     bindE (update_table get put (\<lambda>r. key r = ident m') (upd at)) (\<lambda>rows_affected.
     thenE (ensure_affected_rows rows_affected 1)
       (ret m'))))"

text \<open>
  The \<open>cleanup\<close> queries: the oldest \<open>limit\<close> rows whose timestamp lies in \<open>[since, until)\<close>. Rows
  with equal timestamps keep their table order (PostgreSQL does not specify it).
\<close>

definition oldest_rows ::
    "('r \<Rightarrow> time option) \<Rightarrow> time option \<Rightarrow> time \<Rightarrow> nat \<Rightarrow> 'r list \<Rightarrow> 'r list" where
  "oldest_rows ts since until limit rows =
     take limit (sort_key (the \<circ> ts) (filter (\<lambda>r.
       case ts r of
         None \<Rightarrow> False
       | Some t \<Rightarrow> (case since of None \<Rightarrow> True | Some s \<Rightarrow> s \<le> t) \<and> t < until) rows))"

definition max_ts :: "time list \<Rightarrow> time option" where
  "max_ts ts = (case ts of [] \<Rightarrow> None | t # ts \<Rightarrow> Some (fold max ts t))"

text \<open>The \<open>cleanup\<close> queries by identifier: the first \<open>limit\<close> rows with an id in \<open>(since, until]\<close>.\<close>

definition first_rows_by_id ::
    "('r \<Rightarrow> ulid) \<Rightarrow> ulid option \<Rightarrow> ulid \<Rightarrow> nat \<Rightarrow> 'r list \<Rightarrow> 'r list" where
  "first_rows_by_id key since until limit rows =
     take limit (sort_key key (filter (\<lambda>r.
       (case since of None \<Rightarrow> True | Some s \<Rightarrow> s < key r) \<and> key r \<le> until) rows))"

definition max_id :: "ulid list \<Rightarrow> ulid option" where
  "max_id is = (case is of [] \<Rightarrow> None | i # is \<Rightarrow> Some (fold max is i))"

section \<open>The store a table represents\<close>

definition row_by_id :: "('r \<Rightarrow> ulid) \<Rightarrow> 'r list \<Rightarrow> ulid \<Rightarrow> 'r option" where
  "row_by_id key t i = List.find (\<lambda>r. key r = i) t"

definition store :: "('r \<Rightarrow> db_error + 'm) \<Rightarrow> ('r \<Rightarrow> ulid) \<Rightarrow> 'r list \<Rightarrow> ulid \<rightharpoonup> 'm" where
  "store dec key t i =
     (case row_by_id key t i of
        None \<Rightarrow> None
      | Some r \<Rightarrow> (case dec r of Inl _ \<Rightarrow> None | Inr m \<Rightarrow> Some m))"

section \<open>Lemmas\<close>

lemma fetch_Inr [run_simps]:
  "fetch dec sel w = (Inr x, w') \<longleftrightarrow>
     w' = w \<and> (case sel (w_db w) of None \<Rightarrow> x = None | Some r \<Rightarrow> (\<exists>m. dec r = Inr m \<and> x = Some m))"
  by (auto simp: fetch_def split: option.splits sum.splits)

lemma fetch_Inl [run_simps]:
  "fetch dec sel w = (Inl e, w') \<longleftrightarrow> w' = w \<and> (\<exists>r. sel (w_db w) = Some r \<and> dec r = Inl e)"
  by (auto simp: fetch_def split: option.splits sum.splits)

lemma fetch_Some [run_simps]:
  "fetch dec sel w = (Inr (Some m), w') \<longleftrightarrow> w' = w \<and> (\<exists>r. sel (w_db w) = Some r \<and> dec r = Inr m)"
  by (auto simp: fetch_def split: option.splits sum.splits)

lemma keeps_fetch [intro!]: "keeps P (fetch dec sel)"
  by (simp add: keeps_def fetch_def split: option.splits sum.splits)

lemma update_table_Inr [run_simps]:
  "update_table get put p f w = (Inr n, w') \<longleftrightarrow>
     n = n_rows p (get (w_db w)) \<and> db_ok (put (upd_rows p f (get (w_db w))) (w_db w)) \<and>
     w' = w\<lparr>w_db := put (upd_rows p f (get (w_db w))) (w_db w)\<rparr>"
  by (auto simp: update_table_def execute_Inr)

lemma insert_row_Inr [run_simps]:
  "insert_row get put r w = (Inr u, w') \<longleftrightarrow>
     db_ok (put (get (w_db w) @ [r]) (w_db w)) \<and> w' = w\<lparr>w_db := put (get (w_db w) @ [r]) (w_db w)\<rparr>"
  by (auto simp: insert_row_def execute_Inr)

lemma consistent_update_table [intro!]: "keeps consistent (update_table get put p f)"
  by (auto simp: update_table_def)

lemma consistent_insert_row [intro!]: "keeps consistent (insert_row get put r)"
  by (auto simp: insert_row_def)

lemma committed_update_table [intro!]: "keeps (committed_is d) (update_table get put p f)"
  by (auto simp: update_table_def)

lemma committed_insert_row [intro!]: "keeps (committed_is d) (insert_row get put r)"
  by (auto simp: insert_row_def)

lemma consistent_update_then_transition [intro!]:
  "keeps consistent (update_then_transition get put key ident upd tr m)"
  unfolding update_then_transition_def by (intro keeps_bindE keeps_thenE) auto

lemma consistent_transition_then_update [intro!]:
  "keeps consistent (transition_then_update get put key ident upd tr m)"
  unfolding transition_then_update_def by (intro keeps_bindE keeps_thenE) auto

lemma committed_update_then_transition [intro!]:
  "keeps (committed_is d) (update_then_transition get put key ident upd tr m)"
  unfolding update_then_transition_def by (intro keeps_bindE keeps_thenE) auto

lemma committed_transition_then_update [intro!]:
  "keeps (committed_is d) (transition_then_update get put key ident upd tr m)"
  unfolding transition_then_update_def by (intro keeps_bindE keeps_thenE) auto

text \<open>What a successful change of state does to the world: it reads the clock once and runs the statement.\<close>

lemma update_then_transition_Inr [run_simps]:
  "update_then_transition get put key ident upd tr m w = (Inr m', w') \<longleftrightarrow>
     (\<exists>at d. at = clock_reading w \<and>
       n_rows (\<lambda>r. key r = ident m) (get (w_db w)) = 1 \<and> tr at m = Inr m' \<and>
       d = put (upd_rows (\<lambda>r. key r = ident m) (upd at) (get (w_db w))) (w_db w) \<and> db_ok d \<and>
       w' = (tick w)\<lparr>w_db := d\<rparr>)"
  by (auto simp: update_then_transition_def run_simps)

lemma transition_then_update_Inr [run_simps]:
  "transition_then_update get put key ident upd tr m w = (Inr m', w') \<longleftrightarrow>
     (\<exists>at d. at = clock_reading w \<and>
       n_rows (\<lambda>r. key r = ident m') (get (w_db w)) = 1 \<and> tr at m = Inr m' \<and>
       d = put (upd_rows (\<lambda>r. key r = ident m') (upd at) (get (w_db w))) (w_db w) \<and> db_ok d \<and>
       w' = (tick w)\<lparr>w_db := d\<rparr>)"
  by (auto simp: transition_then_update_def run_simps)

lemma row_by_id_SomeD: "row_by_id key t i = Some r \<Longrightarrow> r \<in> set t \<and> key r = i"
  by (auto simp: row_by_id_def dest: find_SomeD)

lemma row_by_id_upd:
  assumes "\<And>r. key (f r) = key r"
  shows "row_by_id key (upd_rows (\<lambda>r. key r = i) f t) =
    (\<lambda>j. if j = i then map_option f (row_by_id key t i) else row_by_id key t j)"
  using assms find_upd_rows_same [of key f i t] find_upd_rows_other [of i _ key f t]
  by (auto simp: row_by_id_def fun_eq_iff)

lemma find_append: "List.find p (xs @ ys) =
    (case List.find p xs of None \<Rightarrow> List.find p ys | Some x \<Rightarrow> Some x)"
  by (induction xs) auto

lemma row_by_id_append:
  "key r \<notin> key ` set t \<Longrightarrow> row_by_id key (t @ [r]) = (row_by_id key t)(key r \<mapsto> r)"
  unfolding row_by_id_def by (induction t) (auto simp: fun_eq_iff)

section \<open>The contract\<close>

locale repository =
  fixes get :: "db \<Rightarrow> 'r list"
    and put :: "'r list \<Rightarrow> db \<Rightarrow> db"
    and key :: "'r \<Rightarrow> ulid"
    and dec :: "'r \<Rightarrow> db_error + 'm"
    and ident :: "'m \<Rightarrow> ulid"
  assumes get_put: "get (put t d) = t"
    and dec_ident: "dec r = Inr m \<Longrightarrow> ident m = key r"
    and get_distinct: "db_ok d \<Longrightarrow> distinct (map key (get d))"
begin

lemma store_ident: "store dec key t i = Some m \<Longrightarrow> ident m = i"
  by (auto simp: store_def dec_ident dest: row_by_id_SomeD split: option.splits sum.splits)

lemma store_upd_at:
  assumes "\<And>r. key (f r) = key r" and "row_by_id key t i = Some r" and "dec (f r) = Inr m'"
  shows "store dec key (upd_rows (\<lambda>r. key r = i) f t) = (store dec key t)(i \<mapsto> m')"
  using assms by (auto simp: store_def row_by_id_upd fun_eq_iff)

lemma store_insert_row:
  assumes "insert_row get put r w = (Inr u, w')"
  shows "store dec key (get (w_db w')) =
    (store dec key (get (w_db w)))(key r := case dec r of Inl _ \<Rightarrow> None | Inr m \<Rightarrow> Some m)"
proof -
  from assms have ok: "db_ok (w_db w')" and t: "get (w_db w') = get (w_db w) @ [r]"
    by (auto simp: insert_row_Inr get_put)
  from get_distinct [OF ok] have "key r \<notin> key ` set (get (w_db w))"
    by (simp add: t)
  then show ?thesis
    by (auto simp: t store_def row_by_id_append fun_eq_iff)
qed

lemma store_insert:
  assumes "insert_row get put r w = (Inr u, w')" and "dec r = Inr m"
  shows "store dec key (get (w_db w')) = (store dec key (get (w_db w)))(key r \<mapsto> m)"
  unfolding store_insert_row [OF assms(1)] by (simp add: assms(2))

end

locale repository_step = repository get put key dec ident
  for get :: "db \<Rightarrow> 'r list" and put key and dec :: "'r \<Rightarrow> db_error + 'm" and ident +
  fixes upd :: "time \<Rightarrow> 'r \<Rightarrow> 'r"
    and tr :: "time \<Rightarrow> 'm \<Rightarrow> invalid_transition + 'm"
  assumes upd_key: "key (upd at r) = key r"
    and upd_refines: "dec r = Inr m \<Longrightarrow> tr at m = Inr m' \<Longrightarrow> dec (upd at r) = Inr m'"
begin

lemma ident_kept: "dec r = Inr m \<Longrightarrow> tr at m = Inr m' \<Longrightarrow> ident m' = ident m"
  using upd_refines dec_ident upd_key by metis

lemma store_step:
  assumes "store dec key t (ident m) = Some m" and "tr at m = Inr m'"
  shows "store dec key (upd_rows (\<lambda>r. key r = ident m) (upd at) t) =
    (store dec key t)(ident m \<mapsto> m')"
proof -
  from assms(1) obtain r where r: "row_by_id key t (ident m) = Some r" and d: "dec r = Inr m"
    by (auto simp: store_def split: option.splits sum.splits)
  show ?thesis
    using upd_refines [OF d assms(2)] by (intro store_upd_at [OF _ r]) (simp_all add: upd_key)
qed

lemma update_first_refines:
  assumes "update_then_transition get put key ident upd tr m w = (Inr m', w')"
    and "store dec key (get (w_db w)) (ident m) = Some m"
  shows "store dec key (get (w_db w')) = (store dec key (get (w_db w)))(ident m \<mapsto> m')"
  using assms by (auto simp: update_then_transition_Inr get_put store_step)

lemma transition_first_refines:
  assumes run: "transition_then_update get put key ident upd tr m w = (Inr m', w')"
    and st: "store dec key (get (w_db w)) (ident m) = Some m"
  shows "store dec key (get (w_db w')) = (store dec key (get (w_db w)))(ident m \<mapsto> m')"
proof -
  from st obtain r where "dec r = Inr m"
    by (auto simp: store_def split: option.splits sum.splits)
  moreover from run obtain at where "tr at m = Inr m'"
    by (auto simp: transition_then_update_Inr)
  ultimately have "ident m' = ident m"
    by (rule ident_kept)
  with run st show ?thesis
    by (auto simp: transition_then_update_Inr get_put store_step)
qed

end

end
