(* ===== verification/Pagination.thy ===== *)
theory Pagination
  imports Prelude
begin

text \<open>
  Cursor pagination: \<open>crates/data/src/storage/pagination.rs\<close> and the way the repositories query
  with it (\<open>pagination_limit\<close> of \<open>crates/data/src/pg/mod.rs\<close>, the cursor conditions, the order and
  the limit of every \<open>list\<close>).

  \<open>page_query\<close> is the query the repositories build; \<open>process\<close> turns its rows into a page.
\<close>

datatype direction = Forward | Backward

record pagination =
  pg_before :: "ulid option"
  pg_after :: "ulid option"
  pg_count :: nat
  pg_direction :: direction

definition try_new :: "ulid option \<Rightarrow> ulid option \<Rightarrow> nat option \<Rightarrow> nat option \<Rightarrow> pagination option" where
  "try_new before after first_n last_n =
     (case (first_n, last_n) of
        (Some n, _) \<Rightarrow>
          Some \<lparr>pg_before = before, pg_after = after, pg_count = n, pg_direction = Forward\<rparr>
      | (None, Some n) \<Rightarrow>
          Some \<lparr>pg_before = before, pg_after = after, pg_count = n, pg_direction = Backward\<rparr>
      | (None, None) \<Rightarrow> None)"

definition pagination_first :: "nat \<Rightarrow> pagination" where
  "pagination_first n = \<lparr>pg_before = None, pg_after = None, pg_count = n, pg_direction = Forward\<rparr>"

definition pagination_last :: "nat \<Rightarrow> pagination" where
  "pagination_last n = \<lparr>pg_before = None, pg_after = None, pg_count = n, pg_direction = Backward\<rparr>"

definition pagination_after :: "ulid \<Rightarrow> pagination \<Rightarrow> pagination" where
  "pagination_after c p = p\<lparr>pg_after := Some c\<rparr>"

definition pagination_before :: "ulid \<Rightarrow> pagination \<Rightarrow> pagination" where
  "pagination_before c p = p\<lparr>pg_before := Some c\<rparr>"

text \<open>\<open>usize\<close> is 64 bits wide: the limit saturates at \<open>i64::MAX\<close>.\<close>

definition pagination_limit :: "nat \<Rightarrow> nat" where
  "pagination_limit count = min (min (count + 1) (2 ^ 64 - 1)) (2 ^ 63 - 1)"

definition in_range :: "pagination \<Rightarrow> ulid \<Rightarrow> bool" where
  "in_range p c \<longleftrightarrow>
     (case pg_after p of None \<Rightarrow> True | Some a \<Rightarrow> a < c)
     \<and> (case pg_before p of None \<Rightarrow> True | Some b \<Rightarrow> c < b)"

definition page_query :: "('r \<Rightarrow> ulid) \<Rightarrow> pagination \<Rightarrow> 'r list \<Rightarrow> 'r list" where
  "page_query cursor p rows =
     (let matching = sort_key cursor (filter (in_range p \<circ> cursor) rows)
      in case pg_direction p of
           Forward \<Rightarrow> take (pagination_limit (pg_count p)) matching
         | Backward \<Rightarrow> take (pagination_limit (pg_count p)) (rev matching))"

record 'n page =
  has_next_page :: bool
  has_previous_page :: bool
  edges :: "(ulid \<times> 'n) list"

definition process :: "('n \<Rightarrow> ulid) \<Rightarrow> pagination \<Rightarrow> 'n list \<Rightarrow> 'n page" where
  "process cursor p nodes =
     (let is_full = (length nodes = pg_count p + 1);
          nodes = (if is_full then butlast nodes else nodes);
          (has_prev, has_next, nodes) =
            (case pg_direction p of
               Forward \<Rightarrow> (False, is_full, nodes)
             | Backward \<Rightarrow> (is_full, False, rev nodes))
      in \<lparr>has_next_page = has_next, has_previous_page = has_prev,
          edges = map (\<lambda>n. (cursor n, n)) nodes\<rparr>)"

definition page_map :: "('a \<Rightarrow> 'b) \<Rightarrow> 'a page \<Rightarrow> 'b page" where
  "page_map f p =
     \<lparr>has_next_page = has_next_page p, has_previous_page = has_previous_page p,
      edges = map (\<lambda>(c, n). (c, f n)) (edges p)\<rparr>"

fun try_map_edges :: "('a \<Rightarrow> 'e + 'b) \<Rightarrow> (ulid \<times> 'a) list \<Rightarrow> 'e + (ulid \<times> 'b) list" where
  "try_map_edges f [] = Inr []"
| "try_map_edges f ((c, n) # es) =
     (case f n of
        Inl e \<Rightarrow> Inl e
      | Inr m \<Rightarrow> (case try_map_edges f es of Inl e \<Rightarrow> Inl e | Inr ms \<Rightarrow> Inr ((c, m) # ms)))"

definition page_try_map :: "('a \<Rightarrow> 'e + 'b) \<Rightarrow> 'a page \<Rightarrow> 'e + 'b page" where
  "page_try_map f p =
     (case try_map_edges f (edges p) of
        Inl e \<Rightarrow> Inl e
      | Inr es \<Rightarrow> Inr \<lparr>has_next_page = has_next_page p, has_previous_page = has_previous_page p,
                      edges = es\<rparr>)"

text \<open>Listing a table: the query followed by \<open>process\<close>.\<close>

definition list_page :: "('r \<Rightarrow> ulid) \<Rightarrow> pagination \<Rightarrow> 'r list \<Rightarrow> 'r page" where
  "list_page cursor p rows = process cursor p (page_query cursor p rows)"

text \<open>
  Reading a whole table page by page, as the callers do: start at \<open>pagination_first n\<close> and follow
  \<open>after(last cursor)\<close> while \<open>has_next_page\<close>. \<open>fuel\<close> bounds the number of pages.
\<close>

fun collect_pages :: "nat \<Rightarrow> ('r \<Rightarrow> ulid) \<Rightarrow> pagination \<Rightarrow> 'r list \<Rightarrow> 'r list option" where
  "collect_pages 0 cursor p rows = None"
| "collect_pages (Suc fuel) cursor p rows =
     (let page = list_page cursor p rows;
          p' = fold (\<lambda>(c, _) p. pagination_after c p) (edges page) p
      in if has_next_page page
         then map_option (append (map snd (edges page))) (collect_pages fuel cursor p' rows)
         else Some (map snd (edges page)))"

section \<open>Lemmas\<close>

definition reasonable_count :: "pagination \<Rightarrow> bool" where
  "reasonable_count p \<longleftrightarrow> pg_count p < 2 ^ 63 - 1"

lemma pagination_limit_eq: "reasonable_count p \<Longrightarrow> pagination_limit (pg_count p) = pg_count p + 1"
  by (simp add: pagination_limit_def reasonable_count_def)

definition matching_rows :: "('r \<Rightarrow> ulid) \<Rightarrow> pagination \<Rightarrow> 'r list \<Rightarrow> 'r list" where
  "matching_rows cursor p rows = sort_key cursor (filter (in_range p \<circ> cursor) rows)"

lemma take_full:
  "length (take (Suc n) m) = Suc n \<longleftrightarrow> n < length m"
  "n < length m \<Longrightarrow> butlast (take (Suc n) m) = take n m"
  "\<not> n < length m \<Longrightarrow> take (Suc n) m = take n m"
  by (auto simp: butlast_take)

lemma forward_page:
  assumes "reasonable_count p" and "pg_direction p = Forward"
  shows "list_page cursor p rows =
    \<lparr>has_next_page = (pg_count p < length (matching_rows cursor p rows)),
     has_previous_page = False,
     edges = map (\<lambda>r. (cursor r, r)) (take (pg_count p) (matching_rows cursor p rows))\<rparr>"
proof -
  have "page_query cursor p rows = take (Suc (pg_count p)) (matching_rows cursor p rows)"
    using assms by (simp add: page_query_def matching_rows_def pagination_limit_eq)
  then show ?thesis
    using assms take_full [of "pg_count p" "matching_rows cursor p rows"]
    by (cases "pg_count p < length (matching_rows cursor p rows)")
      (simp_all add: list_page_def process_def)
qed

lemma backward_page:
  assumes "reasonable_count p" and "pg_direction p = Backward"
  shows "list_page cursor p rows =
    \<lparr>has_next_page = False,
     has_previous_page = (pg_count p < length (matching_rows cursor p rows)),
     edges = map (\<lambda>r. (cursor r, r))
       (drop (length (matching_rows cursor p rows) - pg_count p) (matching_rows cursor p rows))\<rparr>"
proof -
  have "page_query cursor p rows = take (Suc (pg_count p)) (rev (matching_rows cursor p rows))"
    using assms by (simp add: page_query_def matching_rows_def pagination_limit_eq)
  then show ?thesis
    using assms take_full [of "pg_count p" "rev (matching_rows cursor p rows)"]
    by (cases "pg_count p < length (matching_rows cursor p rows)")
      (simp_all add: list_page_def process_def rev_take)
qed

lemma fold_after:
  "fold (\<lambda>(c, _) p. pagination_after c p) es p =
     (if es = [] then p else pagination_after (fst (last es)) p)"
  by (induction es arbitrary: p) (auto simp: pagination_after_def split: prod.splits)

lemma sorted_drop_eq_filter:
  assumes "sorted (map f xs)" and "distinct (map f xs)" and "0 < n" and "n \<le> length xs"
  shows "drop n xs = filter (\<lambda>x. f (last (take n xs)) < f x) xs"
proof -
  have last: "last (take n xs) = xs ! (n - 1)"
  proof -
    have "take n xs \<noteq> []"
      using assms by auto
    then show ?thesis
      using assms by (simp add: last_conv_nth)
  qed
  have lt: "f (xs ! i) < f (xs ! j)" if "i < j" "j < length xs" for i j
    using sorted_wrt_nth_less [of "(<)" "map f xs" i j] that assms
    by (simp add: strict_sorted_iff)
  have "\<not> f (xs ! (n - 1)) < f x" if x: "x \<in> set (take n xs)" for x
  proof -
    obtain i where i: "i < n" "x = xs ! i"
      using x assms by (auto simp: in_set_conv_nth)
    show ?thesis
    proof (cases "i = n - 1")
      case False
      then have "f (xs ! i) < f (xs ! (n - 1))"
        using i assms by (intro lt) auto
      then show ?thesis
        using i by simp
    qed (simp add: i)
  qed
  moreover have "f (xs ! (n - 1)) < f x" if x: "x \<in> set (drop n xs)" for x
  proof -
    obtain j where "j < length xs - n" "x = xs ! (n + j)"
      using x assms by (auto simp: in_set_conv_nth)
    then show ?thesis
      using lt [of "n - 1" "n + j"] assms by simp
  qed
  ultimately have "filter (\<lambda>x. f (xs ! (n - 1)) < f x) (take n xs @ drop n xs) = drop n xs"
    by (simp del: append_take_drop_id)
  then show ?thesis
    by (simp add: last)
qed

lemma filter_sort_key: "filter P (sort_key f xs) = sort_key f (filter P xs)"
  by (simp add: filter_sort)

lemma matching_rows_after:
  assumes "distinct (map cursor rows)" and "0 < n" and "n \<le> length (matching_rows cursor p rows)"
    and "pg_before p = None"
  shows "matching_rows cursor
      (pagination_after (cursor (last (take n (matching_rows cursor p rows)))) p) rows =
    drop n (matching_rows cursor p rows)"
proof -
  let ?m = "matching_rows cursor p rows"
  let ?c = "cursor (last (take n ?m))"
  have dist: "distinct (map cursor ?m)"
    using assms(1) by (simp add: matching_rows_def distinct_map inj_on_def)
  have sorted: "sorted (map cursor ?m)"
    by (simp add: matching_rows_def)
  have "last (take n ?m) \<in> set ?m"
    using assms(2,3) by (metis in_set_takeD last_in_set take_eq_Nil length_greater_0_conv
        less_le_trans not_less_zero)
  then have rng: "in_range p ?c"
    by (simp add: matching_rows_def)
  have "filter (in_range (pagination_after ?c p) \<circ> cursor) rows =
      filter (\<lambda>x. ?c < cursor x) (filter (in_range p \<circ> cursor) rows)"
    using rng assms(4)
    by (auto simp: in_range_def pagination_after_def intro!: filter_cong split: option.splits)
  then have "matching_rows cursor (pagination_after ?c p) rows = filter (\<lambda>x. ?c < cursor x) ?m"
    by (simp add: matching_rows_def filter_sort_key)
  also have "\<dots> = drop n ?m"
    using sorted_drop_eq_filter [OF sorted dist assms(2,3)] by simp
  finally show ?thesis .
qed

lemma collect_pages_complete:
  assumes "distinct (map cursor rows)" and "0 < pg_count p" and "reasonable_count p"
    and "pg_direction p = Forward" and "pg_before p = None"
    and "length (matching_rows cursor p rows) < fuel"
  shows "collect_pages fuel cursor p rows = Some (matching_rows cursor p rows)"
  using assms
proof (induction fuel arbitrary: p)
  case 0
  then show ?case by simp
next
  case (Suc fuel)
  let ?m = "matching_rows cursor p rows" and ?n = "pg_count p"
  note page = forward_page [OF Suc.prems(3,4), of cursor rows]
  show ?case
  proof (cases "?n < length ?m")
    case False
    then show ?thesis
      by (simp add: page comp_def)
  next
    case True
    let ?p' = "pagination_after (cursor (last (take ?n ?m))) p"
    have ne: "take ?n ?m \<noteq> []"
      using True Suc.prems(2) by auto
    have next': "fold (\<lambda>(c, _) p. pagination_after c p) (map (\<lambda>r. (cursor r, r)) (take ?n ?m)) p = ?p'"
      using ne by (simp add: fold_after last_map del: fold_map)
    have "matching_rows cursor ?p' rows = drop ?n ?m"
      using Suc.prems True by (intro matching_rows_after) auto
    moreover have "collect_pages fuel cursor ?p' rows = Some (matching_rows cursor ?p' rows)"
      using Suc.prems True calculation
      by (intro Suc.IH) (auto simp: pagination_after_def reasonable_count_def)
    ultimately show ?thesis
      using True by (simp add: page next' comp_def del: fold_map)
  qed
qed

end
