(* ===== verification/Session_Storage.thy ===== *)
theory Session_Storage
  imports Repository Pagination
begin

text \<open>
  The repositories of users (lookup and the sync lock), clients (lookup), browser sessions
  (\<open>crates/data/src/pg/user/session.rs\<close>) and OAuth 2.0 sessions
  (\<open>crates/data/src/pg/oauth2/session.rs\<close>).

  \<open>ulid_string\<close> is the display form of an identifier (\<open>ulid\<close> crate), from which \<open>User::sub\<close> is
  derived.
\<close>

section \<open>Users and clients\<close>

definition build_user :: "(ulid \<Rightarrow> string) \<Rightarrow> user_row \<Rightarrow> user" where
  "build_user ulid_string r =
     \<lparr>u_id = ur_id r, u_username = ur_username r, u_sub = ulid_string (ur_id r),
      u_created_at = ur_created_at r, u_updated_at = ur_updated_at r,
      u_locked_at = ur_locked_at r, u_deactivated_at = ur_deactivated_at r,
      u_can_request_admin = ur_can_request_admin r, u_is_guest = ur_is_guest r,
      u_display_name = ur_display_name r, u_avatar_url = ur_avatar_url r,
      u_preferred_locale = ur_preferred_locale r\<rparr>"

definition user_lookup :: "(ulid \<Rightarrow> string) \<Rightarrow> ulid \<Rightarrow> (db_error, user option) io" where
  "user_lookup ulid_string i =
     fetch (Inr \<circ> build_user ulid_string) (\<lambda>d. row_by_id ur_id (users d) i)"

text \<open>The advisory lock of \<open>acquire_lock_for_sync\<close>: the low 64 bits of the id, as an \<open>i64\<close>.\<close>

definition sync_lock_id :: "ulid \<Rightarrow> int" where
  "sync_lock_id i = sint (word_of_nat i :: 64 word)"

definition acquire_lock_for_sync :: "user \<Rightarrow> (db_error, unit) io" where
  "acquire_lock_for_sync u w = (Inr (), w\<lparr>w_locks := sync_lock_id (u_id u) # w_locks w\<rparr>)"

definition client_lookup :: "ulid \<Rightarrow> (db_error, client option) io" where
  "client_lookup i = fetch (Inr \<circ> cr_client) (\<lambda>d. row_by_id (c_id \<circ> cr_client) (oauth2_clients d) i)"

section \<open>Browser sessions\<close>

definition build_browser_session :: "(ulid \<Rightarrow> string) \<Rightarrow> user_session_row \<Rightarrow> user_row \<Rightarrow> browser_session" where
  "build_browser_session ulid_string s u =
     \<lparr>bs_id = us_id s, bs_user = build_user ulid_string u, bs_created_at = us_created_at s,
      bs_finished_at = us_finished_at s, bs_user_agent = us_user_agent s,
      bs_last_active_at = us_last_active_at s, bs_last_active_ip = us_last_active_ip s\<rparr>"

definition load_session_lookup :: "db \<Rightarrow> ulid \<Rightarrow> (user_session_row \<times> user_row) option" where
  "load_session_lookup d i =
     (case row_by_id us_id (user_sessions d) i of
        None \<Rightarrow> None
      | Some s \<Rightarrow> (case row_by_id ur_id (users d) (us_user_id s) of
                    None \<Rightarrow> None
                  | Some u \<Rightarrow> Some (s, u)))"

definition browser_session_lookup ::
    "(ulid \<Rightarrow> string) \<Rightarrow> ulid \<Rightarrow> (db_error, browser_session option) io" where
  "browser_session_lookup ulid_string i =
     fetch (\<lambda>(s, u). Inr (build_browser_session ulid_string s u)) (\<lambda>d. load_session_lookup d i)"

definition browser_session_add :: "user \<Rightarrow> string option \<Rightarrow> (db_error, browser_session) io" where
  "browser_session_add u user_agent =
     bindE now (\<lambda>created_at.
     bindE (draw_id created_at) (\<lambda>i.
     thenE (insert_row user_sessions (\<lambda>t d. d\<lparr>user_sessions := t\<rparr>)
       \<lparr>us_id = i, us_user_id = u_id u, us_created_at = created_at, us_finished_at = None,
        us_user_agent = user_agent, us_last_active_at = None, us_last_active_ip = None\<rparr>)
     (ret \<lparr>bs_id = i, bs_user = u, bs_created_at = created_at, bs_finished_at = None,
           bs_user_agent = user_agent, bs_last_active_at = None, bs_last_active_ip = None\<rparr>)))"

definition browser_session_finish :: "browser_session \<Rightarrow> (db_error, browser_session) io" where
  "browser_session_finish b =
     bindE now (\<lambda>finished_at.
     bindE (update_table user_sessions (\<lambda>t d. d\<lparr>user_sessions := t\<rparr>)
              (\<lambda>r. us_id r = bs_id b) (\<lambda>r. r\<lparr>us_finished_at := Some finished_at\<rparr>)) (\<lambda>rows_affected.
     thenE (ensure_affected_rows rows_affected 1)
       (ret (b\<lparr>bs_finished_at := Some finished_at\<rparr>))))"

text \<open>
  \<open>UpstreamOAuthSessionFilter\<close> and \<open>BrowserSessionFilter\<close>; a user or a provider is its identifier,
  \<open>bf_state\<close> is \<open>Some True\<close> for active sessions only and \<open>Some False\<close> for finished ones only.
\<close>

record upstream_session_filter =
  uf_provider :: "ulid option"
  uf_sub_claim :: "string option"
  uf_sid_claim :: "string option"

record browser_session_filter =
  bf_user :: "ulid option"
  bf_state :: "bool option"
  bf_last_active_before :: "time option"
  bf_last_active_after :: "time option"
  bf_upstream :: "upstream_session_filter option"

definition opt_filter :: "'a option \<Rightarrow> ('a \<Rightarrow> bool) \<Rightarrow> bool" where
  "opt_filter x p = (case x of None \<Rightarrow> True | Some y \<Rightarrow> p y)"

text \<open>A comparison with \<open>NULL\<close> is not true.\<close>

definition sql_cmp :: "('a \<Rightarrow> 'a \<Rightarrow> bool) \<Rightarrow> 'a option \<Rightarrow> 'a \<Rightarrow> bool" where
  "sql_cmp c x y = (case x of None \<Rightarrow> False | Some z \<Rightarrow> c z y)"

definition state_matches :: "time option \<Rightarrow> bool \<Rightarrow> bool" where
  "state_matches finished_at active = (if active then finished_at = None else finished_at \<noteq> None)"

text \<open>The sub-select over \<open>user_session_authentications\<close>: the provider is its only condition.\<close>

definition upstream_authenticated :: "db \<Rightarrow> upstream_session_filter \<Rightarrow> ulid list" where
  "upstream_authenticated d f =
     map ua_user_session_id
       (filter (\<lambda>a. list_ex (\<lambda>u. ua_upstream_session_id a = Some (uo_id u)
                       \<and> opt_filter (uf_provider f) (\<lambda>p. uo_provider_id u = p))
                     (upstream_oauth_authorization_sessions d))
          (user_session_authentications d))"

definition browser_filter_matches ::
    "db \<Rightarrow> browser_session_filter \<Rightarrow> user_session_row \<Rightarrow> bool" where
  "browser_filter_matches d f r \<longleftrightarrow>
     opt_filter (bf_user f) (\<lambda>u. us_user_id r = u)
     \<and> opt_filter (bf_state f) (state_matches (us_finished_at r))
     \<and> opt_filter (bf_last_active_after f) (sql_cmp (>) (us_last_active_at r))
     \<and> opt_filter (bf_last_active_before f) (sql_cmp (<) (us_last_active_at r))
     \<and> opt_filter (bf_upstream f) (\<lambda>uf. us_id r \<in> set (upstream_authenticated d uf))"

definition browser_session_finish_bulk :: "browser_session_filter \<Rightarrow> (db_error, nat) io" where
  "browser_session_finish_bulk f =
     bindE now (\<lambda>finished_at.
     execute (\<lambda>d. (n_rows (browser_filter_matches d f) (user_sessions d),
       d\<lparr>user_sessions := upd_rows (browser_filter_matches d f)
            (\<lambda>r. r\<lparr>us_finished_at := Some finished_at\<rparr>) (user_sessions d)\<rparr>)))"

definition browser_session_list ::
    "(ulid \<Rightarrow> string) \<Rightarrow> browser_session_filter \<Rightarrow> pagination \<Rightarrow> (db_error, browser_session page) io" where
  "browser_session_list ulid_string f p =
     query (\<lambda>d.
       let session_rows = page_query us_id p (filter (browser_filter_matches d f) (user_sessions d));
           es = List.map_filter (\<lambda>s. map_option (Pair s) (row_by_id ur_id (users d) (us_user_id s)))
                  session_rows
       in page_map (\<lambda>(s, u). build_browser_session ulid_string s u) (process (us_id \<circ> fst) p es))"

definition browser_session_count :: "browser_session_filter \<Rightarrow> (db_error, nat) io" where
  "browser_session_count f =
     query (\<lambda>d. length (filter (browser_filter_matches d f) (user_sessions d)))"

definition decode_authentication :: "authentication_row \<Rightarrow> db_error + authentication" where
  "decode_authentication r =
     (case (ua_user_password_id r, ua_upstream_session_id r) of
        (Some p, None) \<Rightarrow> Inr \<lparr>au_id = ua_id r, au_created_at = ua_created_at r, au_method = AM_Password p\<rparr>
      | (None, Some u) \<Rightarrow>
          Inr \<lparr>au_id = ua_id r, au_created_at = ua_created_at r, au_method = AM_UpstreamOAuth2 u\<rparr>
      | (None, None) \<Rightarrow> Inr \<lparr>au_id = ua_id r, au_created_at = ua_created_at r, au_method = AM_Unknown\<rparr>
      | (Some _, Some _) \<Rightarrow>
          Inl (Inconsistency ''user_session_authentications'' None (Some (ua_id r))))"

definition insert_authentication :: "authentication_row \<Rightarrow> (db_error, unit) io" where
  "insert_authentication r =
     insert_row user_session_authentications (\<lambda>t d. d\<lparr>user_session_authentications := t\<rparr>) r"

definition authenticate_with_password :: "browser_session \<Rightarrow> ulid \<Rightarrow> (db_error, authentication) io" where
  "authenticate_with_password b user_password_id =
     bindE now (\<lambda>created_at.
     bindE (draw_id created_at) (\<lambda>i.
     thenE (insert_authentication
       \<lparr>ua_id = i, ua_user_session_id = bs_id b, ua_created_at = created_at,
        ua_user_password_id = Some user_password_id, ua_upstream_session_id = None\<rparr>)
     (ret \<lparr>au_id = i, au_created_at = created_at, au_method = AM_Password user_password_id\<rparr>)))"

definition authenticate_with_upstream :: "browser_session \<Rightarrow> ulid \<Rightarrow> (db_error, authentication) io" where
  "authenticate_with_upstream b upstream_session_id =
     bindE now (\<lambda>created_at.
     bindE (draw_id created_at) (\<lambda>i.
     thenE (insert_authentication
       \<lparr>ua_id = i, ua_user_session_id = bs_id b, ua_created_at = created_at,
        ua_user_password_id = None, ua_upstream_session_id = Some upstream_session_id\<rparr>)
     (ret \<lparr>au_id = i, au_created_at = created_at, au_method = AM_UpstreamOAuth2 upstream_session_id\<rparr>)))"

text \<open>\<open>ORDER BY created_at DESC LIMIT 1\<close>; of equally recent rows, the last inserted.\<close>

definition get_last_authentication :: "browser_session \<Rightarrow> (db_error, authentication option) io" where
  "get_last_authentication b =
     fetch decode_authentication (\<lambda>d.
       case rev (sort_key ua_created_at (filter (\<lambda>r. ua_user_session_id r = bs_id b)
                  (user_session_authentications d))) of
         [] \<Rightarrow> None
       | r # _ \<Rightarrow> Some r)"

section \<open>OAuth 2.0 sessions\<close>

definition decode_session :: "session_row \<Rightarrow> db_error + session" where
  "decode_session r =
     (case parse_tokens (os_scope_list r) of
        None \<Rightarrow> Inl (Inconsistency ''oauth2_sessions'' (Some ''scope'') (Some (os_id r)))
      | Some tokens \<Rightarrow>
          Inr \<lparr>s_id = os_id r,
               s_state = (case os_finished_at r of None \<Rightarrow> S_Valid | Some t \<Rightarrow> S_Finished t),
               s_created_at = os_created_at r,
               s_user_id = os_user_id r,
               s_user_session_id = os_user_session_id r,
               s_client_id = os_client_id r,
               s_scope = collect_set tokens,
               s_user_agent = os_user_agent r,
               s_last_active_at = os_last_active_at r,
               s_last_active_ip = os_last_active_ip r,
               s_human_name = os_human_name r\<rparr>)"

record session_filter =
  sf_user :: "ulid option"
  sf_any_user :: "bool option"
  sf_browser_session :: "ulid option"
  sf_browser_session_filter :: "browser_session_filter option"
  sf_device :: "string option"
  sf_client :: "ulid option"
  sf_client_static :: "bool option"
  sf_state :: "bool option"
  sf_scope :: "scope option"
  sf_last_active_before :: "time option"
  sf_last_active_after :: "time option"

text \<open>The sub-select over \<open>user_sessions\<close> for \<open>browser_session_filter\<close>.\<close>

definition filtered_browser_sessions :: "db \<Rightarrow> browser_session_filter \<Rightarrow> ulid list" where
  "filtered_browser_sessions d f =
     map us_id (filter (\<lambda>r.
       opt_filter (bf_user f) (\<lambda>u. us_user_id r = u)
       \<and> opt_filter (bf_state f) (state_matches (us_finished_at r))
       \<and> opt_filter (bf_last_active_before f) (sql_cmp (<) (us_last_active_at r))
       \<and> opt_filter (bf_last_active_after f) (sql_cmp (>) (us_last_active_at r))) (user_sessions d))"

definition static_client_ids :: "db \<Rightarrow> ulid list" where
  "static_client_ids d = map (c_id \<circ> cr_client) (filter cr_is_static (oauth2_clients d))"

definition session_filter_matches :: "db \<Rightarrow> session_filter \<Rightarrow> session_row \<Rightarrow> bool" where
  "session_filter_matches d f r \<longleftrightarrow>
     opt_filter (sf_user f) (\<lambda>u. os_user_id r = Some u)
     \<and> opt_filter (sf_client f) (\<lambda>c. os_client_id r = c)
     \<and> opt_filter (sf_client_static f) (\<lambda>st.
         if st then os_client_id r \<in> set (static_client_ids d)
         else os_client_id r \<notin> set (static_client_ids d))
     \<and> opt_filter (sf_device f) (\<lambda>dev.
         ''urn:matrix:client:device:'' @ dev \<in> set (os_scope_list r)
         \<or> ''urn:matrix:org.matrix.msc2967.client:device:'' @ dev \<in> set (os_scope_list r))
     \<and> opt_filter (sf_browser_session f) (\<lambda>b. os_user_session_id r = Some b)
     \<and> opt_filter (sf_browser_session_filter f) (\<lambda>bf.
         case os_user_session_id r of
           None \<Rightarrow> False
         | Some i \<Rightarrow> i \<in> set (filtered_browser_sessions d bf))
     \<and> opt_filter (sf_state f) (state_matches (os_finished_at r))
     \<and> opt_filter (sf_scope f) (\<lambda>sc. list_all (\<lambda>t. t \<in> set (os_scope_list r)) sc)
     \<and> opt_filter (sf_any_user f) (\<lambda>a. if a then os_user_id r \<noteq> None else os_user_id r = None)
     \<and> opt_filter (sf_last_active_after f) (sql_cmp (>) (os_last_active_at r))
     \<and> opt_filter (sf_last_active_before f) (sql_cmp (<) (os_last_active_at r))"

abbreviation put_sessions :: "session_row list \<Rightarrow> db \<Rightarrow> db" where
  "put_sessions t d \<equiv> d\<lparr>oauth2_sessions := t\<rparr>"

definition oauth2_session_lookup :: "ulid \<Rightarrow> (db_error, session option) io" where
  "oauth2_session_lookup i = fetch decode_session (\<lambda>d. row_by_id os_id (oauth2_sessions d) i)"

definition new_session_row ::
    "ulid \<Rightarrow> time \<Rightarrow> client \<Rightarrow> user option \<Rightarrow> browser_session option \<Rightarrow> scope \<Rightarrow> session_row" where
  "new_session_row i created_at client user user_session sc =
     \<lparr>os_id = i, os_user_id = map_option u_id user,
      os_user_session_id = map_option bs_id user_session, os_client_id = c_id client,
      os_scope_list = sc, os_created_at = created_at, os_finished_at = None,
      os_user_agent = None, os_last_active_at = None, os_last_active_ip = None,
      os_human_name = None\<rparr>"

definition new_session ::
    "ulid \<Rightarrow> time \<Rightarrow> client \<Rightarrow> user option \<Rightarrow> browser_session option \<Rightarrow> scope \<Rightarrow> session" where
  "new_session i created_at client user user_session sc =
     \<lparr>s_id = i, s_state = S_Valid, s_created_at = created_at,
      s_user_id = map_option u_id user, s_user_session_id = map_option bs_id user_session,
      s_client_id = c_id client, s_scope = sc, s_user_agent = None, s_last_active_at = None,
      s_last_active_ip = None, s_human_name = None\<rparr>"

definition oauth2_session_add ::
    "client \<Rightarrow> user option \<Rightarrow> browser_session option \<Rightarrow> scope \<Rightarrow> (db_error, session) io" where
  "oauth2_session_add client user user_session sc =
     bindE now (\<lambda>created_at.
     bindE (draw_id created_at) (\<lambda>i.
     thenE (insert_row oauth2_sessions put_sessions
              (new_session_row i created_at client user user_session sc))
       (ret (new_session i created_at client user user_session sc))))"

definition add_from_browser_session ::
    "client \<Rightarrow> browser_session \<Rightarrow> scope \<Rightarrow> (db_error, session) io" where
  "add_from_browser_session client b sc = oauth2_session_add client (Some (bs_user b)) (Some b) sc"

definition add_from_client_credentials :: "client \<Rightarrow> scope \<Rightarrow> (db_error, session) io" where
  "add_from_client_credentials client sc = oauth2_session_add client None None sc"

definition oauth2_session_finish_bulk :: "session_filter \<Rightarrow> (db_error, nat) io" where
  "oauth2_session_finish_bulk f =
     bindE now (\<lambda>finished_at.
     execute (\<lambda>d.
       let filtered_ids = map os_id (filter (session_filter_matches d f) (oauth2_sessions d))
       in (n_rows (\<lambda>r. os_id r \<in> set filtered_ids) (oauth2_sessions d),
           d\<lparr>oauth2_sessions := upd_rows (\<lambda>r. os_id r \<in> set filtered_ids)
                (\<lambda>r. r\<lparr>os_finished_at := Some finished_at\<rparr>) (oauth2_sessions d)\<rparr>)))"

definition finish_row :: "time \<Rightarrow> session_row \<Rightarrow> session_row" where
  "finish_row finished_at r = r\<lparr>os_finished_at := Some finished_at\<rparr>"

definition oauth2_session_finish :: "session \<Rightarrow> (db_error, session) io" where
  "oauth2_session_finish =
     update_then_transition oauth2_sessions put_sessions os_id s_id finish_row session_finish"

definition oauth2_session_list :: "session_filter \<Rightarrow> pagination \<Rightarrow> (db_error, session page) io" where
  "oauth2_session_list f p =
     bindE (query (\<lambda>d. list_page os_id p (filter (session_filter_matches d f) (oauth2_sessions d))))
       (\<lambda>page. of_result (page_try_map decode_session page))"

definition oauth2_session_count :: "session_filter \<Rightarrow> (db_error, nat) io" where
  "oauth2_session_count f =
     query (\<lambda>d. length (filter (session_filter_matches d f) (oauth2_sessions d)))"

text \<open>\<open>GREATEST\<close> ignores nulls; the ids of a batch are distinct (the activity worker keys by id).\<close>

definition record_activity_row ::
    "(ulid \<times> time \<times> string option) list \<Rightarrow> session_row \<Rightarrow> session_row" where
  "record_activity_row activities r =
     (case List.find (\<lambda>(i, _, _). i = os_id r) activities of
        None \<Rightarrow> r
      | Some (_, t, ip) \<Rightarrow>
          r\<lparr>os_last_active_at := Some (case os_last_active_at r of None \<Rightarrow> t | Some u \<Rightarrow> max t u),
            os_last_active_ip := (case ip of None \<Rightarrow> os_last_active_ip r | Some a \<Rightarrow> Some a)\<rparr>)"

definition record_batch_activity ::
    "(ulid \<times> time \<times> string option) list \<Rightarrow> (db_error, unit) io" where
  "record_batch_activity activities =
     (let sorted_activities = sort_key fst activities
      in bindE (update_table oauth2_sessions put_sessions
                  (\<lambda>r. os_id r \<in> fst ` set sorted_activities)
                  (record_activity_row sorted_activities))
           (\<lambda>rows_affected. ensure_affected_rows rows_affected (length sorted_activities)))"

definition record_user_agent :: "session \<Rightarrow> string \<Rightarrow> (db_error, session) io" where
  "record_user_agent s user_agent =
     bindE (update_table oauth2_sessions put_sessions (\<lambda>r. os_id r = s_id s)
              (\<lambda>r. r\<lparr>os_user_agent := Some user_agent\<rparr>)) (\<lambda>rows_affected.
     thenE (ensure_affected_rows rows_affected 1)
       (ret (s\<lparr>s_user_agent := Some user_agent\<rparr>)))"

definition set_human_name :: "session \<Rightarrow> string option \<Rightarrow> (db_error, session) io" where
  "set_human_name s human_name =
     bindE (update_table oauth2_sessions put_sessions (\<lambda>r. os_id r = s_id s)
              (\<lambda>r. r\<lparr>os_human_name := human_name\<rparr>)) (\<lambda>rows_affected.
     thenE (ensure_affected_rows rows_affected 1)
       (ret (s\<lparr>s_human_name := human_name\<rparr>)))"

text \<open>
  Deletion of tokens and sessions with the actions the schema declares: references to a deleted
  token become null, device code grants of a deleted session go with it.
\<close>

definition null_if :: "'a list \<Rightarrow> 'a option \<Rightarrow> 'a option" where
  "null_if dead x = (case x of None \<Rightarrow> None | Some y \<Rightarrow> if y \<in> set dead then None else Some y)"

definition delete_refresh_tokens :: "(refresh_token_row \<Rightarrow> bool) \<Rightarrow> db \<Rightarrow> db" where
  "delete_refresh_tokens p d =
     (let dead = map or_id (filter p (oauth2_refresh_tokens d))
      in d\<lparr>oauth2_refresh_tokens :=
             map (\<lambda>r. r\<lparr>or_next_id := null_if dead (or_next_id r)\<rparr>)
               (del_rows p (oauth2_refresh_tokens d))\<rparr>)"

definition delete_access_tokens :: "(access_token_row \<Rightarrow> bool) \<Rightarrow> db \<Rightarrow> db" where
  "delete_access_tokens p d =
     (let dead = map oa_id (filter p (oauth2_access_tokens d))
      in d\<lparr>oauth2_access_tokens := del_rows p (oauth2_access_tokens d),
           oauth2_refresh_tokens :=
             map (\<lambda>r. r\<lparr>or_access_token_id := null_if dead (or_access_token_id r)\<rparr>)
               (oauth2_refresh_tokens d)\<rparr>)"

definition delete_sessions :: "ulid list \<Rightarrow> db \<Rightarrow> db" where
  "delete_sessions dead d =
     d\<lparr>oauth2_sessions := del_rows (\<lambda>r. os_id r \<in> set dead) (oauth2_sessions d),
       oauth2_device_code_grant :=
         del_rows (\<lambda>g. od_session_id g \<in> Some ` set dead) (oauth2_device_code_grant d)\<rparr>"

definition cleanup_finished ::
    "time option \<Rightarrow> time \<Rightarrow> nat \<Rightarrow> (db_error, nat \<times> time option) io" where
  "cleanup_finished since until limit =
     execute (\<lambda>d.
       let rows = oldest_rows os_finished_at since until limit (oauth2_sessions d);
           dead = map os_id rows
       in ((length rows, max_ts (List.map_filter os_finished_at rows)),
           delete_sessions dead
             (delete_access_tokens (\<lambda>r. oa_session_id r \<in> set dead)
               (delete_refresh_tokens (\<lambda>r. or_session_id r \<in> set dead) d))))"

definition cleanup_inactive_ips ::
    "time option \<Rightarrow> time \<Rightarrow> nat \<Rightarrow> (db_error, nat \<times> time option) io" where
  "cleanup_inactive_ips since threshold limit =
     execute (\<lambda>d.
       let rows = oldest_rows os_last_active_at since threshold limit
                    (filter (\<lambda>r. os_last_active_ip r \<noteq> None) (oauth2_sessions d));
           ids = map os_id rows
       in ((length rows, max_ts (List.map_filter os_last_active_at rows)),
           d\<lparr>oauth2_sessions := upd_rows (\<lambda>r. os_id r \<in> set ids)
                (\<lambda>r. r\<lparr>os_last_active_ip := None\<rparr>) (oauth2_sessions d)\<rparr>))"

section \<open>Lemmas\<close>

lemma decode_session_Inr:
  "decode_session r = Inr s \<longleftrightarrow>
     list_all valid_token (os_scope_list r) \<and>
     s = \<lparr>s_id = os_id r,
          s_state = (case os_finished_at r of None \<Rightarrow> S_Valid | Some t \<Rightarrow> S_Finished t),
          s_created_at = os_created_at r, s_user_id = os_user_id r,
          s_user_session_id = os_user_session_id r, s_client_id = os_client_id r,
          s_scope = collect_set (os_scope_list r), s_user_agent = os_user_agent r,
          s_last_active_at = os_last_active_at r, s_last_active_ip = os_last_active_ip r,
          s_human_name = os_human_name r\<rparr>"
  by (auto simp: decode_session_def parse_tokens_eq)

lemma decode_session_fields:
  assumes "decode_session r = Inr s"
  shows "s_id s = os_id r" "s_user_id s = os_user_id r" "s_client_id s = os_client_id r"
    "s_user_session_id s = os_user_session_id r"
    "s_state s = S_Valid \<longleftrightarrow> os_finished_at r = None"
    "valid_scope (s_scope s)" "set (s_scope s) = set (os_scope_list r)"
  using assms by (auto simp: decode_session_Inr valid_scope_def list_all_iff split: option.splits)

interpretation sessions: repository oauth2_sessions put_sessions os_id decode_session s_id
  by unfold_locales (auto simp: decode_session_Inr dest: db_ok_distinct)

interpretation session_finish_step: repository_step oauth2_sessions put_sessions os_id
    decode_session s_id finish_row session_finish
  by unfold_locales (auto simp: decode_session_Inr finish_row_def session_finish_Inr
      split: option.splits)

lemma oauth2_session_lookup_Inr [run_simps]:
  "oauth2_session_lookup i w = (Inr (Some s), w') \<longleftrightarrow>
     w' = w \<and> (\<exists>r. row_by_id os_id (oauth2_sessions (w_db w)) i = Some r \<and> decode_session r = Inr s)"
  by (auto simp: oauth2_session_lookup_def fetch_Some)

lemma record_user_agent_Inr [run_simps]:
  "record_user_agent s ua w = (Inr s', w') \<longleftrightarrow>
     s' = s\<lparr>s_user_agent := Some ua\<rparr> \<and>
     n_rows (\<lambda>r. os_id r = s_id s) (oauth2_sessions (w_db w)) = 1 \<and>
     update_table oauth2_sessions put_sessions (\<lambda>r. os_id r = s_id s)
       (\<lambda>r. r\<lparr>os_user_agent := Some ua\<rparr>) w = (Inr (Suc 0), w')"
  by (auto simp: record_user_agent_def run_simps)

lemma oauth2_session_add_Inr [run_simps]:
  "oauth2_session_add client user user_session sc w = (Inr s, w') \<longleftrightarrow>
     insert_row oauth2_sessions put_sessions
       (new_session_row (next_id w) (clock_reading w) client user user_session sc)
       (after_new_id w) = (Inr (), w') \<and>
     s = new_session (next_id w) (clock_reading w) client user user_session sc"
  by (auto simp: oauth2_session_add_def run_simps next_id_def after_new_id_def)

text \<open>No session without a user can be stored: the column is declared \<open>NOT NULL\<close>.\<close>

lemma add_without_user_fails: "oauth2_session_add client None b sc w \<noteq> (Inr s, w')"
proof
  assume "oauth2_session_add client None b sc w = (Inr s, w')"
  then have "new_session_row (next_id w) (clock_reading w) client None b sc
      \<in> set (oauth2_sessions (w_db w'))" "db_ok (w_db w')"
    by (auto simp: oauth2_session_add_Inr insert_row_Inr)
  then show False
    using db_ok_session_user by (fastforce simp: new_session_row_def)
qed

lemma consistent_storage [intro!]:
  "keeps consistent (oauth2_session_lookup i)"
  "keeps consistent (oauth2_session_add c u b sc)"
  "keeps consistent (add_from_browser_session c bs sc)"
  "keeps consistent (oauth2_session_finish s)"
  "keeps consistent (oauth2_session_finish_bulk f)"
  "keeps consistent (record_user_agent s ua)"
  "keeps consistent (record_batch_activity as)"
  "keeps consistent (set_human_name s hn)"
  "keeps consistent (cleanup_finished since until limit)"
  "keeps consistent (cleanup_inactive_ips since until limit)"
  "keeps consistent (user_lookup us i)"
  "keeps consistent (client_lookup i)"
  "keeps consistent (browser_session_lookup us i)"
  "keeps consistent (get_last_authentication bs)"
  "keeps consistent (acquire_lock_for_sync user)"
  unfolding oauth2_session_lookup_def oauth2_session_add_def add_from_browser_session_def
    oauth2_session_finish_def oauth2_session_finish_bulk_def record_user_agent_def
    record_batch_activity_def set_human_name_def cleanup_finished_def cleanup_inactive_ips_def
    user_lookup_def client_lookup_def browser_session_lookup_def get_last_authentication_def Let_def
  by (auto intro!: keeps_bindE keeps_thenE)
    (simp add: keeps_def acquire_lock_for_sync_def consistent_def)

lemma committed_storage [intro!]:
  "keeps (committed_is d) (oauth2_session_lookup i)"
  "keeps (committed_is d) (oauth2_session_add c u b sc)"
  "keeps (committed_is d) (add_from_browser_session c bs sc)"
  "keeps (committed_is d) (oauth2_session_finish s)"
  "keeps (committed_is d) (record_user_agent s ua)"
  "keeps (committed_is d) (user_lookup us i)"
  "keeps (committed_is d) (client_lookup i)"
  "keeps (committed_is d) (browser_session_lookup us i)"
  "keeps (committed_is d) (get_last_authentication bs)"
  "keeps (committed_is d) (acquire_lock_for_sync user)"
  unfolding oauth2_session_lookup_def oauth2_session_add_def add_from_browser_session_def
    oauth2_session_finish_def record_user_agent_def
    user_lookup_def client_lookup_def browser_session_lookup_def get_last_authentication_def
  by (auto intro!: keeps_bindE keeps_thenE)
    (simp add: keeps_def acquire_lock_for_sync_def committed_is_def)

end
