(* ===== verification/Token_Storage.thy ===== *)
theory Token_Storage
  imports Session_Storage
begin

text \<open>
  The repositories of access tokens (\<open>crates/data/src/pg/oauth2/access_token.rs\<close>) and refresh
  tokens (\<open>crates/data/src/pg/oauth2/refresh_token.rs\<close>).
\<close>

section \<open>Access tokens\<close>

abbreviation put_access_tokens :: "access_token_row list \<Rightarrow> db \<Rightarrow> db" where
  "put_access_tokens t d \<equiv> d\<lparr>oauth2_access_tokens := t\<rparr>"

definition build_access_token :: "access_token_row \<Rightarrow> access_token" where
  "build_access_token r =
     \<lparr>at_id = oa_id r,
      at_state = (case oa_revoked_at r of None \<Rightarrow> AT_Valid | Some t \<Rightarrow> AT_Revoked t),
      at_session_id = oa_session_id r, at_access_token = oa_access_token r,
      at_created_at = oa_created_at r, at_expires_at = oa_expires_at r,
      at_first_used_at = oa_first_used_at r\<rparr>"

definition decode_access_token :: "access_token_row \<Rightarrow> db_error + access_token" where
  "decode_access_token r = Inr (build_access_token r)"

definition access_token_lookup :: "ulid \<Rightarrow> (db_error, access_token option) io" where
  "access_token_lookup i =
     fetch decode_access_token (\<lambda>d. row_by_id oa_id (oauth2_access_tokens d) i)"

definition access_token_find_by_token :: "string \<Rightarrow> (db_error, access_token option) io" where
  "access_token_find_by_token token =
     fetch decode_access_token
       (\<lambda>d. List.find (\<lambda>r. oa_access_token r = token) (oauth2_access_tokens d))"

definition new_access_token_row ::
    "ulid \<Rightarrow> time \<Rightarrow> session \<Rightarrow> string \<Rightarrow> duration option \<Rightarrow> access_token_row" where
  "new_access_token_row i created_at session token expires_after =
     \<lparr>oa_id = i, oa_session_id = s_id session, oa_access_token = token,
      oa_created_at = created_at,
      oa_expires_at = map_option (\<lambda>dur. created_at + dur) expires_after,
      oa_revoked_at = None, oa_first_used_at = None\<rparr>"

definition access_token_add ::
    "session \<Rightarrow> string \<Rightarrow> duration option \<Rightarrow> (db_error, access_token) io" where
  "access_token_add session token expires_after =
     bindE now (\<lambda>created_at.
     bindE (draw_id created_at) (\<lambda>i.
     thenE (insert_row oauth2_access_tokens put_access_tokens
              (new_access_token_row i created_at session token expires_after))
       (ret \<lparr>at_id = i, at_state = AT_Valid, at_session_id = s_id session,
             at_access_token = token, at_created_at = created_at,
             at_expires_at = map_option (\<lambda>dur. created_at + dur) expires_after,
             at_first_used_at = None\<rparr>)))"

definition revoke_access_token_row :: "time \<Rightarrow> access_token_row \<Rightarrow> access_token_row" where
  "revoke_access_token_row revoked_at r = r\<lparr>oa_revoked_at := Some revoked_at\<rparr>"

definition access_token_revoke_op :: "access_token \<Rightarrow> (db_error, access_token) io" where
  "access_token_revoke_op =
     update_then_transition oauth2_access_tokens put_access_tokens oa_id at_id
       revoke_access_token_row access_token_revoke"

definition access_token_mark_used :: "access_token \<Rightarrow> (db_error, access_token) io" where
  "access_token_mark_used t =
     bindE now (\<lambda>used_at.
     bindE (update_table oauth2_access_tokens put_access_tokens (\<lambda>r. oa_id r = at_id t)
              (\<lambda>r. r\<lparr>oa_first_used_at := Some used_at\<rparr>)) (\<lambda>rows_affected.
     thenE (ensure_affected_rows rows_affected 1)
       (ret (t\<lparr>at_first_used_at := Some used_at\<rparr>))))"

definition access_token_cleanup ::
    "(access_token_row \<Rightarrow> time option) \<Rightarrow> time option \<Rightarrow> time \<Rightarrow> nat \<Rightarrow>
     (db_error, nat \<times> time option) io" where
  "access_token_cleanup ts since until limit =
     execute (\<lambda>d.
       let rows = oldest_rows ts since until limit (oauth2_access_tokens d);
           dead = map oa_id rows
       in ((length rows, max_ts (List.map_filter ts rows)),
           delete_access_tokens (\<lambda>r. oa_id r \<in> set dead) d))"

definition access_token_cleanup_revoked ::
    "time option \<Rightarrow> time \<Rightarrow> nat \<Rightarrow> (db_error, nat \<times> time option) io" where
  "access_token_cleanup_revoked = access_token_cleanup oa_revoked_at"

definition access_token_cleanup_expired ::
    "time option \<Rightarrow> time \<Rightarrow> nat \<Rightarrow> (db_error, nat \<times> time option) io" where
  "access_token_cleanup_expired = access_token_cleanup oa_expires_at"

section \<open>Refresh tokens\<close>

abbreviation put_refresh_tokens :: "refresh_token_row list \<Rightarrow> db \<Rightarrow> db" where
  "put_refresh_tokens t d \<equiv> d\<lparr>oauth2_refresh_tokens := t\<rparr>"

definition decode_refresh_token :: "refresh_token_row \<Rightarrow> db_error + refresh_token" where
  "decode_refresh_token r =
     (let result = (\<lambda>st. Inr \<lparr>rt_id = or_id r, rt_state = st, rt_refresh_token = or_refresh_token r,
                        rt_session_id = or_session_id r, rt_created_at = or_created_at r,
                        rt_access_token_id = or_access_token_id r\<rparr>)
      in case (or_revoked_at r, or_consumed_at r, or_next_id r) of
           (None, None, None) \<Rightarrow> result RT_Valid
         | (Some revoked_at, None, None) \<Rightarrow> result (RT_Revoked revoked_at)
         | (None, Some consumed_at, None) \<Rightarrow> result (RT_Consumed consumed_at None)
         | (None, Some consumed_at, Some i) \<Rightarrow> result (RT_Consumed consumed_at (Some i))
         | _ \<Rightarrow> Inl (Inconsistency ''oauth2_refresh_tokens'' (Some ''next_oauth2_refresh_token_id'')
                      (Some (or_id r))))"

definition refresh_token_lookup :: "ulid \<Rightarrow> (db_error, refresh_token option) io" where
  "refresh_token_lookup i =
     fetch decode_refresh_token (\<lambda>d. row_by_id or_id (oauth2_refresh_tokens d) i)"

definition refresh_token_find_by_token :: "string \<Rightarrow> (db_error, refresh_token option) io" where
  "refresh_token_find_by_token token =
     fetch decode_refresh_token
       (\<lambda>d. List.find (\<lambda>r. or_refresh_token r = token) (oauth2_refresh_tokens d))"

definition new_refresh_token_row ::
    "ulid \<Rightarrow> time \<Rightarrow> session \<Rightarrow> access_token \<Rightarrow> string \<Rightarrow> refresh_token_row" where
  "new_refresh_token_row i created_at session access_token token =
     \<lparr>or_id = i, or_refresh_token = token, or_created_at = created_at, or_consumed_at = None,
      or_revoked_at = None, or_access_token_id = Some (at_id access_token),
      or_session_id = s_id session, or_next_id = None\<rparr>"

definition refresh_token_add ::
    "session \<Rightarrow> access_token \<Rightarrow> string \<Rightarrow> (db_error, refresh_token) io" where
  "refresh_token_add session access_token token =
     bindE now (\<lambda>created_at.
     bindE (draw_id created_at) (\<lambda>i.
     thenE (insert_row oauth2_refresh_tokens put_refresh_tokens
              (new_refresh_token_row i created_at session access_token token))
       (ret \<lparr>rt_id = i, rt_state = RT_Valid, rt_refresh_token = token,
             rt_session_id = s_id session, rt_created_at = created_at,
             rt_access_token_id = Some (at_id access_token)\<rparr>)))"

definition consume_row :: "ulid \<Rightarrow> time \<Rightarrow> refresh_token_row \<Rightarrow> refresh_token_row" where
  "consume_row replaced_by consumed_at r =
     r\<lparr>or_consumed_at := Some consumed_at, or_next_id := Some replaced_by\<rparr>"

definition refresh_token_consume_op ::
    "refresh_token \<Rightarrow> refresh_token \<Rightarrow> (db_error, refresh_token) io" where
  "refresh_token_consume_op t replaced_by =
     update_then_transition oauth2_refresh_tokens put_refresh_tokens or_id rt_id
       (consume_row (rt_id replaced_by)) (\<lambda>at. refresh_token_consume at replaced_by) t"

definition revoke_refresh_token_row :: "time \<Rightarrow> refresh_token_row \<Rightarrow> refresh_token_row" where
  "revoke_refresh_token_row revoked_at r = r\<lparr>or_revoked_at := Some revoked_at\<rparr>"

definition refresh_token_revoke_op :: "refresh_token \<Rightarrow> (db_error, refresh_token) io" where
  "refresh_token_revoke_op =
     update_then_transition oauth2_refresh_tokens put_refresh_tokens or_id rt_id
       revoke_refresh_token_row refresh_token_revoke"

definition refresh_token_cleanup_revoked ::
    "time option \<Rightarrow> time \<Rightarrow> nat \<Rightarrow> (db_error, nat \<times> time option) io" where
  "refresh_token_cleanup_revoked since until limit =
     execute (\<lambda>d.
       let rows = oldest_rows or_revoked_at since until limit (oauth2_refresh_tokens d);
           dead = map or_id rows
       in ((length rows, max_ts (List.map_filter or_revoked_at rows)),
           delete_refresh_tokens (\<lambda>r. or_id r \<in> set dead) d))"

text \<open>A consumed token goes once it has no successor or its successor was consumed too.\<close>

definition consumed_and_superseded :: "refresh_token_row list \<Rightarrow> refresh_token_row \<Rightarrow> bool" where
  "consumed_and_superseded t r \<longleftrightarrow>
     or_consumed_at r \<noteq> None \<and>
     (case or_next_id r of
        None \<Rightarrow> True
      | Some i \<Rightarrow> (case row_by_id or_id t i of
                    None \<Rightarrow> False
                  | Some next \<Rightarrow> or_consumed_at next \<noteq> None))"

definition refresh_token_cleanup_consumed ::
    "time option \<Rightarrow> time \<Rightarrow> nat \<Rightarrow> (db_error, nat \<times> time option) io" where
  "refresh_token_cleanup_consumed since until limit =
     execute (\<lambda>d.
       let rows = oldest_rows or_consumed_at since until limit
                    (filter (consumed_and_superseded (oauth2_refresh_tokens d))
                      (oauth2_refresh_tokens d));
           dead = map or_id rows
       in ((length rows, max_ts (List.map_filter or_consumed_at rows)),
           delete_refresh_tokens (\<lambda>r. or_id r \<in> set dead) d))"

section \<open>Lemmas\<close>

lemma decode_access_token_Inr: "decode_access_token r = Inr t \<longleftrightarrow> t = build_access_token r"
  by (auto simp: decode_access_token_def)

lemma build_access_token_fields:
  "at_id (build_access_token r) = oa_id r"
  "at_session_id (build_access_token r) = oa_session_id r"
  "at_access_token (build_access_token r) = oa_access_token r"
  "at_state (build_access_token r) = AT_Valid \<longleftrightarrow> oa_revoked_at r = None"
  "at_expires_at (build_access_token r) = oa_expires_at r"
  "at_first_used_at (build_access_token r) = oa_first_used_at r"
  "at_created_at (build_access_token r) = oa_created_at r"
  by (auto simp: build_access_token_def split: option.split)

text \<open>
  The rows that decode: a token is not both consumed and revoked, and only a consumed one has a
  successor.
\<close>

definition refresh_row_ok :: "refresh_token_row \<Rightarrow> bool" where
  "refresh_row_ok r \<longleftrightarrow>
     (or_revoked_at r = None \<or> or_consumed_at r = None) \<and>
     (or_next_id r \<noteq> None \<longrightarrow> or_consumed_at r \<noteq> None)"

definition refresh_row_state :: "refresh_token_row \<Rightarrow> refresh_token_state" where
  "refresh_row_state r =
     (case or_revoked_at r of
        Some t \<Rightarrow> RT_Revoked t
      | None \<Rightarrow> (case or_consumed_at r of
                  None \<Rightarrow> RT_Valid
                | Some t \<Rightarrow> RT_Consumed t (or_next_id r)))"

lemma decode_refresh_token_Inr:
  "decode_refresh_token r = Inr t \<longleftrightarrow>
     refresh_row_ok r \<and>
     t = \<lparr>rt_id = or_id r, rt_state = refresh_row_state r, rt_refresh_token = or_refresh_token r,
          rt_session_id = or_session_id r, rt_created_at = or_created_at r,
          rt_access_token_id = or_access_token_id r\<rparr>"
  by (auto simp: decode_refresh_token_def refresh_row_ok_def refresh_row_state_def Let_def
      split: option.splits)

lemma decode_refresh_token_fields:
  assumes "decode_refresh_token r = Inr t"
  shows "rt_id t = or_id r" "rt_session_id t = or_session_id r"
    "rt_access_token_id t = or_access_token_id r" "rt_state t = refresh_row_state r"
    "rt_refresh_token t = or_refresh_token r" "rt_created_at t = or_created_at r"
    "refresh_row_ok r"
  using assms by (auto simp: decode_refresh_token_Inr)

lemma refresh_row_state_Valid:
  "refresh_row_state r = RT_Valid \<longleftrightarrow> or_revoked_at r = None \<and> or_consumed_at r = None"
  by (auto simp: refresh_row_state_def split: option.split)

interpretation access_tokens: repository oauth2_access_tokens put_access_tokens oa_id
    decode_access_token at_id
  by unfold_locales (auto simp: decode_access_token_def build_access_token_def dest: db_ok_distinct)

interpretation access_token_revoke_step: repository_step oauth2_access_tokens put_access_tokens
    oa_id decode_access_token at_id revoke_access_token_row access_token_revoke
  by unfold_locales
    (auto simp: decode_access_token_def build_access_token_def revoke_access_token_row_def
      access_token_revoke_Inr)

interpretation refresh_tokens: repository oauth2_refresh_tokens put_refresh_tokens or_id
    decode_refresh_token rt_id
  by unfold_locales (auto simp: decode_refresh_token_Inr dest: db_ok_distinct)

interpretation refresh_token_consume_step: repository_step oauth2_refresh_tokens
    put_refresh_tokens or_id decode_refresh_token rt_id "consume_row (rt_id n)"
    "\<lambda>at. refresh_token_consume at n" for n
  by unfold_locales
    (auto simp: decode_refresh_token_Inr consume_row_def refresh_token_consume_Inr
      refresh_row_ok_def refresh_row_state_def split: option.splits)

interpretation refresh_token_revoke_step: repository_step oauth2_refresh_tokens
    put_refresh_tokens or_id decode_refresh_token rt_id revoke_refresh_token_row
    refresh_token_revoke
  by unfold_locales
    (auto simp: decode_refresh_token_Inr revoke_refresh_token_row_def refresh_token_revoke_Inr
      refresh_row_ok_def refresh_row_state_def split: option.splits)

lemma access_token_add_Inr [run_simps]:
  "access_token_add s token dur w = (Inr t, w') \<longleftrightarrow>
     insert_row oauth2_access_tokens put_access_tokens
       (new_access_token_row (next_id w) (clock_reading w) s token dur) (after_new_id w) = (Inr (), w')
     \<and> t = build_access_token (new_access_token_row (next_id w) (clock_reading w) s token dur)"
  by (auto simp: access_token_add_def run_simps next_id_def after_new_id_def
      build_access_token_def new_access_token_row_def)

definition new_refresh_token ::
    "ulid \<Rightarrow> time \<Rightarrow> session \<Rightarrow> access_token \<Rightarrow> string \<Rightarrow> refresh_token" where
  "new_refresh_token i created_at session access_token token =
     \<lparr>rt_id = i, rt_state = RT_Valid, rt_refresh_token = token,
      rt_session_id = s_id session, rt_created_at = created_at,
      rt_access_token_id = Some (at_id access_token)\<rparr>"

lemma refresh_token_add_Inr [run_simps]:
  "refresh_token_add s a token w = (Inr t, w') \<longleftrightarrow>
     insert_row oauth2_refresh_tokens put_refresh_tokens
       (new_refresh_token_row (next_id w) (clock_reading w) s a token) (after_new_id w) = (Inr (), w')
     \<and> t = new_refresh_token (next_id w) (clock_reading w) s a token"
  by (auto simp: refresh_token_add_def run_simps next_id_def after_new_id_def new_refresh_token_def)

lemma refresh_token_find_Some [run_simps]:
  "refresh_token_find_by_token token w = (Inr (Some t), w') \<longleftrightarrow>
     w' = w \<and> (\<exists>r. List.find (\<lambda>r. or_refresh_token r = token) (oauth2_refresh_tokens (w_db w)) = Some r
                \<and> decode_refresh_token r = Inr t)"
  by (auto simp: refresh_token_find_by_token_def fetch_Some)

lemma refresh_token_lookup_Some [run_simps]:
  "refresh_token_lookup i w = (Inr (Some t), w') \<longleftrightarrow>
     w' = w \<and> (\<exists>r. row_by_id or_id (oauth2_refresh_tokens (w_db w)) i = Some r
                \<and> decode_refresh_token r = Inr t)"
  by (auto simp: refresh_token_lookup_def fetch_Some)

lemma access_token_find_Some [run_simps]:
  "access_token_find_by_token token w = (Inr (Some t), w') \<longleftrightarrow>
     w' = w \<and> (\<exists>r. List.find (\<lambda>r. oa_access_token r = token) (oauth2_access_tokens (w_db w)) = Some r
                \<and> t = build_access_token r)"
  by (auto simp: access_token_find_by_token_def fetch_Some decode_access_token_def)

lemma access_token_lookup_Inr [run_simps]:
  "access_token_lookup i w = (Inr x, w') \<longleftrightarrow>
     w' = w \<and> x = map_option build_access_token (row_by_id oa_id (oauth2_access_tokens (w_db w)) i)"
  by (auto simp: access_token_lookup_def fetch_Inr decode_access_token_def split: option.split)

lemma access_token_mark_used_Inr [run_simps]:
  "access_token_mark_used t w = (Inr t', w') \<longleftrightarrow>
     t' = t\<lparr>at_first_used_at := Some (clock_reading w)\<rparr> \<and>
     n_rows (\<lambda>r. oa_id r = at_id t) (oauth2_access_tokens (w_db w)) = 1 \<and>
     update_table oauth2_access_tokens put_access_tokens (\<lambda>r. oa_id r = at_id t)
       (\<lambda>r. r\<lparr>oa_first_used_at := Some (clock_reading w)\<rparr>) (tick w) = (Inr (Suc 0), w')"
  by (auto simp: access_token_mark_used_def run_simps)

lemma consistent_token_storage [intro!]:
  "keeps consistent (access_token_lookup i)"
  "keeps consistent (access_token_find_by_token tok)"
  "keeps consistent (access_token_add s tok dur)"
  "keeps consistent (access_token_revoke_op at)"
  "keeps consistent (access_token_mark_used at)"
  "keeps consistent (refresh_token_lookup i)"
  "keeps consistent (refresh_token_find_by_token tok)"
  "keeps consistent (refresh_token_add s at tok)"
  "keeps consistent (refresh_token_consume_op rt rt')"
  "keeps consistent (refresh_token_revoke_op rt)"
  unfolding access_token_lookup_def access_token_find_by_token_def access_token_add_def
    access_token_revoke_op_def access_token_mark_used_def refresh_token_lookup_def
    refresh_token_find_by_token_def refresh_token_add_def refresh_token_consume_op_def
    refresh_token_revoke_op_def
  by (auto intro!: keeps_bindE keeps_thenE)

lemma committed_token_storage [intro!]:
  "keeps (committed_is d) (access_token_lookup i)"
  "keeps (committed_is d) (access_token_find_by_token tok)"
  "keeps (committed_is d) (access_token_add s tok dur)"
  "keeps (committed_is d) (access_token_revoke_op at)"
  "keeps (committed_is d) (access_token_mark_used at)"
  "keeps (committed_is d) (refresh_token_lookup i)"
  "keeps (committed_is d) (refresh_token_find_by_token tok)"
  "keeps (committed_is d) (refresh_token_add s at tok)"
  "keeps (committed_is d) (refresh_token_consume_op rt rt')"
  "keeps (committed_is d) (refresh_token_revoke_op rt)"
  unfolding access_token_lookup_def access_token_find_by_token_def access_token_add_def
    access_token_revoke_op_def access_token_mark_used_def refresh_token_lookup_def
    refresh_token_find_by_token_def refresh_token_add_def refresh_token_consume_op_def
    refresh_token_revoke_op_def
  by (auto intro!: keeps_bindE keeps_thenE)

end
