(* ===== verification/Grant_Storage.thy ===== *)
theory Grant_Storage
  imports Repository
begin

text \<open>
  The repositories of authorization grants (\<open>crates/data/src/pg/oauth2/authorization_grant.rs\<close>) and
  device code grants (\<open>crates/data/src/pg/oauth2/device_code_grant.rs\<close>).

  \<open>url_parse\<close> is \<open>Url::parse\<close> (\<open>url\<close> crate): the serialisation of the parsed URL, or nothing.
\<close>

section \<open>Authorization grants\<close>

abbreviation put_grants :: "grant_row list \<Rightarrow> db \<Rightarrow> db" where
  "put_grants t d \<equiv> d\<lparr>oauth2_authorization_grants := t\<rparr>"

definition grant_error :: "string \<Rightarrow> grant_row \<Rightarrow> db_error" where
  "grant_error column r = Inconsistency ''oauth2_authorization_grants'' (Some column) (Some (og_id r))"

definition decode_stage :: "grant_row \<Rightarrow> db_error + grant_stage" where
  "decode_stage r =
     (case (og_fulfilled_at r, og_exchanged_at r, og_cancelled_at r, og_session_id r) of
        (None, None, None, None) \<Rightarrow> Inr G_Pending
      | (Some fulfilled_at, None, None, Some session_id) \<Rightarrow> Inr (G_Fulfilled session_id fulfilled_at)
      | (Some fulfilled_at, Some exchanged_at, None, Some session_id) \<Rightarrow>
          Inr (G_Exchanged session_id fulfilled_at exchanged_at)
      | (None, None, Some cancelled_at, None) \<Rightarrow> Inr (G_Cancelled cancelled_at)
      | _ \<Rightarrow> Inl (grant_error ''stage'' r))"

definition decode_pkce :: "grant_row \<Rightarrow> db_error + pkce option" where
  "decode_pkce r =
     (case (og_code_challenge r, og_code_challenge_method r) of
        (Some challenge, Some method) \<Rightarrow>
          if method = ''plain'' then Inr (Some \<lparr>pk_method = Plain, pk_challenge = challenge\<rparr>)
          else if method = ''S256'' then Inr (Some \<lparr>pk_method = S256, pk_challenge = challenge\<rparr>)
          else Inl (grant_error ''code_challenge_method'' r)
      | (None, None) \<Rightarrow> Inr None
      | _ \<Rightarrow> Inl (grant_error ''code_challenge_method'' r))"

definition decode_code :: "grant_row \<Rightarrow> pkce option \<Rightarrow> db_error + authorization_code option" where
  "decode_code r pkce =
     (case (og_response_type_code r, og_authorization_code r, pkce) of
        (False, None, None) \<Rightarrow> Inr None
      | (True, Some code, pkce) \<Rightarrow> Inr (Some \<lparr>ac_code = code, ac_pkce = pkce\<rparr>)
      | _ \<Rightarrow> Inl (grant_error ''authorization_code'' r))"

definition decode_grant ::
    "(string \<Rightarrow> string option) \<Rightarrow> grant_row \<Rightarrow> db_error + authorization_grant" where
  "decode_grant url_parse r =
     (case parse_scope (og_scope r) of
        None \<Rightarrow> Inl (grant_error ''scope'' r)
      | Some sc \<Rightarrow>
     (case decode_stage r of
        Inl e \<Rightarrow> Inl e
      | Inr stage \<Rightarrow>
     (case decode_pkce r of
        Inl e \<Rightarrow> Inl e
      | Inr pkce \<Rightarrow>
     (case decode_code r pkce of
        Inl e \<Rightarrow> Inl e
      | Inr code \<Rightarrow>
     (case url_parse (og_redirect_uri r) of
        None \<Rightarrow> Inl (grant_error ''redirect_uri'' r)
      | Some redirect_uri \<Rightarrow>
          Inr \<lparr>ag_id = og_id r, ag_stage = stage, ag_code = code, ag_client_id = og_client_id r,
               ag_redirect_uri = redirect_uri, ag_raw_redirect_uri = og_redirect_uri r,
               ag_scope = sc, ag_state = og_state r, ag_nonce = og_nonce r,
               ag_response_mode = parse_response_mode (og_response_mode r),
               ag_response_type_id_token = og_response_type_id_token r,
               ag_created_at = og_created_at r, ag_login_hint = og_login_hint r,
               ag_locale = og_locale r\<rparr>)))))"

text \<open>\<open>PkceCodeChallengeMethod::to_string\<close> (\<open>crates/iana/src/oauth.rs\<close>).\<close>

fun challenge_method_to_string :: "challenge_method \<Rightarrow> string" where
  "challenge_method_to_string Plain = ''plain''"
| "challenge_method_to_string S256 = ''S256''"
| "challenge_method_to_string (UnknownMethod s) = s"

record grant_params =
  gp_client :: client
  gp_redirect_uri :: string
  gp_raw_redirect_uri :: string
  gp_scope :: scope
  gp_code :: "authorization_code option"
  gp_state :: "string option"
  gp_nonce :: "string option"
  gp_response_mode :: response_mode
  gp_response_type_id_token :: bool
  gp_login_hint :: "string option"
  gp_locale :: "string option"

definition new_grant_row :: "ulid \<Rightarrow> time \<Rightarrow> grant_params \<Rightarrow> grant_row" where
  "new_grant_row i created_at p =
     (let pkce = (case gp_code p of None \<Rightarrow> None | Some c \<Rightarrow> ac_pkce c)
      in \<lparr>og_id = i, og_created_at = created_at, og_cancelled_at = None, og_fulfilled_at = None,
          og_exchanged_at = None, og_scope = display_scope (gp_scope p), og_state = gp_state p,
          og_nonce = gp_nonce p, og_redirect_uri = gp_raw_redirect_uri p,
          og_response_mode = response_mode_to_string (gp_response_mode p),
          og_response_type_code = (gp_code p \<noteq> None),
          og_response_type_id_token = gp_response_type_id_token p,
          og_authorization_code = map_option ac_code (gp_code p),
          og_code_challenge = map_option pk_challenge pkce,
          og_code_challenge_method = map_option (challenge_method_to_string \<circ> pk_method) pkce,
          og_login_hint = gp_login_hint p, og_locale = gp_locale p,
          og_client_id = c_id (gp_client p), og_session_id = None\<rparr>)"

definition new_grant :: "ulid \<Rightarrow> time \<Rightarrow> grant_params \<Rightarrow> authorization_grant" where
  "new_grant i created_at p =
     \<lparr>ag_id = i, ag_stage = G_Pending, ag_code = gp_code p, ag_client_id = c_id (gp_client p),
      ag_redirect_uri = gp_redirect_uri p, ag_raw_redirect_uri = gp_raw_redirect_uri p,
      ag_scope = gp_scope p, ag_state = gp_state p, ag_nonce = gp_nonce p,
      ag_response_mode = gp_response_mode p,
      ag_response_type_id_token = gp_response_type_id_token p, ag_created_at = created_at,
      ag_login_hint = gp_login_hint p, ag_locale = gp_locale p\<rparr>"

definition grant_add :: "grant_params \<Rightarrow> (db_error, authorization_grant) io" where
  "grant_add p =
     bindE now (\<lambda>created_at.
     bindE (draw_id created_at) (\<lambda>i.
     thenE (insert_row oauth2_authorization_grants put_grants (new_grant_row i created_at p))
       (ret (new_grant i created_at p))))"

definition grant_lookup ::
    "(string \<Rightarrow> string option) \<Rightarrow> ulid \<Rightarrow> (db_error, authorization_grant option) io" where
  "grant_lookup url_parse i =
     fetch (decode_grant url_parse) (\<lambda>d. row_by_id og_id (oauth2_authorization_grants d) i)"

definition find_by_code ::
    "(string \<Rightarrow> string option) \<Rightarrow> string \<Rightarrow> (db_error, authorization_grant option) io" where
  "find_by_code url_parse code =
     fetch (decode_grant url_parse)
       (\<lambda>d. List.find (\<lambda>r. og_authorization_code r = Some code) (oauth2_authorization_grants d))"

definition fulfill_grant_row :: "ulid \<Rightarrow> time \<Rightarrow> grant_row \<Rightarrow> grant_row" where
  "fulfill_grant_row session_id fulfilled_at r =
     r\<lparr>og_fulfilled_at := Some fulfilled_at, og_session_id := Some session_id\<rparr>"

definition grant_fulfill_op ::
    "session \<Rightarrow> authorization_grant \<Rightarrow> (db_error, authorization_grant) io" where
  "grant_fulfill_op session =
     update_then_transition oauth2_authorization_grants put_grants og_id ag_id
       (fulfill_grant_row (s_id session)) (\<lambda>at. grant_fulfill at session)"

definition exchange_grant_row :: "time \<Rightarrow> grant_row \<Rightarrow> grant_row" where
  "exchange_grant_row exchanged_at r = r\<lparr>og_exchanged_at := Some exchanged_at\<rparr>"

definition grant_exchange_op :: "authorization_grant \<Rightarrow> (db_error, authorization_grant) io" where
  "grant_exchange_op =
     update_then_transition oauth2_authorization_grants put_grants og_id ag_id
       exchange_grant_row grant_exchange"

definition grant_cleanup ::
    "ulid option \<Rightarrow> ulid \<Rightarrow> nat \<Rightarrow> (db_error, nat \<times> ulid option) io" where
  "grant_cleanup since until limit =
     execute (\<lambda>d.
       let dead = map og_id (first_rows_by_id og_id since until limit (oauth2_authorization_grants d))
       in ((length dead, max_id dead),
           put_grants (del_rows (\<lambda>r. og_id r \<in> set dead) (oauth2_authorization_grants d)) d))"

section \<open>Device code grants\<close>

abbreviation put_device_grants :: "device_grant_row list \<Rightarrow> db \<Rightarrow> db" where
  "put_device_grants t d \<equiv> d\<lparr>oauth2_device_code_grant := t\<rparr>"

definition decode_device_state :: "device_grant_row \<Rightarrow> db_error + device_state" where
  "decode_device_state r =
     (case (od_fulfilled_at r, od_rejected_at r, od_exchanged_at r, od_user_session_id r,
            od_session_id r) of
        (None, None, None, None, None) \<Rightarrow> Inr D_Pending
      | (Some fulfilled_at, None, None, Some user_session_id, None) \<Rightarrow>
          Inr (D_Fulfilled user_session_id fulfilled_at)
      | (None, Some rejected_at, None, Some user_session_id, None) \<Rightarrow>
          Inr (D_Rejected user_session_id rejected_at)
      | (Some fulfilled_at, None, Some exchanged_at, Some user_session_id, Some session_id) \<Rightarrow>
          Inr (D_Exchanged user_session_id fulfilled_at exchanged_at session_id)
      | _ \<Rightarrow> Inl (Inconsistency ''oauth2_device_code_grant'' None (Some (od_id r))))"

definition decode_device_grant :: "device_grant_row \<Rightarrow> db_error + device_code_grant" where
  "decode_device_grant r =
     (case parse_scope (od_scope r) of
        None \<Rightarrow> Inl (Inconsistency ''oauth2_device_code_grant'' (Some ''scope'') (Some (od_id r)))
      | Some sc \<Rightarrow>
     (case decode_device_state r of
        Inl e \<Rightarrow> Inl e
      | Inr st \<Rightarrow>
          Inr \<lparr>dg_id = od_id r, dg_state = st, dg_client_id = od_client_id r, dg_scope = sc,
               dg_user_code = od_user_code r, dg_device_code = od_device_code r,
               dg_created_at = od_created_at r, dg_expires_at = od_expires_at r,
               dg_ip_address = od_ip_address r, dg_user_agent = od_user_agent r\<rparr>))"

record device_grant_params =
  dp_client :: client
  dp_scope :: scope
  dp_device_code :: string
  dp_user_code :: string
  dp_expires_in :: duration
  dp_ip_address :: "string option"
  dp_user_agent :: "string option"

definition new_device_grant_row :: "ulid \<Rightarrow> time \<Rightarrow> device_grant_params \<Rightarrow> device_grant_row" where
  "new_device_grant_row i created_at p =
     \<lparr>od_id = i, od_client_id = c_id (dp_client p), od_scope = display_scope (dp_scope p),
      od_device_code = dp_device_code p, od_user_code = dp_user_code p,
      od_created_at = created_at, od_expires_at = created_at + dp_expires_in p,
      od_fulfilled_at = None, od_rejected_at = None, od_exchanged_at = None,
      od_user_session_id = None, od_session_id = None,
      od_ip_address = dp_ip_address p, od_user_agent = dp_user_agent p\<rparr>"

definition new_device_grant :: "ulid \<Rightarrow> time \<Rightarrow> device_grant_params \<Rightarrow> device_code_grant" where
  "new_device_grant i created_at p =
     \<lparr>dg_id = i, dg_state = D_Pending, dg_client_id = c_id (dp_client p), dg_scope = dp_scope p,
      dg_user_code = dp_user_code p, dg_device_code = dp_device_code p,
      dg_created_at = created_at, dg_expires_at = created_at + dp_expires_in p,
      dg_ip_address = dp_ip_address p, dg_user_agent = dp_user_agent p\<rparr>"

definition device_grant_add :: "device_grant_params \<Rightarrow> (db_error, device_code_grant) io" where
  "device_grant_add p =
     bindE now (\<lambda>created_at.
     bindE (draw_id created_at) (\<lambda>i.
     thenE (insert_row oauth2_device_code_grant put_device_grants (new_device_grant_row i created_at p))
       (ret (new_device_grant i created_at p))))"

definition device_grant_lookup :: "ulid \<Rightarrow> (db_error, device_code_grant option) io" where
  "device_grant_lookup i =
     fetch decode_device_grant (\<lambda>d. row_by_id od_id (oauth2_device_code_grant d) i)"

definition find_by_user_code :: "string \<Rightarrow> (db_error, device_code_grant option) io" where
  "find_by_user_code user_code =
     fetch decode_device_grant
       (\<lambda>d. List.find (\<lambda>r. od_user_code r = user_code) (oauth2_device_code_grant d))"

definition find_by_device_code :: "string \<Rightarrow> (db_error, device_code_grant option) io" where
  "find_by_device_code device_code =
     fetch decode_device_grant
       (\<lambda>d. List.find (\<lambda>r. od_device_code r = device_code) (oauth2_device_code_grant d))"

definition fulfill_device_row :: "ulid \<Rightarrow> time \<Rightarrow> device_grant_row \<Rightarrow> device_grant_row" where
  "fulfill_device_row browser_session_id fulfilled_at r =
     r\<lparr>od_fulfilled_at := Some fulfilled_at, od_user_session_id := Some browser_session_id\<rparr>"

definition device_grant_fulfill_op ::
    "browser_session \<Rightarrow> device_code_grant \<Rightarrow> (db_error, device_code_grant) io" where
  "device_grant_fulfill_op b =
     transition_then_update oauth2_device_code_grant put_device_grants od_id dg_id
       (fulfill_device_row (bs_id b)) (device_grant_fulfill b)"

definition reject_device_row :: "ulid \<Rightarrow> time \<Rightarrow> device_grant_row \<Rightarrow> device_grant_row" where
  "reject_device_row browser_session_id rejected_at r =
     r\<lparr>od_rejected_at := Some rejected_at, od_user_session_id := Some browser_session_id\<rparr>"

definition device_grant_reject_op ::
    "browser_session \<Rightarrow> device_code_grant \<Rightarrow> (db_error, device_code_grant) io" where
  "device_grant_reject_op b =
     transition_then_update oauth2_device_code_grant put_device_grants od_id dg_id
       (reject_device_row (bs_id b)) (device_grant_reject b)"

definition exchange_device_row :: "ulid \<Rightarrow> time \<Rightarrow> device_grant_row \<Rightarrow> device_grant_row" where
  "exchange_device_row session_id exchanged_at r =
     r\<lparr>od_exchanged_at := Some exchanged_at, od_session_id := Some session_id\<rparr>"

definition device_grant_exchange_op ::
    "session \<Rightarrow> device_code_grant \<Rightarrow> (db_error, device_code_grant) io" where
  "device_grant_exchange_op s =
     transition_then_update oauth2_device_code_grant put_device_grants od_id dg_id
       (exchange_device_row (s_id s)) (device_grant_exchange s)"

definition device_grant_cleanup ::
    "ulid option \<Rightarrow> ulid \<Rightarrow> nat \<Rightarrow> (db_error, nat \<times> ulid option) io" where
  "device_grant_cleanup since until limit =
     execute (\<lambda>d.
       let dead = map od_id (first_rows_by_id od_id since until limit (oauth2_device_code_grant d))
       in ((length dead, max_id dead),
           put_device_grants (del_rows (\<lambda>r. od_id r \<in> set dead) (oauth2_device_code_grant d)) d))"

section \<open>Lemmas\<close>

lemma decode_grant_Inr:
  "decode_grant url_parse r = Inr g \<longleftrightarrow>
     (\<exists>sc stage pkce code uri.
        parse_scope (og_scope r) = Some sc \<and> decode_stage r = Inr stage \<and>
        decode_pkce r = Inr pkce \<and> decode_code r pkce = Inr code \<and>
        url_parse (og_redirect_uri r) = Some uri \<and>
        g = \<lparr>ag_id = og_id r, ag_stage = stage, ag_code = code, ag_client_id = og_client_id r,
             ag_redirect_uri = uri, ag_raw_redirect_uri = og_redirect_uri r,
             ag_scope = sc, ag_state = og_state r, ag_nonce = og_nonce r,
             ag_response_mode = parse_response_mode (og_response_mode r),
             ag_response_type_id_token = og_response_type_id_token r,
             ag_created_at = og_created_at r, ag_login_hint = og_login_hint r,
             ag_locale = og_locale r\<rparr>)"
  by (auto simp: decode_grant_def split: option.splits sum.splits)

lemma decode_grant_fields:
  assumes "decode_grant url_parse r = Inr g"
  shows "ag_id g = og_id r" "decode_stage r = Inr (ag_stage g)" "ag_client_id g = og_client_id r"
    "ag_raw_redirect_uri g = og_redirect_uri r"
  using assms by (auto simp: decode_grant_Inr)

lemma decode_code_Some:
  "decode_code r pkce = Inr (Some c) \<Longrightarrow> og_authorization_code r = Some (ac_code c)"
  by (auto simp: decode_code_def split: bool.splits option.splits)

text \<open>The columns outside the stage do not matter to \<open>decode_stage\<close>, nor the stage columns to the rest.\<close>

lemma decode_pkce_stage [simp]:
  "decode_pkce (r\<lparr>og_fulfilled_at := a\<rparr>) = decode_pkce r"
  "decode_pkce (r\<lparr>og_session_id := b\<rparr>) = decode_pkce r"
  "decode_pkce (r\<lparr>og_exchanged_at := a\<rparr>) = decode_pkce r"
  by (simp_all add: decode_pkce_def grant_error_def split: option.split)

lemma decode_code_stage [simp]:
  "decode_code (r\<lparr>og_fulfilled_at := a\<rparr>) p = decode_code r p"
  "decode_code (r\<lparr>og_session_id := b\<rparr>) p = decode_code r p"
  "decode_code (r\<lparr>og_exchanged_at := a\<rparr>) p = decode_code r p"
  by (simp_all add: decode_code_def grant_error_def split: option.split bool.split)

lemma decode_stage_fulfill:
  "decode_stage r = Inr G_Pending \<Longrightarrow> decode_stage (fulfill_grant_row i t r) = Inr (G_Fulfilled i t)"
  by (auto simp: decode_stage_def fulfill_grant_row_def split: option.splits)

lemma decode_stage_exchange:
  "decode_stage r = Inr (G_Fulfilled i f) \<Longrightarrow>
     decode_stage (exchange_grant_row t r) = Inr (G_Exchanged i f t)"
  by (auto simp: decode_stage_def exchange_grant_row_def split: option.splits)

interpretation grants: repository oauth2_authorization_grants put_grants og_id
    "decode_grant url_parse" ag_id for url_parse
  by unfold_locales (auto simp: decode_grant_Inr dest: db_ok_distinct)

interpretation grant_fulfill_step: repository_step oauth2_authorization_grants put_grants og_id
    "decode_grant url_parse" ag_id "fulfill_grant_row (s_id s)" "\<lambda>at. grant_fulfill at s"
    for url_parse s
proof unfold_locales
  fix at r m m'
  show "og_id (fulfill_grant_row (s_id s) at r) = og_id r"
    by (simp add: fulfill_grant_row_def)
  assume "decode_grant url_parse r = Inr m" "grant_fulfill at s m = Inr m'"
  then show "decode_grant url_parse (fulfill_grant_row (s_id s) at r) = Inr m'"
    using decode_stage_fulfill [of r "s_id s" at]
    by (auto simp: decode_grant_Inr grant_fulfill_Inr) (auto simp: fulfill_grant_row_def)
qed

interpretation grant_exchange_step: repository_step oauth2_authorization_grants put_grants og_id
    "decode_grant url_parse" ag_id exchange_grant_row grant_exchange for url_parse
proof unfold_locales
  fix at r m m'
  show "og_id (exchange_grant_row at r) = og_id r"
    by (simp add: exchange_grant_row_def)
  assume "decode_grant url_parse r = Inr m" "grant_exchange at m = Inr m'"
  then show "decode_grant url_parse (exchange_grant_row at r) = Inr m'"
    using decode_stage_exchange [of r _ _ at]
    by (auto simp: decode_grant_Inr grant_exchange_Inr) (auto simp: exchange_grant_row_def)
qed

text \<open>
  The parameters of an authorization request, as parsing leaves them: a scope of at least one valid
  token, a redirect URI that is the parsed form of the raw one, and an unknown response mode or PKCE
  method only where the name is not a known one.
\<close>

definition parsed_params :: "(string \<Rightarrow> string option) \<Rightarrow> grant_params \<Rightarrow> bool" where
  "parsed_params url_parse p \<longleftrightarrow>
     valid_scope (gp_scope p) \<and> gp_scope p \<noteq> [] \<and>
     url_parse (gp_raw_redirect_uri p) = Some (gp_redirect_uri p) \<and>
     (\<forall>s. gp_response_mode p = RM_Unknown s \<longrightarrow> s \<notin> {''query'', ''fragment'', ''form_post''}) \<and>
     (\<forall>s. map_option pk_method (Option.bind (gp_code p) ac_pkce) = Some (UnknownMethod s) \<longrightarrow>
        s \<notin> {''plain'', ''S256''})"

text \<open>The PKCE methods that a row can be read back with.\<close>

definition pkce_readable :: "grant_params \<Rightarrow> bool" where
  "pkce_readable p \<longleftrightarrow>
     (case Option.bind (gp_code p) ac_pkce of
        None \<Rightarrow> True
      | Some k \<Rightarrow> pk_method k = Plain \<or> pk_method k = S256)"

lemma decode_new_grant:
  assumes "parsed_params url_parse p"
  shows "(case decode_grant url_parse (new_grant_row i t p) of Inl _ \<Rightarrow> None | Inr g \<Rightarrow> Some g) =
    (if pkce_readable p then Some (new_grant i t p) else None)"
proof -
  have mode: "parse_response_mode (response_mode_to_string (gp_response_mode p)) = gp_response_mode p"
    using assms parse_response_mode_display [of "gp_response_mode p"] by (auto simp: parsed_params_def)
  have scope: "parse_scope (display_scope (gp_scope p)) = Some (gp_scope p)"
    using assms by (simp add: parsed_params_def parse_display)
  have row: "og_scope (new_grant_row i t p) = display_scope (gp_scope p)"
    "decode_stage (new_grant_row i t p) = Inr G_Pending"
    "og_response_mode (new_grant_row i t p) = response_mode_to_string (gp_response_mode p)"
    "og_redirect_uri (new_grant_row i t p) = gp_raw_redirect_uri p"
    by (simp_all add: new_grant_row_def decode_stage_def Let_def)
  have pkce: "decode_pkce (new_grant_row i t p) =
      (if pkce_readable p then Inr (Option.bind (gp_code p) ac_pkce)
       else Inl (grant_error ''code_challenge_method'' (new_grant_row i t p)))"
  proof (cases "Option.bind (gp_code p) ac_pkce")
    case None
    then show ?thesis
      by (auto simp: decode_pkce_def new_grant_row_def pkce_readable_def Let_def split: option.splits)
  next
    case (Some k)
    then obtain c where "gp_code p = Some c" "ac_pkce c = Some k"
      by (auto simp: bind_eq_Some_conv)
    with Some assms show ?thesis
      by (cases "pk_method k")
        (auto simp: decode_pkce_def new_grant_row_def pkce_readable_def parsed_params_def Let_def)
  qed
  have code: "decode_code (new_grant_row i t p) (Option.bind (gp_code p) ac_pkce) = Inr (gp_code p)"
    by (cases "gp_code p") (auto simp: decode_code_def new_grant_row_def Let_def)
  show ?thesis
    using assms code unfolding decode_grant_def row scope pkce
    by (auto simp: mode parsed_params_def new_grant_def new_grant_row_def Let_def)
qed

lemma decode_device_grant_Inr:
  "decode_device_grant r = Inr g \<longleftrightarrow>
     (\<exists>sc st. parse_scope (od_scope r) = Some sc \<and> decode_device_state r = Inr st \<and>
        g = \<lparr>dg_id = od_id r, dg_state = st, dg_client_id = od_client_id r, dg_scope = sc,
             dg_user_code = od_user_code r, dg_device_code = od_device_code r,
             dg_created_at = od_created_at r, dg_expires_at = od_expires_at r,
             dg_ip_address = od_ip_address r, dg_user_agent = od_user_agent r\<rparr>)"
  by (auto simp: decode_device_grant_def split: option.splits sum.splits)

lemma decode_device_state_steps:
  "decode_device_state r = Inr D_Pending \<Longrightarrow>
     decode_device_state (fulfill_device_row b t r) = Inr (D_Fulfilled b t)"
  "decode_device_state r = Inr D_Pending \<Longrightarrow>
     decode_device_state (reject_device_row b t r) = Inr (D_Rejected b t)"
  "decode_device_state r = Inr (D_Fulfilled b f) \<Longrightarrow>
     decode_device_state (exchange_device_row i t r) = Inr (D_Exchanged b f t i)"
  by (auto simp: decode_device_state_def fulfill_device_row_def reject_device_row_def
      exchange_device_row_def split: option.splits)

interpretation device_grants: repository oauth2_device_code_grant put_device_grants od_id
    decode_device_grant dg_id
  by unfold_locales (auto simp: decode_device_grant_Inr dest: db_ok_distinct)

interpretation device_fulfill_step: repository_step oauth2_device_code_grant put_device_grants
    od_id decode_device_grant dg_id "fulfill_device_row (bs_id b)" "\<lambda>at. device_grant_fulfill b at"
    for b
proof unfold_locales
  fix at r m m'
  show "od_id (fulfill_device_row (bs_id b) at r) = od_id r"
    by (simp add: fulfill_device_row_def)
  assume "decode_device_grant r = Inr m" "device_grant_fulfill b at m = Inr m'"
  then show "decode_device_grant (fulfill_device_row (bs_id b) at r) = Inr m'"
    using decode_device_state_steps(1) [of r "bs_id b" at]
    by (auto simp: decode_device_grant_Inr device_grant_fulfill_Inr)
      (auto simp: fulfill_device_row_def)
qed

interpretation device_reject_step: repository_step oauth2_device_code_grant put_device_grants
    od_id decode_device_grant dg_id "reject_device_row (bs_id b)" "\<lambda>at. device_grant_reject b at"
    for b
proof unfold_locales
  fix at r m m'
  show "od_id (reject_device_row (bs_id b) at r) = od_id r"
    by (simp add: reject_device_row_def)
  assume "decode_device_grant r = Inr m" "device_grant_reject b at m = Inr m'"
  then show "decode_device_grant (reject_device_row (bs_id b) at r) = Inr m'"
    using decode_device_state_steps(2) [of r "bs_id b" at]
    by (auto simp: decode_device_grant_Inr device_grant_reject_Inr)
      (auto simp: reject_device_row_def)
qed

interpretation device_exchange_step: repository_step oauth2_device_code_grant put_device_grants
    od_id decode_device_grant dg_id "exchange_device_row (s_id s)" "\<lambda>at. device_grant_exchange s at"
    for s
proof unfold_locales
  fix at r m m'
  show "od_id (exchange_device_row (s_id s) at r) = od_id r"
    by (simp add: exchange_device_row_def)
  assume "decode_device_grant r = Inr m" "device_grant_exchange s at m = Inr m'"
  then show "decode_device_grant (exchange_device_row (s_id s) at r) = Inr m'"
    using decode_device_state_steps(3) [of r _ _ "s_id s" at]
    by (auto simp: decode_device_grant_Inr device_grant_exchange_Inr)
      (auto simp: exchange_device_row_def)
qed

lemma decode_new_device_grant:
  "valid_scope (dp_scope p) \<Longrightarrow> dp_scope p \<noteq> [] \<Longrightarrow>
     decode_device_grant (new_device_grant_row i t p) = Inr (new_device_grant i t p)"
  by (auto simp: decode_device_grant_Inr new_device_grant_row_def new_device_grant_def
      decode_device_state_def parse_display)

lemma decode_empty_scope_device_grant:
  "dp_scope p = [] \<Longrightarrow> decode_device_grant (new_device_grant_row i t p) =
     Inl (Inconsistency ''oauth2_device_code_grant'' (Some ''scope'') (Some i))"
  by (simp add: decode_device_grant_def new_device_grant_row_def parse_scope_empty)

lemma find_by_code_Some [run_simps]:
  "find_by_code url_parse code w = (Inr (Some g), w') \<longleftrightarrow>
     w' = w \<and> (\<exists>r. List.find (\<lambda>r. og_authorization_code r = Some code)
                  (oauth2_authorization_grants (w_db w)) = Some r
                \<and> decode_grant url_parse r = Inr g)"
  by (auto simp: find_by_code_def fetch_Some)

lemma find_by_device_code_Some [run_simps]:
  "find_by_device_code code w = (Inr (Some g), w') \<longleftrightarrow>
     w' = w \<and> (\<exists>r. List.find (\<lambda>r. od_device_code r = code) (oauth2_device_code_grant (w_db w)) = Some r
                \<and> decode_device_grant r = Inr g)"
  by (auto simp: find_by_device_code_def fetch_Some)

lemma device_grant_add_Inr [run_simps]:
  "device_grant_add p w = (Inr g, w') \<longleftrightarrow>
     insert_row oauth2_device_code_grant put_device_grants
       (new_device_grant_row (next_id w) (clock_reading w) p) (after_new_id w) = (Inr (), w') \<and>
     g = new_device_grant (next_id w) (clock_reading w) p"
  by (auto simp: device_grant_add_def run_simps next_id_def after_new_id_def)

lemma grant_add_Inr [run_simps]:
  "grant_add p w = (Inr g, w') \<longleftrightarrow>
     insert_row oauth2_authorization_grants put_grants
       (new_grant_row (next_id w) (clock_reading w) p) (after_new_id w) = (Inr (), w') \<and>
     g = new_grant (next_id w) (clock_reading w) p"
  by (auto simp: grant_add_def run_simps next_id_def after_new_id_def)

lemma consistent_grant_storage [intro!]:
  "keeps consistent (find_by_code up code)"
  "keeps consistent (grant_lookup up i)"
  "keeps consistent (grant_add p)"
  "keeps consistent (grant_exchange_op g)"
  "keeps consistent (grant_fulfill_op s g)"
  "keeps consistent (find_by_device_code dc)"
  "keeps consistent (find_by_user_code dc)"
  "keeps consistent (device_grant_lookup i)"
  "keeps consistent (device_grant_add dp)"
  "keeps consistent (device_grant_exchange_op s dg)"
  "keeps consistent (device_grant_fulfill_op bs dg)"
  "keeps consistent (device_grant_reject_op bs dg)"
  unfolding find_by_code_def grant_lookup_def grant_add_def grant_exchange_op_def
    grant_fulfill_op_def find_by_device_code_def find_by_user_code_def device_grant_lookup_def
    device_grant_add_def device_grant_exchange_op_def device_grant_fulfill_op_def
    device_grant_reject_op_def
  by (auto intro!: keeps_bindE keeps_thenE)

lemma committed_grant_storage [intro!]:
  "keeps (committed_is d) (find_by_code up code)"
  "keeps (committed_is d) (grant_lookup up i)"
  "keeps (committed_is d) (grant_add p)"
  "keeps (committed_is d) (grant_exchange_op g)"
  "keeps (committed_is d) (grant_fulfill_op s g)"
  "keeps (committed_is d) (find_by_device_code dc)"
  "keeps (committed_is d) (find_by_user_code dc)"
  "keeps (committed_is d) (device_grant_lookup i)"
  "keeps (committed_is d) (device_grant_add dp)"
  "keeps (committed_is d) (device_grant_exchange_op s dg)"
  "keeps (committed_is d) (device_grant_fulfill_op bs dg)"
  "keeps (committed_is d) (device_grant_reject_op bs dg)"
  unfolding find_by_code_def grant_lookup_def grant_add_def grant_exchange_op_def
    grant_fulfill_op_def find_by_device_code_def find_by_user_code_def device_grant_lookup_def
    device_grant_add_def device_grant_exchange_op_def device_grant_fulfill_op_def
    device_grant_reject_op_def
  by (auto intro!: keeps_bindE keeps_thenE)

end
