(* ===== verification/Service_Env.thy ===== *)
theory Service_Env
  imports Token_Format Token_Storage Grant_Storage
begin

text \<open>
  What the OAuth 2.0 services share: the outside world they are given (\<open>env\<close>), the activity
  tracker, device provisioning, the ID token (\<open>generate_id_token\<close>) and the token pair
  (\<open>generate_token_pair\<close>) of \<open>crates/backend/src/handlers/oauth2/mod.rs\<close>, and the end of a request.

  \<open>env\<close> holds what the development does not define: the \<open>ulid\<close>, \<open>url\<close>, \<open>crc\<close>, \<open>sha2\<close> and
  \<open>base64ct\<close> crates, the locale parser and the template engine, the homeserver, the keystore with
  the JWT signature, the policy engine, and the configuration.
\<close>

record env =
  e_ulid_string :: "ulid \<Rightarrow> string"
  e_url_parse :: "string \<Rightarrow> string option"
  e_crc32 :: "string \<Rightarrow> u32"
  e_sha256 :: "string \<Rightarrow> u8 list"
  e_sha384 :: "string \<Rightarrow> u8 list"
  e_sha512 :: "string \<Rightarrow> u8 list"
  e_base64url :: "u8 list \<Rightarrow> string"
  e_base64url_decode :: "string \<Rightarrow> u8 list option"
  e_locale_ok :: "string \<Rightarrow> bool"
  e_device_name :: "client \<Rightarrow> string option \<Rightarrow> string \<Rightarrow> string option"
  e_upsert_ok :: "string \<Rightarrow> string \<Rightarrow> string option \<Rightarrow> bool"
  e_signer :: "string \<Rightarrow> string option"
  e_sign :: "string \<Rightarrow> string \<Rightarrow> (string \<times> json) list \<Rightarrow> rng \<Rightarrow> string option \<times> rng"
  e_policy :: "client \<Rightarrow> scope \<Rightarrow> string option \<Rightarrow> string option \<Rightarrow> bool option"
  e_issuer :: string
  e_access_token_ttl :: duration
  e_span_metadata :: json

text \<open>The \<open>S256\<close> transformation of PKCE: the unpadded base64url form of the digest.\<close>

definition s256 :: "env \<Rightarrow> string \<Rightarrow> string" where
  "s256 e v = e_base64url e (e_sha256 e v)"

section \<open>Side effects\<close>

definition record_oauth2_session :: "string option \<Rightarrow> session \<Rightarrow> ('e, unit) io" where
  "record_oauth2_session ip s w =
     (Inr (), (tick w)\<lparr>w_activity := w_activity w @ [(SK_OAuth2, s_id s, clock_reading w, ip)]\<rparr>)"

definition record_personal_session :: "string option \<Rightarrow> personal_session \<Rightarrow> ('e, unit) io" where
  "record_personal_session ip s w =
     (Inr (), (tick w)\<lparr>w_activity := w_activity w @ [(SK_Personal, ps_id s, clock_reading w, ip)]\<rparr>)"

text \<open>A call to the homeserver takes effect at once, whatever becomes of the transaction.\<close>

definition upsert_device ::
    "env \<Rightarrow> 'e \<Rightarrow> string \<Rightarrow> string \<Rightarrow> string option \<Rightarrow> ('e, unit) io" where
  "upsert_device e err username device_id display_name w =
     (if e_upsert_ok e username device_id display_name
      then (Inr (), w\<lparr>w_devices := w_devices w @ [(username, device_id, display_name)]\<rparr>)
      else (Inl err, w))"

definition provision_devices ::
    "env \<Rightarrow> 'e \<Rightarrow> user \<Rightarrow> string list \<Rightarrow> string option \<Rightarrow> ('e, unit) io" where
  "provision_devices e err u device_ids display_name =
     forE device_ids (\<lambda>device_id. upsert_device e err (u_username u) device_id display_name)"

section \<open>Tokens\<close>

definition generate_token_pair ::
    "env \<Rightarrow> session \<Rightarrow> duration \<Rightarrow> (db_error, access_token \<times> refresh_token) io" where
  "generate_token_pair e s ttl =
     bindE (draw (generate (e_crc32 e) TT_AccessToken)) (\<lambda>access_token_str.
     bindE (draw (generate (e_crc32 e) TT_RefreshToken)) (\<lambda>refresh_token_str.
     bindE (access_token_add s access_token_str (Some ttl)) (\<lambda>access_token.
     bindE (refresh_token_add s access_token refresh_token_str) (\<lambda>refresh_token.
       ret (access_token, refresh_token)))))"

datatype sha_family = Sha256 | Sha384 | Sha512

definition ends_with :: "string \<Rightarrow> string \<Rightarrow> bool" where
  "ends_with suf s = starts_with (rev suf) (rev s)"

definition sha_family_for :: "string \<Rightarrow> sha_family option" where
  "sha_family_for alg =
     (if ends_with ''256'' alg \<or> alg = ''ES256K'' then Some Sha256
      else if ends_with ''384'' alg then Some Sha384
      else if ends_with ''512'' alg \<or> alg = ''EdDSA'' \<or> alg = ''Ed25519'' then Some Sha512
      else None)"

definition hash_token :: "env \<Rightarrow> string \<Rightarrow> string \<Rightarrow> string option" where
  "hash_token e alg token =
     (case sha_family_for alg of
        None \<Rightarrow> None
      | Some Sha256 \<Rightarrow> Some (e_base64url e (take 16 (e_sha256 e token)))
      | Some Sha384 \<Rightarrow> Some (e_base64url e (take 24 (e_sha384 e token)))
      | Some Sha512 \<Rightarrow> Some (e_base64url e (take 32 (e_sha512 e token))))"

datatype id_token_error = InvalidSigningKey | TokenHashError | JwtSignatureError

text \<open>Timestamps in claims count whole seconds.\<close>

definition claim_time :: "time \<Rightarrow> json" where
  "claim_time t = JNum (t div 1000000)"

definition opt_claim :: "string \<Rightarrow> json option \<Rightarrow> (string \<times> json) list" where
  "opt_claim name v = (case v of None \<Rightarrow> [] | Some x \<Rightarrow> [(name, x)])"

definition base_claims ::
    "env \<Rightarrow> time \<Rightarrow> client \<Rightarrow> authorization_grant option \<Rightarrow> browser_session \<Rightarrow> authentication option \<Rightarrow>
     (string \<times> json) list" where
  "base_claims e at c g b last_authentication =
     [(''iss'', JStr (e_issuer e)), (''sub'', JStr (u_sub (bs_user b))),
      (''aud'', JStr (c_client_id c)), (''iat'', claim_time at),
      (''exp'', claim_time (at + 60 * 60 * 1000 * 1000))]
     @ opt_claim ''nonce'' (map_option JStr (Option.bind g ag_nonce))
     @ opt_claim ''auth_time'' (map_option (claim_time \<circ> au_created_at) last_authentication)"

definition opt_hash :: "env \<Rightarrow> string \<Rightarrow> string \<Rightarrow> string option \<Rightarrow>
    (world, id_token_error, (string \<times> json) list) exc" where
  "opt_hash e alg name token =
     (case token of
        None \<Rightarrow> ret []
      | Some t \<Rightarrow> (case hash_token e alg t of
                    None \<Rightarrow> throw TokenHashError
                  | Some h \<Rightarrow> ret [(name, JStr h)]))"

definition generate_id_token ::
    "env \<Rightarrow> client \<Rightarrow> authorization_grant option \<Rightarrow> browser_session \<Rightarrow> access_token option \<Rightarrow>
     authentication option \<Rightarrow> (id_token_error, string) io" where
  "generate_id_token e c g b access_token last_authentication =
     bindE now (\<lambda>at.
     (let alg = (case c_id_token_signed_response_alg c of None \<Rightarrow> ''RS256'' | Some a \<Rightarrow> a)
      in bindE (ok_or InvalidSigningKey (e_signer e alg)) (\<lambda>kid.
         bindE (opt_hash e alg ''at_hash'' (map_option at_access_token access_token)) (\<lambda>at_hash.
         bindE (opt_hash e alg ''c_hash''
                  (Option.bind g (\<lambda>g. map_option ac_code (ag_code g)))) (\<lambda>c_hash.
         bindE (draw (e_sign e alg kid (base_claims e at c g b last_authentication @ at_hash @ c_hash)))
           (ok_or JwtSignatureError))))))"

record access_token_response =
  ar_access_token :: string
  ar_expires_in :: "duration option"
  ar_refresh_token :: "string option"
  ar_scope :: "scope option"
  ar_id_token :: "string option"

definition access_token_response :: "string \<Rightarrow> duration \<Rightarrow> access_token_response" where
  "access_token_response token ttl =
     \<lparr>ar_access_token = token, ar_expires_in = Some ttl, ar_refresh_token = None, ar_scope = None,
      ar_id_token = None\<rparr>"

section \<open>The end of a request\<close>

text \<open>
  The handlers save the repository when the service succeeds; otherwise it is dropped, and with it
  what the service did not save itself.
\<close>

definition request :: "('e, 'a) io \<Rightarrow> ('e, 'a) io" where
  "request m w =
     (case m w of
        (Inl e, w') \<Rightarrow> (Inl e, drop_repo w')
      | (Inr x, w') \<Rightarrow> (Inr x, snd (save w' :: (unit + unit) \<times> world)))"

section \<open>Lemmas\<close>

lemma record_oauth2_session_run [run_simps]:
  "record_oauth2_session ip s w = (Inr u, w') \<longleftrightarrow>
     w' = (tick w)\<lparr>w_activity := w_activity w @ [(SK_OAuth2, s_id s, clock_reading w, ip)]\<rparr>"
  by (auto simp: record_oauth2_session_def)

lemma record_personal_session_run [run_simps]:
  "record_personal_session ip s w = (Inr u, w') \<longleftrightarrow>
     w' = (tick w)\<lparr>w_activity := w_activity w @ [(SK_Personal, ps_id s, clock_reading w, ip)]\<rparr>"
  by (auto simp: record_personal_session_def)

lemma request_Inr:
  "request m w = (Inr x, w') \<longleftrightarrow>
     (\<exists>w1. m w = (Inr x, w1) \<and> w' = w1\<lparr>w_committed := w_db w1, w_locks := []\<rparr>)"
  by (auto simp: request_def save_def split: prod.splits sum.splits)

lemma request_Inl:
  "request m w = (Inl e, w') \<longleftrightarrow>
     (\<exists>w1. m w = (Inl e, w1) \<and> w' = w1\<lparr>w_db := w_committed w1, w_locks := []\<rparr>)"
  by (auto simp: request_def drop_repo_def split: prod.splits sum.splits)

text \<open>The side effects leave the database alone.\<close>

definition same_db :: "db \<Rightarrow> world \<Rightarrow> bool" where
  "same_db d w \<longleftrightarrow> w_db w = d"

lemma same_db_effects [intro!]:
  "keeps (same_db d) now" "keeps (same_db d) (draw f)" "keeps (same_db d) (query g)"
  "keeps (same_db d) (record_oauth2_session ip s)"
  "keeps (same_db d) (record_personal_session ip ps)"
  "keeps (same_db d) (acquire_lock_for_sync user)"
  "keeps (same_db d) (upsert_device e err un di dn)"
  by (simp_all add: keeps_def same_db_def now_run draw_run query_run record_oauth2_session_def
      record_personal_session_def acquire_lock_for_sync_def upsert_device_def)

lemma same_db_provision [intro!]: "keeps (same_db d) (provision_devices e err u ids dn)"
  unfolding provision_devices_def by (auto intro!: keeps_forE)

lemma keeps_opt_hash [intro!]: "keeps P (opt_hash e alg n t)"
  by (auto simp: opt_hash_def split: option.split)

lemma same_db_id_token [intro!]: "keeps (same_db d) (generate_id_token e c g b at la)"
  unfolding generate_id_token_def Let_def by (auto intro!: keeps_bindE)

lemma committed_effects [intro!]:
  "keeps (committed_is d) (record_oauth2_session ip s)"
  "keeps (committed_is d) (record_personal_session ip ps)"
  "keeps (committed_is d) (upsert_device e err un di dn)"
  by (simp_all add: keeps_def committed_is_def record_oauth2_session_def
      record_personal_session_def upsert_device_def)

lemma committed_provision [intro!]: "keeps (committed_is d) (provision_devices e err u ids dn)"
  unfolding provision_devices_def by (auto intro!: keeps_forE)

lemma committed_id_token [intro!]: "keeps (committed_is d) (generate_id_token e c g b at la)"
  unfolding generate_id_token_def Let_def by (auto intro!: keeps_bindE)

lemma committed_token_pair [intro!]: "keeps (committed_is d) (generate_token_pair e s ttl)"
  unfolding generate_token_pair_def by (auto intro!: keeps_bindE)

lemma consistent_effects [intro!]:
  "keeps consistent (record_oauth2_session ip s)"
  "keeps consistent (record_personal_session ip ps)"
  "keeps consistent (upsert_device e err un di dn)"
  by (simp_all add: keeps_def consistent_def record_oauth2_session_def
      record_personal_session_def upsert_device_def)

lemma consistent_provision [intro!]: "keeps consistent (provision_devices e err u ids dn)"
  unfolding provision_devices_def by (auto intro!: keeps_forE)

lemma consistent_id_token [intro!]: "keeps consistent (generate_id_token e c g b at la)"
  unfolding generate_id_token_def Let_def by (auto intro!: keeps_bindE)

lemma consistent_token_pair [intro!]: "keeps consistent (generate_token_pair e s ttl)"
  unfolding generate_token_pair_def by (auto intro!: keeps_bindE)

end
