(* ===== verification/Token_Service.thy ===== *)
theory Token_Service
  imports Service_Env
begin

text \<open>
  The grants of the token endpoint: \<open>crates/backend/src/handlers/oauth2/token_service.rs\<close>. One
  definition per grant, composed of the steps of its function; every early return is an error
  value. \<open>repo.save()\<close> inside a service is \<open>save\<close>: what it commits survives the error that follows.
\<close>

section \<open>Shared checks\<close>

definition session_may_keep_admin_scope :: "env \<Rightarrow> session \<Rightarrow> (db_error, bool) io" where
  "session_may_keep_admin_scope e s =
     (if \<not> requires_admin (s_scope s) then ret True
      else bindE (case s_user_id s of
                    Some user_id \<Rightarrow> user_lookup (e_ulid_string e) user_id
                  | None \<Rightarrow> ret None) (\<lambda>user.
           ret (may_hold_admin_scope user)))"

definition record_agent :: "string option \<Rightarrow> session \<Rightarrow> (db_error, session) io" where
  "record_agent user_agent s =
     (case user_agent of None \<Rightarrow> ret s | Some ua \<Rightarrow> record_user_agent s ua)"

text \<open>Finishing a session at once: \<open>finish\<close>, then \<open>repo.save()\<close>.\<close>

definition end_session :: "(db_error \<Rightarrow> 'e) \<Rightarrow> session \<Rightarrow> ('e, unit) io" where
  "end_session err s = thenE (map_err err (oauth2_session_finish s)) save"

section \<open>Authorization code\<close>

datatype code_exchange_error =
    CE_UnauthorizedClient ulid
  | CE_GrantNotFound
  | CE_InvalidGrant ulid
  | CE_PkceVerification code_challenge_error
  | CE_BadRequest
  | CE_AdminScopeNotAllowed
  | CE_UnexpectedClient (ce_was: ulid) (ce_expected: ulid)
  | CE_NoSuchBrowserSession ulid
  | CE_NoSuchOAuthSession ulid
  | CE_ProvisionDeviceFailed
  | CE_Repository db_error
  | CE_Internal

record authorization_code_request =
  cq_code :: string
  cq_redirect_uri :: "string option"
  cq_code_verifier :: "string option"

text \<open>The code was exchanged before: past 20 seconds, the session is taken for compromised.\<close>

definition replayed_code ::
    "time \<Rightarrow> authorization_grant \<Rightarrow> ulid \<Rightarrow> time \<Rightarrow> (code_exchange_error, 'a) io" where
  "replayed_code at g session_id exchanged_at =
     thenE (whenE (at - exchanged_at > 20 * 1000 * 1000)
       (bindE (map_err CE_Repository (oauth2_session_lookup session_id)) (\<lambda>s.
        bindE (ok_or (CE_NoSuchOAuthSession session_id) s) (end_session CE_Repository))))
     (throw (CE_InvalidGrant (ag_id g)))"

definition redeem_grant :: "time \<Rightarrow> authorization_grant \<Rightarrow> (code_exchange_error, ulid) io" where
  "redeem_grant at g =
     (case ag_stage g of
        G_Cancelled _ \<Rightarrow> throw (CE_InvalidGrant (ag_id g))
      | G_Exchanged session_id _ exchanged_at \<Rightarrow> replayed_code at g session_id exchanged_at
      | G_Pending \<Rightarrow> throw (CE_InvalidGrant (ag_id g))
      | G_Fulfilled session_id fulfilled_at \<Rightarrow>
          thenE (ensure (\<not> at - fulfilled_at > 10 * 60 * 1000 * 1000) (CE_InvalidGrant (ag_id g)))
            (ret session_id))"

definition render_device_name ::
    "env \<Rightarrow> authorization_grant \<Rightarrow> client \<Rightarrow> string option \<Rightarrow> (code_exchange_error, string) io" where
  "render_device_name e g client user_agent =
     (let lang = (case ag_locale g of None \<Rightarrow> ''en'' | Some l \<Rightarrow> l)
      in thenE (ensure (e_locale_ok e lang) CE_Internal)
           (ok_or CE_Internal (e_device_name e client user_agent lang)))"

text \<open>The caller proves it owns the code: client, redirect URI and PKCE.\<close>

definition check_pkce ::
    "env \<Rightarrow> pkce option \<Rightarrow> string option \<Rightarrow> (code_exchange_error, unit) io" where
  "check_pkce e challenge verifier =
     (case (challenge, verifier) of
        (None, None) \<Rightarrow> ret ()
      | (Some p, Some v) \<Rightarrow> map_err CE_PkceVerification (of_result (pkce_verify (s256 e) p v))
      | _ \<Rightarrow> throw CE_BadRequest)"

definition check_code_owner ::
    "env \<Rightarrow> authorization_code_request \<Rightarrow> client \<Rightarrow> authorization_grant \<Rightarrow> session \<Rightarrow>
     (code_exchange_error, unit) io" where
  "check_code_owner e q client g s =
     bindE (ok_or (CE_InvalidGrant (ag_id g)) (ag_code g)) (\<lambda>code.
     thenE (ensure (c_id client = s_client_id s)
              (CE_UnexpectedClient (c_id client) (s_client_id s)))
    (thenE (ensure (cq_redirect_uri q = Some (ag_raw_redirect_uri g)) (CE_InvalidGrant (ag_id g)))
       (check_pkce e (ac_pkce code) (cq_code_verifier q))))"

definition check_code_admin :: "env \<Rightarrow> session \<Rightarrow> (code_exchange_error, unit) io" where
  "check_code_admin e s =
     bindE (map_err CE_Repository (session_may_keep_admin_scope e s)) (\<lambda>allowed.
     whenE (\<not> allowed)
       (thenE (end_session CE_Repository s) (throw CE_AdminScopeNotAllowed)))"

definition load_browser_session ::
    "env \<Rightarrow> ulid \<Rightarrow> session \<Rightarrow> (code_exchange_error, browser_session) io" where
  "load_browser_session e grant_id s =
     bindE (ok_or (CE_InvalidGrant grant_id) (s_user_session_id s)) (\<lambda>user_session_id.
     bindE (map_err CE_Repository (browser_session_lookup (e_ulid_string e) user_session_id)) (\<lambda>b.
       ok_or (CE_NoSuchBrowserSession user_session_id) b))"

definition issue_id_token ::
    "env \<Rightarrow> client \<Rightarrow> authorization_grant option \<Rightarrow> browser_session \<Rightarrow> access_token \<Rightarrow>
     authentication option \<Rightarrow> session \<Rightarrow> 'e \<Rightarrow> ('e, string option) io" where
  "issue_id_token e client g b a last_authentication s err =
     (if scope_contains (s_scope s) OPENID
      then bindE (map_err (\<lambda>_. err) (generate_id_token e client g b (Some a) last_authentication))
             (ret \<circ> Some)
      else ret None)"

definition issue_code_tokens ::
    "env \<Rightarrow> client \<Rightarrow> authorization_grant \<Rightarrow> session \<Rightarrow> browser_session \<Rightarrow>
     (code_exchange_error, access_token_response) io" where
  "issue_code_tokens e client g s b =
     bindE (map_err CE_Repository (get_last_authentication b)) (\<lambda>last_authentication.
     bindE (map_err CE_Repository (generate_token_pair e s (e_access_token_ttl e))) (\<lambda>(a, r).
     bindE (issue_id_token e client (Some g) b a last_authentication s CE_Internal) (\<lambda>id_token.
       ret ((access_token_response (at_access_token a) (e_access_token_ttl e))
              \<lparr>ar_refresh_token := Some (rt_refresh_token r), ar_scope := Some (s_scope s),
               ar_id_token := id_token\<rparr>))))"

definition finish_code_exchange ::
    "env \<Rightarrow> string option \<Rightarrow> authorization_grant \<Rightarrow> session \<Rightarrow> browser_session \<Rightarrow> string \<Rightarrow>
     (code_exchange_error, unit) io" where
  "finish_code_exchange e ip g s b device_name =
     thenE (map_err CE_Repository (acquire_lock_for_sync (bs_user b)))
    (thenE (provision_devices e CE_ProvisionDeviceFailed (bs_user b)
              (matrix_device_ids (s_scope s)) (Some device_name))
    (thenE (map_err CE_Repository (grant_exchange_op g))
       (record_oauth2_session ip s)))"

definition load_grant ::
    "env \<Rightarrow> authorization_code_request \<Rightarrow> client \<Rightarrow> (code_exchange_error, authorization_grant) io" where
  "load_grant e q client =
     thenE (ensure (GT_AuthorizationCode \<in> set (c_grant_types client))
              (CE_UnauthorizedClient (c_id client)))
    (bindE (map_err CE_Repository (find_by_code (e_url_parse e) (cq_code q))) (ok_or CE_GrantNotFound))"

definition exchange_authorization_code ::
    "env \<Rightarrow> string option \<Rightarrow> string option \<Rightarrow> authorization_code_request \<Rightarrow> client \<Rightarrow>
     (code_exchange_error, access_token_response) io" where
  "exchange_authorization_code e ip user_agent q client =
     bindE (load_grant e q client) (\<lambda>g.
     bindE now (\<lambda>at.
     bindE (redeem_grant at g) (\<lambda>session_id.
     bindE (map_err CE_Repository (oauth2_session_lookup session_id)) (\<lambda>s.
     bindE (ok_or (CE_NoSuchOAuthSession session_id) s) (\<lambda>s.
     bindE (render_device_name e g client user_agent) (\<lambda>device_name.
     bindE (map_err CE_Repository (record_agent user_agent s)) (\<lambda>s.
     thenE (check_code_owner e q client g s)
    (thenE (check_code_admin e s)
    (bindE (load_browser_session e (ag_id g) s) (\<lambda>b.
     bindE (issue_code_tokens e client g s b) (\<lambda>params.
     thenE (finish_code_exchange e ip g s b device_name)
       (ret params))))))))))))"

section \<open>Refresh token\<close>

datatype refresh_error =
    RE_UnauthorizedClient ulid
  | RE_RefreshTokenNotFound
  | RE_RefreshTokenInvalid ulid
  | RE_SessionInvalid ulid
  | RE_ClientIdMismatch (re_expected: ulid) (re_actual: ulid)
  | RE_NoSuchOAuthSession ulid
  | RE_NoSuchNextRefreshToken (re_next: ulid) (re_previous: ulid)
  | RE_NoSuchNextAccessToken (re_access_token: ulid) (re_refresh_token: ulid)
  | RE_NoAccessTokenOnRefreshToken ulid
  | RE_Repository db_error

definition load_refresh_session ::
    "string option \<Rightarrow> string \<Rightarrow> client \<Rightarrow> (refresh_error, refresh_token \<times> session) io" where
  "load_refresh_session user_agent token client =
     thenE (ensure (GT_RefreshToken \<in> set (c_grant_types client)) (RE_UnauthorizedClient (c_id client)))
    (bindE (map_err RE_Repository (refresh_token_find_by_token token)) (\<lambda>r.
     bindE (ok_or RE_RefreshTokenNotFound r) (\<lambda>r.
     bindE (map_err RE_Repository (oauth2_session_lookup (rt_session_id r))) (\<lambda>s.
     bindE (ok_or (RE_NoSuchOAuthSession (rt_session_id r)) s) (\<lambda>s.
     bindE (map_err RE_Repository (record_agent user_agent s)) (\<lambda>s.
       ret (r, s)))))))"

definition check_refresh_session :: "env \<Rightarrow> client \<Rightarrow> session \<Rightarrow> (refresh_error, unit) io" where
  "check_refresh_session e client s =
     thenE (ensure (session_is_valid (s_state s)) (RE_SessionInvalid (s_id s)))
    (bindE (map_err RE_Repository (session_may_keep_admin_scope e s)) (\<lambda>allowed.
     thenE (whenE (\<not> allowed)
              (thenE (end_session RE_Repository s) (throw (RE_SessionInvalid (s_id s)))))
       (ensure (c_id client = s_client_id s)
          (RE_ClientIdMismatch (s_client_id s) (c_id client)))))"

text \<open>
  The token was consumed before. If the tokens it was exchanged for are unused, the client lost
  them: they are revoked and new ones may be issued. Otherwise this is a replay.
\<close>

definition load_next_tokens ::
    "refresh_token \<Rightarrow> (refresh_error, refresh_token \<times> access_token) io" where
  "load_next_tokens r =
     bindE (ok_or (RE_RefreshTokenInvalid (rt_id r)) (next_refresh_token_id (rt_state r))) (\<lambda>next_id.
     bindE (map_err RE_Repository (refresh_token_lookup next_id)) (\<lambda>nr.
     bindE (ok_or (RE_NoSuchNextRefreshToken next_id (rt_id r)) nr) (\<lambda>nr.
     thenE (ensure (rt_is_valid nr) (RE_RefreshTokenInvalid (rt_id nr)))
    (bindE (ok_or (RE_NoAccessTokenOnRefreshToken (rt_id nr)) (rt_access_token_id nr)) (\<lambda>access_id.
     bindE (map_err RE_Repository (access_token_lookup access_id)) (\<lambda>na.
     bindE (ok_or (RE_NoSuchNextAccessToken access_id next_id) na) (\<lambda>na.
     thenE (ensure (\<not> at_is_used na) (RE_RefreshTokenInvalid (rt_id nr)))
       (ret (nr, na)))))))))"

definition double_refresh :: "refresh_token \<Rightarrow> (refresh_error, unit) io" where
  "double_refresh r =
     bindE (load_next_tokens r) (\<lambda>(nr, na).
     thenE (map_err RE_Repository (access_token_revoke_op na))
    (bindE (map_err RE_Repository (refresh_token_revoke_op nr)) (\<lambda>_. ret ())))"

definition revoke_old_access_token :: "refresh_token \<Rightarrow> (db_error, unit) io" where
  "revoke_old_access_token r =
     (case rt_access_token_id r of
        None \<Rightarrow> ret ()
      | Some i \<Rightarrow>
          bindE (access_token_lookup i) (\<lambda>a.
            case a of
              None \<Rightarrow> ret ()
            | Some a \<Rightarrow> whenE (\<not> at_is_revoked a)
                          (bindE (access_token_revoke_op a) (\<lambda>_. ret ()))))"

definition rotate_tokens ::
    "env \<Rightarrow> refresh_token \<Rightarrow> session \<Rightarrow> (db_error, access_token_response) io" where
  "rotate_tokens e r s =
     bindE (generate_token_pair e s (e_access_token_ttl e)) (\<lambda>(a', r').
     bindE (refresh_token_consume_op r r') (\<lambda>r.
     thenE (revoke_old_access_token r)
       (ret ((access_token_response (at_access_token a') (e_access_token_ttl e))
               \<lparr>ar_refresh_token := Some (rt_refresh_token r'), ar_scope := Some (s_scope s)\<rparr>))))"

definition handle_refresh_token ::
    "env \<Rightarrow> string option \<Rightarrow> string option \<Rightarrow> string \<Rightarrow> client \<Rightarrow>
     (refresh_error, access_token_response) io" where
  "handle_refresh_token e ip user_agent token client =
     bindE (load_refresh_session user_agent token client) (\<lambda>(r, s).
     thenE (check_refresh_session e client s)
    (thenE (whenE (\<not> rt_is_valid r) (double_refresh r))
    (thenE (record_oauth2_session ip s)
       (map_err RE_Repository (rotate_tokens e r s)))))"

section \<open>Client credentials\<close>

datatype client_credentials_error =
    CC_AdminScopeNotAllowed
  | CC_UnauthorizedClient ulid
  | CC_DeniedByPolicy
  | CC_Repository db_error
  | CC_Internal

definition check_policy ::
    "env \<Rightarrow> string option \<Rightarrow> string option \<Rightarrow> client \<Rightarrow> scope \<Rightarrow> (client_credentials_error, unit) io" where
  "check_policy e ip user_agent client sc =
     bindE (ok_or CC_Internal (e_policy e client sc ip user_agent))
       (\<lambda>allowed. ensure allowed CC_DeniedByPolicy)"

definition issue_client_token ::
    "env \<Rightarrow> string option \<Rightarrow> string option \<Rightarrow> client \<Rightarrow> scope \<Rightarrow> (db_error, access_token_response) io" where
  "issue_client_token e ip user_agent client sc =
     bindE (add_from_client_credentials client sc) (\<lambda>s.
     bindE (record_agent user_agent s) (\<lambda>s.
     bindE (draw (generate (e_crc32 e) TT_AccessToken)) (\<lambda>token.
     bindE (access_token_add s token (Some (e_access_token_ttl e))) (\<lambda>a.
     thenE (record_oauth2_session ip s)
       (ret ((access_token_response (at_access_token a) (e_access_token_ttl e))
               \<lparr>ar_scope := (if s_scope s = [] then None else Some (s_scope s))\<rparr>))))))"

definition handle_client_credentials ::
    "env \<Rightarrow> string option \<Rightarrow> string option \<Rightarrow> scope option \<Rightarrow> client \<Rightarrow>
     (client_credentials_error, access_token_response) io" where
  "handle_client_credentials e ip user_agent requested client =
     thenE (ensure (GT_ClientCredentials \<in> set (c_grant_types client))
              (CC_UnauthorizedClient (c_id client)))
     (let sc = (case requested of None \<Rightarrow> [] | Some sc \<Rightarrow> sc)
      in thenE (ensure (\<not> requires_admin sc) CC_AdminScopeNotAllowed)
        (thenE (check_policy e ip user_agent client sc)
           (map_err CC_Repository (issue_client_token e ip user_agent client sc))))"

section \<open>Device code\<close>

datatype device_exchange_error =
    DE_AdminScopeNotAllowed
  | DE_UnauthorizedClient ulid
  | DE_GrantNotFound
  | DE_ClientIdMismatch (de_expected_client: ulid) (de_actual_client: ulid)
  | DE_DeviceCodeExpired
  | DE_DeviceCodePending
  | DE_DeviceCodeRejected
  | DE_DeviceCodeExchanged
  | DE_NoSuchBrowserSession ulid
  | DE_ProvisionDeviceFailed
  | DE_Repository db_error
  | DE_Internal

definition load_device_grant ::
    "string \<Rightarrow> client \<Rightarrow> (device_exchange_error, device_code_grant) io" where
  "load_device_grant device_code client =
     thenE (ensure (GT_DeviceCode \<in> set (c_grant_types client)) (DE_UnauthorizedClient (c_id client)))
    (bindE (map_err DE_Repository (find_by_device_code device_code)) (\<lambda>g.
     bindE (ok_or DE_GrantNotFound g) (\<lambda>g.
     thenE (ensure (c_id client = dg_client_id g) (DE_ClientIdMismatch (dg_client_id g) (c_id client)))
    (bindE now (\<lambda>at.
     thenE (ensure (\<not> dg_expires_at g < at) DE_DeviceCodeExpired)
       (ret g))))))"

definition approving_session :: "device_state \<Rightarrow> (device_exchange_error, ulid) io" where
  "approving_session st =
     (case st of
        D_Pending \<Rightarrow> throw DE_DeviceCodePending
      | D_Rejected _ _ \<Rightarrow> throw DE_DeviceCodeRejected
      | D_Exchanged _ _ _ _ \<Rightarrow> throw DE_DeviceCodeExchanged
      | D_Fulfilled browser_session_id _ \<Rightarrow> ret browser_session_id)"

definition start_device_session ::
    "env \<Rightarrow> string option \<Rightarrow> client \<Rightarrow> device_code_grant \<Rightarrow> browser_session \<Rightarrow> (db_error, session) io" where
  "start_device_session e user_agent client g b =
     bindE (add_from_browser_session client b (dg_scope g)) (\<lambda>s.
     thenE (device_grant_exchange_op s g)
       (record_agent user_agent s))"

definition issue_device_tokens ::
    "env \<Rightarrow> client \<Rightarrow> session \<Rightarrow> browser_session \<Rightarrow> (device_exchange_error, access_token_response) io" where
  "issue_device_tokens e client s b =
     bindE (draw (generate (e_crc32 e) TT_AccessToken)) (\<lambda>token.
     bindE (map_err DE_Repository (access_token_add s token (Some (e_access_token_ttl e)))) (\<lambda>a.
     bindE (if GT_RefreshToken \<in> set (c_grant_types client)
            then bindE (draw (generate (e_crc32 e) TT_RefreshToken)) (\<lambda>refresh.
                 bindE (map_err DE_Repository (refresh_token_add s a refresh)) (\<lambda>r.
                   ret (Some (rt_refresh_token r))))
            else ret None) (\<lambda>refresh.
     bindE (issue_id_token e client None b a None s DE_Internal) (\<lambda>id_token.
       ret ((access_token_response (at_access_token a) (e_access_token_ttl e))
              \<lparr>ar_refresh_token := refresh, ar_id_token := id_token,
               ar_scope := (if s_scope s = [] then None else Some (s_scope s))\<rparr>)))))"

definition exchange_device_code ::
    "env \<Rightarrow> string option \<Rightarrow> string option \<Rightarrow> string \<Rightarrow> client \<Rightarrow>
     (device_exchange_error, access_token_response) io" where
  "exchange_device_code e ip user_agent device_code client =
     bindE (load_device_grant device_code client) (\<lambda>g.
     bindE (approving_session (dg_state g)) (\<lambda>browser_session_id.
     bindE (map_err DE_Repository (browser_session_lookup (e_ulid_string e) browser_session_id)) (\<lambda>b.
     bindE (ok_or (DE_NoSuchBrowserSession browser_session_id) b) (\<lambda>b.
     thenE (ensure (admin_scope_allowed (bs_user b) (dg_scope g)) DE_AdminScopeNotAllowed)
    (bindE (map_err DE_Repository (start_device_session e user_agent client g b)) (\<lambda>s.
     bindE (issue_device_tokens e client s b) (\<lambda>params.
     thenE (map_err DE_Repository (acquire_lock_for_sync (bs_user b)))
    (thenE (provision_devices e DE_ProvisionDeviceFailed (bs_user b)
              (matrix_device_ids (s_scope s)) None)
    (thenE (record_oauth2_session ip s)
       (ret params))))))))))"

section \<open>The token endpoint\<close>

text \<open>
  \<open>handle_post\<close> of \<open>crates/backend/src/handlers/oauth2/token.rs\<close>, from the authenticated client on.
\<close>

datatype token_request =
    TR_AuthorizationCode authorization_code_request
  | TR_RefreshToken string
  | TR_ClientCredentials "scope option"
  | TR_DeviceCode string
  | TR_Unsupported

datatype token_route_error =
    TE_Internal
  | TE_BadRequest
  | TE_PkceVerification code_challenge_error
  | TE_GrantNotFound
  | TE_InvalidGrant ulid
  | TE_RefreshTokenNotFound
  | TE_RefreshTokenInvalid ulid
  | TE_SessionInvalid ulid
  | TE_ClientIDMismatch (te_expected: ulid) (te_actual: ulid)
  | TE_DeniedByPolicy
  | TE_AdminScopeNotAllowed
  | TE_UnsupportedGrantType
  | TE_UnauthorizedClient ulid
  | TE_UnexpectedClient (te_was: ulid) (te_expected_client: ulid)
  | TE_NoSuchBrowserSession ulid
  | TE_NoSuchOAuthSession ulid
  | TE_NoSuchNextRefreshToken (te_next: ulid) (te_previous: ulid)
  | TE_NoSuchNextAccessToken (te_access_token: ulid) (te_refresh_token: ulid)
  | TE_NoAccessTokenOnRefreshToken ulid
  | TE_DeviceCodeExpired
  | TE_DeviceCodePending
  | TE_DeviceCodeRejected
  | TE_DeviceCodeExchanged
  | TE_ProvisionDeviceFailed

fun of_code_exchange_error :: "code_exchange_error \<Rightarrow> token_route_error" where
  "of_code_exchange_error (CE_UnauthorizedClient i) = TE_UnauthorizedClient i"
| "of_code_exchange_error CE_GrantNotFound = TE_GrantNotFound"
| "of_code_exchange_error (CE_InvalidGrant i) = TE_InvalidGrant i"
| "of_code_exchange_error (CE_PkceVerification e) = TE_PkceVerification e"
| "of_code_exchange_error CE_BadRequest = TE_BadRequest"
| "of_code_exchange_error CE_AdminScopeNotAllowed = TE_AdminScopeNotAllowed"
| "of_code_exchange_error (CE_UnexpectedClient was ex) = TE_UnexpectedClient was ex"
| "of_code_exchange_error (CE_NoSuchBrowserSession i) = TE_NoSuchBrowserSession i"
| "of_code_exchange_error (CE_NoSuchOAuthSession i) = TE_NoSuchOAuthSession i"
| "of_code_exchange_error CE_ProvisionDeviceFailed = TE_ProvisionDeviceFailed"
| "of_code_exchange_error (CE_Repository _) = TE_Internal"
| "of_code_exchange_error CE_Internal = TE_Internal"

fun of_refresh_error :: "refresh_error \<Rightarrow> token_route_error" where
  "of_refresh_error (RE_UnauthorizedClient i) = TE_UnauthorizedClient i"
| "of_refresh_error RE_RefreshTokenNotFound = TE_RefreshTokenNotFound"
| "of_refresh_error (RE_RefreshTokenInvalid i) = TE_RefreshTokenInvalid i"
| "of_refresh_error (RE_SessionInvalid i) = TE_SessionInvalid i"
| "of_refresh_error (RE_ClientIdMismatch ex ac) = TE_ClientIDMismatch ex ac"
| "of_refresh_error (RE_NoSuchOAuthSession i) = TE_NoSuchOAuthSession i"
| "of_refresh_error (RE_NoSuchNextRefreshToken n p) = TE_NoSuchNextRefreshToken n p"
| "of_refresh_error (RE_NoSuchNextAccessToken a r) = TE_NoSuchNextAccessToken a r"
| "of_refresh_error (RE_NoAccessTokenOnRefreshToken i) = TE_NoAccessTokenOnRefreshToken i"
| "of_refresh_error (RE_Repository _) = TE_Internal"

fun of_client_credentials_error :: "client_credentials_error \<Rightarrow> token_route_error" where
  "of_client_credentials_error (CC_UnauthorizedClient i) = TE_UnauthorizedClient i"
| "of_client_credentials_error CC_DeniedByPolicy = TE_DeniedByPolicy"
| "of_client_credentials_error CC_AdminScopeNotAllowed = TE_AdminScopeNotAllowed"
| "of_client_credentials_error (CC_Repository _) = TE_Internal"
| "of_client_credentials_error CC_Internal = TE_Internal"

fun of_device_exchange_error :: "device_exchange_error \<Rightarrow> token_route_error" where
  "of_device_exchange_error (DE_UnauthorizedClient i) = TE_UnauthorizedClient i"
| "of_device_exchange_error DE_GrantNotFound = TE_GrantNotFound"
| "of_device_exchange_error DE_AdminScopeNotAllowed = TE_AdminScopeNotAllowed"
| "of_device_exchange_error (DE_ClientIdMismatch ex ac) = TE_ClientIDMismatch ex ac"
| "of_device_exchange_error DE_DeviceCodeExpired = TE_DeviceCodeExpired"
| "of_device_exchange_error DE_DeviceCodePending = TE_DeviceCodePending"
| "of_device_exchange_error DE_DeviceCodeRejected = TE_DeviceCodeRejected"
| "of_device_exchange_error DE_DeviceCodeExchanged = TE_DeviceCodeExchanged"
| "of_device_exchange_error (DE_NoSuchBrowserSession i) = TE_NoSuchBrowserSession i"
| "of_device_exchange_error DE_ProvisionDeviceFailed = TE_ProvisionDeviceFailed"
| "of_device_exchange_error (DE_Repository _) = TE_Internal"
| "of_device_exchange_error DE_Internal = TE_Internal"

text \<open>The status code and the OAuth 2.0 error code of a reply.\<close>

definition render_token_error :: "token_route_error \<Rightarrow> nat \<times> string" where
  "render_token_error err =
     (case err of
        TE_Internal \<Rightarrow> (500, ''server_error'')
      | TE_NoSuchBrowserSession _ \<Rightarrow> (500, ''server_error'')
      | TE_NoSuchOAuthSession _ \<Rightarrow> (500, ''server_error'')
      | TE_ProvisionDeviceFailed \<Rightarrow> (500, ''server_error'')
      | TE_NoSuchNextRefreshToken _ _ \<Rightarrow> (500, ''server_error'')
      | TE_NoSuchNextAccessToken _ _ \<Rightarrow> (500, ''server_error'')
      | TE_NoAccessTokenOnRefreshToken _ \<Rightarrow> (500, ''server_error'')
      | TE_BadRequest \<Rightarrow> (400, ''invalid_request'')
      | TE_PkceVerification _ \<Rightarrow> (400, ''invalid_grant'')
      | TE_UnauthorizedClient _ \<Rightarrow> (401, ''unauthorized_client'')
      | TE_UnexpectedClient _ _ \<Rightarrow> (401, ''unauthorized_client'')
      | TE_DeniedByPolicy \<Rightarrow> (403, ''invalid_scope'')
      | TE_AdminScopeNotAllowed \<Rightarrow> (400, ''invalid_scope'')
      | TE_DeviceCodeRejected \<Rightarrow> (403, ''access_denied'')
      | TE_DeviceCodeExpired \<Rightarrow> (403, ''expired_token'')
      | TE_DeviceCodePending \<Rightarrow> (403, ''authorization_pending'')
      | TE_InvalidGrant _ \<Rightarrow> (400, ''invalid_grant'')
      | TE_DeviceCodeExchanged \<Rightarrow> (400, ''invalid_grant'')
      | TE_RefreshTokenNotFound \<Rightarrow> (400, ''invalid_grant'')
      | TE_RefreshTokenInvalid _ \<Rightarrow> (400, ''invalid_grant'')
      | TE_SessionInvalid _ \<Rightarrow> (400, ''invalid_grant'')
      | TE_ClientIDMismatch _ _ \<Rightarrow> (400, ''invalid_grant'')
      | TE_GrantNotFound \<Rightarrow> (400, ''invalid_grant'')
      | TE_UnsupportedGrantType \<Rightarrow> (400, ''unsupported_grant_type''))"

definition dispatch_grant ::
    "env \<Rightarrow> string option \<Rightarrow> string option \<Rightarrow> client \<Rightarrow> token_request \<Rightarrow>
     (token_route_error, access_token_response) io" where
  "dispatch_grant e ip user_agent client q =
     (case q of
        TR_AuthorizationCode g \<Rightarrow>
          map_err of_code_exchange_error (exchange_authorization_code e ip user_agent g client)
      | TR_RefreshToken token \<Rightarrow>
          map_err of_refresh_error (handle_refresh_token e ip user_agent token client)
      | TR_ClientCredentials sc \<Rightarrow>
          map_err of_client_credentials_error (handle_client_credentials e ip user_agent sc client)
      | TR_DeviceCode code \<Rightarrow>
          map_err of_device_exchange_error (exchange_device_code e ip user_agent code client)
      | TR_Unsupported \<Rightarrow> throw TE_UnsupportedGrantType)"

definition token_post ::
    "env \<Rightarrow> string option \<Rightarrow> string option \<Rightarrow> client \<Rightarrow> token_request option \<Rightarrow>
     (token_route_error, access_token_response) io" where
  "token_post e ip user_agent client form =
     request (bindE (ok_or TE_BadRequest form) (dispatch_grant e ip user_agent client))"

end
