(* ===== verification/Token_Steps.thy ===== *)
theory Token_Steps
  imports Token_Service
begin

text \<open>
  What each step of the token service does when it succeeds, and what it leaves alone. These are
  the lemmas the properties of the grants are composed from.
\<close>

section \<open>Shared checks\<close>

lemma user_lookup_run:
  "user_lookup us i w = (Inr (map_option (build_user us) (row_by_id ur_id (users (w_db w)) i)), w)"
  by (simp add: user_lookup_def fetch_def split: option.split)

definition may_keep_admin :: "db \<Rightarrow> session \<Rightarrow> bool" where
  "may_keep_admin d s \<longleftrightarrow>
     \<not> requires_admin (s_scope s) \<or>
     (case s_user_id s of
        None \<Rightarrow> False
      | Some i \<Rightarrow> (case row_by_id ur_id (users d) i of
                    None \<Rightarrow> False
                  | Some r \<Rightarrow> ur_can_request_admin r))"

lemma may_keep_admin_cong:
  "users d = users d' \<Longrightarrow> s_scope s = s_scope s' \<Longrightarrow> s_user_id s = s_user_id s' \<Longrightarrow>
     may_keep_admin d s \<longleftrightarrow> may_keep_admin d' s'"
  by (simp add: may_keep_admin_def split: option.split)

lemma admin_check_run:
  "session_may_keep_admin_scope e s w = (Inr (may_keep_admin (w_db w) s), w)"
  by (cases "s_user_id s")
    (auto simp: session_may_keep_admin_scope_def may_keep_admin_def bindE_def user_lookup_run
      may_hold_admin_scope_def build_user_def split: option.split)

text \<open>An update of session rows that may only change what is recorded about the user agent.\<close>

definition agent_update :: "(session_row \<Rightarrow> session_row) \<Rightarrow> bool" where
  "agent_update f \<longleftrightarrow> (\<forall>r. f r = r\<lparr>os_user_agent := os_user_agent (f r)\<rparr>)"

lemma agent_update_fields:
  assumes "agent_update f"
  shows "os_id (f r) = os_id r" "os_finished_at (f r) = os_finished_at r"
    "os_scope_list (f r) = os_scope_list r" "os_client_id (f r) = os_client_id r"
    "os_user_id (f r) = os_user_id r" "os_user_session_id (f r) = os_user_session_id r"
proof -
  have eq: "f r = r\<lparr>os_user_agent := os_user_agent (f r)\<rparr>"
    using assms by (simp add: agent_update_def)
  show "os_id (f r) = os_id r" "os_finished_at (f r) = os_finished_at r"
    "os_scope_list (f r) = os_scope_list r" "os_client_id (f r) = os_client_id r"
    "os_user_id (f r) = os_user_id r" "os_user_session_id (f r) = os_user_session_id r"
    by (subst eq, simp)+
qed

lemma record_agent_Inr:
  assumes "record_agent ua s w = (Inr s', w')"
  shows "s_id s' = s_id s" "s_scope s' = s_scope s" "s_state s' = s_state s"
    "s_user_id s' = s_user_id s" "s_client_id s' = s_client_id s"
    "s_user_session_id s' = s_user_session_id s"
    "\<exists>f. agent_update f
       \<and> w' = w\<lparr>w_db := (w_db w)\<lparr>oauth2_sessions := map f (oauth2_sessions (w_db w))\<rparr>\<rparr>"
proof -
  show "s_id s' = s_id s" "s_scope s' = s_scope s" "s_state s' = s_state s"
    "s_user_id s' = s_user_id s" "s_client_id s' = s_client_id s"
    "s_user_session_id s' = s_user_session_id s"
    using assms by (auto simp: record_agent_def record_user_agent_Inr split: option.splits)
  show "\<exists>f. agent_update f
       \<and> w' = w\<lparr>w_db := (w_db w)\<lparr>oauth2_sessions := map f (oauth2_sessions (w_db w))\<rparr>\<rparr>"
  proof (cases ua)
    case None
    with assms show ?thesis
      by (intro exI [of _ id]) (simp add: record_agent_def agent_update_def)
  next
    case (Some a)
    with assms show ?thesis
      by (intro exI [of _ "\<lambda>r. if os_id r = s_id s then r\<lparr>os_user_agent := Some a\<rparr> else r"])
        (auto simp: record_agent_def record_user_agent_Inr update_table_Inr upd_rows_def
          agent_update_def)
  qed
qed

text \<open>What it does to the table: the user agent of that session, when the request names one.\<close>

definition agent_rows :: "string option \<Rightarrow> ulid \<Rightarrow> session_row list \<Rightarrow> session_row list" where
  "agent_rows ua i t =
     (case ua of
        None \<Rightarrow> t
      | Some a \<Rightarrow> upd_rows (\<lambda>r. os_id r = i) (\<lambda>r. r\<lparr>os_user_agent := Some a\<rparr>) t)"

lemma record_agent_rows:
  assumes "record_agent ua s w = (Inr s', w')" "db_ok (w_db w)"
  shows "w' = w\<lparr>w_db := (w_db w)\<lparr>oauth2_sessions := agent_rows ua (s_id s) (oauth2_sessions (w_db w))\<rparr>\<rparr>"
    "db_ok (w_db w')"
  using assms
  by (auto simp: record_agent_def record_user_agent_Inr update_table_Inr agent_rows_def
      split: option.splits)

lemma end_session_Inr:
  "end_session err s w = (Inr u, w') \<longleftrightarrow>
     (\<exists>d. n_rows (\<lambda>r. os_id r = s_id s) (oauth2_sessions (w_db w)) = 1 \<and> s_state s = S_Valid
        \<and> d = (w_db w)\<lparr>oauth2_sessions := upd_rows (\<lambda>r. os_id r = s_id s)
            (finish_row (clock_reading w)) (oauth2_sessions (w_db w))\<rparr>
        \<and> db_ok d \<and> w' = (tick w)\<lparr>w_db := d, w_committed := d, w_locks := []\<rparr>)"
  by (auto simp: end_session_def oauth2_session_finish_def save_def run_simps session_finish_Inr)

section \<open>The token pair\<close>

lemma generate_fst: "well_formed_token crc t (fst (generate crc t g))"
  using generate_well_formed by (metis prod.collapse)

lemma generate_token_pair_Inr:
  assumes "generate_token_pair e s ttl w = (Inr (a, r), w')"
  shows "\<exists>arow rrow. w_db w' = (w_db w)\<lparr>
        oauth2_access_tokens := oauth2_access_tokens (w_db w) @ [arow],
        oauth2_refresh_tokens := oauth2_refresh_tokens (w_db w) @ [rrow]\<rparr>
     \<and> db_ok (w_db w') \<and> a = build_access_token arow \<and> decode_refresh_token rrow = Inr r
     \<and> oa_session_id arow = s_id s \<and> oa_revoked_at arow = None \<and> oa_first_used_at arow = None
     \<and> or_session_id rrow = s_id s \<and> or_access_token_id rrow = Some (oa_id arow)
     \<and> rt_state r = RT_Valid
     \<and> well_formed_token (e_crc32 e) TT_AccessToken (oa_access_token arow)
     \<and> well_formed_token (e_crc32 e) TT_RefreshToken (or_refresh_token rrow)"
proof -
  let ?at = "generate (e_crc32 e) TT_AccessToken (w_rng w)"
  let ?rt = "generate (e_crc32 e) TT_RefreshToken (snd ?at)"
  from assms obtain w1 w2 where
    a: "access_token_add s (fst ?at) (Some ttl) w1 = (Inr a, w2)" and w1: "w_db w1 = w_db w"
    and r: "refresh_token_add s a (fst ?rt) w2 = (Inr r, w')"
    by (auto simp: generate_token_pair_def bindE_Inr draw_run)
  show ?thesis
    using a r w1
    by (intro exI [of _ "new_access_token_row (next_id w1) (clock_reading w1) s (fst ?at) (Some ttl)"]
          exI [of _ "new_refresh_token_row (next_id w2) (clock_reading w2) s a (fst ?rt)"])
      (auto simp: access_token_add_Inr refresh_token_add_Inr insert_row_Inr new_access_token_row_def
        new_refresh_token_row_def new_refresh_token_def build_access_token_fields
        decode_refresh_token_Inr refresh_row_ok_def refresh_row_state_def generate_fst)
qed

section \<open>Authorization code\<close>

lemma load_grant_Inr:
  "load_grant e q c w = (Inr g, w') \<longleftrightarrow>
     w' = w \<and> GT_AuthorizationCode \<in> set (c_grant_types c)
     \<and> (\<exists>r. List.find (\<lambda>r. og_authorization_code r = Some (cq_code q))
               (oauth2_authorization_grants (w_db w)) = Some r
            \<and> decode_grant (e_url_parse e) r = Inr g)"
  by (auto simp: load_grant_def run_simps)

lemma redeem_grant_Inr:
  "redeem_grant at g w = (Inr i, w') \<longleftrightarrow>
     w' = w \<and> (\<exists>f. ag_stage g = G_Fulfilled i f \<and> at - f \<le> 600000000)"
  by (auto simp: redeem_grant_def replayed_code_def thenE_Inr ensure_Inr split: grant_stage.split)

lemma render_device_name_Inr: "render_device_name e g c ua w = (Inr n, w') \<Longrightarrow> w' = w"
  by (auto simp: render_device_name_def Let_def run_simps)

lemma check_pkce_Inr:
  "check_pkce e p v w = (Inr u, w') \<longleftrightarrow>
     w' = w \<and> (case (p, v) of
        (None, None) \<Rightarrow> True
      | (Some p, Some v) \<Rightarrow> pkce_verify (s256 e) p v = Inr ()
      | _ \<Rightarrow> False)"
  by (auto simp: check_pkce_def run_simps split: option.split)

lemma check_code_owner_Inr:
  "check_code_owner e q c g s w = (Inr u, w') \<longleftrightarrow>
     w' = w \<and> (\<exists>code. ag_code g = Some code \<and> c_id c = s_client_id s
        \<and> cq_redirect_uri q = Some (ag_raw_redirect_uri g)
        \<and> (case (ac_pkce code, cq_code_verifier q) of
             (None, None) \<Rightarrow> True
           | (Some p, Some v) \<Rightarrow> pkce_verify (s256 e) p v = Inr ()
           | _ \<Rightarrow> False))"
  by (auto simp: check_code_owner_def bindE_Inr thenE_Inr ok_or_Inr ensure_Inr check_pkce_Inr)

lemma check_code_admin_Inr:
  "check_code_admin e s w = (Inr u, w') \<longleftrightarrow> w' = w \<and> may_keep_admin (w_db w) s"
  by (auto simp: check_code_admin_def bindE_Inr map_err_Inr admin_check_run whenE_Inr thenE_Inr
      split: if_splits)

lemma load_browser_session_Inr:
  "load_browser_session e i s w = (Inr b, w') \<longleftrightarrow>
     w' = w \<and> (\<exists>k r u. s_user_session_id s = Some k \<and> load_session_lookup (w_db w) k = Some (r, u)
        \<and> b = build_browser_session (e_ulid_string e) r u)"
  by (auto simp: load_browser_session_def browser_session_lookup_def bindE_Inr ok_or_Inr map_err_Inr
      fetch_Some)

lemma issue_id_token_same_db: "keeps (same_db d) (issue_id_token e c g b a la s err)"
  by (auto simp: issue_id_token_def intro!: keeps_bindE keeps_map_err)

lemma same_db_Inr: "keeps (same_db (w_db w)) m \<Longrightarrow> m w = (r, w') \<Longrightarrow> w_db w' = w_db w"
  using keepsD [of "same_db (w_db w)" m w r w'] by (simp add: same_db_def)

text \<open>The rows that stand for a token pair of a session.\<close>

definition pair_rows :: "env \<Rightarrow> ulid \<Rightarrow> access_token_row \<Rightarrow> refresh_token_row \<Rightarrow> bool" where
  "pair_rows e sid arow rrow \<longleftrightarrow>
     oa_session_id arow = sid \<and> oa_revoked_at arow = None \<and> oa_first_used_at arow = None
     \<and> or_session_id rrow = sid \<and> or_access_token_id rrow = Some (oa_id arow)
     \<and> or_consumed_at rrow = None \<and> or_revoked_at rrow = None \<and> or_next_id rrow = None
     \<and> well_formed_token (e_crc32 e) TT_AccessToken (oa_access_token arow)
     \<and> well_formed_token (e_crc32 e) TT_RefreshToken (or_refresh_token rrow)"

definition add_pair :: "access_token_row \<Rightarrow> refresh_token_row \<Rightarrow> db \<Rightarrow> db" where
  "add_pair arow rrow d =
     d\<lparr>oauth2_access_tokens := oauth2_access_tokens d @ [arow],
       oauth2_refresh_tokens := oauth2_refresh_tokens d @ [rrow]\<rparr>"

lemma add_pair_fields [simp]:
  "oauth2_authorization_grants (add_pair a r d) = oauth2_authorization_grants d"
  "oauth2_sessions (add_pair a r d) = oauth2_sessions d" "users (add_pair a r d) = users d"
  "oauth2_access_tokens (add_pair a r d) = oauth2_access_tokens d @ [a]"
  "oauth2_refresh_tokens (add_pair a r d) = oauth2_refresh_tokens d @ [r]"
  "oauth2_device_code_grant (add_pair a r d) = oauth2_device_code_grant d"
  "user_sessions (add_pair a r d) = user_sessions d"
  by (simp_all add: add_pair_def)

lemma token_pair_rows:
  assumes "generate_token_pair e s ttl w = (Inr (a, r), w')"
  shows "\<exists>arow rrow. w_db w' = add_pair arow rrow (w_db w) \<and> db_ok (w_db w')
    \<and> pair_rows e (s_id s) arow rrow
    \<and> a = build_access_token arow \<and> decode_refresh_token rrow = Inr r"
proof -
  from generate_token_pair_Inr [OF assms] obtain arow rrow where rows:
    "w_db w' = (w_db w)\<lparr>oauth2_access_tokens := oauth2_access_tokens (w_db w) @ [arow],
       oauth2_refresh_tokens := oauth2_refresh_tokens (w_db w) @ [rrow]\<rparr>"
    "db_ok (w_db w')" "a = build_access_token arow" "decode_refresh_token rrow = Inr r"
    "oa_session_id arow = s_id s" "oa_revoked_at arow = None" "oa_first_used_at arow = None"
    "or_session_id rrow = s_id s" "or_access_token_id rrow = Some (oa_id arow)" "rt_state r = RT_Valid"
    "well_formed_token (e_crc32 e) TT_AccessToken (oa_access_token arow)"
    "well_formed_token (e_crc32 e) TT_RefreshToken (or_refresh_token rrow)"
    by blast
  moreover have "or_consumed_at rrow = None" "or_revoked_at rrow = None" "or_next_id rrow = None"
    using rows(4,10) decode_refresh_token_fields(4,7) [OF rows(4)]
    by (auto simp: refresh_row_state_Valid refresh_row_ok_def)
  ultimately show ?thesis
    by (intro exI [of _ arow] exI [of _ rrow]) (simp add: add_pair_def pair_rows_def)
qed

lemma issue_code_tokens_Inr:
  assumes "issue_code_tokens e c g s b w = (Inr params, w')"
  shows "\<exists>arow rrow. w_db w' = add_pair arow rrow (w_db w) \<and> pair_rows e (s_id s) arow rrow
    \<and> ar_access_token params = oa_access_token arow
    \<and> ar_refresh_token params = Some (or_refresh_token rrow) \<and> ar_scope params = Some (s_scope s)"
proof -
  from assms obtain la w1 a r w2 idt where
    la: "get_last_authentication b w = (Inr la, w1)"
    and pair: "generate_token_pair e s (e_access_token_ttl e) w1 = (Inr (a, r), w2)"
    and idt: "issue_id_token e c (Some g) b a la s CE_Internal w2 = (Inr idt, w')"
    and params: "params = (access_token_response (at_access_token a) (e_access_token_ttl e))
       \<lparr>ar_refresh_token := Some (rt_refresh_token r), ar_scope := Some (s_scope s), ar_id_token := idt\<rparr>"
    by (auto simp: issue_code_tokens_def bindE_Inr map_err_Inr)
  have "w_db w1 = w_db w"
    using la by (auto simp: get_last_authentication_def fetch_Inr)
  moreover have "w_db w' = w_db w2"
    using idt by (rule same_db_Inr [OF issue_id_token_same_db])
  moreover obtain arow rrow where "w_db w2 = add_pair arow rrow (w_db w1)"
      "pair_rows e (s_id s) arow rrow" "a = build_access_token arow" "decode_refresh_token rrow = Inr r"
    using token_pair_rows [OF pair] by blast
  ultimately show ?thesis
    using params
    by (intro exI [of _ arow] exI [of _ rrow])
      (simp add: access_token_response_def build_access_token_fields decode_refresh_token_fields(5))
qed

lemma finish_code_exchange_Inr:
  assumes "finish_code_exchange e ip g s b n w = (Inr u, w')"
  shows "\<exists>at i f. w_db w' = (w_db w)\<lparr>oauth2_authorization_grants :=
         upd_rows (\<lambda>r. og_id r = ag_id g) (exchange_grant_row at) (oauth2_authorization_grants (w_db w))\<rparr>
     \<and> db_ok (w_db w') \<and> ag_stage g = G_Fulfilled i f"
proof -
  from assms obtain w1 w2 g' w3 where
    lock: "acquire_lock_for_sync (bs_user b) w = (Inr (), w1)"
    and dev: "provision_devices e CE_ProvisionDeviceFailed (bs_user b) (matrix_device_ids (s_scope s))
        (Some n) w1 = (Inr (), w2)"
    and ex: "grant_exchange_op g w2 = (Inr g', w3)" and rec: "w_db w' = w_db w3"
    by (auto simp: finish_code_exchange_def thenE_Inr map_err_Inr record_oauth2_session_run)
  have "w_db w1 = w_db w"
    using lock by (rule same_db_Inr [OF same_db_effects(6)])
  moreover have "w_db w2 = w_db w1"
    using dev by (rule same_db_Inr [OF same_db_provision])
  ultimately show ?thesis
    using ex rec by (auto simp: grant_exchange_op_def update_then_transition_Inr grant_exchange_Inr)
qed

text \<open>
  What entitles a client to the tokens of a code, in terms of the database: a recent fulfilled
  grant of that code, of this client, with the redirect URI and the PKCE verifier that belong to it,
  and a session that may keep its scope.
\<close>

definition pkce_proved :: "env \<Rightarrow> pkce option \<Rightarrow> string option \<Rightarrow> bool" where
  "pkce_proved e challenge verifier =
     (case (challenge, verifier) of
        (None, None) \<Rightarrow> True
      | (Some p, Some v) \<Rightarrow> pkce_verify (s256 e) p v = Inr ()
      | _ \<Rightarrow> False)"

definition redeemable ::
    "env \<Rightarrow> authorization_code_request \<Rightarrow> client \<Rightarrow> db \<Rightarrow> time \<Rightarrow> authorization_grant \<Rightarrow> session \<Rightarrow> bool" where
  "redeemable e q c d at g s \<longleftrightarrow>
     GT_AuthorizationCode \<in> set (c_grant_types c)
     \<and> (\<exists>r \<in> set (oauth2_authorization_grants d).
          og_authorization_code r = Some (cq_code q) \<and> decode_grant (e_url_parse e) r = Inr g)
     \<and> (\<exists>f. ag_stage g = G_Fulfilled (s_id s) f \<and> at - f \<le> 10 * 60 * 1000 * 1000)
     \<and> store decode_session os_id (oauth2_sessions d) (s_id s) = Some s
     \<and> s_client_id s = c_id c
     \<and> cq_redirect_uri q = Some (ag_raw_redirect_uri g)
     \<and> (\<exists>code. ag_code g = Some code \<and> pkce_proved e (ac_pkce code) (cq_code_verifier q))
     \<and> may_keep_admin d s"

lemma store_Some: "row_by_id key t i = Some r \<Longrightarrow> dec r = Inr m \<Longrightarrow> store dec key t i = Some m"
  by (simp add: store_def)

lemma exchange_code_Inr:
  assumes run: "exchange_authorization_code e ip ua q c w = (Inr params, w')"
  shows "\<exists>g s at arow rrow f.
    redeemable e q c (w_db w) (clock_reading w) g s
    \<and> pair_rows e (s_id s) arow rrow
    \<and> ar_access_token params = oa_access_token arow
    \<and> ar_refresh_token params = Some (or_refresh_token rrow)
    \<and> ar_scope params = Some (s_scope s)
    \<and> w_db w' = (add_pair arow rrow (w_db w))
         \<lparr>oauth2_sessions := map f (oauth2_sessions (w_db w)),
          oauth2_authorization_grants := upd_rows (\<lambda>r. og_id r = ag_id g) (exchange_grant_row at)
            (oauth2_authorization_grants (w_db w))\<rparr>
    \<and> agent_update f \<and> db_ok (w_db w')"
proof -
  from run obtain g sid s0 w1 n s w2 b w3 where
    g: "load_grant e q c w = (Inr g, w)"
    and sid: "redeem_grant (clock_reading w) g (tick w) = (Inr sid, tick w)"
    and s0: "oauth2_session_lookup sid (tick w) = (Inr (Some s0), tick w)"
    and s: "record_agent ua s0 (tick w) = (Inr s, w1)"
    and owner: "check_code_owner e q c g s w1 = (Inr (), w1)"
    and admin: "check_code_admin e s w1 = (Inr (), w1)"
    and tok: "issue_code_tokens e c g s b w1 = (Inr params, w2)"
    and fin: "finish_code_exchange e ip g s b n w2 = (Inr (), w')"
    unfolding exchange_authorization_code_def
    by (auto simp: bindE_Inr thenE_Inr map_err_Inr ok_or_Inr now_run load_grant_Inr redeem_grant_Inr
        oauth2_session_lookup_Inr check_code_owner_Inr check_code_admin_Inr load_browser_session_Inr
        dest: render_device_name_Inr)
  note agent = record_agent_Inr [OF s]
  from agent(7) obtain f where f: "agent_update f"
    and w1': "w1 = (tick w)\<lparr>w_db := (w_db w)\<lparr>oauth2_sessions := map f (oauth2_sessions (w_db w))\<rparr>\<rparr>"
    by auto
  then have w1: "w_db w1 = (w_db w)\<lparr>oauth2_sessions := map f (oauth2_sessions (w_db w))\<rparr>"
    by simp
  from issue_code_tokens_Inr [OF tok] obtain arow rrow where
    pair: "w_db w2 = add_pair arow rrow (w_db w1)" "pair_rows e (s_id s) arow rrow"
      "ar_access_token params = oa_access_token arow"
      "ar_refresh_token params = Some (or_refresh_token rrow)" "ar_scope params = Some (s_scope s)"
    by blast
  from finish_code_exchange_Inr [OF fin] obtain at where
    ex: "w_db w' = (w_db w2)\<lparr>oauth2_authorization_grants := upd_rows (\<lambda>r. og_id r = ag_id g)
       (exchange_grant_row at) (oauth2_authorization_grants (w_db w2))\<rparr>" "db_ok (w_db w')"
    by blast
  have id: "s_id s0 = sid"
    using s0 by (auto simp: oauth2_session_lookup_Inr dest!: row_by_id_SomeD decode_session_fields(1))
  have "may_keep_admin (w_db w) s0"
    using admin may_keep_admin_cong [of "w_db w1" "w_db w" s s0] agent(2,4) w1
    by (simp add: check_code_admin_Inr)
  moreover have "store decode_session os_id (oauth2_sessions (w_db w)) sid = Some s0"
    using s0 by (auto simp: oauth2_session_lookup_Inr intro: store_Some)
  ultimately have "redeemable e q c (w_db w) (clock_reading w) g s0"
    using g sid owner agent id
    by (auto simp: redeemable_def load_grant_Inr redeem_grant_Inr check_code_owner_Inr pkce_proved_def
        dest: find_SomeD)
  then show ?thesis
    using pair ex f w1 agent
    by (intro exI [of _ g] exI [of _ s0] exI [of _ at] exI [of _ arow] exI [of _ rrow] exI [of _ f])
      (simp add: add_pair_def)
qed

section \<open>Replayed codes\<close>

lemma db_ok_sessions_map:
  assumes "\<And>r. os_id (f r) = os_id r" "\<And>r. os_user_id (f r) = os_user_id r"
    "\<And>r. os_user_session_id (f r) = os_user_session_id r" "\<And>r. os_client_id (f r) = os_client_id r"
  shows "db_ok (d\<lparr>oauth2_sessions := map f (oauth2_sessions d)\<rparr>) \<longleftrightarrow> db_ok d"
  using assms by (simp add: db_ok_def violations_defs comp_def)

lemma db_ok_finish:
  "db_ok (d\<lparr>oauth2_sessions := upd_rows p (finish_row t) (oauth2_sessions d)\<rparr>) \<longleftrightarrow> db_ok d"
  unfolding upd_rows_def by (rule db_ok_sessions_map) (simp_all add: finish_row_def)

lemma end_session_valid:
  assumes "consistent w" and "row_by_id os_id (oauth2_sessions (w_db w)) (s_id s) = Some r"
    and "s_state s = S_Valid"
  shows "end_session err s w =
    (let d = (w_db w)\<lparr>oauth2_sessions := upd_rows (\<lambda>r. os_id r = s_id s)
         (finish_row (clock_reading w)) (oauth2_sessions (w_db w))\<rparr>
     in (Inr (), (tick w)\<lparr>w_db := d, w_committed := d, w_locks := []\<rparr>))"
proof -
  have ok: "db_ok (w_db w)"
    using assms(1) by (simp add: consistent_def)
  moreover have "s_id s \<in> os_id ` set (oauth2_sessions (w_db w))"
    using row_by_id_SomeD [OF assms(2)] by (metis image_eqI)
  ultimately have "n_rows (\<lambda>r. os_id r = s_id s) (oauth2_sessions (w_db w)) = 1"
    by (simp add: n_rows_key db_ok_distinct)
  with ok assms(3) show ?thesis
    by (simp add: end_session_Inr db_ok_finish Let_def)
qed

lemma end_session_finished:
  assumes "consistent w" and "row_by_id os_id (oauth2_sessions (w_db w)) (s_id s) = Some r"
    and "s_state s = S_Finished t"
  shows "\<exists>w'. end_session err s w = (Inl (err InvalidOperation), w') \<and> w_committed w' = w_committed w"
proof -
  have ok: "db_ok (w_db w)"
    using assms(1) by (simp add: consistent_def)
  moreover have "s_id s \<in> os_id ` set (oauth2_sessions (w_db w))"
    using row_by_id_SomeD [OF assms(2)] by (metis image_eqI)
  ultimately have "n_rows (\<lambda>r. os_id r = s_id s) (oauth2_sessions (w_db w)) = 1"
    by (simp add: n_rows_key db_ok_distinct)
  with ok assms(3) show ?thesis
    by (auto simp: db_ok_finish end_session_def oauth2_session_finish_def update_then_transition_def thenE_Inl
        bindE_Inl map_err_Inl now_run update_table_Inr ensure_affected_rows_Inr
        to_invalid_operation_Inl session_finish_def)
qed

lemma exchanged_code_run:
  assumes g: "load_grant e q c w = (Inr g, w)" and st: "ag_stage g = G_Exchanged sid ft x"
    and run: "replayed_code (clock_reading w) g sid x (tick w) =
      ((Inl err, w') :: (code_exchange_error + ulid) \<times> world)"
  shows "exchange_authorization_code e ip ua q c w = (Inl err, w')"
proof -
  have "redeem_grant (clock_reading w) g (tick w) = (Inl err, w')"
    using st run by (simp add: redeem_grant_def)
  then show ?thesis
    unfolding exchange_authorization_code_def
    by (simp add: bindE_def [of "load_grant e q c"] g bindE_def [of now] now_run bindE_step_Inl)
qed

lemma replayed_recent:
  "at - x \<le> 20000000 \<Longrightarrow> replayed_code at g sid x w = (Inl (CE_InvalidGrant (ag_id g)), w)"
  by (simp add: replayed_code_def whenE_def thenE_def)

lemma replayed_old:
  assumes "20000000 < at - x" and "row_by_id os_id (oauth2_sessions (w_db w)) sid = Some r"
    and "decode_session r = Inr s"
  shows "replayed_code at g sid x w =
    (case end_session CE_Repository s w of
       (Inl e, w') \<Rightarrow> (Inl e, w') | (Inr _, w') \<Rightarrow> (Inl (CE_InvalidGrant (ag_id g)), w'))"
  using assms
  by (simp add: replayed_code_def whenE_def thenE_def bindE_def map_err_def ok_or_run
      oauth2_session_lookup_def fetch_def split: prod.split sum.split)

end
