(* ===== verification/Refresh_Rotation.thy ===== *)
theory Refresh_Rotation
  imports Token_Steps
begin

text \<open>
  Refresh token rotation: what a successful refresh does to the token tables, and the invariant
  that a session has at most one usable refresh token.
\<close>

section \<open>The steps of a refresh\<close>

lemma load_refresh_session_Inr:
  assumes run: "load_refresh_session ua token c w = (Inr (r, s), w')" and ok: "db_ok (w_db w)"
  shows "GT_RefreshToken \<in> set (c_grant_types c)"
    "\<exists>row. List.find (\<lambda>r. or_refresh_token r = token) (oauth2_refresh_tokens (w_db w)) = Some row
       \<and> decode_refresh_token row = Inr r"
    "\<exists>srow s0. row_by_id os_id (oauth2_sessions (w_db w)) (rt_session_id r) = Some srow
       \<and> decode_session srow = Inr s0 \<and> s_id s = s_id s0 \<and> s_scope s = s_scope s0
       \<and> s_state s = s_state s0 \<and> s_user_id s = s_user_id s0 \<and> s_client_id s = s_client_id s0"
    "w' = w\<lparr>w_db := (w_db w)\<lparr>oauth2_sessions := agent_rows ua (s_id s) (oauth2_sessions (w_db w))\<rparr>\<rparr>"
    "db_ok (w_db w')"
proof -
  from run obtain s0 where
    gt: "GT_RefreshToken \<in> set (c_grant_types c)"
    and r: "refresh_token_find_by_token token w = (Inr (Some r), w)"
    and s0: "oauth2_session_lookup (rt_session_id r) w = (Inr (Some s0), w)"
    and s: "record_agent ua s0 w = (Inr s, w')"
    by (auto simp: load_refresh_session_def bindE_Inr thenE_Inr map_err_Inr ok_or_Inr ensure_Inr
        refresh_token_find_Some oauth2_session_lookup_Inr)
  show "GT_RefreshToken \<in> set (c_grant_types c)" by (rule gt)
  show "\<exists>row. List.find (\<lambda>r. or_refresh_token r = token) (oauth2_refresh_tokens (w_db w)) = Some row
       \<and> decode_refresh_token row = Inr r"
    using r by (simp add: refresh_token_find_Some)
  show "\<exists>srow s0. row_by_id os_id (oauth2_sessions (w_db w)) (rt_session_id r) = Some srow
       \<and> decode_session srow = Inr s0 \<and> s_id s = s_id s0 \<and> s_scope s = s_scope s0
       \<and> s_state s = s_state s0 \<and> s_user_id s = s_user_id s0 \<and> s_client_id s = s_client_id s0"
    using s0 record_agent_Inr(1-5) [OF s] by (auto simp: oauth2_session_lookup_Inr)
  show "w' = w\<lparr>w_db := (w_db w)\<lparr>oauth2_sessions := agent_rows ua (s_id s) (oauth2_sessions (w_db w))\<rparr>\<rparr>"
    "db_ok (w_db w')"
    using record_agent_rows [OF s ok] record_agent_Inr(1) [OF s] by simp_all
qed

lemma check_refresh_session_Inr:
  "check_refresh_session e c s w = (Inr u, w') \<longleftrightarrow>
     w' = w \<and> session_is_valid (s_state s) \<and> may_keep_admin (w_db w) s \<and> c_id c = s_client_id s"
  by (auto simp: check_refresh_session_def bindE_Inr thenE_Inr map_err_Inr ensure_Inr whenE_Inr
      admin_check_run split: if_splits)

lemma load_next_tokens_Inr:
  assumes "load_next_tokens r w = (Inr (nr, na), w')"
  shows "w' = w" "next_refresh_token_id (rt_state r) = Some (rt_id nr)" "rt_is_valid nr"
    "rt_access_token_id nr = Some (at_id na)" "\<not> at_is_used na"
    "\<exists>row. row_by_id or_id (oauth2_refresh_tokens (w_db w)) (rt_id nr) = Some row
       \<and> decode_refresh_token row = Inr nr"
    "\<exists>x. row_by_id oa_id (oauth2_access_tokens (w_db w)) (at_id na) = Some x
       \<and> na = build_access_token x"
proof -
  from assms obtain i row ai arow where i: "next_refresh_token_id (rt_state r) = Some i" and w: "w' = w"
    and row: "row_by_id or_id (oauth2_refresh_tokens (w_db w)) i = Some row"
      "decode_refresh_token row = Inr nr"
    and valid: "rt_is_valid nr" and ai: "rt_access_token_id nr = Some ai"
      "row_by_id oa_id (oauth2_access_tokens (w_db w)) ai = Some arow"
    and na: "na = build_access_token arow" "\<not> at_is_used na"
    unfolding load_next_tokens_def
    by (auto simp: bindE_Inr thenE_Inr map_err_Inr ok_or_Inr ensure_Inr refresh_token_lookup_Some
        access_token_lookup_Inr)
  have "oa_id arow = ai"
    using ai by (auto dest: row_by_id_SomeD)
  moreover have "rt_id nr = i"
    using row by (auto dest!: row_by_id_SomeD decode_refresh_token_fields(1))
  ultimately show "w' = w" "next_refresh_token_id (rt_state r) = Some (rt_id nr)" "rt_is_valid nr"
    "rt_access_token_id nr = Some (at_id na)" "\<not> at_is_used na"
    "\<exists>row. row_by_id or_id (oauth2_refresh_tokens (w_db w)) (rt_id nr) = Some row
       \<and> decode_refresh_token row = Inr nr"
    "\<exists>x. row_by_id oa_id (oauth2_access_tokens (w_db w)) (at_id na) = Some x
       \<and> na = build_access_token x"
    using i w row valid ai na by (auto simp: build_access_token_fields)
qed

text \<open>Revoking one access token, unless it already is.\<close>

definition revoke_in :: "ulid option \<Rightarrow> time \<Rightarrow> access_token_row list \<Rightarrow> access_token_row list" where
  "revoke_in i t = upd_rows (\<lambda>x. Some (oa_id x) = i \<and> oa_revoked_at x = None) (revoke_access_token_row t)"

lemma revoke_in_ids [simp]: "map oa_id (revoke_in i t A) = map oa_id A"
  unfolding revoke_in_def by (rule map_upd_rows) (simp add: revoke_access_token_row_def)

lemma revoke_in_None [simp]: "revoke_in None t A = A"
  by (simp add: revoke_in_def upd_rows_def)

lemma revoke_in_append: "revoke_in i t (A @ B) = revoke_in i t A @ revoke_in i t B"
  by (simp add: revoke_in_def upd_rows_def)

lemma revoke_in_absent: "\<forall>x \<in> set A. Some (oa_id x) = i \<longrightarrow> oa_revoked_at x \<noteq> None \<Longrightarrow> revoke_in i t A = A"
  by (auto simp: revoke_in_def upd_rows_def intro!: map_idI)

lemma revoke_in_upd:
  "\<forall>x \<in> set A. oa_id x = i \<longrightarrow> oa_revoked_at x = None \<Longrightarrow>
     upd_rows (\<lambda>x. oa_id x = i) (revoke_access_token_row t) A = revoke_in (Some i) t A"
  by (auto simp: revoke_in_def upd_rows_def)

lemma revoke_access_op_in:
  assumes run: "access_token_revoke_op (build_access_token row) w = (Inr a', w')"
    and row: "row_by_id oa_id (oauth2_access_tokens (w_db w)) (oa_id row) = Some row"
    and ok: "db_ok (w_db w)"
  shows "w_db w' = (w_db w)\<lparr>oauth2_access_tokens :=
       revoke_in (Some (oa_id row)) (clock_reading w) (oauth2_access_tokens (w_db w))\<rparr>"
    "db_ok (w_db w')" "oa_revoked_at row = None"
proof -
  show free: "oa_revoked_at row = None"
    using run by (auto simp: access_token_revoke_op_def update_then_transition_Inr access_token_revoke_def
        build_access_token_def split: option.splits)
  have "x = row" if "x \<in> set (oauth2_access_tokens (w_db w))" "oa_id x = oa_id row" for x
    using that row_by_id_SomeD [OF row] db_ok_distinct(5) [OF ok] by (metis distinct_map_key_inj)
  then have "upd_rows (\<lambda>x. oa_id x = oa_id row) (revoke_access_token_row (clock_reading w))
      (oauth2_access_tokens (w_db w))
    = revoke_in (Some (oa_id row)) (clock_reading w) (oauth2_access_tokens (w_db w))"
    using free by (intro revoke_in_upd) blast
  then show "w_db w' = (w_db w)\<lparr>oauth2_access_tokens :=
       revoke_in (Some (oa_id row)) (clock_reading w) (oauth2_access_tokens (w_db w))\<rparr>"
    "db_ok (w_db w')"
    using run by (auto simp: access_token_revoke_op_def update_then_transition_Inr build_access_token_fields)
qed

text \<open>What the revocation of a lost pair and a rotation do to the tokens.\<close>

lemma double_refresh_Inr:
  assumes run: "double_refresh r w = (Inr u, w')" and ok: "db_ok (w_db w)"
  shows "\<exists>i t t' row x. next_refresh_token_id (rt_state r) = Some i
    \<and> row_by_id or_id (oauth2_refresh_tokens (w_db w)) i = Some row
    \<and> or_consumed_at row = None \<and> or_revoked_at row = None
    \<and> x \<in> set (oauth2_access_tokens (w_db w)) \<and> or_access_token_id row = Some (oa_id x)
    \<and> oa_first_used_at x = None \<and> oa_revoked_at x = None
    \<and> w_db w' = (w_db w)\<lparr>oauth2_access_tokens :=
          revoke_in (or_access_token_id row) t' (oauth2_access_tokens (w_db w)),
        oauth2_refresh_tokens := upd_rows (\<lambda>x. or_id x = i) (revoke_refresh_token_row t)
          (oauth2_refresh_tokens (w_db w))\<rparr>"
proof -
  from run obtain nr na w0 w1 a' r' where
    n: "load_next_tokens r w = (Inr (nr, na), w0)"
    and a0: "access_token_revoke_op na w0 = (Inr a', w1)"
    and r': "refresh_token_revoke_op nr w1 = (Inr r', w')"
    by (auto simp: double_refresh_def bindE_Inr thenE_Inr map_err_Inr)
  note n = load_next_tokens_Inr [OF n]
  from n(7) obtain x where x: "row_by_id oa_id (oauth2_access_tokens (w_db w)) (at_id na) = Some x"
      "na = build_access_token x"
    by blast
  from n(6) n(3) obtain row where row: "row_by_id or_id (oauth2_refresh_tokens (w_db w)) (rt_id nr) = Some row"
      "or_consumed_at row = None" "or_revoked_at row = None" "decode_refresh_token row = Inr nr"
    by (auto simp: rt_is_valid_def decode_refresh_token_Inr refresh_row_state_def split: option.splits)
  have ida: "at_id na = oa_id x" "or_access_token_id row = Some (oa_id x)"
    using x n(4) decode_refresh_token_fields(3) [OF row(4)] by (simp_all add: build_access_token_fields)
  note rev = revoke_access_op_in [OF a0 [unfolded n(1) x(2)] x(1) [unfolded ida] ok]
  have "w_db w' = (w_db w1)\<lparr>oauth2_refresh_tokens := upd_rows (\<lambda>x. or_id x = rt_id nr)
      (revoke_refresh_token_row (clock_reading w1)) (oauth2_refresh_tokens (w_db w1))\<rparr>"
    using r' by (auto simp: refresh_token_revoke_op_def update_then_transition_Inr)
  then have "w_db w' = (w_db w)\<lparr>oauth2_access_tokens := revoke_in (or_access_token_id row) (clock_reading w)
        (oauth2_access_tokens (w_db w)),
      oauth2_refresh_tokens := upd_rows (\<lambda>x. or_id x = rt_id nr)
        (revoke_refresh_token_row (clock_reading w1)) (oauth2_refresh_tokens (w_db w))\<rparr>"
    by (simp add: rev(1) ida(2))
  moreover have "x \<in> set (oauth2_access_tokens (w_db w))" "oa_first_used_at x = None"
    using row_by_id_SomeD [OF x(1)] n(5) by (simp_all add: x(2) at_is_used_def build_access_token_fields)
  ultimately show ?thesis
    using n(2) row(1-3) ida(2) rev(3) by (intro exI conjI)
qed

lemma revoke_old_access_token_Inr:
  assumes run: "revoke_old_access_token r w = (Inr u, w')" and ok: "db_ok (w_db w)"
  shows "\<exists>t. w_db w' = (w_db w)\<lparr>oauth2_access_tokens :=
        revoke_in (rt_access_token_id r) t (oauth2_access_tokens (w_db w))\<rparr> \<and> db_ok (w_db w')"
proof (cases "Option.bind (rt_access_token_id r) (row_by_id oa_id (oauth2_access_tokens (w_db w)))")
  case None
  then have "w' = w"
    using run by (auto simp: revoke_old_access_token_def bindE_Inr access_token_lookup_Inr
        split: option.splits)
  moreover have "\<forall>x \<in> set (oauth2_access_tokens (w_db w)). Some (oa_id x) \<noteq> rt_access_token_id r"
    using None by (cases "rt_access_token_id r") (auto simp: row_by_id_def find_None_iff)
  ultimately show ?thesis
    using ok by (simp add: revoke_in_absent)
next
  case (Some row)
  then obtain i where i: "rt_access_token_id r = Some i"
      "row_by_id oa_id (oauth2_access_tokens (w_db w)) i = Some row"
    by (auto simp: bind_eq_Some_conv)
  have idr: "oa_id row = i"
    using row_by_id_SomeD [OF i(2)] by simp
  show ?thesis
  proof (cases "at_is_revoked (build_access_token row)")
    case True
    then have "oa_revoked_at row \<noteq> None"
      by (auto simp: at_is_revoked_def build_access_token_def split: option.splits)
    moreover have "x = row" if "x \<in> set (oauth2_access_tokens (w_db w))" "oa_id x = i" for x
      using that row_by_id_SomeD [OF i(2)] db_ok_distinct(5) [OF ok] by (metis distinct_map_key_inj)
    ultimately have "revoke_in (Some i) t (oauth2_access_tokens (w_db w)) = oauth2_access_tokens (w_db w)" for t
      by (intro revoke_in_absent) blast
    moreover from True run i have "w' = w"
      by (auto simp: revoke_old_access_token_def bindE_Inr access_token_lookup_Inr whenE_Inr)
    ultimately show ?thesis
      using ok i by simp
  next
    case False
    with run i obtain a' where "access_token_revoke_op (build_access_token row) w = (Inr a', w')"
      by (auto simp: revoke_old_access_token_def bindE_Inr access_token_lookup_Inr whenE_Inr)
    from revoke_access_op_in [OF this _ ok] show ?thesis
      using i idr by auto
  qed
qed

lemma rotate_tokens_Inr:
  assumes "rotate_tokens e r s w = (Inr params, w')"
  shows "\<exists>arow rrow t t'. pair_rows e (s_id s) arow rrow
    \<and> ar_access_token params = oa_access_token arow
    \<and> ar_refresh_token params = Some (or_refresh_token rrow) \<and> ar_scope params = Some (s_scope s)
    \<and> w_db w' = (w_db w)\<lparr>
        oauth2_access_tokens := revoke_in (rt_access_token_id r) t' (oauth2_access_tokens (w_db w) @ [arow]),
        oauth2_refresh_tokens := upd_rows (\<lambda>x. or_id x = rt_id r) (consume_row (or_id rrow) t)
          (oauth2_refresh_tokens (w_db w) @ [rrow])\<rparr>
    \<and> db_ok (w_db w') \<and> (\<forall>x. rt_state r \<noteq> RT_Revoked x)
    \<and> n_rows (\<lambda>x. or_id x = rt_id r) (oauth2_refresh_tokens (w_db w) @ [rrow]) = 1"
proof -
  from assms obtain a' r' w1 r1 w2 where
    pair: "generate_token_pair e s (e_access_token_ttl e) w = (Inr (a', r'), w1)"
    and con: "refresh_token_consume_op r r' w1 = (Inr r1, w2)"
    and old: "revoke_old_access_token r1 w2 = (Inr (), w')"
    and params: "params = (access_token_response (at_access_token a') (e_access_token_ttl e))
       \<lparr>ar_refresh_token := Some (rt_refresh_token r'), ar_scope := Some (s_scope s)\<rparr>"
    by (auto simp: rotate_tokens_def bindE_Inr thenE_Inr)
  from token_pair_rows [OF pair] obtain arow rrow where
    rows: "w_db w1 = add_pair arow rrow (w_db w)" "pair_rows e (s_id s) arow rrow"
      "a' = build_access_token arow" "decode_refresh_token rrow = Inr r'"
    by blast
  have idr: "rt_id r' = or_id rrow" "rt_refresh_token r' = or_refresh_token rrow"
    using decode_refresh_token_fields(1,5) [OF rows(4)] by auto
  from con idr rows(1) have w2: "w_db w2 = (w_db w1)\<lparr>oauth2_refresh_tokens :=
        upd_rows (\<lambda>x. or_id x = rt_id r) (consume_row (or_id rrow) (clock_reading w1))
          (oauth2_refresh_tokens (w_db w) @ [rrow])\<rparr>"
      "db_ok (w_db w2)" "\<forall>x. rt_state r \<noteq> RT_Revoked x" "rt_access_token_id r1 = rt_access_token_id r"
      "n_rows (\<lambda>x. or_id x = rt_id r) (oauth2_refresh_tokens (w_db w) @ [rrow]) = 1"
    by (auto simp: refresh_token_consume_op_def update_then_transition_Inr refresh_token_consume_Inr)
  from revoke_old_access_token_Inr [OF old w2(2)] obtain t' where
    t': "w_db w' = (w_db w2)\<lparr>oauth2_access_tokens :=
        revoke_in (rt_access_token_id r1) t' (oauth2_access_tokens (w_db w2))\<rparr>" "db_ok (w_db w')"
    by blast
  show ?thesis
    by (intro exI [of _ arow] exI [of _ rrow] exI [of _ "clock_reading w1"] exI [of _ t'])
      (use rows idr w2 t' params in
        \<open>auto simp: add_pair_def access_token_response_def build_access_token_fields\<close>)
qed

text \<open>A refresh token that can still be used.\<close>

definition live :: "refresh_token_row \<Rightarrow> bool" where
  "live r \<longleftrightarrow> or_consumed_at r = None \<and> or_revoked_at r = None"

lemma live_decoded: "decode_refresh_token row = Inr r \<Longrightarrow> rt_is_valid r \<longleftrightarrow> live row"
  by (auto simp: rt_is_valid_def live_def decode_refresh_token_Inr refresh_row_state_Valid)

text \<open>
  The refresh tokens before the rotation: those of the table, or, when the presented token was
  consumed before, those with its unused successor revoked.
\<close>

definition lost_pair_revoked ::
    "refresh_token \<Rightarrow> refresh_token_row list \<Rightarrow> refresh_token_row list \<Rightarrow> bool" where
  "lost_pair_revoked r T T1 \<longleftrightarrow>
     (if rt_is_valid r then T1 = T
      else (\<exists>i t row. next_refresh_token_id (rt_state r) = Some i
              \<and> row_by_id or_id T i = Some row \<and> live row
              \<and> T1 = upd_rows (\<lambda>x. or_id x = i) (revoke_refresh_token_row t) T))"

text \<open>
  The access token of that successor (none when the presented token was not consumed), and that
  nobody has used or revoked it.
\<close>

definition lost_access :: "refresh_token \<Rightarrow> refresh_token_row list \<Rightarrow> ulid option" where
  "lost_access r T =
     (if rt_is_valid r then None
      else Option.bind (Option.bind (next_refresh_token_id (rt_state r)) (row_by_id or_id T))
             or_access_token_id)"

definition lost_unused :: "refresh_token \<Rightarrow> refresh_token_row list \<Rightarrow> access_token_row list \<Rightarrow> bool" where
  "lost_unused r T A \<longleftrightarrow> rt_is_valid r
     \<or> (\<exists>x \<in> set A. lost_access r T = Some (oa_id x) \<and> oa_first_used_at x = None
          \<and> oa_revoked_at x = None)"

definition may_refresh :: "client \<Rightarrow> db \<Rightarrow> string \<Rightarrow> refresh_token \<Rightarrow> session \<Rightarrow> bool" where
  "may_refresh c d token r s \<longleftrightarrow>
     GT_RefreshToken \<in> set (c_grant_types c)
     \<and> (\<exists>row \<in> set (oauth2_refresh_tokens d).
          or_refresh_token row = token \<and> decode_refresh_token row = Inr r)
     \<and> store decode_session os_id (oauth2_sessions d) (rt_session_id r) = Some s
     \<and> s_id s = rt_session_id r \<and> session_is_valid (s_state s) \<and> s_client_id s = c_id c
     \<and> may_keep_admin d s \<and> (\<forall>x. rt_state r \<noteq> RT_Revoked x)"

lemma lost_pair_Inr:
  assumes run: "whenE (\<not> rt_is_valid r) (double_refresh r) w = (Inr (), w')" and ok: "db_ok (w_db w)"
  shows "\<exists>T1 t. lost_pair_revoked r (oauth2_refresh_tokens (w_db w)) T1
    \<and> lost_unused r (oauth2_refresh_tokens (w_db w)) (oauth2_access_tokens (w_db w))
    \<and> w_db w' = (w_db w)\<lparr>oauth2_access_tokens :=
          revoke_in (lost_access r (oauth2_refresh_tokens (w_db w))) t (oauth2_access_tokens (w_db w)),
        oauth2_refresh_tokens := T1\<rparr>"
proof (cases "rt_is_valid r")
  case True
  with run show ?thesis
    by (intro exI [of _ "oauth2_refresh_tokens (w_db w)"] exI)
      (simp add: whenE_Inr lost_pair_revoked_def lost_unused_def lost_access_def)
next
  case False
  with run have "double_refresh r w = (Inr (), w')"
    by (simp add: whenE_Inr)
  from double_refresh_Inr [OF this ok] obtain i t t' row x where
    next': "next_refresh_token_id (rt_state r) = Some i"
    and row: "row_by_id or_id (oauth2_refresh_tokens (w_db w)) i = Some row"
      "or_consumed_at row = None" "or_revoked_at row = None"
    and x: "x \<in> set (oauth2_access_tokens (w_db w))" "or_access_token_id row = Some (oa_id x)"
      "oa_first_used_at x = None" "oa_revoked_at x = None"
    and w': "w_db w' = (w_db w)\<lparr>oauth2_access_tokens :=
          revoke_in (or_access_token_id row) t' (oauth2_access_tokens (w_db w)),
        oauth2_refresh_tokens := upd_rows (\<lambda>x. or_id x = i) (revoke_refresh_token_row t)
          (oauth2_refresh_tokens (w_db w))\<rparr>"
    by (elim exE conjE) (rule that)
  have lost: "lost_access r (oauth2_refresh_tokens (w_db w)) = or_access_token_id row"
    using False next' row(1) by (simp add: lost_access_def)
  then have "lost_unused r (oauth2_refresh_tokens (w_db w)) (oauth2_access_tokens (w_db w))"
    using x by (auto simp: lost_unused_def)
  moreover have "lost_pair_revoked r (oauth2_refresh_tokens (w_db w))
      (upd_rows (\<lambda>x. or_id x = i) (revoke_refresh_token_row t) (oauth2_refresh_tokens (w_db w)))"
    using False next' row by (auto simp: lost_pair_revoked_def live_def)
  ultimately show ?thesis
    using w' unfolding lost by (intro exI conjI)
qed

text \<open>
  The tables after a refresh: the session's user agent, the access token of a lost pair and the old
  access token revoked, the new pair added, the old refresh token consumed in favour of the new one.
\<close>

definition rotated ::
    "string option \<Rightarrow> refresh_token \<Rightarrow> session \<Rightarrow> refresh_token_row list \<Rightarrow> access_token_row \<Rightarrow>
     refresh_token_row \<Rightarrow> time \<Rightarrow> time \<Rightarrow> time \<Rightarrow> db \<Rightarrow> db" where
  "rotated ua r s T1 arow rrow t0 t1 t2 d =
     d\<lparr>oauth2_sessions := agent_rows ua (s_id s) (oauth2_sessions d),
       oauth2_access_tokens :=
         revoke_in (rt_access_token_id r) t2
           (revoke_in (lost_access r (oauth2_refresh_tokens d)) t0 (oauth2_access_tokens d)) @ [arow],
       oauth2_refresh_tokens :=
         upd_rows (\<lambda>x. or_id x = rt_id r) (consume_row (or_id rrow) t1) (T1 @ [rrow])\<rparr>"

lemma handle_refresh_Inr:
  assumes run: "handle_refresh_token e ip ua token c w = (Inr params, w')" and ok: "db_ok (w_db w)"
  shows "\<exists>r s arow rrow T1 t0 t1 t2. may_refresh c (w_db w) token r s
    \<and> lost_pair_revoked r (oauth2_refresh_tokens (w_db w)) T1
    \<and> lost_unused r (oauth2_refresh_tokens (w_db w)) (oauth2_access_tokens (w_db w))
    \<and> pair_rows e (s_id s) arow rrow
    \<and> ar_access_token params = oa_access_token arow
    \<and> ar_refresh_token params = Some (or_refresh_token rrow) \<and> ar_scope params = Some (s_scope s)
    \<and> w_db w' = rotated ua r s T1 arow rrow t0 t1 t2 (w_db w) \<and> db_ok (w_db w')
    \<and> n_rows (\<lambda>x. or_id x = rt_id r) (T1 @ [rrow]) = 1"
proof -
  from run obtain r s w1 w2 w3 where
    load: "load_refresh_session ua token c w = (Inr (r, s), w1)"
    and chk: "check_refresh_session e c s w1 = (Inr (), w1)"
    and dbl: "whenE (\<not> rt_is_valid r) (double_refresh r) w1 = (Inr (), w2)"
    and act: "record_oauth2_session ip s w2 = ((Inr (), w3) :: (refresh_error + unit) \<times> world)"
    and rot: "rotate_tokens e r s w3 = (Inr params, w')"
    unfolding handle_refresh_token_def
    by (auto simp: bindE_Inr thenE_Inr map_err_Inr check_refresh_session_Inr)
  from act have rec: "w_db w3 = w_db w2"
    by (simp add: record_oauth2_session_run)
  note load = load_refresh_session_Inr [OF load ok]
  from load(2) obtain row where
    row: "List.find (\<lambda>r. or_refresh_token r = token) (oauth2_refresh_tokens (w_db w)) = Some row"
      "decode_refresh_token row = Inr r"
    by blast
  from load(3) obtain srow s0 where
    srow: "row_by_id os_id (oauth2_sessions (w_db w)) (rt_session_id r) = Some srow"
      "decode_session srow = Inr s0" "s_id s = s_id s0" "s_scope s = s_scope s0"
      "s_state s = s_state s0" "s_user_id s = s_user_id s0" "s_client_id s = s_client_id s0"
    by blast
  from lost_pair_Inr [OF dbl load(5)] obtain T1 t0 where
    T1: "lost_pair_revoked r (oauth2_refresh_tokens (w_db w)) T1"
      "lost_unused r (oauth2_refresh_tokens (w_db w)) (oauth2_access_tokens (w_db w))"
      "w_db w2 = (w_db w1)\<lparr>oauth2_access_tokens := revoke_in
            (lost_access r (oauth2_refresh_tokens (w_db w))) t0 (oauth2_access_tokens (w_db w)),
          oauth2_refresh_tokens := T1\<rparr>"
    using load(4) by auto
  from rotate_tokens_Inr [OF rot] obtain arow rrow t1 t2 where
    rot': "pair_rows e (s_id s) arow rrow" "ar_access_token params = oa_access_token arow"
      "ar_refresh_token params = Some (or_refresh_token rrow)" "ar_scope params = Some (s_scope s)"
      "w_db w' = (w_db w3)\<lparr>oauth2_access_tokens :=
          revoke_in (rt_access_token_id r) t2 (oauth2_access_tokens (w_db w3) @ [arow]),
        oauth2_refresh_tokens := upd_rows (\<lambda>x. or_id x = rt_id r) (consume_row (or_id rrow) t1)
          (oauth2_refresh_tokens (w_db w3) @ [rrow])\<rparr>"
      "db_ok (w_db w')" "\<forall>x. rt_state r \<noteq> RT_Revoked x"
      "n_rows (\<lambda>x. or_id x = rt_id r) (oauth2_refresh_tokens (w_db w3) @ [rrow]) = 1"
    by (elim exE conjE) (rule that)
  have "s_id s0 = rt_session_id r"
    using srow by (auto dest!: row_by_id_SomeD decode_session_fields(1))
  moreover have "may_keep_admin (w_db w) s0"
    using chk load(4) srow may_keep_admin_cong [of "w_db w1" "w_db w" s s0]
    by (simp add: check_refresh_session_Inr)
  ultimately have "may_refresh c (w_db w) token r s0"
    using load(1) row srow chk rot'(7)
    by (auto simp: may_refresh_def check_refresh_session_Inr intro: store_Some dest: find_SomeD)
  moreover have "revoke_in (rt_access_token_id r) t2 [arow] = [arow]"
  proof -
    have "or_access_token_id row = rt_access_token_id r" "row \<in> set (oauth2_refresh_tokens (w_db w))"
      using row decode_refresh_token_fields(3) by (auto dest: find_SomeD)
    moreover have "map oa_id (oauth2_access_tokens (w_db w')) =
        map oa_id (oauth2_access_tokens (w_db w)) @ [oa_id arow]"
      using rot'(5) rec T1(3) by simp
    then have "oa_id arow \<notin> oa_id ` set (oauth2_access_tokens (w_db w))"
      using db_ok_distinct(5) [OF rot'(6)] by simp
    ultimately show ?thesis
      using db_ok_refresh_access [OF ok] by (intro revoke_in_absent) auto
  qed
  ultimately show ?thesis
    using T1 rot' srow rec load(4)
    by (intro exI [of _ r] exI [of _ s0] exI [of _ arow] exI [of _ rrow] exI [of _ T1] exI [of _ t0]
        exI [of _ t1] exI [of _ t2])
      (simp add: rotated_def revoke_in_append)
qed

section \<open>At most one usable refresh token per session\<close>

text \<open>
  \<open>one_live\<close>: a session has at most one usable refresh token. It rests on \<open>chained\<close>: a consumed
  token was exchanged for a token of the same session. A code that was not exchanged belongs to a
  session of its own (\<open>own_sessions\<close>), which has no refresh token yet (\<open>fresh_codes\<close>).
\<close>

definition one_live :: "refresh_token_row list \<Rightarrow> bool" where
  "one_live T \<longleftrightarrow>
     (\<forall>x \<in> set T. \<forall>y \<in> set T. live x \<and> live y \<and> or_session_id x = or_session_id y \<longrightarrow> or_id x = or_id y)"

definition chained :: "refresh_token_row list \<Rightarrow> bool" where
  "chained T \<longleftrightarrow>
     (\<forall>x \<in> set T. \<forall>y \<in> set T. or_next_id x = Some (or_id y) \<longrightarrow> or_session_id x = or_session_id y)"

definition own_sessions :: "grant_row list \<Rightarrow> bool" where
  "own_sessions G \<longleftrightarrow>
     (\<forall>g \<in> set G. \<forall>h \<in> set G. \<forall>i. og_session_id g = Some i \<and> og_session_id h = Some i
        \<longrightarrow> og_id g = og_id h)"

definition fresh_codes :: "grant_row list \<Rightarrow> refresh_token_row list \<Rightarrow> bool" where
  "fresh_codes G T \<longleftrightarrow>
     (\<forall>g \<in> set G. \<forall>r \<in> set T. og_session_id g = Some (or_session_id r) \<longrightarrow> og_exchanged_at g \<noteq> None)"

definition tokens_ok :: "db \<Rightarrow> bool" where
  "tokens_ok d \<longleftrightarrow>
     one_live (oauth2_refresh_tokens d) \<and> chained (oauth2_refresh_tokens d)
     \<and> own_sessions (oauth2_authorization_grants d)
     \<and> fresh_codes (oauth2_authorization_grants d) (oauth2_refresh_tokens d)"

text \<open>Rewriting rows in place: identity and session stay, no token becomes usable again.\<close>

definition narrows :: "(refresh_token_row \<Rightarrow> refresh_token_row) \<Rightarrow> bool" where
  "narrows f \<longleftrightarrow> (\<forall>r. or_id (f r) = or_id r \<and> or_session_id (f r) = or_session_id r
     \<and> (live (f r) \<longrightarrow> live r) \<and> (or_next_id (f r) = or_next_id r \<or> or_next_id (f r) = None))"

lemma narrowsD:
  assumes "narrows f"
  shows "or_id (f r) = or_id r" "or_session_id (f r) = or_session_id r" "live (f r) \<Longrightarrow> live r"
    "or_next_id (f r) = Some i \<Longrightarrow> or_next_id r = Some i"
proof -
  have "or_next_id (f r) = or_next_id r \<or> or_next_id (f r) = None"
    using assms by (simp add: narrows_def)
  then show "or_next_id (f r) = Some i \<Longrightarrow> or_next_id r = Some i"
    by auto
qed (use assms in \<open>simp_all add: narrows_def\<close>)

lemma one_live_narrows:
  assumes f: "narrows f" and "one_live T"
  shows "one_live (map f T)"
  using assms(2) by (auto simp: one_live_def narrowsD(1,2) [OF f] dest!: narrowsD(3) [OF f])

lemma chained_narrows:
  assumes f: "narrows f" and "chained T"
  shows "chained (map f T)"
  using assms(2) by (auto simp: chained_def narrowsD(1,2) [OF f] dest!: narrowsD(4) [OF f])

lemma fresh_codes_narrows:
  assumes f: "narrows f" and "fresh_codes G T"
  shows "fresh_codes G (map f T)"
  using assms(2) by (simp add: fresh_codes_def narrowsD(1,2) [OF f])

lemma narrows_revoke: "narrows (\<lambda>x. if or_id x = i then revoke_refresh_token_row t x else x)"
  by (simp add: narrows_def revoke_refresh_token_row_def live_def)

lemma lost_pair_narrows:
  assumes "lost_pair_revoked r T T1"
  shows "\<exists>f. narrows f \<and> T1 = map f T"
proof (cases "rt_is_valid r")
  case True
  with assms show ?thesis
    by (intro exI [of _ id]) (simp add: lost_pair_revoked_def narrows_def)
next
  case False
  with assms show ?thesis
    by (auto simp: lost_pair_revoked_def upd_rows_def intro: narrows_revoke)
qed

lemma one_liveD:
  "one_live T \<Longrightarrow> x \<in> set T \<Longrightarrow> y \<in> set T \<Longrightarrow> live x \<Longrightarrow> live y \<Longrightarrow>
     or_session_id x = or_session_id y \<Longrightarrow> or_id x = or_id y"
  unfolding one_live_def by blast

lemma decoded_next:
  "decode_refresh_token row = Inr r \<Longrightarrow> next_refresh_token_id (rt_state r) = Some i \<Longrightarrow>
     or_next_id row = Some i"
  by (auto simp: decode_refresh_token_def Let_def split: option.splits)

lemma revoked_live:
  assumes "x \<in> set (upd_rows (\<lambda>x. or_id x = i) (revoke_refresh_token_row t) T)" and "live x"
  shows "x \<in> set T \<and> or_id x \<noteq> i"
proof -
  from assms(1) obtain y where y: "y \<in> set T" "x = (if or_id y = i then revoke_refresh_token_row t y else y)"
    by (auto simp: upd_rows_def)
  with assms(2) show ?thesis
    by (cases "or_id y = i") (simp_all add: revoke_refresh_token_row_def live_def)
qed

text \<open>Once the presented token and its successor are out of use, the session has no usable token left.\<close>

lemma no_other_live:
  assumes ok: "one_live T" "chained T" and r: "row \<in> set T" "decode_refresh_token row = Inr r"
    and lost: "lost_pair_revoked r T T1"
    and x: "x \<in> set T1" "live x" "or_session_id x = rt_session_id r"
  shows "or_id x = rt_id r"
proof -
  have row: "or_id row = rt_id r" "or_session_id row = rt_session_id r"
    using decode_refresh_token_fields [OF r(2)] by simp_all
  show ?thesis
  proof (cases "rt_is_valid r")
    case True
    with lost x have "x \<in> set T" "live row"
      by (auto simp: lost_pair_revoked_def live_decoded [OF r(2)])
    with ok(1) r(1) x row show ?thesis
      using one_liveD [of T x row] by simp
  next
    case False
    with lost obtain i t y where y: "next_refresh_token_id (rt_state r) = Some i"
        "row_by_id or_id T i = Some y" "live y"
        "T1 = upd_rows (\<lambda>x. or_id x = i) (revoke_refresh_token_row t) T"
      by (auto simp: lost_pair_revoked_def)
    have mem: "y \<in> set T" "or_id y = i"
      using row_by_id_SomeD [OF y(2)] by auto
    moreover have "or_next_id row = Some i"
      using decoded_next [OF r(2) y(1)] .
    ultimately have "or_session_id y = rt_session_id r"
      using ok(2) r(1) row by (auto simp: chained_def)
    moreover have "x \<in> set T \<and> or_id x \<noteq> i"
      using x(1,2) revoked_live unfolding y(4) by blast
    ultimately show ?thesis
      using one_liveD [OF ok(1), of x y] mem y(3) x by simp
  qed
qed

text \<open>Rows added to the table, and the rotation as a whole.\<close>

lemma one_live_snoc:
  assumes "one_live T"
    and "\<And>x. x \<in> set T \<Longrightarrow> live x \<Longrightarrow> or_session_id x = or_session_id r \<Longrightarrow> or_id x = or_id r"
  shows "one_live (T @ [r])"
  unfolding one_live_def
proof (intro ballI impI)
  fix x y
  assume xy: "x \<in> set (T @ [r])" "y \<in> set (T @ [r])"
    and l: "live x \<and> live y \<and> or_session_id x = or_session_id y"
  from xy consider "x \<in> set T" "y \<in> set T" | "x \<in> set T" "y = r" | "x = r" "y \<in> set T" | "x = r" "y = r"
    by auto
  then show "or_id x = or_id y"
    using l one_liveD [OF assms(1), of x y] assms(2) [of x] assms(2) [of y] by cases auto
qed

lemma chained_snoc:
  assumes "chained T" and "or_next_id r = None" and "\<And>x. x \<in> set T \<Longrightarrow> or_next_id x \<noteq> Some (or_id r)"
  shows "chained (T @ [r])"
  using assms by (auto simp: chained_def)

lemma fresh_codes_snoc:
  assumes "fresh_codes G T" and "\<And>g. g \<in> set G \<Longrightarrow> og_session_id g = Some (or_session_id r) \<Longrightarrow>
    og_exchanged_at g \<noteq> None"
  shows "fresh_codes G (T @ [r])"
  using assms by (auto simp: fresh_codes_def)

lemma db_ok_next:
  "db_ok d \<Longrightarrow> x \<in> set (oauth2_refresh_tokens d) \<Longrightarrow> or_next_id x = Some i \<Longrightarrow>
     i \<in> or_id ` set (oauth2_refresh_tokens d)"
  by (simp add: db_ok_def violations_defs)

lemma snoc_fresh: "distinct (map key (t @ [r])) \<Longrightarrow> key r \<notin> key ` set t"
  by auto

abbreviation consume_rows ::
    "ulid \<Rightarrow> ulid \<Rightarrow> time \<Rightarrow> refresh_token_row list \<Rightarrow> refresh_token_row list" where
  "consume_rows i n t \<equiv> upd_rows (\<lambda>x. or_id x = i) (consume_row n t)"

lemma consumed_row:
  assumes "x \<in> set (consume_rows i n t T)"
  obtains y where "y \<in> set T" "or_id x = or_id y" "or_session_id x = or_session_id y"
    "live x \<longleftrightarrow> live y \<and> or_id y \<noteq> i" "or_next_id x = (if or_id y = i then Some n else or_next_id y)"
proof -
  from assms obtain y where y: "y \<in> set T" "x = (if or_id y = i then consume_row n t y else y)"
    by (auto simp: upd_rows_def)
  show ?thesis
    by (rule that [of y]) (use y in \<open>auto simp: consume_row_def live_def\<close>)
qed

lemma one_live_consume:
  assumes "one_live T"
  shows "one_live (consume_rows i n t T)"
  unfolding one_live_def
proof (intro ballI impI)
  fix x y
  assume "x \<in> set (consume_rows i n t T)" "y \<in> set (consume_rows i n t T)"
    and l: "live x \<and> live y \<and> or_session_id x = or_session_id y"
  then obtain x' y' where "x' \<in> set T" "or_id x = or_id x'" "or_session_id x = or_session_id x'"
      "live x \<longleftrightarrow> live x' \<and> or_id x' \<noteq> i" "y' \<in> set T" "or_id y = or_id y'"
      "or_session_id y = or_session_id y'" "live y \<longleftrightarrow> live y' \<and> or_id y' \<noteq> i"
    by (metis consumed_row)
  with l show "or_id x = or_id y"
    using one_liveD [OF assms, of x' y'] by simp
qed

lemma chained_consume:
  assumes "chained T" and "\<And>x y. x \<in> set T \<Longrightarrow> y \<in> set T \<Longrightarrow> or_id x = i \<Longrightarrow> or_id y = n \<Longrightarrow>
    or_session_id x = or_session_id y"
  shows "chained (consume_rows i n t T)"
  unfolding chained_def
proof (intro ballI impI)
  fix x y
  assume mem: "x \<in> set (consume_rows i n t T)" "y \<in> set (consume_rows i n t T)"
    and nx: "or_next_id x = Some (or_id y)"
  from mem(1) obtain x' where x: "x' \<in> set T" "or_session_id x = or_session_id x'"
      "or_next_id x = (if or_id x' = i then Some n else or_next_id x')"
    by (rule consumed_row)
  from mem(2) obtain y' where y: "y' \<in> set T" "or_id y = or_id y'" "or_session_id y = or_session_id y'"
    by (rule consumed_row)
  show "or_session_id x = or_session_id y"
  proof (cases "or_id x' = i")
    case True
    with nx x y have "n = or_id y'" by simp
    with True x y assms(2) [of x' y'] show ?thesis by simp
  next
    case False
    with nx x y have "or_next_id x' = Some (or_id y')" by simp
    with assms(1) x y show ?thesis by (auto simp: chained_def)
  qed
qed

lemma fresh_codes_consume: "fresh_codes G T \<Longrightarrow> fresh_codes G (consume_rows i n t T)"
  unfolding fresh_codes_def by (metis consumed_row)

text \<open>A rotation keeps the invariant.\<close>

lemma rotation_keeps:
  assumes ok: "db_ok d" "tokens_ok d" and may: "may_refresh c d token r s"
    and lost: "lost_pair_revoked r (oauth2_refresh_tokens d) T1"
    and row: "or_session_id rrow = s_id s" "or_next_id rrow = None"
    and dist: "distinct (map or_id (T1 @ [rrow]))"
    and one: "n_rows (\<lambda>x. or_id x = rt_id r) (T1 @ [rrow]) = 1"
    and T: "T = consume_rows (rt_id r) (or_id rrow) t (T1 @ [rrow])"
  shows "one_live T \<and> chained T \<and> fresh_codes (oauth2_authorization_grants d) T"
proof -
  let ?T = "oauth2_refresh_tokens d"
  obtain f where f: "narrows f" "T1 = map f ?T"
    using lost_pair_narrows [OF lost] by blast
  from may obtain r0 where r0: "r0 \<in> set ?T" "decode_refresh_token r0 = Inr r" "s_id s = rt_session_id r"
    by (auto simp: may_refresh_def)
  have r0': "or_id r0 = rt_id r" "or_session_id r0 = rt_session_id r"
    using decode_refresh_token_fields [OF r0(2)] by simp_all
  have ok': "one_live ?T" "chained ?T" "fresh_codes (oauth2_authorization_grants d) ?T"
    using ok(2) by (simp_all add: tokens_ok_def)
  have new: "or_id rrow \<notin> or_id ` set T1"
    using snoc_fresh [OF dist] .
  have ids: "or_id ` set T1 = or_id ` set ?T"
    by (simp add: f(2) image_image narrowsD(1) [OF f(1)])
  have r1: "or_id rrow \<noteq> rt_id r"
    using new ids r0(1) r0'(1) by (metis image_eqI)
  have split: "T = consume_rows (rt_id r) (or_id rrow) t T1 @ [rrow]"
    using T r1 by (simp add: upd_rows_def)
  have "one_live T"
    unfolding split
  proof (rule one_live_snoc)
    show "one_live (consume_rows (rt_id r) (or_id rrow) t T1)"
      using one_live_consume [OF one_live_narrows [OF f(1) ok'(1)]] by (simp add: f(2))
    fix x
    assume x: "x \<in> set (consume_rows (rt_id r) (or_id rrow) t T1)" "live x"
      "or_session_id x = or_session_id rrow"
    then obtain y where y: "y \<in> set T1" "or_session_id y = rt_session_id r" "live y" "or_id y \<noteq> rt_id r"
      using row r0(3) by (metis consumed_row)
    with no_other_live [OF ok'(1,2) r0(1,2) lost y(1)] show "or_id x = or_id rrow"
      by simp
  qed
  moreover have "chained T"
    unfolding T
  proof (rule chained_consume)
    show "chained (T1 @ [rrow])"
    proof (rule chained_snoc)
      fix x
      assume "x \<in> set T1"
      then obtain y where y: "y \<in> set ?T" "x = f y"
        by (auto simp: f(2))
      show "or_next_id x \<noteq> Some (or_id rrow)"
        using narrowsD(4) [OF f(1), of y "or_id rrow"] db_ok_next [OF ok(1) y(1)] new ids y(2) by metis
    qed (use chained_narrows [OF f(1) ok'(2)] f(2) row in simp_all)
    fix x y
    assume xy: "x \<in> set (T1 @ [rrow])" "y \<in> set (T1 @ [rrow])" "or_id x = rt_id r" "or_id y = or_id rrow"
    with r1 new have "x \<in> set T1" "y = rrow"
      by (auto simp: image_iff)
    then have "or_session_id x = rt_session_id r"
      using f r0 r0' xy(3) narrowsD(1,2) [OF f(1)] db_ok_distinct(7) [OF ok(1)]
      by (metis (no_types, lifting) distinct_map_key_inj imageE set_map)
    then show "or_session_id x = or_session_id y"
      using row(1) r0(3) \<open>y = rrow\<close> by simp
  qed
  moreover have "fresh_codes (oauth2_authorization_grants d) T"
    unfolding T
  proof (rule fresh_codes_consume, rule fresh_codes_snoc)
    show "fresh_codes (oauth2_authorization_grants d) T1"
      using fresh_codes_narrows [OF f(1) ok'(3)] by (simp add: f(2))
    fix g
    assume "g \<in> set (oauth2_authorization_grants d)" "og_session_id g = Some (or_session_id rrow)"
    then show "og_exchanged_at g \<noteq> None"
      using ok'(3) r0(1,3) r0'(2) row(1) unfolding fresh_codes_def by metis
  qed
  ultimately show ?thesis
    by simp
qed

end
