(* ===== verification/User_Storage.thy ===== *)
theory User_Storage
  imports Session_Storage
begin

text \<open>
  The user repository, \<open>crates/data/src/pg/user/mod.rs\<close>: registration of a user name, the patch
  that all profile and state changes go through, locking, deactivation and the listings.

  \<open>lower\<close> is PostgreSQL's \<open>lower\<close> and \<open>to_lowercase\<close> Rust's, \<open>ilike\<close> the SQL pattern match.
\<close>

abbreviation put_users :: "user_row list \<Rightarrow> db \<Rightarrow> db" where
  "put_users t d \<equiv> d\<lparr>users := t\<rparr>"

section \<open>Patches\<close>

record user_patch =
  up_display_name :: "string option option"
  up_avatar_url :: "string option option"
  up_preferred_locale :: "string option option"
  up_can_request_admin :: "bool option"
  up_locked :: "bool option"
  up_deactivated :: "bool option"

definition empty_patch :: user_patch where
  "empty_patch =
     \<lparr>up_display_name = None, up_avatar_url = None, up_preferred_locale = None,
      up_can_request_admin = None, up_locked = None, up_deactivated = None\<rparr>"

definition user_patch_is_empty :: "user_patch \<Rightarrow> bool" where
  "user_patch_is_empty p \<longleftrightarrow>
     up_display_name p = None \<and> up_avatar_url p = None \<and> up_preferred_locale p = None
     \<and> up_can_request_admin p = None \<and> up_locked p = None \<and> up_deactivated p = None"

record user_profile_patch =
  pp_display_name :: "string option option"
  pp_avatar_url :: "string option option"
  pp_preferred_locale :: "string option option"

definition of_profile_patch :: "user_profile_patch \<Rightarrow> user_patch" where
  "of_profile_patch p =
     empty_patch\<lparr>up_display_name := pp_display_name p, up_avatar_url := pp_avatar_url p,
       up_preferred_locale := pp_preferred_locale p\<rparr>"

text \<open>One optional assignment of \<open>patch\<close>: the value and the flag \<open>changed\<close>.\<close>

definition assign :: "'a option \<Rightarrow> ('a \<Rightarrow> user \<Rightarrow> user) \<Rightarrow> user \<times> bool \<Rightarrow> user \<times> bool" where
  "assign x f = (\<lambda>(u, changed). case x of None \<Rightarrow> (u, changed) | Some y \<Rightarrow> (f y u, True))"

text \<open>The state flags keep an instant that is already set, and count only as a change if it moves.\<close>

definition next_instant :: "time \<Rightarrow> bool \<Rightarrow> time option \<Rightarrow> time option" where
  "next_instant at flag current =
     (if flag then (case current of None \<Rightarrow> Some at | Some t \<Rightarrow> Some t) else None)"

definition flag ::
    "time \<Rightarrow> bool option \<Rightarrow> (user \<Rightarrow> time option) \<Rightarrow> (time option \<Rightarrow> user \<Rightarrow> user) \<Rightarrow>
     user \<times> bool \<Rightarrow> user \<times> bool" where
  "flag at x get set_to = (\<lambda>(u, changed).
     case x of
       None \<Rightarrow> (u, changed)
     | Some b \<Rightarrow>
         (let t = next_instant at b (get u)
          in if get u \<noteq> t then (set_to t u, True) else (u, changed)))"

definition apply_patch :: "time \<Rightarrow> user_patch \<Rightarrow> user \<Rightarrow> user \<times> bool" where
  "apply_patch at p u =
     (flag at (up_deactivated p) u_deactivated_at (\<lambda>t u. u\<lparr>u_deactivated_at := t\<rparr>)
       (flag at (up_locked p) u_locked_at (\<lambda>t u. u\<lparr>u_locked_at := t\<rparr>)
         (assign (up_can_request_admin p) (\<lambda>b u. u\<lparr>u_can_request_admin := b\<rparr>)
           (assign (up_preferred_locale p) (\<lambda>x u. u\<lparr>u_preferred_locale := x\<rparr>)
             (assign (up_avatar_url p) (\<lambda>x u. u\<lparr>u_avatar_url := x\<rparr>)
               (assign (up_display_name p) (\<lambda>x u. u\<lparr>u_display_name := x\<rparr>) (u, False)))))))"

definition write_user :: "user \<Rightarrow> user_row \<Rightarrow> user_row" where
  "write_user u r =
     r\<lparr>ur_updated_at := u_updated_at u, ur_locked_at := u_locked_at u,
       ur_deactivated_at := u_deactivated_at u, ur_can_request_admin := u_can_request_admin u,
       ur_display_name := u_display_name u, ur_avatar_url := u_avatar_url u,
       ur_preferred_locale := u_preferred_locale u\<rparr>"

definition update_user :: "user \<Rightarrow> (user_row \<Rightarrow> user_row) \<Rightarrow> (db_error, user) io" where
  "update_user u f =
     bindE (update_table users put_users (\<lambda>r. ur_id r = u_id u) f) (\<lambda>rows_affected.
     thenE (ensure_affected_rows rows_affected 1)
       (ret u))"

definition user_patch_op :: "user \<Rightarrow> user_patch \<Rightarrow> (db_error, user) io" where
  "user_patch_op u p =
     (if user_patch_is_empty p then ret u
      else bindE now (\<lambda>at.
        (let (u', changed) = apply_patch at p u
         in if \<not> changed then ret u'
            else (let u'' = u'\<lparr>u_updated_at := at\<rparr> in update_user u'' (write_user u'')))))"

definition user_update_profile :: "user \<Rightarrow> user_profile_patch \<Rightarrow> (db_error, user) io" where
  "user_update_profile u p = user_patch_op u (of_profile_patch p)"

section \<open>Registration and lookup by name\<close>

definition new_user_row :: "ulid \<Rightarrow> time \<Rightarrow> string \<Rightarrow> user_row" where
  "new_user_row i created_at username =
     \<lparr>ur_id = i, ur_username = username, ur_created_at = created_at, ur_updated_at = created_at,
      ur_locked_at = None, ur_deactivated_at = None, ur_can_request_admin = False,
      ur_is_guest = False, ur_display_name = None, ur_avatar_url = None,
      ur_preferred_locale = None\<rparr>"

text \<open>\<open>INSERT .. ON CONFLICT (username) DO NOTHING\<close>.\<close>

definition insert_user :: "user_row \<Rightarrow> (db_error, nat) io" where
  "insert_user r =
     execute (\<lambda>d. if ur_username r \<in> ur_username ` set (users d) then (0, d)
                  else (1, put_users (users d @ [r]) d))"

definition user_add :: "(ulid \<Rightarrow> string) \<Rightarrow> string \<Rightarrow> (db_error, user) io" where
  "user_add ulid_string username =
     bindE now (\<lambda>created_at.
     bindE (draw_id created_at) (\<lambda>i.
     bindE (insert_user (new_user_row i created_at username)) (\<lambda>rows_affected.
     thenE (ensure_affected_rows rows_affected 1)
       (ret (build_user ulid_string (new_user_row i created_at username))))))"

definition find_by_username ::
    "(string \<Rightarrow> string) \<Rightarrow> (string \<Rightarrow> string) \<Rightarrow> (ulid \<Rightarrow> string) \<Rightarrow> string \<Rightarrow> (db_error, user option) io" where
  "find_by_username lower to_lowercase ulid_string username =
     query (\<lambda>d.
       case filter (\<lambda>r. lower (ur_username r) = to_lowercase username) (users d) of
         [r] \<Rightarrow> Some (build_user ulid_string r)
       | rs \<Rightarrow> map_option (build_user ulid_string) (List.find (\<lambda>r. ur_username r = username) rs))"

definition user_exists :: "(string \<Rightarrow> string) \<Rightarrow> (string \<Rightarrow> string) \<Rightarrow> string \<Rightarrow> (db_error, bool) io" where
  "user_exists lower to_lowercase username =
     query (\<lambda>d. list_ex (\<lambda>r. lower (ur_username r) = to_lowercase username) (users d))"

section \<open>Locking, deactivation and the admin flag\<close>

definition user_lock :: "user \<Rightarrow> (db_error, user) io" where
  "user_lock u =
     (if u_locked_at u \<noteq> None then ret u
      else user_patch_op u (empty_patch\<lparr>up_locked := Some True\<rparr>))"

definition user_unlock :: "user \<Rightarrow> (db_error, user) io" where
  "user_unlock u =
     (if u_locked_at u = None then ret u
      else bindE now (\<lambda>at.
        update_user (u\<lparr>u_locked_at := None, u_updated_at := at\<rparr>)
          (\<lambda>r. r\<lparr>ur_locked_at := None, ur_updated_at := at\<rparr>)))"

definition user_deactivate :: "user \<Rightarrow> (db_error, user) io" where
  "user_deactivate u =
     (if u_deactivated_at u \<noteq> None then ret u
      else user_patch_op u (empty_patch\<lparr>up_deactivated := Some True\<rparr>))"

definition user_reactivate :: "user \<Rightarrow> (db_error, user) io" where
  "user_reactivate u =
     (if u_deactivated_at u = None then ret u
      else bindE now (\<lambda>at.
        update_user (u\<lparr>u_deactivated_at := None, u_updated_at := at\<rparr>)
          (\<lambda>r. r\<lparr>ur_deactivated_at := None, ur_updated_at := at\<rparr>)))"

definition set_can_request_admin :: "user \<Rightarrow> bool \<Rightarrow> (db_error, user) io" where
  "set_can_request_admin u b =
     bindE now (\<lambda>at.
       update_user (u\<lparr>u_can_request_admin := b, u_updated_at := at\<rparr>)
         (\<lambda>r. r\<lparr>ur_can_request_admin := b, ur_updated_at := at\<rparr>))"

section \<open>Listing\<close>

datatype user_state = US_Deactivated | US_Locked | US_Active

record user_filter =
  xf_state :: "user_state option"
  xf_can_request_admin :: "bool option"
  xf_is_guest :: "bool option"
  xf_search :: "string option"

fun user_state_matches :: "user_row \<Rightarrow> user_state \<Rightarrow> bool" where
  "user_state_matches r US_Deactivated = (ur_deactivated_at r \<noteq> None)"
| "user_state_matches r US_Locked = (ur_locked_at r \<noteq> None)"
| "user_state_matches r US_Active = (ur_locked_at r = None \<and> ur_deactivated_at r = None)"

definition user_filter_matches :: "(string \<Rightarrow> string \<Rightarrow> bool) \<Rightarrow> user_filter \<Rightarrow> user_row \<Rightarrow> bool" where
  "user_filter_matches ilike f r \<longleftrightarrow>
     opt_filter (xf_state f) (user_state_matches r)
     \<and> opt_filter (xf_can_request_admin f) (\<lambda>b. ur_can_request_admin r = b)
     \<and> opt_filter (xf_is_guest f) (\<lambda>b. ur_is_guest r = b)
     \<and> opt_filter (xf_search f) (\<lambda>s. ilike (ur_username r) (''%'' @ s @ ''%''))"

definition user_list ::
    "(string \<Rightarrow> string \<Rightarrow> bool) \<Rightarrow> (ulid \<Rightarrow> string) \<Rightarrow> user_filter \<Rightarrow> pagination \<Rightarrow>
     (db_error, user page) io" where
  "user_list ilike ulid_string f p =
     query (\<lambda>d. page_map (build_user ulid_string)
       (list_page ur_id p (filter (user_filter_matches ilike f) (users d))))"

definition user_count :: "(string \<Rightarrow> string \<Rightarrow> bool) \<Rightarrow> user_filter \<Rightarrow> (db_error, nat) io" where
  "user_count ilike f = query (\<lambda>d. length (filter (user_filter_matches ilike f) (users d)))"

section \<open>Lemmas\<close>

interpretation user_store: repository users put_users ur_id "Inr \<circ> build_user us" u_id for us
  by unfold_locales (auto simp: build_user_def dest: db_ok_distinct)

lemma build_user_fields [simp]:
  "u_id (build_user us r) = ur_id r" "u_username (build_user us r) = ur_username r"
  "u_sub (build_user us r) = us (ur_id r)" "u_created_at (build_user us r) = ur_created_at r"
  "u_updated_at (build_user us r) = ur_updated_at r" "u_locked_at (build_user us r) = ur_locked_at r"
  "u_deactivated_at (build_user us r) = ur_deactivated_at r"
  "u_can_request_admin (build_user us r) = ur_can_request_admin r"
  by (simp_all add: build_user_def)

text \<open>Writing the columns of a user back over its own row stores that user.\<close>

lemma build_write_user:
  assumes "build_user us r = u" "u_id v = u_id u" "u_username v = u_username u" "u_sub v = u_sub u"
    "u_created_at v = u_created_at u" "u_is_guest v = u_is_guest u"
  shows "build_user us (write_user v r) = v"
  using assms by (auto simp: build_user_def write_user_def)

lemma step_keeps:
  "(\<And>y u. get (f y u) = get u) \<Longrightarrow> get (fst (assign x f s)) = get (fst s)"
  "(\<And>y u. get (h y u) = get u) \<Longrightarrow> get (fst (flag at b g h s)) = get (fst s)"
  by (simp_all add: assign_def flag_def Let_def split: option.split prod.split)

lemma apply_patch_identity:
  "u_id (fst (apply_patch at p u)) = u_id u" "u_username (fst (apply_patch at p u)) = u_username u"
  "u_sub (fst (apply_patch at p u)) = u_sub u"
  "u_created_at (fst (apply_patch at p u)) = u_created_at u"
  "u_is_guest (fst (apply_patch at p u)) = u_is_guest u"
  by (simp_all add: apply_patch_def step_keeps)

text \<open>A patch that reports no change leaves the user as it is.\<close>

lemma step_unchanged:
  "\<not> snd (assign x f s) \<Longrightarrow> \<not> snd s \<and> fst (assign x f s) = fst s"
  "\<not> snd (flag at b g h s) \<Longrightarrow> \<not> snd s \<and> fst (flag at b g h s) = fst s"
  by (auto simp: assign_def flag_def Let_def split: option.splits prod.splits if_splits)

lemma apply_patch_unchanged: "\<not> snd (apply_patch at p u) \<Longrightarrow> fst (apply_patch at p u) = u"
  by (auto simp: apply_patch_def dest!: step_unchanged)

lemma update_user_Inr [run_simps]:
  "update_user u f w = (Inr u', w') \<longleftrightarrow>
     u' = u \<and> n_rows (\<lambda>r. ur_id r = u_id u) (users (w_db w)) = 1 \<and>
     update_table users put_users (\<lambda>r. ur_id r = u_id u) f w = (Inr (Suc 0), w')"
  by (auto simp: update_user_def run_simps)

text \<open>Patching a user that was read from the database: what is returned is what is stored.\<close>

lemma user_patch_Inr:
  assumes run: "user_patch_op u p w = (Inr u', w')"
    and cur: "row_by_id ur_id (users (w_db w)) (u_id u) = Some r" "build_user us r = u"
  obtains r' where "row_by_id ur_id (users (w_db w')) (u_id u) = Some r'" "build_user us r' = u'"
    "\<And>j. j \<noteq> u_id u \<Longrightarrow>
       row_by_id ur_id (users (w_db w')) j = row_by_id ur_id (users (w_db w)) j"
proof -
  define at where "at = clock_reading w"
  consider (same) "u' = u" "w_db w' = w_db w"
    | (changed) v where "v = (fst (apply_patch at p u))\<lparr>u_updated_at := at\<rparr>" "u' = v"
        "w_db w' = (w_db w)\<lparr>users := upd_rows (\<lambda>r. ur_id r = u_id u) (write_user v) (users (w_db w))\<rparr>"
    using run apply_patch_unchanged [of at p u]
    by (auto simp: user_patch_op_def at_def bindE_Inr now_run update_user_Inr update_table_Inr
        apply_patch_identity split_def Let_def split: if_splits)
  then show ?thesis
  proof cases
    case same
    with that cur show ?thesis
      by simp
  next
    case changed
    have "row_by_id ur_id (users (w_db w')) =
        (\<lambda>j. if j = u_id u then map_option (write_user v) (row_by_id ur_id (users (w_db w)) (u_id u))
             else row_by_id ur_id (users (w_db w)) j)"
      unfolding changed(3) by (simp add: row_by_id_upd write_user_def)
    moreover have "build_user us (write_user v r) = v"
      by (rule build_write_user [OF cur(2)]) (simp_all add: changed(1) apply_patch_identity)
    ultimately show ?thesis
      using that cur(1) changed(2) by simp
  qed
qed

lemma user_deactivate_Inr:
  assumes run: "user_deactivate u w = (Inr u', w')"
    and cur: "row_by_id ur_id (users (w_db w)) (u_id u) = Some r" "build_user us r = u"
  obtains r' where "row_by_id ur_id (users (w_db w')) (u_id u) = Some r'" "build_user us r' = u'"
    "ur_deactivated_at r' \<noteq> None" "u_id u' = u_id u" "u_username u' = u_username u"
proof (cases "u_deactivated_at u")
  case None
  with run have p: "user_patch_op u (empty_patch\<lparr>up_deactivated := Some True\<rparr>) w = (Inr u', w')"
    by (simp add: user_deactivate_def)
  have u': "u_deactivated_at u' \<noteq> None" "u_id u' = u_id u" "u_username u' = u_username u"
    using p None
    by (auto simp: user_patch_op_def user_patch_is_empty_def empty_patch_def apply_patch_def
        assign_def flag_def next_instant_def bindE_Inr now_run update_user_Inr Let_def)
  obtain r' where r': "row_by_id ur_id (users (w_db w')) (u_id u) = Some r'"
      "build_user us r' = u'"
    by (rule user_patch_Inr [OF p cur])
  have "ur_deactivated_at r' \<noteq> None"
    using u'(1) unfolding r'(2) [symmetric] by simp
  then show ?thesis
    using u'(2,3) by (rule that [OF r'])
next
  case (Some t)
  then have "u' = u" "w' = w"
    using run by (simp_all add: user_deactivate_def)
  moreover have "ur_deactivated_at r \<noteq> None"
    using Some unfolding cur(2) [symmetric] by simp
  ultimately show ?thesis
    using cur by (intro that [of r]) simp_all
qed

text \<open>A name that is taken cannot be registered again; a new one is stored and found.\<close>

lemma user_add_taken:
  assumes "consistent w" "username \<in> ur_username ` set (users (w_db w))"
  shows "\<exists>w'. user_add us username w = (Inl (RowsAffected 1 0), w') \<and> w_db w' = w_db w"
  using assms
  by (auto simp: user_add_def insert_user_def run_simps new_user_row_def consistent_def)

lemma user_add_Inr:
  "user_add us username w = (Inr u, w') \<longleftrightarrow>
     username \<notin> ur_username ` set (users (w_db w)) \<and>
     u = build_user us (new_user_row (next_id w) (clock_reading w) username) \<and>
     insert_row users put_users (new_user_row (next_id w) (clock_reading w) username)
       (after_new_id w) = (Inr (), w')"
  by (auto simp: user_add_def insert_user_def run_simps new_user_row_def next_id_def
      after_new_id_def split: if_splits)

lemma consistent_user_storage [intro!]:
  "keeps consistent (user_patch_op u p)" "keeps consistent (user_add us n)"
  "keeps consistent (user_lock u)" "keeps consistent (user_unlock u)"
  "keeps consistent (user_deactivate u)" "keeps consistent (user_reactivate u)"
  "keeps consistent (set_can_request_admin u b)"
  unfolding user_patch_op_def user_add_def user_lock_def user_unlock_def user_deactivate_def
    user_reactivate_def set_can_request_admin_def update_user_def insert_user_def Let_def
  by (auto intro!: keeps_bindE keeps_thenE split: prod.split)

end
