(* ===== verification/Account_Storage.thy ===== *)
theory Account_Storage
  imports User_Storage
begin

text \<open>
  E-mail addresses with their verification (\<open>crates/data/src/pg/user/email.rs\<close>) and registration
  tokens (\<open>crates/data/src/pg/user/registration_token.rs\<close>).

  The foreign key of \<open>user_email_authentications\<close> to \<open>user_registrations\<close> is outside the modelled
  tables.
\<close>

section \<open>E-mail addresses\<close>

record user_email =
  ue_id :: ulid
  ue_user_id :: ulid
  ue_email :: string
  ue_created_at :: time
  ue_updated_at :: time
  ue_confirmed_at :: "time option"
  ue_is_primary :: bool

abbreviation put_emails :: "user_email_row list \<Rightarrow> db \<Rightarrow> db" where
  "put_emails t d \<equiv> d\<lparr>user_emails := t\<rparr>"

definition build_user_email :: "user_email_row \<Rightarrow> user_email" where
  "build_user_email r =
     \<lparr>ue_id = em_id r, ue_user_id = em_user_id r, ue_email = em_email r,
      ue_created_at = em_created_at r, ue_updated_at = em_updated_at r,
      ue_confirmed_at = em_confirmed_at r, ue_is_primary = em_is_primary r\<rparr>"

definition email_lookup :: "ulid \<Rightarrow> (db_error, user_email option) io" where
  "email_lookup i = query (\<lambda>d. map_option build_user_email (row_by_id em_id (user_emails d) i))"

definition email_find ::
    "(string \<Rightarrow> string) \<Rightarrow> (string \<Rightarrow> string) \<Rightarrow> user \<Rightarrow> string \<Rightarrow> (db_error, user_email option) io" where
  "email_find lower to_lowercase u email =
     query (\<lambda>d. map_option build_user_email
       (List.find (\<lambda>r. em_user_id r = u_id u \<and> lower (em_email r) = to_lowercase email)
         (user_emails d)))"

definition find_by_email ::
    "(string \<Rightarrow> string) \<Rightarrow> (string \<Rightarrow> string) \<Rightarrow> string \<Rightarrow> (db_error, user_email option) io" where
  "find_by_email lower to_lowercase email =
     query (\<lambda>d.
       case filter (\<lambda>r. lower (em_email r) = to_lowercase email) (user_emails d) of
         [r] \<Rightarrow> Some (build_user_email r)
       | _ \<Rightarrow> None)"

definition email_all :: "user \<Rightarrow> (db_error, user_email list) io" where
  "email_all u =
     query (\<lambda>d. map build_user_email
       (sort_key em_email (filter (\<lambda>r. em_user_id r = u_id u) (user_emails d))))"

record email_filter =
  ef_user :: "ulid option"
  ef_email :: "string option"

definition email_filter_matches ::
    "(string \<Rightarrow> string) \<Rightarrow> (string \<Rightarrow> string) \<Rightarrow> email_filter \<Rightarrow> user_email_row \<Rightarrow> bool" where
  "email_filter_matches lower to_lowercase f r \<longleftrightarrow>
     opt_filter (ef_user f) (\<lambda>u. em_user_id r = u)
     \<and> opt_filter (ef_email f) (\<lambda>e. lower (em_email r) = to_lowercase e)"

definition email_list ::
    "(string \<Rightarrow> string) \<Rightarrow> (string \<Rightarrow> string) \<Rightarrow> email_filter \<Rightarrow> pagination \<Rightarrow>
     (db_error, user_email page) io" where
  "email_list lower to_lowercase f p =
     query (\<lambda>d. page_map build_user_email
       (list_page em_id p (filter (email_filter_matches lower to_lowercase f) (user_emails d))))"

definition email_count ::
    "(string \<Rightarrow> string) \<Rightarrow> (string \<Rightarrow> string) \<Rightarrow> email_filter \<Rightarrow> (db_error, nat) io" where
  "email_count lower to_lowercase f =
     query (\<lambda>d. length (filter (email_filter_matches lower to_lowercase f) (user_emails d)))"

definition new_email_row :: "ulid \<Rightarrow> time \<Rightarrow> user \<Rightarrow> string \<Rightarrow> bool \<Rightarrow> user_email_row" where
  "new_email_row i created_at u email is_primary =
     \<lparr>em_id = i, em_user_id = u_id u, em_email = email, em_created_at = created_at,
      em_updated_at = created_at, em_confirmed_at = Some created_at, em_is_primary = is_primary\<rparr>"

definition email_add :: "user \<Rightarrow> string \<Rightarrow> (db_error, user_email) io" where
  "email_add u email =
     bindE now (\<lambda>created_at.
     bindE (draw_id created_at) (\<lambda>i.
     bindE (query (\<lambda>d. n_rows (\<lambda>r. em_user_id r = u_id u) (user_emails d))) (\<lambda>existing_count.
     thenE (insert_row user_emails put_emails (new_email_row i created_at u email (existing_count = 0)))
       (ret (build_user_email (new_email_row i created_at u email (existing_count = 0)))))))"

record user_email_patch =
  ep_email :: "string option"
  ep_confirmed :: "bool option"
  ep_is_primary :: "bool option"

definition email_patch_is_empty :: "user_email_patch \<Rightarrow> bool" where
  "email_patch_is_empty p \<longleftrightarrow> ep_email p = None \<and> ep_confirmed p = None \<and> ep_is_primary p = None"

text \<open>The three assignments of \<open>patch\<close>; confirming reads the clock when no instant is set yet.\<close>

definition patch_address :: "user_email_patch \<Rightarrow> user_email \<Rightarrow> user_email \<times> bool" where
  "patch_address p e =
     (case ep_email p of None \<Rightarrow> (e, False) | Some x \<Rightarrow> (e\<lparr>ue_email := x\<rparr>, True))"

definition next_confirmed :: "bool \<Rightarrow> time option \<Rightarrow> ('e, time option) io" where
  "next_confirmed confirmed current =
     (if confirmed
      then bindE now (\<lambda>at. ret (case current of None \<Rightarrow> Some at | Some t \<Rightarrow> Some t))
      else ret None)"

definition patch_confirmed ::
    "user_email_patch \<Rightarrow> user_email \<times> bool \<Rightarrow> ('e, user_email \<times> bool) io" where
  "patch_confirmed p = (\<lambda>(e, changed).
     case ep_confirmed p of
       None \<Rightarrow> ret (e, changed)
     | Some c \<Rightarrow>
         bindE (next_confirmed c (ue_confirmed_at e)) (\<lambda>t.
           ret (if ue_confirmed_at e \<noteq> t then (e\<lparr>ue_confirmed_at := t\<rparr>, True) else (e, changed))))"

definition patch_primary :: "user_email_patch \<Rightarrow> user_email \<times> bool \<Rightarrow> user_email \<times> bool" where
  "patch_primary p = (\<lambda>(e, changed).
     case ep_is_primary p of
       None \<Rightarrow> (e, changed)
     | Some b \<Rightarrow> if ue_is_primary e \<noteq> b then (e\<lparr>ue_is_primary := b\<rparr>, True) else (e, changed))"

definition demote_others :: "user_email \<Rightarrow> (db_error, nat) io" where
  "demote_others e =
     update_table user_emails put_emails (\<lambda>r. em_user_id r = ue_user_id e \<and> em_id r \<noteq> ue_id e)
       (\<lambda>r. r\<lparr>em_is_primary := False, em_updated_at := ue_updated_at e\<rparr>)"

definition write_email :: "user_email \<Rightarrow> (db_error, user_email) io" where
  "write_email e =
     bindE (update_table user_emails put_emails (\<lambda>r. em_id r = ue_id e)
              (\<lambda>r. r\<lparr>em_email := ue_email e, em_updated_at := ue_updated_at e,
                     em_confirmed_at := ue_confirmed_at e, em_is_primary := ue_is_primary e\<rparr>))
       (\<lambda>rows_affected. thenE (ensure_affected_rows rows_affected 1) (ret e))"

definition email_patch :: "user_email \<Rightarrow> user_email_patch \<Rightarrow> (db_error, user_email) io" where
  "email_patch e p =
     (if email_patch_is_empty p then ret e
      else bindE (patch_confirmed p (patch_address p e)) (\<lambda>ec.
        (let (e, changed) = patch_primary p ec
         in if \<not> changed then ret e
            else bindE now (\<lambda>at.
              (let e = e\<lparr>ue_updated_at := at\<rparr>
               in if ue_is_primary e then bindE (demote_others e) (\<lambda>_. write_email e)
                  else write_email e)))))"

definition email_remove :: "user_email \<Rightarrow> (db_error, unit) io" where
  "email_remove e =
     bindE (execute (\<lambda>d. (n_rows (\<lambda>r. em_id r = ue_id e) (user_emails d),
              put_emails (del_rows (\<lambda>r. em_id r = ue_id e) (user_emails d)) d)))
       (\<lambda>rows_affected. ensure_affected_rows rows_affected 1)"

definition email_remove_bulk ::
    "(string \<Rightarrow> string) \<Rightarrow> (string \<Rightarrow> string) \<Rightarrow> email_filter \<Rightarrow> (db_error, nat) io" where
  "email_remove_bulk lower to_lowercase f =
     bindE (query (\<lambda>d. map em_id (filter (email_filter_matches lower to_lowercase f) (user_emails d))))
       (\<lambda>matching_ids.
          if matching_ids = [] then ret 0
          else execute (\<lambda>d. (n_rows (\<lambda>r. em_id r \<in> set matching_ids) (user_emails d),
                 put_emails (del_rows (\<lambda>r. em_id r \<in> set matching_ids) (user_emails d)) d)))"

section \<open>Verifying an address\<close>

record email_authentication =
  en_id :: ulid
  en_user_session_id :: "ulid option"
  en_user_registration_id :: "ulid option"
  en_email :: string
  en_created_at :: time
  en_completed_at :: "time option"

record email_authentication_code =
  eo_id :: ulid
  eo_authentication_id :: ulid
  eo_code :: string
  eo_created_at :: time
  eo_expires_at :: time

abbreviation put_email_authentications :: "email_authentication_row list \<Rightarrow> db \<Rightarrow> db" where
  "put_email_authentications t d \<equiv> d\<lparr>user_email_authentications := t\<rparr>"

abbreviation put_email_codes :: "email_code_row list \<Rightarrow> db \<Rightarrow> db" where
  "put_email_codes t d \<equiv> d\<lparr>user_email_authentication_codes := t\<rparr>"

definition build_email_authentication :: "email_authentication_row \<Rightarrow> email_authentication" where
  "build_email_authentication r =
     \<lparr>en_id = ea_id r, en_user_session_id = ea_user_session_id r,
      en_user_registration_id = ea_user_registration_id r, en_email = ea_email r,
      en_created_at = ea_created_at r, en_completed_at = ea_completed_at r\<rparr>"

definition build_email_code :: "email_code_row \<Rightarrow> email_authentication_code" where
  "build_email_code r =
     \<lparr>eo_id = ec_id r, eo_authentication_id = ec_authentication_id r, eo_code = ec_code r,
      eo_created_at = ec_created_at r, eo_expires_at = ec_expires_at r\<rparr>"

definition new_email_authentication_row ::
    "ulid \<Rightarrow> time \<Rightarrow> ulid option \<Rightarrow> ulid option \<Rightarrow> string \<Rightarrow> email_authentication_row" where
  "new_email_authentication_row i created_at user_session_id user_registration_id email =
     \<lparr>ea_id = i, ea_user_session_id = user_session_id,
      ea_user_registration_id = user_registration_id, ea_email = email,
      ea_created_at = created_at, ea_completed_at = None\<rparr>"

definition add_email_authentication ::
    "ulid option \<Rightarrow> ulid option \<Rightarrow> string \<Rightarrow> (db_error, email_authentication) io" where
  "add_email_authentication user_session_id user_registration_id email =
     bindE now (\<lambda>created_at.
     bindE (draw_id created_at) (\<lambda>i.
     thenE (insert_row user_email_authentications put_email_authentications
              (new_email_authentication_row i created_at user_session_id user_registration_id email))
       (ret (build_email_authentication
              (new_email_authentication_row i created_at user_session_id user_registration_id email)))))"

definition add_authentication_for_session ::
    "string \<Rightarrow> browser_session \<Rightarrow> (db_error, email_authentication) io" where
  "add_authentication_for_session email s = add_email_authentication (Some (bs_id s)) None email"

definition add_authentication_for_registration ::
    "string \<Rightarrow> ulid \<Rightarrow> (db_error, email_authentication) io" where
  "add_authentication_for_registration email registration_id =
     add_email_authentication None (Some registration_id) email"

text \<open>\<open>INSERT .. ON CONFLICT (user_email_authentication_id, code) DO UPDATE\<close>.\<close>

definition upsert_email_code :: "email_code_row \<Rightarrow> email_code_row list \<Rightarrow> email_code_row list" where
  "upsert_email_code r t =
     (let clash = (\<lambda>x. ec_authentication_id x = ec_authentication_id r \<and> ec_code x = ec_code r)
      in if list_ex clash t
         then upd_rows clash (\<lambda>x. x\<lparr>ec_id := ec_id r, ec_created_at := ec_created_at r,
                                    ec_expires_at := ec_expires_at r\<rparr>) t
         else t @ [r])"

definition add_authentication_code ::
    "duration \<Rightarrow> email_authentication \<Rightarrow> string \<Rightarrow> (db_error, email_authentication_code) io" where
  "add_authentication_code dur a code =
     bindE now (\<lambda>created_at.
     bindE (draw_id created_at) (\<lambda>i.
     (let r = \<lparr>ec_id = i, ec_authentication_id = en_id a, ec_code = code,
               ec_created_at = created_at, ec_expires_at = created_at + dur\<rparr>
      in thenE (execute (\<lambda>d. ((), put_email_codes
                  (upsert_email_code r (user_email_authentication_codes d)) d)))
           (ret (build_email_code r)))))"

definition lookup_authentication :: "ulid \<Rightarrow> (db_error, email_authentication option) io" where
  "lookup_authentication i =
     query (\<lambda>d. map_option build_email_authentication
       (row_by_id ea_id (user_email_authentications d) i))"

definition find_authentication_code ::
    "email_authentication \<Rightarrow> string \<Rightarrow> (db_error, email_authentication_code option) io" where
  "find_authentication_code a code =
     query (\<lambda>d. map_option build_email_code
       (List.find (\<lambda>r. ec_authentication_id r = en_id a \<and> ec_code r = code)
         (user_email_authentication_codes d)))"

text \<open>\<open>complete_authentication_with_code\<close> and \<open>.._with_upstream\<close> run the same statement.\<close>

definition complete_authentication ::
    "email_authentication \<Rightarrow> (db_error, email_authentication) io" where
  "complete_authentication a =
     bindE now (\<lambda>completed_at.
     bindE (update_table user_email_authentications put_email_authentications
              (\<lambda>r. ea_id r = en_id a \<and> ea_completed_at r = None)
              (\<lambda>r. r\<lparr>ea_completed_at := Some completed_at\<rparr>)) (\<lambda>rows_affected.
     thenE (ensure_affected_rows rows_affected 1)
       (ret (a\<lparr>en_completed_at := Some completed_at\<rparr>))))"

definition cleanup_authentications ::
    "ulid option \<Rightarrow> ulid \<Rightarrow> nat \<Rightarrow> (db_error, nat \<times> ulid option) io" where
  "cleanup_authentications since until limit =
     execute (\<lambda>d.
       let dead = map ea_id (first_rows_by_id ea_id since until limit (user_email_authentications d))
       in ((length dead, max_id dead),
           d\<lparr>user_email_authentication_codes :=
               del_rows (\<lambda>r. ec_authentication_id r \<in> set dead) (user_email_authentication_codes d),
             user_email_authentications :=
               del_rows (\<lambda>r. ea_id r \<in> set dead) (user_email_authentications d)\<rparr>))"

section \<open>Registration tokens\<close>

record registration_token =
  rk_id :: ulid
  rk_token :: string
  rk_usage_limit :: "nat option"
  rk_times_used :: nat
  rk_created_at :: time
  rk_last_used_at :: "time option"
  rk_expires_at :: "time option"
  rk_revoked_at :: "time option"

definition registration_token_is_valid :: "time \<Rightarrow> registration_token \<Rightarrow> bool" where
  "registration_token_is_valid at t \<longleftrightarrow>
     rk_revoked_at t = None
     \<and> (case rk_expires_at t of None \<Rightarrow> True | Some expires_at \<Rightarrow> \<not> expires_at \<le> at)
     \<and> (case rk_usage_limit t of None \<Rightarrow> True | Some limit \<Rightarrow> \<not> limit \<le> rk_times_used t)"

abbreviation put_registration_tokens :: "registration_token_row list \<Rightarrow> db \<Rightarrow> db" where
  "put_registration_tokens t d \<equiv> d\<lparr>user_registration_tokens := t\<rparr>"

text \<open>The columns are \<open>INTEGER\<close> (\<open>i32\<close>), the model fields \<open>u32\<close>.\<close>

definition u32_of_i32 :: "int \<Rightarrow> nat option" where
  "u32_of_i32 n = (if n < 0 then None else Some (nat n))"

definition i32_of_u32 :: "nat \<Rightarrow> int option" where
  "i32_of_u32 n = (if n < 2 ^ 31 then Some (int n) else None)"

definition decode_registration_token :: "registration_token_row \<Rightarrow> db_error + registration_token" where
  "decode_registration_token r =
     (case (case gt_usage_limit r of None \<Rightarrow> Some None | Some n \<Rightarrow> map_option Some (u32_of_i32 n)) of
        None \<Rightarrow> Inl (Inconsistency ''user_registration_tokens'' (Some ''usage_limit'') (Some (gt_id r)))
      | Some limit \<Rightarrow>
          (case u32_of_i32 (gt_times_used r) of
             None \<Rightarrow> Inl (Inconsistency ''user_registration_tokens'' (Some ''times_used'')
                           (Some (gt_id r)))
           | Some used \<Rightarrow>
               Inr \<lparr>rk_id = gt_id r, rk_token = gt_token r, rk_usage_limit = limit,
                    rk_times_used = used, rk_created_at = gt_created_at r,
                    rk_last_used_at = gt_last_used_at r, rk_expires_at = gt_expires_at r,
                    rk_revoked_at = gt_revoked_at r\<rparr>))"

record registration_token_filter =
  kf_now :: time
  kf_has_been_used :: "bool option"
  kf_is_revoked :: "bool option"
  kf_is_expired :: "bool option"
  kf_is_valid :: "bool option"

definition token_row_expired :: "time \<Rightarrow> registration_token_row \<Rightarrow> bool" where
  "token_row_expired at r = (case gt_expires_at r of None \<Rightarrow> False | Some t \<Rightarrow> t < at)"

definition token_row_exhausted :: "registration_token_row \<Rightarrow> bool" where
  "token_row_exhausted r =
     (case gt_usage_limit r of None \<Rightarrow> False | Some limit \<Rightarrow> limit \<le> gt_times_used r)"

definition registration_token_matches ::
    "registration_token_filter \<Rightarrow> registration_token_row \<Rightarrow> bool" where
  "registration_token_matches f r \<longleftrightarrow>
     opt_filter (kf_has_been_used f) (\<lambda>b. if b then 0 < gt_times_used r else gt_times_used r = 0)
     \<and> opt_filter (kf_is_revoked f) (\<lambda>b. if b then gt_revoked_at r \<noteq> None else gt_revoked_at r = None)
     \<and> opt_filter (kf_is_expired f) (\<lambda>b. token_row_expired (kf_now f) r = b)
     \<and> opt_filter (kf_is_valid f) (\<lambda>b.
         (\<not> token_row_exhausted r \<and> gt_revoked_at r = None \<and> \<not> token_row_expired (kf_now f) r) = b)"

definition registration_token_list ::
    "registration_token_filter \<Rightarrow> pagination \<Rightarrow> (db_error, registration_token page) io" where
  "registration_token_list f p =
     bindE (query (\<lambda>d. list_page gt_id p
              (filter (registration_token_matches f) (user_registration_tokens d))))
       (\<lambda>page. of_result (page_try_map decode_registration_token page))"

definition registration_token_count :: "registration_token_filter \<Rightarrow> (db_error, nat) io" where
  "registration_token_count f =
     query (\<lambda>d. length (filter (registration_token_matches f) (user_registration_tokens d)))"

definition registration_token_lookup :: "ulid \<Rightarrow> (db_error, registration_token option) io" where
  "registration_token_lookup i =
     fetch decode_registration_token (\<lambda>d. row_by_id gt_id (user_registration_tokens d) i)"

definition registration_token_find :: "string \<Rightarrow> (db_error, registration_token option) io" where
  "registration_token_find token =
     fetch decode_registration_token
       (\<lambda>d. List.find (\<lambda>r. gt_token r = token) (user_registration_tokens d))"

text \<open>An optional \<open>u32\<close> limit as a column value.\<close>

definition limit_column :: "nat option \<Rightarrow> (db_error, int option) io" where
  "limit_column limit =
     (case limit of
        None \<Rightarrow> ret None
      | Some n \<Rightarrow> bindE (ok_or InvalidOperation (i32_of_u32 n)) (ret \<circ> Some))"

definition registration_token_add ::
    "string \<Rightarrow> nat option \<Rightarrow> time option \<Rightarrow> (db_error, registration_token) io" where
  "registration_token_add token usage_limit expires_at =
     bindE now (\<lambda>created_at.
     bindE (draw_id created_at) (\<lambda>i.
     bindE (limit_column usage_limit) (\<lambda>limit.
     thenE (insert_row user_registration_tokens put_registration_tokens
              \<lparr>gt_id = i, gt_token = token, gt_usage_limit = limit, gt_times_used = 0,
               gt_created_at = created_at, gt_last_used_at = None, gt_expires_at = expires_at,
               gt_revoked_at = None\<rparr>)
       (ret \<lparr>rk_id = i, rk_token = token, rk_usage_limit = usage_limit, rk_times_used = 0,
             rk_created_at = created_at, rk_last_used_at = None, rk_expires_at = expires_at,
             rk_revoked_at = None\<rparr>))))"

text \<open>
  \<open>UPDATE .. SET times_used = times_used + 1 .. WHERE id = .. AND revoked_at IS NULL RETURNING\<close>: the
  addition is refused when it leaves the range of \<open>INTEGER\<close>, no row is an error of the driver.
\<close>

definition bump_usage :: "ulid \<Rightarrow> time \<Rightarrow> (db_error, int) io" where
  "bump_usage i at w =
     (let p = (\<lambda>r. gt_id r = i \<and> gt_revoked_at r = None)
      in case List.find p (user_registration_tokens (w_db w)) of
           None \<Rightarrow> (Inl DieselNotFound, w)
         | Some r \<Rightarrow>
             if gt_times_used r \<ge> 2 ^ 31 - 1 then (Inl DieselOutOfRange, w)
             else thenE (update_table user_registration_tokens put_registration_tokens p
                           (\<lambda>r. r\<lparr>gt_times_used := gt_times_used r + 1, gt_last_used_at := Some at\<rparr>))
                    (ret (gt_times_used r + 1)) w)"

definition use_token :: "registration_token \<Rightarrow> (db_error, registration_token) io" where
  "use_token t =
     bindE now (\<lambda>at.
     bindE (bump_usage (rk_id t) at) (\<lambda>n.
     bindE (ok_or InvalidOperation (u32_of_i32 n)) (\<lambda>used.
       ret (t\<lparr>rk_times_used := used, rk_last_used_at := Some at\<rparr>))))"

definition update_registration_token ::
    "registration_token \<Rightarrow> (registration_token_row \<Rightarrow> registration_token_row) \<Rightarrow>
     (db_error, registration_token) io" where
  "update_registration_token t f =
     bindE (update_table user_registration_tokens put_registration_tokens (\<lambda>r. gt_id r = rk_id t) f)
       (\<lambda>rows_affected. thenE (ensure_affected_rows rows_affected 1) (ret t))"

definition registration_token_revoke :: "registration_token \<Rightarrow> (db_error, registration_token) io" where
  "registration_token_revoke t =
     bindE now (\<lambda>revoked_at.
       update_registration_token (t\<lparr>rk_revoked_at := Some revoked_at\<rparr>)
         (\<lambda>r. r\<lparr>gt_revoked_at := Some revoked_at\<rparr>))"

definition registration_token_unrevoke :: "registration_token \<Rightarrow> (db_error, registration_token) io" where
  "registration_token_unrevoke t =
     update_registration_token (t\<lparr>rk_revoked_at := None\<rparr>) (\<lambda>r. r\<lparr>gt_revoked_at := None\<rparr>)"

definition set_expiry ::
    "registration_token \<Rightarrow> time option \<Rightarrow> (db_error, registration_token) io" where
  "set_expiry t expires_at =
     update_registration_token (t\<lparr>rk_expires_at := expires_at\<rparr>) (\<lambda>r. r\<lparr>gt_expires_at := expires_at\<rparr>)"

definition set_usage_limit ::
    "registration_token \<Rightarrow> nat option \<Rightarrow> (db_error, registration_token) io" where
  "set_usage_limit t usage_limit =
     bindE (limit_column usage_limit) (\<lambda>limit.
       update_registration_token (t\<lparr>rk_usage_limit := usage_limit\<rparr>)
         (\<lambda>r. r\<lparr>gt_usage_limit := limit\<rparr>))"

section \<open>Lemmas on addresses\<close>

interpretation emails: repository user_emails put_emails em_id "Inr \<circ> build_user_email" ue_id
  by unfold_locales (auto simp: build_user_email_def dest: db_ok_distinct)

text \<open>A user has at most one primary address.\<close>

definition single_primary :: "user_email_row list \<Rightarrow> bool" where
  "single_primary t \<longleftrightarrow>
     (\<forall>r \<in> set t. \<forall>s \<in> set t.
        em_user_id r = em_user_id s \<longrightarrow> em_is_primary r \<longrightarrow> em_is_primary s \<longrightarrow> em_id r = em_id s)"

definition one_primary :: "world \<Rightarrow> bool" where
  "one_primary w \<longleftrightarrow> single_primary (user_emails (w_db w))"

lemma single_primaryD:
  "single_primary t \<Longrightarrow> r \<in> set t \<Longrightarrow> s \<in> set t \<Longrightarrow> em_user_id r = em_user_id s \<Longrightarrow>
     em_is_primary r \<Longrightarrow> em_is_primary s \<Longrightarrow> em_id r = em_id s"
  unfolding single_primary_def by blast

lemma one_primary_execute:
  assumes "\<And>d. single_primary (user_emails d) \<Longrightarrow> single_primary (user_emails (snd (f d)))"
  shows "keeps one_primary (execute f)"
proof (rule keepsI)
  fix w
  assume "one_primary w"
  with assms [of "w_db w"] show "one_primary (snd (execute f w))"
    by (cases "f (w_db w)") (simp add: execute_def one_primary_def split: list.split)
qed

lemma one_primary_effects [intro!]:
  "keeps one_primary now" "keeps one_primary (draw f)" "keeps one_primary (draw_id t)"
  "keeps one_primary (query g)"
  by (simp_all add: keeps_def one_primary_def now_run draw_run draw_id_def query_run)

lemma single_primary_subset: "single_primary t \<Longrightarrow> set u \<subseteq> set t \<Longrightarrow> single_primary u"
  unfolding single_primary_def by blast

lemma single_primary_del: "single_primary t \<Longrightarrow> single_primary (del_rows p t)"
  by (erule single_primary_subset) (auto simp: del_rows_def)

lemma one_primary_remove:
  "keeps one_primary (email_remove e)" "keeps one_primary (email_remove_bulk lo tl f)"
  unfolding email_remove_def email_remove_bulk_def
  by (intro keeps_bindE keeps_if one_primary_execute keeps_ret one_primary_effects
      consistent_ensure_affected_rows; simp add: single_primary_del)+

lemma single_primary_add:
  assumes "single_primary t"
    "em_is_primary r \<Longrightarrow> n_rows (\<lambda>x. em_user_id x = em_user_id r) t = 0"
  shows "single_primary (t @ [r])"
proof -
  have other: "em_user_id x \<noteq> em_user_id r" if "x \<in> set t" "em_is_primary r" for x
    using assms(2) [OF that(2)] that(1) by (simp add: n_rows_def filter_empty_conv)
  show ?thesis
    unfolding single_primary_def
  proof (intro ballI impI)
    fix x y
    assume x: "x \<in> set (t @ [r])" and y: "y \<in> set (t @ [r])"
      and eq: "em_user_id x = em_user_id y" and p: "em_is_primary x" "em_is_primary y"
    from x y consider "x \<in> set t" "y \<in> set t" | "x = r" "y = r"
      | "x \<in> set t" "y = r" | "x = r" "y \<in> set t"
      by auto
    then show "em_id x = em_id y"
    proof cases
      case 1
      then show ?thesis
        using eq p by (rule single_primaryD [OF assms(1)])
    next
      case 3
      then show ?thesis
        using other [of x] eq p by blast
    next
      case 4
      then show ?thesis
        using other [of y] eq p by fastforce
    qed simp
  qed
qed

lemma email_add_world:
  "snd (email_add u a w) =
     snd (insert_row user_emails put_emails (new_email_row (next_id w) (clock_reading w) u a
            (n_rows (\<lambda>r. em_user_id r = u_id u) (user_emails (w_db w)) = 0)) (after_new_id w))"
  by (simp add: email_add_def bindE_def thenE_def now_run draw_id_run query_run next_id_def
      after_new_id_def split: prod.split sum.split)

lemma one_primary_add: "keeps one_primary (email_add u a)"
proof (rule keepsI)
  fix w
  assume inv: "one_primary w"
  define r where "r = new_email_row (next_id w) (clock_reading w) u a
     (n_rows (\<lambda>r. em_user_id r = u_id u) (user_emails (w_db w)) = 0)"
  have "single_primary (user_emails (w_db w) @ [r])"
    using inv by (intro single_primary_add) (auto simp: one_primary_def r_def new_email_row_def)
  with inv show "one_primary (snd (email_add u a w))"
    unfolding email_add_world r_def [symmetric]
    by (simp add: insert_row_def execute_def one_primary_def split: list.split)
qed

text \<open>Patching an address that was read from the database keeps at most one of them primary.\<close>

lemma single_primary_promote:
  assumes t: "single_primary t"
    and key: "\<And>x. em_id (f x) = em_id x" "\<And>x. em_user_id (f x) = em_user_id x"
    and new: "\<And>x y. x \<in> set t \<Longrightarrow> y \<in> set t \<Longrightarrow> em_is_primary (f x) \<Longrightarrow> \<not> em_is_primary x \<Longrightarrow>
           em_user_id y = em_user_id x \<Longrightarrow> em_is_primary (f y) \<Longrightarrow> em_id y = em_id x"
  shows "single_primary (map f t)"
proof -
  have same: "em_id x = em_id y" if "x \<in> set t" "y \<in> set t" "em_user_id x = em_user_id y"
      "em_is_primary (f x)" "em_is_primary (f y)" for x y
  proof (cases "em_is_primary x \<and> em_is_primary y")
    case True
    then show ?thesis
      using single_primaryD [OF t that(1-3)] by blast
  next
    case False
    then show ?thesis
      using new [OF that(1,2,4)] new [OF that(2,1,5)] that(3-5) by metis
  qed
  show ?thesis
    unfolding single_primary_def set_map
  proof (intro ballI impI, elim imageE)
    fix a b x y
    assume "a = f x" "x \<in> set t" "b = f y" "y \<in> set t" "em_user_id a = em_user_id b"
      "em_is_primary a" "em_is_primary b"
    then show "em_id a = em_id b"
      using same [of x y] key by metis
  qed
qed

lemma patched_email_user:
  "ue_id (fst (patch_address p e)) = ue_id e" "ue_user_id (fst (patch_address p e)) = ue_user_id e"
  "ue_id (fst (patch_primary p ec)) = ue_id (fst ec)"
  "ue_user_id (fst (patch_primary p ec)) = ue_user_id (fst ec)"
  by (simp_all add: patch_address_def patch_primary_def split: option.split prod.split)

lemma next_confirmed_run:
  "next_confirmed c t w =
     (Inr (next_instant (clock_reading w) c t), if c then tick w else w)"
  by (simp add: next_confirmed_def next_instant_def bindE_def now_run)

lemma patch_confirmed_run:
  "\<exists>ec w1. patch_confirmed p ec0 w = (Inr ec, w1) \<and> w_db w1 = w_db w
     \<and> ue_id (fst ec) = ue_id (fst ec0) \<and> ue_user_id (fst ec) = ue_user_id (fst ec0)"
  by (cases ec0; cases "ep_confirmed p")
    (simp_all add: patch_confirmed_def bindE_def next_confirmed_run)

text \<open>The addresses after a patch: one row rewritten, and the others demoted if it is primary.\<close>

definition patched_rows :: "user_email \<Rightarrow> user_email_row \<Rightarrow> user_email_row" where
  "patched_rows e r =
     (if em_id r = ue_id e
      then r\<lparr>em_email := ue_email e, em_updated_at := ue_updated_at e,
             em_confirmed_at := ue_confirmed_at e, em_is_primary := ue_is_primary e\<rparr>
      else if ue_is_primary e \<and> em_user_id r = ue_user_id e
      then r\<lparr>em_is_primary := False, em_updated_at := ue_updated_at e\<rparr>
      else r)"

lemma demote_then_write:
  "upd_rows (\<lambda>r. em_id r = ue_id e)
     (\<lambda>r. r\<lparr>em_email := ue_email e, em_updated_at := ue_updated_at e,
             em_confirmed_at := ue_confirmed_at e, em_is_primary := ue_is_primary e\<rparr>)
     (if ue_is_primary e
      then upd_rows (\<lambda>r. em_user_id r = ue_user_id e \<and> em_id r \<noteq> ue_id e)
             (\<lambda>r. r\<lparr>em_is_primary := False, em_updated_at := ue_updated_at e\<rparr>) t
      else t) = map (patched_rows e) t"
  by (auto simp: upd_rows_def patched_rows_def)

lemma single_primary_patched:
  assumes "single_primary t" "distinct (map em_id t)" "row_by_id em_id t (ue_id e) = Some r"
    "em_user_id r = ue_user_id e"
  shows "single_primary (map (patched_rows e) t)"
proof (rule single_primary_promote [OF assms(1)])
  fix x y
  assume x: "x \<in> set t" "em_is_primary (patched_rows e x)" "\<not> em_is_primary x"
    and y: "y \<in> set t" "em_user_id y = em_user_id x" "em_is_primary (patched_rows e y)"
  from x have id: "em_id x = ue_id e" "ue_is_primary e"
    by (auto simp: patched_rows_def split: if_splits)
  have "x = r"
    using assms(2,3) x(1) id(1) row_by_id_SomeD [OF assms(3)]
    by (metis distinct_map inj_onD)
  with y assms(4) id show "em_id y = em_id x"
    by (auto simp: patched_rows_def split: if_splits)
qed (simp_all add: patched_rows_def)

lemma email_patch_Inr:
  assumes "email_patch e p w = (Inr e', w')"
  shows "ue_id e' = ue_id e \<and> ue_user_id e' = ue_user_id e \<and>
    (w_db w' = w_db w \<or>
     w_db w' = (w_db w)\<lparr>user_emails := map (patched_rows e') (user_emails (w_db w))\<rparr>)"
proof (cases "email_patch_is_empty p")
  case True
  with assms show ?thesis
    by (simp add: email_patch_def)
next
  case False
  obtain ec w1 where ec: "patch_confirmed p (patch_address p e) w = ((Inr ec :: db_error + _), w1)"
    "w_db w1 = w_db w" "ue_id (fst ec) = ue_id e" "ue_user_id (fst ec) = ue_user_id e"
    using patch_confirmed_run [of p "patch_address p e" w] by (auto simp: patched_email_user)
  obtain f changed where f: "patch_primary p ec = (f, changed)"
    by fastforce
  then have "ue_id f = ue_id e" "ue_user_id f = ue_user_id e"
    using patched_email_user(3,4) [of p ec] ec by simp_all
  with assms False ec f show ?thesis
    by (auto simp: email_patch_def bindE_step_Inr now_run bindE_def [of now] Let_def bindE_Inr thenE_Inr
        demote_others_def write_email_def update_table_Inr ensure_affected_rows_Inr
        demote_then_write [symmetric] split: if_splits)
qed

lemma email_patch_one_primary:
  assumes "email_patch e p w = (Inr e', w')" "one_primary w" "consistent w"
    "row_by_id em_id (user_emails (w_db w)) (ue_id e) = Some r" "em_user_id r = ue_user_id e"
  shows "one_primary w'"
proof -
  have d: "distinct (map em_id (user_emails (w_db w)))"
    using assms(3) by (simp add: consistent_def db_ok_distinct)
  note e' = email_patch_Inr [OF assms(1)]
  then have "single_primary (map (patched_rows e') (user_emails (w_db w)))"
    using single_primary_patched [OF _ d, of e' r] assms(2,4,5) by (simp add: one_primary_def)
  with e' assms(2) show ?thesis
    by (auto simp: one_primary_def)
qed

section \<open>Lemmas on registration tokens\<close>

lemma decode_registration_token_Inr:
  "decode_registration_token r = Inr t \<longleftrightarrow>
     0 \<le> gt_times_used r \<and> (\<forall>n. gt_usage_limit r = Some n \<longrightarrow> 0 \<le> n) \<and>
     t = \<lparr>rk_id = gt_id r, rk_token = gt_token r, rk_usage_limit = map_option nat (gt_usage_limit r),
          rk_times_used = nat (gt_times_used r), rk_created_at = gt_created_at r,
          rk_last_used_at = gt_last_used_at r, rk_expires_at = gt_expires_at r,
          rk_revoked_at = gt_revoked_at r\<rparr>"
  by (auto simp: decode_registration_token_def u32_of_i32_def split: option.splits if_splits)

interpretation registration_tokens: repository user_registration_tokens put_registration_tokens
    gt_id decode_registration_token rk_id
  by unfold_locales (auto simp: decode_registration_token_Inr dest: db_ok_distinct)

text \<open>
  The filter \<open>with_valid(true)\<close> and \<open>is_valid\<close> agree, except at the very instant a token expires: the
  filter still lists it, \<open>is_valid\<close> already refuses it.
\<close>

lemma valid_filter:
  assumes "decode_registration_token r = Inr t"
    "f = \<lparr>kf_now = at, kf_has_been_used = None, kf_is_revoked = None, kf_is_expired = None,
          kf_is_valid = Some True\<rparr>"
  shows "registration_token_matches f r \<longleftrightarrow>
    registration_token_is_valid at t
    \<or> (gt_expires_at r = Some at \<and> registration_token_is_valid (at - 1) t)"
  using assms
  by (auto simp: registration_token_matches_def registration_token_is_valid_def opt_filter_def
      token_row_exhausted_def token_row_expired_def decode_registration_token_Inr
      split: option.splits)

lemma find_key_and: "row_by_id key t i = Some r \<Longrightarrow> P r \<Longrightarrow> List.find (\<lambda>x. key x = i \<and> P x) t = Some r"
  unfolding row_by_id_def by (induction t) (auto split: if_splits)

lemma row_by_id_upd_and:
  assumes "row_by_id key t i = Some r" "P r" "\<And>x. key (f x) = key x"
  shows "row_by_id key (upd_rows (\<lambda>x. key x = i \<and> P x) f t) i = Some (f r)"
  using assms unfolding row_by_id_def upd_rows_def by (induction t) (auto split: if_splits)

text \<open>
  Using a token counts one more use, whatever the limit of the token is: the statement only looks
  at \<open>revoked_at\<close>.
\<close>

lemma db_ok_token_map:
  assumes "\<And>r. gt_id (f r) = gt_id r" "\<And>r. gt_token (f r) = gt_token r"
  shows "db_ok (d\<lparr>user_registration_tokens := map f (user_registration_tokens d)\<rparr>) \<longleftrightarrow> db_ok d"
  using assms by (simp add: db_ok_def violations_defs comp_def)

lemma use_token_run:
  assumes "consistent w" "row_by_id gt_id (user_registration_tokens (w_db w)) (rk_id t) = Some r"
    "gt_revoked_at r = None" "0 \<le> gt_times_used r" "gt_times_used r < 2 ^ 31 - 1"
  shows "\<exists>w'. use_token t w = (Inr (t\<lparr>rk_times_used := nat (gt_times_used r + 1),
             rk_last_used_at := Some (clock_reading w)\<rparr>), w')
    \<and> row_by_id gt_id (user_registration_tokens (w_db w')) (rk_id t)
        = Some (r\<lparr>gt_times_used := gt_times_used r + 1, gt_last_used_at := Some (clock_reading w)\<rparr>)"
proof -
  let ?p = "\<lambda>x. gt_id x = rk_id t \<and> gt_revoked_at x = None"
  let ?f = "\<lambda>x. x\<lparr>gt_times_used := gt_times_used x + 1, gt_last_used_at := Some (clock_reading w)\<rparr>"
  let ?t = "upd_rows ?p ?f (user_registration_tokens (w_db w))"
  have find: "List.find ?p (user_registration_tokens (w_db w)) = Some r"
    using find_key_and [OF assms(2), of "\<lambda>x. gt_revoked_at x = None"] assms(3) by simp
  have ok: "db_ok ((w_db w)\<lparr>user_registration_tokens := ?t\<rparr>)"
    using assms(1) unfolding upd_rows_def by (subst db_ok_token_map) (simp_all add: consistent_def)
  have row: "row_by_id gt_id ?t (rk_id t) = Some (?f r)"
    using row_by_id_upd_and [OF assms(2), of "\<lambda>x. gt_revoked_at x = None" ?f] assms(3) by simp
  have upd: "update_table user_registration_tokens put_registration_tokens ?p ?f (tick w) =
      (Inr (n_rows ?p (user_registration_tokens (w_db w))),
       (tick w)\<lparr>w_db := (w_db w)\<lparr>user_registration_tokens := ?t\<rparr>\<rparr>)"
    using ok by (simp add: update_table_Inr)
  have "bump_usage (rk_id t) (clock_reading w) (tick w) =
      (Inr (gt_times_used r + 1), (tick w)\<lparr>w_db := (w_db w)\<lparr>user_registration_tokens := ?t\<rparr>\<rparr>)"
    using assms(5) by (simp add: bump_usage_def find thenE_def bindE_def upd)
  with row assms(4) show ?thesis
    by (simp add: use_token_def bindE_def now_run ok_or_def u32_of_i32_def)
qed

end
