(* ===== verification/Personal_Storage.thy ===== *)
theory Personal_Storage
  imports Session_Storage
begin

text \<open>
  The repositories of personal sessions (\<open>crates/data/src/pg/personal/session.rs\<close>: lookup, add,
  revoke) and personal access tokens (\<open>crates/data/src/pg/personal/access_token.rs\<close>). Tokens are
  stored by digest: \<open>sha256\<close> (\<open>sha2\<close> crate) is an argument.
\<close>

abbreviation put_personal_sessions :: "personal_session_row list \<Rightarrow> db \<Rightarrow> db" where
  "put_personal_sessions t d \<equiv> d\<lparr>personal_sessions := t\<rparr>"

abbreviation put_personal_tokens :: "personal_token_row list \<Rightarrow> db \<Rightarrow> db" where
  "put_personal_tokens t d \<equiv> d\<lparr>personal_access_tokens := t\<rparr>"

section \<open>Personal sessions\<close>

definition decode_owner :: "personal_session_row \<Rightarrow> db_error + personal_session_owner" where
  "decode_owner r =
     (case (pr_owner_user_id r, pr_owner_client_id r) of
        (Some u, None) \<Rightarrow> Inr (OwnerUser u)
      | (None, Some c) \<Rightarrow> Inr (OwnerOAuth2Client c)
      | _ \<Rightarrow> Inl (Inconsistency ''personal_sessions'' (Some ''owner_user_id, owner_oauth2_client_id'')
                   (Some (pr_id r))))"

definition decode_personal_session :: "personal_session_row \<Rightarrow> db_error + personal_session" where
  "decode_personal_session r =
     (case parse_tokens (pr_scope_list r) of
        None \<Rightarrow> Inl (Inconsistency ''personal_sessions'' (Some ''scope'') (Some (pr_id r)))
      | Some tokens \<Rightarrow>
          (case decode_owner r of
             Inl e \<Rightarrow> Inl e
           | Inr owner \<Rightarrow>
               Inr \<lparr>ps_id = pr_id r,
                    ps_state = (case pr_revoked_at r of None \<Rightarrow> PS_Valid | Some t \<Rightarrow> PS_Revoked t),
                    ps_owner = owner, ps_actor_user_id = pr_actor_user_id r,
                    ps_human_name = pr_human_name r, ps_scope = collect_set tokens,
                    ps_created_at = pr_created_at r, ps_last_active_at = pr_last_active_at r,
                    ps_last_active_ip = pr_last_active_ip r\<rparr>))"

definition personal_session_lookup :: "ulid \<Rightarrow> (db_error, personal_session option) io" where
  "personal_session_lookup i =
     fetch decode_personal_session (\<lambda>d. row_by_id pr_id (personal_sessions d) i)"

definition new_personal_session_row ::
    "ulid \<Rightarrow> time \<Rightarrow> personal_session_owner \<Rightarrow> user \<Rightarrow> string \<Rightarrow> scope \<Rightarrow> personal_session_row" where
  "new_personal_session_row i created_at owner actor_user human_name sc =
     \<lparr>pr_id = i,
      pr_owner_user_id = (case owner of OwnerUser u \<Rightarrow> Some u | OwnerOAuth2Client _ \<Rightarrow> None),
      pr_owner_client_id = (case owner of OwnerUser _ \<Rightarrow> None | OwnerOAuth2Client c \<Rightarrow> Some c),
      pr_actor_user_id = u_id actor_user, pr_human_name = human_name, pr_scope_list = sc,
      pr_created_at = created_at, pr_revoked_at = None, pr_last_active_at = None,
      pr_last_active_ip = None\<rparr>"

definition new_personal_session ::
    "ulid \<Rightarrow> time \<Rightarrow> personal_session_owner \<Rightarrow> user \<Rightarrow> string \<Rightarrow> scope \<Rightarrow> personal_session" where
  "new_personal_session i created_at owner actor_user human_name sc =
     \<lparr>ps_id = i, ps_state = PS_Valid, ps_owner = owner, ps_actor_user_id = u_id actor_user,
      ps_human_name = human_name, ps_scope = sc, ps_created_at = created_at,
      ps_last_active_at = None, ps_last_active_ip = None\<rparr>"

definition personal_session_add ::
    "personal_session_owner \<Rightarrow> user \<Rightarrow> string \<Rightarrow> scope \<Rightarrow> (db_error, personal_session) io" where
  "personal_session_add owner actor_user human_name sc =
     bindE now (\<lambda>created_at.
     bindE (draw_id created_at) (\<lambda>i.
     thenE (insert_row personal_sessions put_personal_sessions
              (new_personal_session_row i created_at owner actor_user human_name sc))
       (ret (new_personal_session i created_at owner actor_user human_name sc))))"

definition revoke_personal_session_row :: "time \<Rightarrow> personal_session_row \<Rightarrow> personal_session_row" where
  "revoke_personal_session_row revoked_at r = r\<lparr>pr_revoked_at := Some revoked_at\<rparr>"

definition personal_session_revoke_op :: "personal_session \<Rightarrow> (db_error, personal_session) io" where
  "personal_session_revoke_op s =
     bindE now (\<lambda>revoked_at.
     thenE (update_table personal_access_tokens put_personal_tokens
              (\<lambda>r. pa_session_id r = ps_id s \<and> pa_revoked_at r = None)
              (\<lambda>r. r\<lparr>pa_revoked_at := Some revoked_at\<rparr>))
    (bindE (update_table personal_sessions put_personal_sessions (\<lambda>r. pr_id r = ps_id s)
              (revoke_personal_session_row revoked_at)) (\<lambda>rows_affected.
     thenE (ensure_affected_rows rows_affected 1)
       (to_invalid_operation (personal_session_finish revoked_at s)))))"

section \<open>Personal access tokens\<close>

definition build_personal_token :: "personal_token_row \<Rightarrow> personal_access_token" where
  "build_personal_token r =
     \<lparr>pt_id = pa_id r, pt_session_id = pa_session_id r, pt_created_at = pa_created_at r,
      pt_expires_at = pa_expires_at r, pt_revoked_at = pa_revoked_at r\<rparr>"

definition personal_token_lookup :: "ulid \<Rightarrow> (db_error, personal_access_token option) io" where
  "personal_token_lookup i =
     query (\<lambda>d. map_option build_personal_token (row_by_id pa_id (personal_access_tokens d) i))"

definition personal_token_find_by_token ::
    "(string \<Rightarrow> u8 list) \<Rightarrow> string \<Rightarrow> (db_error, personal_access_token option) io" where
  "personal_token_find_by_token sha256 token =
     query (\<lambda>d. map_option build_personal_token
       (List.find (\<lambda>r. pa_sha256 r = sha256 token) (personal_access_tokens d)))"

definition personal_token_find_active ::
    "personal_session \<Rightarrow> (db_error, personal_access_token option) io" where
  "personal_token_find_active s =
     query (\<lambda>d. map_option build_personal_token
       (List.find (\<lambda>r. pa_session_id r = ps_id s \<and> pa_revoked_at r = None)
         (personal_access_tokens d)))"

definition personal_token_add ::
    "(string \<Rightarrow> u8 list) \<Rightarrow> personal_session \<Rightarrow> string \<Rightarrow> duration option \<Rightarrow>
     (db_error, personal_access_token) io" where
  "personal_token_add sha256 s token expires_after =
     bindE now (\<lambda>created_at.
     bindE (draw_id created_at) (\<lambda>i.
     thenE (insert_row personal_access_tokens put_personal_tokens
              \<lparr>pa_id = i, pa_session_id = ps_id s, pa_sha256 = sha256 token,
               pa_created_at = created_at,
               pa_expires_at = map_option (\<lambda>dur. created_at + dur) expires_after,
               pa_revoked_at = None\<rparr>)
       (ret \<lparr>pt_id = i, pt_session_id = ps_id s, pt_created_at = created_at,
             pt_expires_at = map_option (\<lambda>dur. created_at + dur) expires_after,
             pt_revoked_at = None\<rparr>)))"

definition personal_token_revoke_op ::
    "personal_access_token \<Rightarrow> (db_error, personal_access_token) io" where
  "personal_token_revoke_op t =
     bindE now (\<lambda>revoked_at.
     bindE (update_table personal_access_tokens put_personal_tokens (\<lambda>r. pa_id r = pt_id t)
              (\<lambda>r. r\<lparr>pa_revoked_at := Some revoked_at\<rparr>)) (\<lambda>rows_affected.
     thenE (ensure_affected_rows rows_affected 1)
       (ret (t\<lparr>pt_revoked_at := Some revoked_at\<rparr>))))"

section \<open>Lemmas\<close>

lemma decode_owner_Inr:
  "decode_owner r = Inr ow \<longleftrightarrow>
     (case ow of OwnerUser u \<Rightarrow> pr_owner_user_id r = Some u \<and> pr_owner_client_id r = None
               | OwnerOAuth2Client c \<Rightarrow> pr_owner_user_id r = None \<and> pr_owner_client_id r = Some c)"
  by (auto simp: decode_owner_def split: option.splits personal_session_owner.splits)

lemma decode_personal_session_Inr:
  "decode_personal_session r = Inr s \<longleftrightarrow>
     list_all valid_token (pr_scope_list r) \<and>
     (\<exists>owner. decode_owner r = Inr owner \<and>
       s = \<lparr>ps_id = pr_id r,
            ps_state = (case pr_revoked_at r of None \<Rightarrow> PS_Valid | Some t \<Rightarrow> PS_Revoked t),
            ps_owner = owner, ps_actor_user_id = pr_actor_user_id r,
            ps_human_name = pr_human_name r, ps_scope = collect_set (pr_scope_list r),
            ps_created_at = pr_created_at r, ps_last_active_at = pr_last_active_at r,
            ps_last_active_ip = pr_last_active_ip r\<rparr>)"
  by (auto simp: decode_personal_session_def parse_tokens_eq split: sum.splits)

interpretation personal: repository personal_sessions put_personal_sessions pr_id
    decode_personal_session ps_id
  by unfold_locales (auto simp: decode_personal_session_Inr dest: db_ok_distinct)

interpretation personal_finish_step: repository_step personal_sessions put_personal_sessions pr_id
    decode_personal_session ps_id revoke_personal_session_row personal_session_finish
  by unfold_locales
    (auto simp: decode_personal_session_Inr revoke_personal_session_row_def
      personal_session_finish_Inr decode_owner_def split: option.splits)

lemma build_personal_token_fields [simp]:
  "pt_id (build_personal_token r) = pa_id r"
  "pt_session_id (build_personal_token r) = pa_session_id r"
  "pt_revoked_at (build_personal_token r) = pa_revoked_at r"
  "pt_expires_at (build_personal_token r) = pa_expires_at r"
  by (simp_all add: build_personal_token_def)

text \<open>A stored session reads back as the value \<open>add\<close> returned.\<close>

lemma decode_new_personal_session:
  "valid_scope sc \<Longrightarrow>
   decode_personal_session (new_personal_session_row i t owner u n sc) =
     Inr (new_personal_session i t owner u n sc)"
  by (auto simp: decode_personal_session_Inr new_personal_session_row_def
      new_personal_session_def decode_owner_Inr valid_scope_def list_all_iff collect_set_id
      split: personal_session_owner.split)

lemma personal_token_find_Inr [run_simps]:
  "personal_token_find_by_token sha token w = (Inr x, w') \<longleftrightarrow>
     w' = w \<and> x = map_option build_personal_token
       (List.find (\<lambda>r. pa_sha256 r = sha token) (personal_access_tokens (w_db w)))"
  by (auto simp: personal_token_find_by_token_def run_simps)

lemma personal_session_lookup_Some [run_simps]:
  "personal_session_lookup i w = (Inr (Some s), w') \<longleftrightarrow>
     w' = w \<and> (\<exists>r. row_by_id pr_id (personal_sessions (w_db w)) i = Some r
                \<and> decode_personal_session r = Inr s)"
  by (auto simp: personal_session_lookup_def fetch_Some)

text \<open>Revoking a session revokes every token of it and finishes it, and touches no other row.\<close>

lemma personal_session_revoke_Inr:
  assumes "personal_session_revoke_op s w = (Inr s', w')"
  shows "ps_state s = PS_Valid" "ps_state s' = PS_Revoked (clock_reading w)"
    "personal_access_tokens (w_db w') =
       upd_rows (\<lambda>r. pa_session_id r = ps_id s \<and> pa_revoked_at r = None)
         (\<lambda>r. r\<lparr>pa_revoked_at := Some (clock_reading w)\<rparr>) (personal_access_tokens (w_db w))"
    "personal_sessions (w_db w') =
       upd_rows (\<lambda>r. pr_id r = ps_id s) (revoke_personal_session_row (clock_reading w))
         (personal_sessions (w_db w))"
  using assms
  by (auto simp: personal_session_revoke_op_def run_simps personal_session_finish_Inr)

lemma consistent_personal_storage [intro!]:
  "keeps consistent (personal_session_lookup i)"
  "keeps consistent (personal_session_add ow u n sc)"
  "keeps consistent (personal_session_revoke_op s)"
  "keeps consistent (personal_token_lookup i)"
  "keeps consistent (personal_token_find_by_token sha tok)"
  "keeps consistent (personal_token_add sha s tok dur)"
  "keeps consistent (personal_token_revoke_op t)"
  unfolding personal_session_lookup_def personal_session_add_def personal_session_revoke_op_def
    personal_token_lookup_def personal_token_find_by_token_def personal_token_add_def
    personal_token_revoke_op_def
  by (auto intro!: keeps_bindE keeps_thenE)

end
