(* ===== verification/Personal_Listing.thy ===== *)
theory Personal_Listing
  imports Personal_Storage
begin

text \<open>
  The queries over many personal sessions of \<open>crates/data/src/pg/personal/session.rs\<close>:
  \<open>revoke_bulk\<close>, \<open>list\<close>, \<open>count\<close> and \<open>record_batch_activity\<close>. All but the last join each session with
  its unrevoked access tokens (\<open>LEFT JOIN\<close>), so that a session with several such tokens occurs once
  per token. The device filter, a fragment of raw SQL, is not modelled.
\<close>

record personal_session_filter =
  pf_owner_user :: "ulid option"
  pf_owner_client :: "ulid option"
  pf_actor_user :: "ulid option"
  pf_state :: "bool option"
  pf_scope :: "scope option"
  pf_last_active_before :: "time option"
  pf_last_active_after :: "time option"
  pf_expires_before :: "time option"
  pf_expires_after :: "time option"
  pf_expires :: "bool option"

definition no_personal_filter :: personal_session_filter where
  "no_personal_filter =
     \<lparr>pf_owner_user = None, pf_owner_client = None, pf_actor_user = None, pf_state = None,
      pf_scope = None, pf_last_active_before = None, pf_last_active_after = None,
      pf_expires_before = None, pf_expires_after = None, pf_expires = None\<rparr>"

definition join_tokens :: "db \<Rightarrow> personal_session_row \<Rightarrow> (personal_session_row \<times> personal_token_row option) list" where
  "join_tokens d r =
     (case filter (\<lambda>t. pr_id r = pa_session_id t \<and> pa_revoked_at t = None) (personal_access_tokens d) of
        [] \<Rightarrow> [(r, None)]
      | ts \<Rightarrow> map (\<lambda>t. (r, Some t)) ts)"

definition joined_sessions :: "db \<Rightarrow> (personal_session_row \<times> personal_token_row option) list" where
  "joined_sessions d = concat (map (join_tokens d) (personal_sessions d))"

definition owner_matches :: "personal_session_filter \<Rightarrow> personal_session_row \<Rightarrow> bool" where
  "owner_matches f r \<longleftrightarrow>
     opt_filter (pf_owner_user f) (\<lambda>u. pr_owner_user_id r = Some u)
     \<and> opt_filter (pf_owner_client f) (\<lambda>c. pr_owner_client_id r = Some c)
     \<and> opt_filter (pf_actor_user f) (\<lambda>u. pr_actor_user_id r = u)"

definition personal_state_matches :: "personal_session_filter \<Rightarrow> personal_session_row \<Rightarrow> bool" where
  "personal_state_matches f r \<longleftrightarrow>
     opt_filter (pf_state f) (state_matches (pr_revoked_at r))
     \<and> opt_filter (pf_scope f) (\<lambda>sc. list_all (\<lambda>t. t \<in> set (pr_scope_list r)) sc)
     \<and> opt_filter (pf_last_active_before f) (sql_cmp (<) (pr_last_active_at r))
     \<and> opt_filter (pf_last_active_after f) (sql_cmp (>) (pr_last_active_at r))"

definition expiry_matches :: "personal_session_filter \<Rightarrow> personal_token_row option \<Rightarrow> bool" where
  "expiry_matches f t \<longleftrightarrow>
     opt_filter (pf_expires_before f) (sql_cmp (<) (Option.bind t pa_expires_at))
     \<and> opt_filter (pf_expires_after f) (sql_cmp (>) (Option.bind t pa_expires_at))
     \<and> opt_filter (pf_expires f) (\<lambda>b. (Option.bind t pa_expires_at \<noteq> None) = b)"

definition filtered_sessions ::
    "db \<Rightarrow> personal_session_filter \<Rightarrow> (personal_session_row \<times> personal_token_row option) list" where
  "filtered_sessions d f =
     filter (\<lambda>(r, t). owner_matches f r \<and> personal_state_matches f r \<and> expiry_matches f t)
       (joined_sessions d)"

definition personal_session_revoke_bulk :: "personal_session_filter \<Rightarrow> (db_error, nat) io" where
  "personal_session_revoke_bulk f =
     bindE now (\<lambda>revoked_at.
     execute (\<lambda>d.
       let ids = map (pr_id \<circ> fst) (filtered_sessions d f)
       in (n_rows (\<lambda>r. pr_id r \<in> set ids) (personal_sessions d),
           put_personal_sessions (upd_rows (\<lambda>r. pr_id r \<in> set ids)
             (revoke_personal_session_row revoked_at) (personal_sessions d)) d)))"

definition decode_session_and_token ::
    "personal_session_row \<times> personal_token_row option \<Rightarrow>
     db_error + personal_session \<times> personal_access_token option" where
  "decode_session_and_token = (\<lambda>(r, t).
     case decode_personal_session r of
       Inl e \<Rightarrow> Inl e
     | Inr s \<Rightarrow>
         Inr (s, map_option (\<lambda>t. \<lparr>pt_id = pa_id t, pt_session_id = ps_id s,
                    pt_created_at = pa_created_at t, pt_expires_at = pa_expires_at t,
                    pt_revoked_at = None\<rparr>) t))"

definition personal_session_list ::
    "personal_session_filter \<Rightarrow> pagination \<Rightarrow>
     (db_error, (personal_session \<times> personal_access_token option) page) io" where
  "personal_session_list f p =
     bindE (query (\<lambda>d. list_page (pr_id \<circ> fst) p (filtered_sessions d f)))
       (\<lambda>page. of_result (page_try_map decode_session_and_token page))"

definition personal_session_count :: "personal_session_filter \<Rightarrow> (db_error, nat) io" where
  "personal_session_count f = query (\<lambda>d. length (filtered_sessions d f))"

text \<open>\<open>GREATEST\<close> ignores nulls; the ids of a batch are distinct (the activity worker keys by id).\<close>

definition personal_activity_row ::
    "(ulid \<times> time \<times> string option) list \<Rightarrow> personal_session_row \<Rightarrow> personal_session_row" where
  "personal_activity_row activities r =
     (case List.find (\<lambda>(i, _, _). i = pr_id r) activities of
        None \<Rightarrow> r
      | Some (_, t, ip) \<Rightarrow>
          r\<lparr>pr_last_active_at := Some (case pr_last_active_at r of None \<Rightarrow> t | Some u \<Rightarrow> max t u),
            pr_last_active_ip := (case ip of None \<Rightarrow> pr_last_active_ip r | Some a \<Rightarrow> Some a)\<rparr>)"

definition personal_record_batch_activity ::
    "(ulid \<times> time \<times> string option) list \<Rightarrow> (db_error, unit) io" where
  "personal_record_batch_activity activities =
     (let sorted_activities = sort_key fst activities
      in bindE (update_table personal_sessions put_personal_sessions
                  (\<lambda>r. pr_id r \<in> fst ` set sorted_activities)
                  (personal_activity_row sorted_activities))
           (\<lambda>rows_affected. ensure_affected_rows rows_affected (length sorted_activities)))"

section \<open>Lemmas\<close>

lemma fst_join_tokens: "x \<in> set (join_tokens d r) \<Longrightarrow> fst x = r"
  by (auto simp: join_tokens_def split: list.splits)

lemma join_tokens_nonempty: "join_tokens d r \<noteq> []"
  by (simp add: join_tokens_def split: list.split)

text \<open>Filters that do not mention the tokens select sessions as if there were no join.\<close>

lemma filtered_session_ids:
  assumes "pf_expires_before f = None" "pf_expires_after f = None" "pf_expires f = None"
  shows "fst ` set (filtered_sessions d f) =
    {r \<in> set (personal_sessions d). owner_matches f r \<and> personal_state_matches f r}"
proof -
  have "\<exists>x \<in> set (join_tokens d r). fst x = r" for r
    using fst_join_tokens [of _ d r] join_tokens_nonempty [of d r] by (metis last_in_set)
  then show ?thesis
    using assms fst_join_tokens
    by (fastforce simp: filtered_sessions_def joined_sessions_def expiry_matches_def opt_filter_def
        image_iff split_def)
qed

lemma revoke_bulk_Inr:
  assumes "personal_session_revoke_bulk f w = (Inr n, w')"
    "pf_expires_before f = None" "pf_expires_after f = None" "pf_expires f = None"
    "distinct (map pr_id (personal_sessions (w_db w)))"
  shows "w_db w' = (w_db w)\<lparr>personal_sessions := upd_rows
    (\<lambda>r. owner_matches f r \<and> personal_state_matches f r)
    (revoke_personal_session_row (clock_reading w)) (personal_sessions (w_db w))\<rparr>"
proof -
  have "pr_id r \<in> set (map (pr_id \<circ> fst) (filtered_sessions (w_db w) f)) \<longleftrightarrow>
      owner_matches f r \<and> personal_state_matches f r" if "r \<in> set (personal_sessions (w_db w))" for r
  proof -
    have "set (map (pr_id \<circ> fst) (filtered_sessions (w_db w) f)) =
        pr_id ` {r \<in> set (personal_sessions (w_db w)). owner_matches f r \<and> personal_state_matches f r}"
      unfolding filtered_session_ids [OF assms(2-4), symmetric] set_map image_comp by simp
    then show ?thesis
      using that assms(5) by (auto simp: distinct_map dest: inj_onD)
  qed
  then show ?thesis
    using assms(1)
    by (simp add: personal_session_revoke_bulk_def bindE_Inr now_run execute_Inr Let_def upd_rows_def
        cong: map_cong)
qed

lemma consistent_personal_listing [intro!]:
  "keeps consistent (personal_session_revoke_bulk f)" "keeps consistent (personal_session_count f)"
  "keeps consistent (personal_record_batch_activity as)"
  unfolding personal_session_revoke_bulk_def personal_session_count_def
    personal_record_batch_activity_def Let_def
  by (auto intro!: keeps_bindE)

end
