(* ===== verification/Introspection.thy ===== *)
theory Introspection
  imports Token_Steps Personal_Storage
begin

text \<open>
  Token introspection: \<open>crates/backend/src/handlers/oauth2/introspection_service.rs\<close> and the reply
  of \<open>introspection.rs\<close>, from the authenticated caller on.

  The lemmas show what an active reply guarantees about the stored token, its session and its user,
  and that the reported scope names a privileged token only for a user who may hold it.
\<close>

section \<open>Normalised scopes\<close>

definition UNSTABLE_API_SCOPE :: scope_token where
  "UNSTABLE_API_SCOPE = ''urn:matrix:org.matrix.msc2967.client:api:*''"

definition STABLE_API_SCOPE :: scope_token where
  "STABLE_API_SCOPE = ''urn:matrix:client:api:*''"

text \<open>The tokens that the loop of \<open>normalize_scope\<close> adds for one token.\<close>

definition equivalents :: "scope_token \<Rightarrow> scope_token list" where
  "equivalents token =
     (if token = STABLE_API_SCOPE then [UNSTABLE_API_SCOPE]
      else if token = UNSTABLE_API_SCOPE then [STABLE_API_SCOPE]
      else (case device_id_of_token token of
              None \<Rightarrow> []
            | Some device_id \<Rightarrow>
                (case (parse_scope_token (''urn:matrix:client:device:'' @ device_id),
                       parse_scope_token (''urn:matrix:org.matrix.msc2967.client:device:'' @ device_id)) of
                   (Some t, Some t') \<Rightarrow> [t, t']
                 | _ \<Rightarrow> [])))"

definition normalize_scope :: "scope \<Rightarrow> scope" where
  "normalize_scope sc = collect_set (sc @ concat (map equivalents sc))"

section \<open>The service\<close>

datatype introspection_error =
    IE_Repository db_error
  | IE_UnexpectedTokenType
  | IE_InvalidTokenFormat token_format_error
  | IE_UnknownToken token_type
  | IE_InvalidToken token_type
  | IE_InvalidOAuthSession ulid
  | IE_CantLoadOAuthSession ulid
  | IE_InvalidPersonalSession ulid
  | IE_CantLoadPersonalSession ulid
  | IE_InvalidUser ulid
  | IE_CantLoadUser ulid
  | IE_CantLoadOAuth2Client ulid

text \<open>The fields of \<open>IntrospectionResponse\<close> the service fills; the others are always \<open>None\<close>.\<close>

record introspection_response =
  ir_active :: bool
  ir_scope :: "scope option"
  ir_client_id :: "string option"
  ir_username :: "string option"
  ir_token_type :: "token_type_hint option"
  ir_exp :: "time option"
  ir_expires_in :: "duration option"
  ir_iat :: "time option"
  ir_nbf :: "time option"
  ir_sub :: "string option"
  ir_jti :: "string option"

definition INACTIVE :: introspection_response where
  "INACTIVE =
     \<lparr>ir_active = False, ir_scope = None, ir_client_id = None, ir_username = None,
      ir_token_type = None, ir_exp = None, ir_expires_in = None, ir_iat = None, ir_nbf = None,
      ir_sub = None, ir_jti = None\<rparr>"

definition load_valid_user :: "env \<Rightarrow> ulid \<Rightarrow> (introspection_error, user) io" where
  "load_valid_user e user_id =
     bindE (map_err IE_Repository (user_lookup (e_ulid_string e) user_id)) (\<lambda>user.
     bindE (ok_or (IE_CantLoadUser user_id) user) (\<lambda>user.
     thenE (ensure (user_is_valid user) (IE_InvalidUser (u_id user)))
       (ret user)))"

definition load_valid_session :: "ulid \<Rightarrow> (introspection_error, session) io" where
  "load_valid_session session_id =
     bindE (map_err IE_Repository (oauth2_session_lookup session_id)) (\<lambda>s.
     bindE (ok_or (IE_CantLoadOAuthSession session_id) s) (\<lambda>s.
     thenE (ensure (session_is_valid (s_state s)) (IE_InvalidOAuthSession (s_id s)))
       (ret s)))"

definition session_subject ::
    "env \<Rightarrow> session \<Rightarrow> (introspection_error, string option \<times> string option \<times> bool) io" where
  "session_subject e s =
     (case s_user_id s of
        Some user_id \<Rightarrow>
          bindE (load_valid_user e user_id) (\<lambda>user.
            ret (Some (u_sub user), Some (u_username user), u_can_request_admin user))
      | None \<Rightarrow> ret (None, None, False))"

definition expires_in :: "time option \<Rightarrow> ('e, duration option) io" where
  "expires_in expires_at =
     (case expires_at of
        None \<Rightarrow> ret None
      | Some t \<Rightarrow> bindE now (\<lambda>at. ret (Some (t - at))))"

definition note_first_use :: "access_token \<Rightarrow> (introspection_error, access_token) io" where
  "note_first_use a =
     (if at_is_used a then ret a else map_err IE_Repository (access_token_mark_used a))"

definition load_access_token :: "string \<Rightarrow> (introspection_error, access_token \<times> session) io" where
  "load_access_token token =
     bindE (map_err IE_Repository (access_token_find_by_token token)) (\<lambda>a.
     bindE (ok_or (IE_UnknownToken TT_AccessToken) a) (\<lambda>a.
     bindE now (\<lambda>at.
     thenE (ensure (at_is_valid at a) (IE_InvalidToken TT_AccessToken))
    (bindE (load_valid_session (at_session_id a)) (\<lambda>s.
       ret (a, s))))))"

definition introspect_access_token ::
    "env \<Rightarrow> string \<Rightarrow> (introspection_error, introspection_response) io" where
  "introspect_access_token e token =
     bindE (load_access_token token) (\<lambda>(a, s).
     bindE (note_first_use a) (\<lambda>a.
     bindE (session_subject e s) (\<lambda>(sub, username, is_admin).
     thenE (record_oauth2_session None s)
    (bindE (expires_in (at_expires_at a)) (\<lambda>left.
       ret \<lparr>ir_active = True,
            ir_scope = Some (normalize_scope (strip_admin_scope_unless (s_scope s) is_admin)),
            ir_client_id = Some (e_ulid_string e (s_client_id s)), ir_username = username,
            ir_token_type = Some Hint_AccessToken, ir_exp = at_expires_at a, ir_expires_in = left,
            ir_iat = Some (at_created_at a), ir_nbf = Some (at_created_at a), ir_sub = sub,
            ir_jti = Some (e_ulid_string e (at_id a))\<rparr>)))))"

definition load_refresh_token :: "string \<Rightarrow> (introspection_error, refresh_token \<times> session) io" where
  "load_refresh_token token =
     bindE (map_err IE_Repository (refresh_token_find_by_token token)) (\<lambda>r.
     bindE (ok_or (IE_UnknownToken TT_RefreshToken) r) (\<lambda>r.
     thenE (ensure (rt_is_valid r) (IE_InvalidToken TT_RefreshToken))
    (bindE (load_valid_session (rt_session_id r)) (\<lambda>s.
       ret (r, s)))))"

definition introspect_refresh_token ::
    "env \<Rightarrow> string \<Rightarrow> (introspection_error, introspection_response) io" where
  "introspect_refresh_token e token =
     bindE (load_refresh_token token) (\<lambda>(r, s).
     bindE (session_subject e s) (\<lambda>(sub, username, is_admin).
     thenE (record_oauth2_session None s)
       (ret \<lparr>ir_active = True,
             ir_scope = Some (normalize_scope (strip_admin_scope_unless (s_scope s) is_admin)),
             ir_client_id = Some (e_ulid_string e (s_client_id s)), ir_username = username,
             ir_token_type = Some Hint_RefreshToken, ir_exp = None, ir_expires_in = None,
             ir_iat = Some (rt_created_at r), ir_nbf = Some (rt_created_at r), ir_sub = sub,
             ir_jti = Some (e_ulid_string e (rt_id r))\<rparr>)))"

text \<open>The client that owns a personal session, and whether its owner lets it act as an admin.\<close>

definition personal_owner ::
    "env \<Rightarrow> personal_session_owner \<Rightarrow> (introspection_error, string option \<times> bool) io" where
  "personal_owner e owner =
     (case owner of
        OwnerUser user_id \<Rightarrow>
          bindE (load_valid_user e user_id) (\<lambda>owner_user.
            ret (None, u_can_request_admin owner_user))
      | OwnerOAuth2Client client_id \<Rightarrow>
          bindE (map_err IE_Repository (client_lookup client_id)) (\<lambda>owner_client.
          bindE (ok_or (IE_CantLoadOAuth2Client client_id) owner_client) (\<lambda>owner_client.
            ret (Some (c_client_id owner_client), True))))"

definition load_personal_token ::
    "env \<Rightarrow> string \<Rightarrow> (introspection_error, personal_access_token \<times> personal_session) io" where
  "load_personal_token e token =
     bindE (map_err IE_Repository (personal_token_find_by_token (e_sha256 e) token)) (\<lambda>t.
     bindE (ok_or (IE_UnknownToken TT_AccessToken) t) (\<lambda>t.
     bindE now (\<lambda>at.
     thenE (ensure (pt_is_valid at t) (IE_InvalidToken TT_AccessToken))
    (bindE (map_err IE_Repository (personal_session_lookup (pt_session_id t))) (\<lambda>s.
     bindE (ok_or (IE_CantLoadPersonalSession (pt_session_id t)) s) (\<lambda>s.
     thenE (ensure (ps_state s = PS_Valid) (IE_InvalidPersonalSession (ps_id s)))
       (ret (t, s))))))))"

definition introspect_personal_token ::
    "env \<Rightarrow> string \<Rightarrow> (introspection_error, introspection_response) io" where
  "introspect_personal_token e token =
     bindE (load_personal_token e token) (\<lambda>(t, s).
     bindE (load_valid_user e (ps_actor_user_id s)) (\<lambda>actor_user.
     bindE (personal_owner e (ps_owner s)) (\<lambda>(client_id, owner_may).
     thenE (record_personal_session None s)
    (bindE (expires_in (pt_expires_at t)) (\<lambda>left.
       ret \<lparr>ir_active = True,
            ir_scope = Some (normalize_scope (strip_admin_scope_unless (ps_scope s)
                               (u_can_request_admin actor_user \<and> owner_may))),
            ir_client_id = client_id, ir_username = Some (u_username actor_user),
            ir_token_type = Some Hint_AccessToken, ir_exp = pt_expires_at t, ir_expires_in = left,
            ir_iat = Some (pt_created_at t), ir_nbf = Some (pt_created_at t),
            ir_sub = Some (u_sub actor_user), ir_jti = None\<rparr>)))))"

definition introspect_token ::
    "env \<Rightarrow> string \<Rightarrow> token_type_hint option \<Rightarrow> (introspection_error, introspection_response) io" where
  "introspect_token e token hint =
     bindE (map_err IE_InvalidTokenFormat (of_result (check (e_crc32 e) (e_base64url_decode e) token)))
       (\<lambda>token_type.
     thenE (case hint of
              None \<Rightarrow> ret ()
            | Some h \<Rightarrow> ensure (matches_hint token_type h) IE_UnexpectedTokenType)
       (case token_type of
          TT_AccessToken \<Rightarrow> introspect_access_token e token
        | TT_RefreshToken \<Rightarrow> introspect_refresh_token e token
        | TT_PersonalAccessToken \<Rightarrow> introspect_personal_token e token))"

section \<open>The endpoint\<close>

text \<open>The reply to a service error: a failure to load is a server error, the rest is inactive.\<close>

definition render_introspection_error ::
    "introspection_error \<Rightarrow> nat \<times> introspection_response option" where
  "render_introspection_error err =
     (case err of
        IE_Repository _ \<Rightarrow> (500, None)
      | IE_CantLoadOAuthSession _ \<Rightarrow> (500, None)
      | IE_CantLoadPersonalSession _ \<Rightarrow> (500, None)
      | IE_CantLoadUser _ \<Rightarrow> (500, None)
      | IE_CantLoadOAuth2Client _ \<Rightarrow> (500, None)
      | _ \<Rightarrow> (200, Some INACTIVE))"

definition introspection_post ::
    "env \<Rightarrow> string \<Rightarrow> token_type_hint option \<Rightarrow> world \<Rightarrow>
     (nat \<times> introspection_response option) \<times> world" where
  "introspection_post e token hint w =
     (case request (introspect_token e token hint) w of
        (Inr reply, w') \<Rightarrow> ((200, Some reply), w')
      | (Inl err, w') \<Rightarrow> (render_introspection_error err, w'))"

section \<open>Lemmas\<close>

lemma device_id_of_token_Some:
  "device_id_of_token t = Some d \<Longrightarrow>
     t = ''urn:matrix:client:device:'' @ d
     \<or> t = ''urn:matrix:org.matrix.msc2967.client:device:'' @ d"
  unfolding device_id_of_token_def by (auto simp only: strip_prefix_Some split: option.splits)

lemma device_id_of_token_append:
  "device_id_of_token (''urn:matrix:client:device:'' @ d) = Some d"
  "device_id_of_token (''urn:matrix:org.matrix.msc2967.client:device:'' @ d) = Some d"
  by (simp_all add: device_id_of_token_def strip_prefix_def starts_with_def)

lemma api_scopes_distinct [simp]:
  "UNSTABLE_API_SCOPE \<noteq> STABLE_API_SCOPE" "STABLE_API_SCOPE \<noteq> UNSTABLE_API_SCOPE"
  by (simp_all add: UNSTABLE_API_SCOPE_def STABLE_API_SCOPE_def)

lemma api_scopes_no_device [simp]:
  "device_id_of_token UNSTABLE_API_SCOPE = None" "device_id_of_token STABLE_API_SCOPE = None"
  by (simp_all add: UNSTABLE_API_SCOPE_def STABLE_API_SCOPE_def device_id_of_token_def
      strip_prefix_def starts_with_def)

lemma unprivileged_tokens [simp]:
  "\<not> is_privileged_scope_token UNSTABLE_API_SCOPE" "\<not> is_privileged_scope_token STABLE_API_SCOPE"
  "device_id_of_token t = Some d \<Longrightarrow> \<not> is_privileged_scope_token t"
  by (auto dest!: device_id_of_token_Some simp: UNSTABLE_API_SCOPE_def STABLE_API_SCOPE_def
      is_privileged_scope_token_def ADMIN_SCOPE_def ADMIN_SCOPE_LEGACY_def starts_with_def)

lemma equivalents_cases:
  assumes "t' \<in> set (equivalents t)"
  shows "t = STABLE_API_SCOPE \<and> t' = UNSTABLE_API_SCOPE
       \<or> t = UNSTABLE_API_SCOPE \<and> t' = STABLE_API_SCOPE
       \<or> (\<exists>d. device_id_of_token t = Some d \<and> device_id_of_token t' = Some d \<and> valid_token t')"
  using assms
  by (cases "device_id_of_token t")
    (auto simp: equivalents_def parse_scope_token_eq device_id_of_token_append
      split: if_splits simp del: append_Cons)

lemma equivalents_device:
  "device_id_of_token t = Some d \<Longrightarrow> device_id_of_token t' = Some d \<Longrightarrow> equivalents t' = equivalents t"
  by (auto simp: equivalents_def)

lemma equivalents_stable:
  assumes "t' \<in> set (equivalents t)"
  shows "set (equivalents t') \<subseteq> insert t (set (equivalents t))"
  using equivalents_cases [OF assms]
proof (elim disjE exE conjE)
  fix d
  assume "device_id_of_token t = Some d" "device_id_of_token t' = Some d"
  then have "equivalents t' = equivalents t"
    by (rule equivalents_device)
  then show ?thesis
    by auto
qed (simp_all add: equivalents_def)

lemma set_normalize_scope: "set (normalize_scope sc) = set sc \<union> (\<Union>t \<in> set sc. set (equivalents t))"
  by (simp add: normalize_scope_def)

lemma normalize_scope_idem: "normalize_scope (normalize_scope sc) = normalize_scope sc"
proof -
  have "set (normalize_scope (normalize_scope sc)) = set (normalize_scope sc)"
    using equivalents_stable by (fastforce simp: set_normalize_scope)
  then show ?thesis
    unfolding normalize_scope_def collect_set_eq_iff by simp
qed

lemma requires_admin_normalize [simp]: "requires_admin (normalize_scope sc) = requires_admin sc"
  unfolding requires_admin_iff set_normalize_scope
  by (auto dest!: equivalents_cases)

lemma valid_scope_normalize: "valid_scope sc \<Longrightarrow> valid_scope (normalize_scope sc)"
  unfolding valid_scope_def list_all_iff set_normalize_scope
  by (auto simp: normalize_scope_def dest!: equivalents_cases)
    (auto simp: UNSTABLE_API_SCOPE_def STABLE_API_SCOPE_def valid_token_def is_nqchar_def)

text \<open>A scope that names a device in one form is reported with both.\<close>

lemma valid_token_append: "valid_token p \<Longrightarrow> valid_token (p @ d) \<longleftrightarrow> list_all is_nqchar d"
  by (auto simp: valid_token_def)

lemma device_prefixes_valid:
  "valid_token ''urn:matrix:client:device:''"
  "valid_token ''urn:matrix:org.matrix.msc2967.client:device:''"
  by (simp_all add: valid_token_def is_nqchar_def)

lemma normalize_scope_device:
  assumes "valid_scope sc" "t \<in> set sc" "device_id_of_token t = Some d"
  shows "''urn:matrix:client:device:'' @ d \<in> set (normalize_scope sc)
       \<and> ''urn:matrix:org.matrix.msc2967.client:device:'' @ d \<in> set (normalize_scope sc)"
proof -
  have "valid_token t"
    using assms by (auto simp: valid_scope_def list_all_iff)
  then have "list_all is_nqchar d"
    using device_id_of_token_Some [OF assms(3)] device_prefixes_valid valid_token_append by metis
  moreover have "t \<noteq> STABLE_API_SCOPE" "t \<noteq> UNSTABLE_API_SCOPE"
    using assms(3) by auto
  ultimately have "set (equivalents t) =
      {''urn:matrix:client:device:'' @ d, ''urn:matrix:org.matrix.msc2967.client:device:'' @ d}"
    by (simp add: equivalents_def assms(3) parse_scope_token_eq device_prefixes_valid
        valid_token_append del: append_Cons)
  then show ?thesis
    using assms(2) unfolding set_normalize_scope by blast
qed

section \<open>Which tokens are active\<close>

text \<open>
  The tokens that are live in a database at a given time, read off the rows. For personal access
  tokens this is the documented rule (\<open>docs/en/topics/authorization.md\<close>, Validity): the owner is an
  active and unlocked user or a client, and the actor has not been deactivated but may be locked
  (\<open>User::is_valid_actor\<close>).
\<close>

definition good_user :: "db \<Rightarrow> ulid \<Rightarrow> bool" where
  "good_user d i =
     (case row_by_id ur_id (users d) i of
        None \<Rightarrow> False
      | Some u \<Rightarrow> ur_locked_at u = None \<and> ur_deactivated_at u = None)"

definition good_actor :: "db \<Rightarrow> ulid \<Rightarrow> bool" where
  "good_actor d i =
     (case row_by_id ur_id (users d) i of None \<Rightarrow> False | Some u \<Rightarrow> ur_deactivated_at u = None)"

definition locked_user :: "db \<Rightarrow> ulid \<Rightarrow> bool" where
  "locked_user d i =
     (case row_by_id ur_id (users d) i of None \<Rightarrow> False | Some u \<Rightarrow> ur_locked_at u \<noteq> None)"

definition good_subject :: "db \<Rightarrow> ulid option \<Rightarrow> bool" where
  "good_subject d user_id = (case user_id of None \<Rightarrow> True | Some i \<Rightarrow> good_user d i)"

definition live_session :: "db \<Rightarrow> ulid \<Rightarrow> bool" where
  "live_session d i =
     (case row_by_id os_id (oauth2_sessions d) i of
        None \<Rightarrow> False
      | Some s \<Rightarrow> list_all valid_token (os_scope_list s) \<and> os_finished_at s = None
                  \<and> good_subject d (os_user_id s))"

definition live_access_token :: "db \<Rightarrow> time \<Rightarrow> string \<Rightarrow> bool" where
  "live_access_token d at token =
     (case List.find (\<lambda>r. oa_access_token r = token) (oauth2_access_tokens d) of
        None \<Rightarrow> False
      | Some r \<Rightarrow> at_is_valid at (build_access_token r) \<and> live_session d (oa_session_id r))"

definition live_refresh_token :: "db \<Rightarrow> string \<Rightarrow> bool" where
  "live_refresh_token d token =
     (case List.find (\<lambda>r. or_refresh_token r = token) (oauth2_refresh_tokens d) of
        None \<Rightarrow> False
      | Some r \<Rightarrow> refresh_row_ok r \<and> refresh_row_state r = RT_Valid \<and> live_session d (or_session_id r))"

definition live_owner :: "db \<Rightarrow> personal_session_owner \<Rightarrow> bool" where
  "live_owner d owner =
     (case owner of
        OwnerUser i \<Rightarrow> good_user d i
      | OwnerOAuth2Client i \<Rightarrow> row_by_id (c_id \<circ> cr_client) (oauth2_clients d) i \<noteq> None)"

definition live_personal_session :: "db \<Rightarrow> ulid \<Rightarrow> bool" where
  "live_personal_session d i =
     (case row_by_id pr_id (personal_sessions d) i of
        None \<Rightarrow> False
      | Some r \<Rightarrow> (case decode_personal_session r of
                    Inl _ \<Rightarrow> False
                  | Inr s \<Rightarrow> ps_state s = PS_Valid \<and> good_actor d (ps_actor_user_id s)
                              \<and> live_owner d (ps_owner s)))"

definition live_personal_token :: "(string \<Rightarrow> u8 list) \<Rightarrow> db \<Rightarrow> time \<Rightarrow> string \<Rightarrow> bool" where
  "live_personal_token sha256 d at token =
     (case List.find (\<lambda>r. pa_sha256 r = sha256 token) (personal_access_tokens d) of
        None \<Rightarrow> False
      | Some r \<Rightarrow> pt_is_valid at (build_personal_token r)
                  \<and> live_personal_session d (pa_session_id r))"

definition live_token :: "env \<Rightarrow> db \<Rightarrow> time \<Rightarrow> string \<Rightarrow> token_type_hint option \<Rightarrow> bool" where
  "live_token e d at token hint =
     (case check (e_crc32 e) (e_base64url_decode e) token of
        Inl _ \<Rightarrow> False
      | Inr token_type \<Rightarrow>
          (case hint of None \<Rightarrow> True | Some h \<Rightarrow> matches_hint token_type h) \<and>
          (case token_type of
             TT_AccessToken \<Rightarrow> live_access_token d at token
           | TT_RefreshToken \<Rightarrow> live_refresh_token d token
           | TT_PersonalAccessToken \<Rightarrow> live_personal_token (e_sha256 e) d at token))"

text \<open>The personal access tokens whose session acts for a locked user.\<close>

definition locked_actor :: "env \<Rightarrow> db \<Rightarrow> string \<Rightarrow> bool" where
  "locked_actor e d token =
     (check (e_crc32 e) (e_base64url_decode e) token = Inr TT_PersonalAccessToken \<and>
      (case Option.bind (List.find (\<lambda>r. pa_sha256 r = e_sha256 e token) (personal_access_tokens d))
              (\<lambda>r. row_by_id pr_id (personal_sessions d) (pa_session_id r)) of
         None \<Rightarrow> False
       | Some s \<Rightarrow> locked_user d (pr_actor_user_id s)))"

lemma good_user_actor: "good_user d i \<longleftrightarrow> good_actor d i \<and> \<not> locked_user d i"
  by (auto simp: good_user_def good_actor_def locked_user_def split: option.split)

lemma load_valid_user_Inr [run_simps]:
  "load_valid_user e i w = (Inr u, w') \<longleftrightarrow>
     w' = w \<and> good_user (w_db w) i \<and>
     (\<exists>r. row_by_id ur_id (users (w_db w)) i = Some r \<and> u = build_user (e_ulid_string e) r)"
  by (auto simp: load_valid_user_def run_simps user_lookup_run good_user_def user_is_valid_def
      build_user_def)

lemma load_valid_session_Inr [run_simps]:
  "load_valid_session i w = (Inr s, w') \<longleftrightarrow>
     w' = w \<and> (\<exists>r. row_by_id os_id (oauth2_sessions (w_db w)) i = Some r \<and> decode_session r = Inr s
                \<and> os_finished_at r = None)"
  by (auto simp: load_valid_session_def run_simps decode_session_Inr split: option.splits)

lemma expires_in_run [run_simps]:
  "expires_in t w =
     (Inr (map_option (\<lambda>x. x - clock_reading w) t), if t = None then w else tick w)"
  by (simp add: expires_in_def bindE_def now_run split: option.split)

text \<open>Whether the user of a session may hold administrative scopes.\<close>

definition admin_subject :: "db \<Rightarrow> ulid option \<Rightarrow> bool" where
  "admin_subject d user_id =
     (case user_id of
        None \<Rightarrow> False
      | Some i \<Rightarrow> (case row_by_id ur_id (users d) i of
                    None \<Rightarrow> False
                  | Some u \<Rightarrow> ur_can_request_admin u))"

definition subject_row :: "db \<Rightarrow> ulid option \<Rightarrow> user_row option" where
  "subject_row d user_id = Option.bind user_id (row_by_id ur_id (users d))"

lemma session_subject_Inr:
  "session_subject e s w = (Inr (sub, username, is_admin), w') \<longleftrightarrow>
     w' = w \<and> good_subject (w_db w) (s_user_id s) \<and> is_admin = admin_subject (w_db w) (s_user_id s)
     \<and> username = map_option ur_username (subject_row (w_db w) (s_user_id s))
     \<and> sub = map_option (u_sub \<circ> build_user (e_ulid_string e)) (subject_row (w_db w) (s_user_id s))"
  by (cases "s_user_id s")
    (auto simp: session_subject_def run_simps good_subject_def good_user_def admin_subject_def
      subject_row_def build_user_def split: option.splits)

lemma subject_cong:
  assumes "users d = users d'"
  shows "good_subject d = good_subject d'" "admin_subject d = admin_subject d'"
    "subject_row d = subject_row d'"
  using assms
  by (auto simp: fun_eq_iff good_subject_def good_user_def admin_subject_def subject_row_def
      split: option.split)

text \<open>Marking a token as used touches no column that a constraint mentions.\<close>

abbreviation mark_rows :: "ulid \<Rightarrow> time \<Rightarrow> access_token_row list \<Rightarrow> access_token_row list" where
  "mark_rows i t \<equiv> upd_rows (\<lambda>r. oa_id r = i) (\<lambda>r. r\<lparr>oa_first_used_at := Some t\<rparr>)"

lemma db_ok_access_map:
  assumes "\<And>r. oa_id (f r) = oa_id r" "\<And>r. oa_access_token (f r) = oa_access_token r"
    "\<And>r. oa_session_id (f r) = oa_session_id r"
  shows "db_ok (d\<lparr>oauth2_access_tokens := map f (oauth2_access_tokens d)\<rparr>) \<longleftrightarrow> db_ok d"
  using assms by (simp add: db_ok_def violations_defs comp_def)

lemma db_ok_mark_used [simp]:
  "db_ok (d\<lparr>oauth2_access_tokens := mark_rows i t (oauth2_access_tokens d)\<rparr>) \<longleftrightarrow> db_ok d"
  unfolding upd_rows_def by (rule db_ok_access_map) simp_all

lemma mark_used_run:
  assumes "consistent w" and "r \<in> set (oauth2_access_tokens (w_db w))"
  shows "access_token_mark_used (build_access_token r) w =
    (Inr ((build_access_token r)\<lparr>at_first_used_at := Some (clock_reading w)\<rparr>),
     (tick w)\<lparr>w_db := (w_db w)\<lparr>oauth2_access_tokens :=
        mark_rows (oa_id r) (clock_reading w) (oauth2_access_tokens (w_db w))\<rparr>\<rparr>)"
proof -
  have ok: "db_ok (w_db w)"
    using assms(1) by (simp add: consistent_def)
  moreover have "oa_id r \<in> oa_id ` set (oauth2_access_tokens (w_db w))"
    using assms(2) by blast
  ultimately have "n_rows (\<lambda>x. oa_id x = oa_id r) (oauth2_access_tokens (w_db w)) = 1"
    by (simp add: n_rows_key db_ok_distinct)
  with ok show ?thesis
    by (simp add: access_token_mark_used_Inr update_table_Inr build_access_token_def)
qed

lemma note_first_use_run:
  assumes "consistent w" and "r \<in> set (oauth2_access_tokens (w_db w))"
  shows "\<exists>a w1. note_first_use (build_access_token r) w = (Inr a, w1)"
  using mark_used_run [OF assms] by (simp add: note_first_use_def map_err_def)

lemma load_access_token_Inr:
  "load_access_token token w = (Inr (a, s), w') \<longleftrightarrow>
     w' = tick w \<and>
     (\<exists>r. List.find (\<lambda>r. oa_access_token r = token) (oauth2_access_tokens (w_db w)) = Some r
        \<and> a = build_access_token r \<and> at_is_valid (clock_reading w) a
        \<and> (\<exists>sr. row_by_id os_id (oauth2_sessions (w_db w)) (oa_session_id r) = Some sr
             \<and> decode_session sr = Inr s \<and> os_finished_at sr = None))"
  by (auto simp: load_access_token_def run_simps build_access_token_def)

lemma note_first_use_Inr:
  assumes "note_first_use a w = (Inr a', w')"
  shows "users (w_db w') = users (w_db w)" "oauth2_sessions (w_db w') = oauth2_sessions (w_db w)"
    "oauth2_refresh_tokens (w_db w') = oauth2_refresh_tokens (w_db w)"
    "at_expires_at a' = at_expires_at a" "at_id a' = at_id a" "at_created_at a' = at_created_at a"
  using assms
  by (auto simp: note_first_use_def map_err_Inr access_token_mark_used_Inr update_table_Inr
      split: if_splits)

lemma live_access_token_load:
  "live_access_token (w_db w) (clock_reading w) token \<longleftrightarrow>
     (\<exists>a s. load_access_token token w = (Inr (a, s), tick w)
        \<and> good_subject (w_db w) (s_user_id s))"
  by (auto simp: load_access_token_Inr live_access_token_def live_session_def decode_session_Inr
      split: option.splits)

lemma introspect_access_token_run:
  assumes "consistent w"
  shows "(\<exists>reply w'. introspect_access_token e token w = (Inr reply, w')) \<longleftrightarrow>
     live_access_token (w_db w) (clock_reading w) token"
proof (cases "\<exists>a s. load_access_token token w = (Inr (a, s), tick w)")
  case True
  then obtain a s where load: "load_access_token token w = (Inr (a, s), tick w)"
    by blast
  then obtain r where r: "r \<in> set (oauth2_access_tokens (w_db (tick w)))" "a = build_access_token r"
    by (auto simp: load_access_token_Inr dest: find_SomeD)
  have "consistent (tick w)"
    using assms by (simp add: consistent_def)
  from note_first_use_run [OF this r(1)] r(2)
  obtain a' w1 where a': "note_first_use a (tick w) = (Inr a', w1)"
    by blast
  have g: "good_subject (w_db w1) = good_subject (w_db w)"
    using note_first_use_Inr(1) [OF a'] by (intro subject_cong) simp
  show ?thesis
    unfolding introspect_access_token_def live_access_token_load
    by (simp add: load a' bindE_def [of "load_access_token token"] bindE_def [of "note_first_use a"]
        bindE_Inr thenE_Inr session_subject_Inr expires_in_run record_oauth2_session_def g)
next
  case False
  have "\<nexists>x w'. load_access_token token w = (Inr x, w')"
    using False by (auto simp: load_access_token_Inr)
  with False show ?thesis
    by (simp add: live_access_token_load introspect_access_token_def bindE_Inr)
qed

text \<open>What an active reply says, and that it only ever records a first use.\<close>

lemma introspect_access_token_Inr:
  assumes "introspect_access_token e token w = (Inr reply, w')"
  obtains r sr where
    "List.find (\<lambda>r. oa_access_token r = token) (oauth2_access_tokens (w_db w)) = Some r"
    "row_by_id os_id (oauth2_sessions (w_db w)) (oa_session_id r) = Some sr"
    "at_is_valid (clock_reading w) (build_access_token r)" "live_session (w_db w) (oa_session_id r)"
    "ir_active reply" "ir_exp reply = oa_expires_at r"
    "ir_username reply = map_option ur_username (subject_row (w_db w) (os_user_id sr))"
    "ir_scope reply = Some (normalize_scope (strip_admin_scope_unless (collect_set (os_scope_list sr))
                             (admin_subject (w_db w) (os_user_id sr))))"
    "oauth2_sessions (w_db w') = oauth2_sessions (w_db w)"
    "oauth2_refresh_tokens (w_db w') = oauth2_refresh_tokens (w_db w)"
proof -
  from assms obtain a s a' w1 where load: "load_access_token token w = (Inr (a, s), tick w)"
    and a': "note_first_use a (tick w) = (Inr a', w1)"
    and g: "good_subject (w_db w1) (s_user_id s)"
    and reply: "ir_active reply" "ir_exp reply = at_expires_at a'"
      "ir_username reply = map_option ur_username (subject_row (w_db w1) (s_user_id s))"
      "ir_scope reply = Some (normalize_scope (strip_admin_scope_unless (s_scope s)
                                (admin_subject (w_db w1) (s_user_id s))))"
    and w': "w_db w' = w_db w1"
    by (auto simp: introspect_access_token_def bindE_Inr thenE_Inr session_subject_Inr
        expires_in_run record_oauth2_session_def load_access_token_Inr split: if_splits)
  note n = note_first_use_Inr [OF a']
  have cong: "good_subject (w_db w1) = good_subject (w_db w)"
    "admin_subject (w_db w1) = admin_subject (w_db w)" "subject_row (w_db w1) = subject_row (w_db w)"
    using n(1) by (intro subject_cong; simp)+
  show ?thesis
    using load g reply w' n that unfolding cong load_access_token_Inr
    by (auto simp: decode_session_Inr live_session_def build_access_token_def)
qed

lemma load_refresh_token_Inr:
  "load_refresh_token token w = (Inr (t, s), w') \<longleftrightarrow>
     w' = w \<and>
     (\<exists>r. List.find (\<lambda>r. or_refresh_token r = token) (oauth2_refresh_tokens (w_db w)) = Some r
        \<and> decode_refresh_token r = Inr t \<and> rt_state t = RT_Valid
        \<and> (\<exists>sr. row_by_id os_id (oauth2_sessions (w_db w)) (or_session_id r) = Some sr
             \<and> decode_session sr = Inr s \<and> os_finished_at sr = None))"
  by (auto simp: load_refresh_token_def run_simps rt_is_valid_def decode_refresh_token_fields(2)) 

lemma introspect_refresh_token_Inr:
  "introspect_refresh_token e token w = (Inr reply, w') \<longleftrightarrow>
     (\<exists>r s. load_refresh_token token w = (Inr (r, s), w)
        \<and> good_subject (w_db w) (s_user_id s)
        \<and> reply = \<lparr>ir_active = True,
            ir_scope = Some (normalize_scope (strip_admin_scope_unless (s_scope s)
                               (admin_subject (w_db w) (s_user_id s)))),
            ir_client_id = Some (e_ulid_string e (s_client_id s)),
            ir_username = map_option ur_username (subject_row (w_db w) (s_user_id s)),
            ir_token_type = Some Hint_RefreshToken, ir_exp = None, ir_expires_in = None,
            ir_iat = Some (rt_created_at r), ir_nbf = Some (rt_created_at r),
            ir_sub = map_option (u_sub \<circ> build_user (e_ulid_string e))
                       (subject_row (w_db w) (s_user_id s)),
            ir_jti = Some (e_ulid_string e (rt_id r))\<rparr>
        \<and> w' = (tick w)\<lparr>w_activity := w_activity w @ [(SK_OAuth2, s_id s, clock_reading w, None)]\<rparr>)"
proof -
  have "w1 = w" if "load_refresh_token token w = (Inr p, w1)" for p w1
    using that by (cases p) (simp add: load_refresh_token_Inr)
  then show ?thesis
    unfolding introspect_refresh_token_def
    by (auto simp: bindE_Inr thenE_Inr session_subject_Inr record_oauth2_session_def)
qed

lemma introspect_refresh_token_run:
  "(\<exists>reply w'. introspect_refresh_token e token w = (Inr reply, w')) \<longleftrightarrow>
     live_refresh_token (w_db w) token"
  by (auto simp: introspect_refresh_token_Inr load_refresh_token_Inr live_refresh_token_def
      live_session_def decode_session_Inr decode_refresh_token_Inr split: option.splits)

lemma client_lookup_run [run_simps]:
  "client_lookup i w =
     (Inr (map_option cr_client (row_by_id (c_id \<circ> cr_client) (oauth2_clients (w_db w)) i)), w)"
  by (simp add: client_lookup_def fetch_def split: option.split)

definition owner_admin :: "db \<Rightarrow> personal_session_owner \<Rightarrow> bool" where
  "owner_admin d owner =
     (case owner of OwnerUser i \<Rightarrow> admin_subject d (Some i) | OwnerOAuth2Client _ \<Rightarrow> True)"

lemma personal_owner_Inr:
  "personal_owner e owner w = (Inr (c, may), w') \<Longrightarrow>
     w' = w \<and> live_owner (w_db w) owner \<and> may = owner_admin (w_db w) owner"
  by (auto simp: personal_owner_def owner_admin_def live_owner_def run_simps admin_subject_def build_user_def
      split: personal_session_owner.splits option.splits)

lemma personal_owner_run:
  "(\<exists>x w'. personal_owner e owner w = (Inr x, w')) \<longleftrightarrow> live_owner (w_db w) owner"
  by (auto simp: personal_owner_def live_owner_def run_simps good_user_def
      split: personal_session_owner.splits option.splits)

lemma load_personal_token_Inr:
  "load_personal_token e token w = (Inr (t, s), w') \<longleftrightarrow>
     w' = tick w \<and>
     (\<exists>r. List.find (\<lambda>r. pa_sha256 r = e_sha256 e token) (personal_access_tokens (w_db w)) = Some r
        \<and> t = build_personal_token r \<and> pt_is_valid (clock_reading w) t
        \<and> (\<exists>pr. row_by_id pr_id (personal_sessions (w_db w)) (pa_session_id r) = Some pr
             \<and> decode_personal_session pr = Inr s \<and> ps_state s = PS_Valid))"
  by (auto simp: load_personal_token_def run_simps)

lemma live_personal_token_load:
  "live_personal_token (e_sha256 e) (w_db w) (clock_reading w) token \<longleftrightarrow>
     (\<exists>t s. load_personal_token e token w = (Inr (t, s), tick w)
        \<and> good_actor (w_db w) (ps_actor_user_id s) \<and> live_owner (w_db w) (ps_owner s))"
  by (auto simp: load_personal_token_Inr live_personal_token_def live_personal_session_def
      split: option.splits sum.splits)

lemma locked_actor_load:
  "load_personal_token e token w = (Inr (t, s), w') \<Longrightarrow>
     check (e_crc32 e) (e_base64url_decode e) token = Inr TT_PersonalAccessToken \<Longrightarrow>
     locked_actor e (w_db w) token \<longleftrightarrow> locked_user (w_db w) (ps_actor_user_id s)"
  by (auto simp: load_personal_token_Inr locked_actor_def decode_personal_session_Inr)

lemma load_personal_token_world: "load_personal_token e token w = (Inr p, w') \<Longrightarrow> w' = tick w"
  by (cases p) (simp add: load_personal_token_Inr)

lemma introspect_personal_token_Inr:
  assumes "introspect_personal_token e token w = (Inr reply, w')"
  obtains t s u where "load_personal_token e token w = (Inr (t, s), tick w)"
    "row_by_id ur_id (users (w_db w)) (ps_actor_user_id s) = Some u"
    "good_user (w_db w) (ps_actor_user_id s)" "live_owner (w_db w) (ps_owner s)" "ir_active reply"
    "ir_username reply = Some (ur_username u)"
    "ir_scope reply = Some (normalize_scope (strip_admin_scope_unless (ps_scope s)
       (ur_can_request_admin u \<and> owner_admin (w_db w) (ps_owner s))))"
    "w_db w' = w_db w"
proof -
  from assms obtain t s w1 u c may w2 where load: "load_personal_token e token w = (Inr (t, s), w1)"
    and u: "load_valid_user e (ps_actor_user_id s) w1 = (Inr u, w1)"
    and owner: "personal_owner e (ps_owner s) w1 = (Inr (c, may), w2)"
    and reply: "ir_active reply" "ir_username reply = Some (u_username u)"
      "ir_scope reply = Some (normalize_scope (strip_admin_scope_unless (ps_scope s)
         (u_can_request_admin u \<and> may)))"
    and w': "w_db w' = w_db w2"
    by (auto simp: introspect_personal_token_def bindE_Inr thenE_Inr load_valid_user_Inr
        record_personal_session_def expires_in_run split: if_splits)
  have "w1 = tick w"
    using load by (rule load_personal_token_world)
  then show ?thesis
    using that load u reply w' personal_owner_Inr [OF owner]
    by (auto simp: load_valid_user_Inr build_user_def)
qed

lemma introspect_personal_token_run:
  assumes pat: "check (e_crc32 e) (e_base64url_decode e) token = Inr TT_PersonalAccessToken"
  shows "(\<exists>reply w'. introspect_personal_token e token w = (Inr reply, w')) \<longleftrightarrow>
     live_personal_token (e_sha256 e) (w_db w) (clock_reading w) token
     \<and> \<not> locked_actor e (w_db w) token"
proof (cases "\<exists>t s. load_personal_token e token w = (Inr (t, s), tick w)")
  case True
  then obtain t s where load: "load_personal_token e token w = (Inr (t, s), tick w)"
    by blast
  show ?thesis
  proof
    assume "\<exists>reply w'. introspect_personal_token e token w = (Inr reply, w')"
    then obtain reply w' where "introspect_personal_token e token w = (Inr reply, w')"
      by blast
    then show "live_personal_token (e_sha256 e) (w_db w) (clock_reading w) token
        \<and> \<not> locked_actor e (w_db w) token"
      unfolding live_personal_token_load locked_actor_load [OF load pat]
      by (elim introspect_personal_token_Inr) (use load in \<open>auto simp: good_user_actor\<close>)
  next
    assume "live_personal_token (e_sha256 e) (w_db w) (clock_reading w) token
        \<and> \<not> locked_actor e (w_db w) token"
    with load have u: "good_user (w_db w) (ps_actor_user_id s)" and o: "live_owner (w_db w) (ps_owner s)"
      unfolding live_personal_token_load locked_actor_load [OF load pat] by (auto simp: good_user_actor)
    obtain u where u: "load_valid_user e (ps_actor_user_id s) (tick w) = (Inr u, tick w)"
      using u by (auto simp: load_valid_user_Inr good_user_def split: option.splits)
    obtain c may where "personal_owner e (ps_owner s) (tick w) = (Inr (c, may), tick w)"
      using o personal_owner_run [of e "ps_owner s" "tick w"] by (auto dest: personal_owner_Inr)
    with load u show "\<exists>reply w'. introspect_personal_token e token w = (Inr reply, w')"
      by (simp add: introspect_personal_token_def bindE_def thenE_def expires_in_run
          record_personal_session_def)
  qed
next
  case False
  then have "\<nexists>x w'. load_personal_token e token w = (Inr x, w')"
    by (auto simp: load_personal_token_Inr)
  with False show ?thesis
    by (simp add: live_personal_token_load introspect_personal_token_def bindE_Inr)
qed

section \<open>The endpoint answers exactly for the live tokens\<close>

lemma introspect_token_Inr:
  "introspect_token e token hint w = (Inr reply, w') \<longleftrightarrow>
     (\<exists>tt. check (e_crc32 e) (e_base64url_decode e) token = Inr tt
        \<and> (case hint of None \<Rightarrow> True | Some h \<Rightarrow> matches_hint tt h)
        \<and> (case tt of TT_AccessToken \<Rightarrow> introspect_access_token e token
             | TT_RefreshToken \<Rightarrow> introspect_refresh_token e token
             | TT_PersonalAccessToken \<Rightarrow> introspect_personal_token e token) w = (Inr reply, w'))"
  by (cases hint)
    (auto simp: introspect_token_def bindE_Inr thenE_Inr map_err_Inr ensure_Inr)

lemma introspect_token_run:
  assumes "consistent w"
  shows "(\<exists>reply w'. introspect_token e token hint w = (Inr reply, w')) \<longleftrightarrow>
     live_token e (w_db w) (clock_reading w) token hint \<and> \<not> locked_actor e (w_db w) token"
proof (cases "check (e_crc32 e) (e_base64url_decode e) token")
  case (Inr tt)
  then show ?thesis
    using introspect_access_token_run [OF assms, of e token] introspect_refresh_token_run [of e token w]
      introspect_personal_token_run [of e token w]
    by (cases tt) (auto simp: introspect_token_Inr live_token_def locked_actor_def)
qed (simp add: introspect_token_Inr live_token_def)

lemma introspect_token_cases:
  assumes "introspect_token e token hint w = (Inr reply, w')"
  obtains (access) "introspect_access_token e token w = (Inr reply, w')"
    | (refresh) "introspect_refresh_token e token w = (Inr reply, w')"
    | (personal) "introspect_personal_token e token w = (Inr reply, w')"
proof -
  from assms obtain tt where "(case tt of TT_AccessToken \<Rightarrow> introspect_access_token e token
       | TT_RefreshToken \<Rightarrow> introspect_refresh_token e token
       | TT_PersonalAccessToken \<Rightarrow> introspect_personal_token e token) w = (Inr reply, w')"
    unfolding introspect_token_Inr by blast
  then show ?thesis
    using access refresh personal by (cases tt) simp_all
qed

lemma introspect_token_active: "introspect_token e token hint w = (Inr reply, w') \<Longrightarrow> ir_active reply"
  by (erule introspect_token_cases)
    (auto elim: introspect_access_token_Inr introspect_personal_token_Inr
      simp: introspect_refresh_token_Inr)

lemma strip_requires_admin: "requires_admin (strip_admin_scope_unless sc b) \<Longrightarrow> b"
  using requires_admin_strip by (cases b) auto

lemma admin_subject_row:
  "admin_subject d i \<Longrightarrow>
     \<exists>u \<in> set (users d). ur_can_request_admin u \<and> map_option ur_username (subject_row d i) = Some (ur_username u)"
  by (auto simp: admin_subject_def subject_row_def dest: row_by_id_SomeD split: option.splits)

lemma introspect_token_admin:
  assumes "introspect_token e token hint w = (Inr reply, w')" "ir_scope reply = Some sc"
    "requires_admin sc"
  shows "\<exists>u \<in> set (users (w_db w)). ur_can_request_admin u \<and> ir_username reply = Some (ur_username u)"
  using assms(1)
proof (cases rule: introspect_token_cases)
  case access
  then show ?thesis
    using assms(2,3)
    by (elim introspect_access_token_Inr)
      (metis requires_admin_normalize strip_requires_admin admin_subject_row option.inject)
next
  case refresh
  then show ?thesis
    using assms(2,3)
    by (auto simp: introspect_refresh_token_Inr dest!: strip_requires_admin)
      (force dest: admin_subject_row)
next
  case personal
  then show ?thesis
    using assms(2,3)
    by (elim introspect_personal_token_Inr) (auto dest!: strip_requires_admin dest: row_by_id_SomeD)
qed

text \<open>
  The reply of the endpoint: the token is reported active exactly when it is live and, for a personal
  access token, the actor is not locked.
\<close>

lemma introspection_post_active:
  assumes "consistent w"
  shows "(\<exists>reply. fst (introspection_post e token hint w) = (200, Some reply) \<and> ir_active reply) \<longleftrightarrow>
     live_token e (w_db w) (clock_reading w) token hint \<and> \<not> locked_actor e (w_db w) token"
proof -
  have inactive: "\<not> (\<exists>reply. render_introspection_error err = (200, Some reply) \<and> ir_active reply)" for err
    by (cases err) (simp_all add: render_introspection_error_def INACTIVE_def)
  show ?thesis
    using introspect_token_run [OF assms, of e token hint] inactive introspect_token_active
    by (cases "introspect_token e token hint w"; cases "fst (introspect_token e token hint w)")
      (auto simp: introspection_post_def request_def)
qed

lemma consistent_introspection [intro!]: "keeps consistent (introspect_token e token hint)"
proof -
  have subj: "keeps consistent (session_subject e s)" for s
    by (auto simp: session_subject_def load_valid_user_def intro!: keeps_bindE keeps_thenE
        split: option.split)
  have sess: "keeps consistent (load_valid_session i)" for i
    by (auto simp: load_valid_session_def intro!: keeps_bindE keeps_thenE)
  have left: "keeps consistent (expires_in t)" for t
    by (auto simp: expires_in_def intro!: keeps_bindE split: option.split)
  have "keeps consistent (introspect_access_token e token)"
    unfolding introspect_access_token_def load_access_token_def note_first_use_def
    by (auto intro!: keeps_bindE keeps_thenE subj sess left)
  moreover have "keeps consistent (introspect_refresh_token e token)"
    unfolding introspect_refresh_token_def load_refresh_token_def
    by (auto intro!: keeps_bindE keeps_thenE subj sess left)
  moreover have "keeps consistent (introspect_personal_token e token)"
    unfolding introspect_personal_token_def load_personal_token_def personal_owner_def
      load_valid_user_def
    by (auto intro!: keeps_bindE keeps_thenE left split: personal_session_owner.split)
  ultimately show ?thesis
    unfolding introspect_token_def
    by (auto intro!: keeps_bindE keeps_thenE split: option.split token_type.split)
qed

end
