(* ===== verification/Queue_Storage.thy ===== *)
theory Queue_Storage
  imports Repository
begin

text \<open>
  The job queue in the database: the repositories of jobs, workers, the leader lease and schedules
  (\<open>crates/data/src/pg/queue\<close>) and the way services enqueue jobs
  (\<open>crates/data/src/storage/queue/job.rs\<close>, \<open>tasks.rs\<close>).

  The queue's runner uses its connection without a transaction, so that every statement takes
  effect at once on \<open>w_db\<close>. \<open>parse_metadata\<close> is the deserialisation of a job's metadata (\<open>serde\<close>);
  \<open>db_now\<close> is the database's own clock (\<open>NOW()\<close>).
\<close>

section \<open>Jobs\<close>

abbreviation put_jobs :: "job_row list \<Rightarrow> db \<Rightarrow> db" where
  "put_jobs t d \<equiv> d\<lparr>queue_jobs := t\<rparr>"

abbreviation put_schedules :: "schedule_row list \<Rightarrow> db \<Rightarrow> db" where
  "put_schedules t d \<equiv> d\<lparr>queue_schedules := t\<rparr>"

abbreviation put_workers :: "worker_row list \<Rightarrow> db \<Rightarrow> db" where
  "put_workers t d \<equiv> d\<lparr>queue_workers := t\<rparr>"

record job_metadata =
  jm_trace_id :: string
  jm_span_id :: string
  jm_trace_flags :: u8

record job =
  j_id :: ulid
  j_queue_name :: string
  j_payload :: json
  j_metadata :: job_metadata
  j_attempt :: nat

definition decode_job :: "(json \<Rightarrow> job_metadata option) \<Rightarrow> job_row \<Rightarrow> db_error + job" where
  "decode_job parse_metadata r =
     (case parse_metadata (qj_metadata r) of
        None \<Rightarrow> Inl (Inconsistency ''queue_jobs'' (Some ''metadata'') (Some (qj_id r)))
      | Some md \<Rightarrow>
          if qj_attempt r < 0 then Inl (Inconsistency ''queue_jobs'' (Some ''attempt'') (Some (qj_id r)))
          else Inr \<lparr>j_id = qj_id r, j_queue_name = qj_queue_name r, j_payload = qj_payload r,
                    j_metadata = md, j_attempt = nat (qj_attempt r)\<rparr>)"

fun collect_results :: "('e + 'a) list \<Rightarrow> 'e + 'a list" where
  "collect_results [] = Inr []"
| "collect_results (Inl e # rs) = Inl e"
| "collect_results (Inr x # rs) =
     (case collect_results rs of Inl e \<Rightarrow> Inl e | Inr xs \<Rightarrow> Inr (x # xs))"

text \<open>A new row: the columns \<open>NewJob\<close> leaves out take their defaults.\<close>

definition new_job_row :: "ulid \<Rightarrow> time \<Rightarrow> string \<Rightarrow> json \<Rightarrow> json \<Rightarrow> job_row" where
  "new_job_row i created_at queue_name payload metadata =
     \<lparr>qj_id = i, qj_status = ''available'', qj_created_at = created_at, qj_started_at = None,
      qj_started_by = None, qj_completed_at = None, qj_queue_name = queue_name,
      qj_payload = payload, qj_metadata = metadata, qj_failed_at = None, qj_failed_reason = None,
      qj_attempt = 0, qj_next_attempt_id = None, qj_scheduled_at = None, qj_schedule_name = None\<rparr>"

definition schedule :: "string \<Rightarrow> json \<Rightarrow> json \<Rightarrow> (db_error, unit) io" where
  "schedule queue_name payload metadata =
     bindE now (\<lambda>created_at.
     bindE (draw_id created_at) (\<lambda>i.
       insert_row queue_jobs put_jobs (new_job_row i created_at queue_name payload metadata)))"

definition schedule_later ::
    "string \<Rightarrow> json \<Rightarrow> json \<Rightarrow> time \<Rightarrow> string option \<Rightarrow> (db_error, unit) io" where
  "schedule_later queue_name payload metadata scheduled_at schedule_name =
     bindE now (\<lambda>created_at.
     bindE (draw_id created_at) (\<lambda>i.
     thenE (insert_row queue_jobs put_jobs
              ((new_job_row i created_at queue_name payload metadata)
                 \<lparr>qj_status := ''scheduled'', qj_scheduled_at := Some scheduled_at,
                  qj_schedule_name := schedule_name\<rparr>))
       (case schedule_name of
          None \<Rightarrow> ret ()
        | Some name \<Rightarrow>
            bindE (update_table queue_schedules put_schedules (\<lambda>r. qs_name r = name)
                     (\<lambda>r. r\<lparr>qs_last_scheduled_at := Some scheduled_at,
                            qs_last_scheduled_job_id := Some i\<rparr>))
              (\<lambda>rows_affected. ensure_affected_rows rows_affected 1))))"

text \<open>The rows \<open>reserve\<close> locks: the oldest available jobs of the given queues.\<close>

definition lockable_jobs :: "string list \<Rightarrow> nat \<Rightarrow> job_row list \<Rightarrow> ulid list" where
  "lockable_jobs queues count t =
     take count (map qj_id (sort_key qj_id
       (filter (\<lambda>r. qj_status r = ''available'' \<and> qj_queue_name r \<in> set queues) t)))"

definition reserve ::
    "(json \<Rightarrow> job_metadata option) \<Rightarrow> ulid \<Rightarrow> string list \<Rightarrow> nat \<Rightarrow> (db_error, job list) io" where
  "reserve parse_metadata worker_id queues count =
     bindE now (\<lambda>started_at.
     bindE (execute (\<lambda>d.
              let ids = lockable_jobs queues count (queue_jobs d)
              in (filter (\<lambda>r. qj_id r \<in> set ids) (queue_jobs d),
                  put_jobs (upd_rows (\<lambda>r. qj_id r \<in> set ids)
                    (\<lambda>r. r\<lparr>qj_status := ''running'', qj_started_at := Some started_at,
                           qj_started_by := Some worker_id\<rparr>) (queue_jobs d)) d)))
       (\<lambda>results. of_result (collect_results (map (decode_job parse_metadata) results))))"

definition mark_as_completed :: "ulid \<Rightarrow> (db_error, unit) io" where
  "mark_as_completed i =
     bindE now (\<lambda>at.
     bindE (update_table queue_jobs put_jobs (\<lambda>r. qj_id r = i \<and> qj_status r = ''running'')
              (\<lambda>r. r\<lparr>qj_status := ''completed'', qj_completed_at := Some at\<rparr>))
       (\<lambda>rows_affected. ensure_affected_rows rows_affected 1))"

definition mark_as_failed :: "ulid \<Rightarrow> string \<Rightarrow> (db_error, unit) io" where
  "mark_as_failed i reason =
     bindE now (\<lambda>at.
     bindE (update_table queue_jobs put_jobs (\<lambda>r. qj_id r = i \<and> qj_status r = ''running'')
              (\<lambda>r. r\<lparr>qj_status := ''failed'', qj_failed_at := Some at,
                     qj_failed_reason := Some reason\<rparr>))
       (\<lambda>rows_affected. ensure_affected_rows rows_affected 1))"

text \<open>The row \<open>retry\<close> inserts for a failed job.\<close>

definition retry_row :: "ulid \<Rightarrow> time \<Rightarrow> time \<Rightarrow> job_row \<Rightarrow> job_row" where
  "retry_row i created_at scheduled_at r =
     (new_job_row i created_at (qj_queue_name r) (qj_payload r) (qj_metadata r))
       \<lparr>qj_attempt := qj_attempt r + 1, qj_scheduled_at := Some scheduled_at,
        qj_schedule_name := qj_schedule_name r, qj_status := ''scheduled''\<rparr>"

text \<open>\<open>attempt\<close> is an \<open>INTEGER\<close> column: incrementing the largest 32-bit value is an error.\<close>

definition insert_retry :: "ulid \<Rightarrow> time \<Rightarrow> time \<Rightarrow> ulid \<Rightarrow> (db_error, nat) io" where
  "insert_retry new_job_id created_at scheduled_at i w =
     (let rows = filter (\<lambda>r. qj_id r = i \<and> qj_status r = ''failed'') (queue_jobs (w_db w))
      in if list_ex (\<lambda>r. qj_attempt r \<ge> 2 ^ 31 - 1) rows then (Inl DieselOutOfRange, w)
         else execute (\<lambda>d. (length rows,
           put_jobs (queue_jobs d @ map (retry_row new_job_id created_at scheduled_at) rows) d)) w)"

text \<open>What follows the insertion: the schedule and the old job point to the new one.\<close>

definition link_retry :: "ulid \<Rightarrow> ulid \<Rightarrow> time \<Rightarrow> nat \<Rightarrow> (db_error, unit) io" where
  "link_retry i new_job_id scheduled_at inserted =
     thenE (ensure_affected_rows inserted 1)
    (bindE (update_table queue_schedules put_schedules
              (\<lambda>r. qs_last_scheduled_job_id r = Some i)
              (\<lambda>r. r\<lparr>qs_last_scheduled_at := Some scheduled_at,
                     qs_last_scheduled_job_id := Some new_job_id\<rparr>)) (\<lambda>_.
     bindE (update_table queue_jobs put_jobs (\<lambda>r. qj_id r = i)
              (\<lambda>r. r\<lparr>qj_next_attempt_id := Some new_job_id\<rparr>)) (\<lambda>rows_affected.
       ensure_affected_rows rows_affected 1)))"

definition retry :: "ulid \<Rightarrow> duration \<Rightarrow> (db_error, unit) io" where
  "retry i delay =
     bindE now (\<lambda>at.
     bindE (draw_id at) (\<lambda>new_job_id.
     bindE (insert_retry new_job_id at (at + delay) i) (link_retry i new_job_id (at + delay))))"

definition schedule_available_jobs :: "(db_error, nat) io" where
  "schedule_available_jobs =
     bindE now (\<lambda>at.
       update_table queue_jobs put_jobs
         (\<lambda>r. qj_status r = ''scheduled'' \<and>
              (case qj_scheduled_at r of None \<Rightarrow> False | Some t \<Rightarrow> t \<le> at))
         (\<lambda>r. r\<lparr>qj_status := ''available''\<rparr>))"

definition abandoned :: "db \<Rightarrow> job_row \<Rightarrow> bool" where
  "abandoned d r \<longleftrightarrow>
     qj_status r = ''running'' \<and>
     list_ex (\<lambda>k. qj_started_by r = Some (qw_id k) \<and> qw_shutdown_at k \<noteq> None) (queue_workers d)"

text \<open>The id and the attempt of an \<open>AbandonedJob\<close>; the other fields are only logged.\<close>

definition decode_abandoned :: "job_row \<Rightarrow> db_error + ulid \<times> nat" where
  "decode_abandoned r =
     (if qj_attempt r < 0 then Inl (Inconsistency ''queue_jobs'' (Some ''attempt'') (Some (qj_id r)))
      else Inr (qj_id r, nat (qj_attempt r)))"

definition mark_abandoned_jobs_as_failed :: "string \<Rightarrow> (db_error, (ulid \<times> nat) list) io" where
  "mark_abandoned_jobs_as_failed reason =
     bindE now (\<lambda>at.
     bindE (execute (\<lambda>d.
              (filter (abandoned d) (queue_jobs d),
               put_jobs (upd_rows (abandoned d)
                 (\<lambda>r. r\<lparr>qj_status := ''failed'', qj_failed_at := Some at,
                        qj_failed_reason := Some reason\<rparr>) (queue_jobs d)) d)))
       (\<lambda>jobs. of_result (collect_results (map decode_abandoned jobs))))"

definition job_cleanup :: "ulid option \<Rightarrow> ulid \<Rightarrow> nat \<Rightarrow> (db_error, nat \<times> ulid option) io" where
  "job_cleanup since until limit =
     execute (\<lambda>d.
       let dead = map qj_id (first_rows_by_id qj_id since until limit
                    (filter (\<lambda>r. qj_status r = ''completed'' \<or> qj_status r = ''failed'')
                      (queue_jobs d)))
       in ((length dead, max_id dead),
           put_jobs (del_rows (\<lambda>r. qj_id r \<in> set dead) (queue_jobs d)) d))"

section \<open>Enqueueing\<close>

definition sync_devices_queue :: string where
  "sync_devices_queue = ''sync-devices''"

text \<open>\<open>SyncDevicesJob::new_for_id\<close> serialised: one field, the user's id in its display form.\<close>

definition sync_devices_payload :: "(ulid \<Rightarrow> string) \<Rightarrow> ulid \<Rightarrow> json" where
  "sync_devices_payload ulid_string user_id = JObj [(''user_id'', JStr (ulid_string user_id))]"

definition schedule_job :: "json \<Rightarrow> string \<Rightarrow> json \<Rightarrow> (db_error, unit) io" where
  "schedule_job span_metadata queue_name payload = schedule queue_name payload span_metadata"

section \<open>Workers and the leader lease\<close>

definition worker_register :: "(db_error, ulid) io" where
  "worker_register =
     bindE now (\<lambda>at.
     bindE (draw_id at) (\<lambda>i.
     thenE (insert_row queue_workers put_workers
              \<lparr>qw_id = i, qw_registered_at = at, qw_last_seen_at = at, qw_shutdown_at = None\<rparr>)
       (ret i)))"

definition worker_heartbeat :: "ulid \<Rightarrow> (db_error, unit) io" where
  "worker_heartbeat i =
     bindE now (\<lambda>at.
     bindE (update_table queue_workers put_workers (\<lambda>r. qw_id r = i \<and> qw_shutdown_at r = None)
              (\<lambda>r. r\<lparr>qw_last_seen_at := at\<rparr>))
       (\<lambda>rows_affected. ensure_affected_rows rows_affected 1))"

definition delete_leader :: "(leader_row \<Rightarrow> bool) \<Rightarrow> (db_error, nat) io" where
  "delete_leader p =
     execute (\<lambda>d. (n_rows p (queue_leader d), d\<lparr>queue_leader := del_rows p (queue_leader d)\<rparr>))"

definition worker_shutdown :: "ulid \<Rightarrow> (db_error, unit) io" where
  "worker_shutdown i =
     bindE now (\<lambda>at.
     bindE (update_table queue_workers put_workers (\<lambda>r. qw_id r = i)
              (\<lambda>r. r\<lparr>qw_shutdown_at := Some at\<rparr>)) (\<lambda>rows_affected.
     thenE (ensure_affected_rows rows_affected 1)
    (bindE (delete_leader (\<lambda>r. ql_worker_id r = i)) (\<lambda>_. ret ()))))"

definition shutdown_dead_workers :: "duration \<Rightarrow> (db_error, ulid list) io" where
  "shutdown_dead_workers threshold =
     bindE now (\<lambda>at.
       execute (\<lambda>d.
         let dead = (\<lambda>r. qw_shutdown_at r = None \<and> qw_last_seen_at r < at - threshold)
         in (map qw_id (filter dead (queue_workers d)),
             put_workers (upd_rows dead (\<lambda>r. r\<lparr>qw_shutdown_at := Some at\<rparr>) (queue_workers d)) d)))"

definition remove_leader_lease_if_expired :: "time \<Rightarrow> (db_error, unit) io" where
  "remove_leader_lease_if_expired db_now =
     bindE (delete_leader (\<lambda>r. ql_expires_at r < db_now)) (\<lambda>_. ret ())"

text \<open>
  The upsert of the lease: \<open>active\<close> defaults to true and is the conflict target; on conflict the
  row is updated only when it is ours.
\<close>

definition upsert_leader :: "time \<Rightarrow> time \<Rightarrow> ulid \<Rightarrow> db \<Rightarrow> nat \<times> db" where
  "upsert_leader elected_at expires_at i d =
     (if list_ex ql_active (queue_leader d)
      then (n_rows (\<lambda>r. ql_active r \<and> ql_worker_id r = i) (queue_leader d),
            d\<lparr>queue_leader := upd_rows (\<lambda>r. ql_active r \<and> ql_worker_id r = i)
                 (\<lambda>r. r\<lparr>ql_expires_at := expires_at\<rparr>) (queue_leader d)\<rparr>)
      else (1, d\<lparr>queue_leader := queue_leader d @
                  [\<lparr>ql_active = True, ql_elected_at = elected_at, ql_expires_at = expires_at,
                    ql_worker_id = i\<rparr>]\<rparr>))"

definition try_get_leader_lease :: "time \<Rightarrow> ulid \<Rightarrow> (db_error, bool) io" where
  "try_get_leader_lease db_now i =
     bindE now (\<lambda>at.
     bindE (execute (upsert_leader at (db_now + 5 * 1000 * 1000) i))
       (\<lambda>rows_affected. ret (rows_affected = 1)))"

section \<open>Schedules\<close>

text \<open>\<open>INSERT .. ON CONFLICT DO NOTHING\<close>, row by row.\<close>

fun add_schedules :: "string list \<Rightarrow> schedule_row list \<Rightarrow> schedule_row list" where
  "add_schedules [] t = t"
| "add_schedules (n # ns) t =
     add_schedules ns
       (if list_ex (\<lambda>r. qs_name r = n) t then t
        else t @ [\<lparr>qs_name = n, qs_last_scheduled_at = None, qs_last_scheduled_job_id = None\<rparr>])"

definition schedule_setup :: "string list \<Rightarrow> (db_error, unit) io" where
  "schedule_setup names = execute (\<lambda>d. ((), put_schedules (add_schedules names (queue_schedules d)) d))"

record schedule_status =
  ss_name :: string
  ss_last_scheduled_at :: "time option"
  ss_last_job_completed :: "bool option"

definition schedule_status_of :: "db \<Rightarrow> schedule_row \<Rightarrow> schedule_status" where
  "schedule_status_of d r =
     \<lparr>ss_name = qs_name r, ss_last_scheduled_at = qs_last_scheduled_at r,
      ss_last_job_completed =
        (case qs_last_scheduled_job_id r of
           None \<Rightarrow> None
         | Some i \<Rightarrow> map_option (\<lambda>j. qj_status j = ''completed'' \<or> qj_status j = ''failed'')
                      (row_by_id qj_id (queue_jobs d) i))\<rparr>"

definition schedule_list :: "(db_error, schedule_status list) io" where
  "schedule_list = query (\<lambda>d. map (schedule_status_of d) (queue_schedules d))"

section \<open>How a job evolves\<close>

text \<open>
  A job moves forward through \<open>scheduled\<close>, \<open>available\<close>, \<open>running\<close> and one of the final statuses;
  what it is to do never changes.
\<close>

definition status_rank :: "string \<Rightarrow> nat" where
  "status_rank s =
     (if s = ''scheduled'' then 0 else if s = ''available'' then 1
      else if s = ''running'' then 2 else 3)"

definition job_evolves :: "job_row \<Rightarrow> job_row \<Rightarrow> bool" where
  "job_evolves r r' \<longleftrightarrow>
     qj_id r' = qj_id r \<and> qj_queue_name r' = qj_queue_name r \<and> qj_payload r' = qj_payload r
     \<and> qj_metadata r' = qj_metadata r \<and> qj_attempt r' = qj_attempt r
     \<and> status_rank (qj_status r) \<le> status_rank (qj_status r')
     \<and> (status_rank (qj_status r) = 3 \<longrightarrow> qj_status r' = qj_status r)"

definition jobs_evolve :: "job_row list \<Rightarrow> job_row list \<Rightarrow> bool" where
  "jobs_evolve t t' \<longleftrightarrow> (\<forall>r \<in> set t. \<exists>r' \<in> set t'. job_evolves r r')"

text \<open>
  The statements of the repositories that workers and services run, in any order, each with its
  effect whether or not it succeeds. Clean-up removes finished jobs and is not one of them.
\<close>

inductive queue_step :: "world \<Rightarrow> world \<Rightarrow> bool" where
  step_schedule: "queue_step w (snd (schedule q p m w))"
| step_schedule_later: "queue_step w (snd (schedule_later q p m at n w))"
| step_reserve: "queue_step w (snd (reserve parse_metadata worker_id qs n w))"
| step_completed: "queue_step w (snd (mark_as_completed i w))"
| step_failed: "queue_step w (snd (mark_as_failed i reason w))"
| step_retry: "queue_step w (snd (retry i delay w))"
| step_available: "queue_step w (snd (schedule_available_jobs w))"
| step_abandoned: "queue_step w (snd (mark_abandoned_jobs_as_failed reason w))"
| step_register: "queue_step w (snd (worker_register w))"
| step_heartbeat: "queue_step w (snd (worker_heartbeat i w))"
| step_shutdown: "queue_step w (snd (worker_shutdown i w))"
| step_dead: "queue_step w (snd (shutdown_dead_workers threshold w))"
| step_lease_removed: "queue_step w (snd (remove_leader_lease_if_expired db_now w))"
| step_lease: "queue_step w (snd (try_get_leader_lease db_now i w))"
| step_setup: "queue_step w (snd (schedule_setup names w))"

section \<open>Lemmas\<close>

lemma collect_results_map_Inr [simp]: "collect_results (map Inr xs) = Inr xs"
  by (induction xs) auto

lemma collect_results_Inr: "collect_results rs = Inr xs \<longleftrightarrow> rs = map Inr xs"
proof
  show "collect_results rs = Inr xs \<Longrightarrow> rs = map Inr xs"
    by (induction rs arbitrary: xs rule: collect_results.induct) (auto split: sum.splits)
qed simp

lemma decode_job_fields:
  assumes "decode_job pm r = Inr j"
  shows "j_id j = qj_id r" "j_queue_name j = qj_queue_name r" "j_payload j = qj_payload r"
    "int (j_attempt j) = qj_attempt r"
  using assms by (auto simp: decode_job_def split: option.splits if_splits)

lemma set_lockable_jobs:
  "set (lockable_jobs qs n t) \<subseteq>
     qj_id ` {r \<in> set t. qj_status r = ''available'' \<and> qj_queue_name r \<in> set qs}"
  by (auto simp: lockable_jobs_def dest!: in_set_takeD)

lemma length_lockable_jobs: "length (lockable_jobs qs n t) \<le> n"
  by (simp add: lockable_jobs_def)

lemma sorted_lockable_jobs: "sorted (lockable_jobs qs n t)"
  unfolding lockable_jobs_def by (rule sorted_wrt_take) (rule sorted_sort_key)

lemma lockable_row:
  assumes "distinct (map qj_id t)" and "r \<in> set t" and "qj_id r \<in> set (lockable_jobs qs n t)"
  shows "qj_status r = ''available''" "qj_queue_name r \<in> set qs"
proof -
  from set_lockable_jobs assms(3) obtain r' where r': "r' \<in> set t" "qj_id r' = qj_id r"
      "qj_status r' = ''available''" "qj_queue_name r' \<in> set qs"
    by fastforce
  with assms have "r' = r"
    by (metis distinct_map_key_inj)
  with r' show "qj_status r = ''available''" "qj_queue_name r \<in> set qs"
    by simp_all
qed

text \<open>What a reservation does: it hands out rows that were available and marks exactly these.\<close>

definition reserve_row :: "time \<Rightarrow> ulid \<Rightarrow> job_row \<Rightarrow> job_row" where
  "reserve_row started_at worker_id r =
     r\<lparr>qj_status := ''running'', qj_started_at := Some started_at, qj_started_by := Some worker_id\<rparr>"

lemma reserve_Inr:
  assumes "reserve pm k qs n w = (Inr jobs, w')"
  shows "map (decode_job pm) (filter (\<lambda>r. qj_id r \<in> set (lockable_jobs qs n (queue_jobs (w_db w))))
      (queue_jobs (w_db w))) = map Inr jobs"
    "queue_jobs (w_db w') =
       upd_rows (\<lambda>r. qj_id r \<in> set (lockable_jobs qs n (queue_jobs (w_db w))))
         (reserve_row (clock_reading w) k) (queue_jobs (w_db w))"
    "consistent w'"
  using assms
  by (auto simp: reserve_def run_simps Let_def collect_results_Inr consistent_def
      reserve_row_def [abs_def])

lemma map_Inr_ids:
  assumes "map (decode_job pm) rs = map Inr jobs"
  shows "map j_id jobs = map qj_id rs" "map (int \<circ> j_attempt) jobs = map qj_attempt rs"
proof -
  have "map j_id jobs = map qj_id rs \<and> map (int \<circ> j_attempt) jobs = map qj_attempt rs"
    using assms
  proof (induction rs arbitrary: jobs)
    case (Cons r rs)
    then show ?case
      by (cases jobs) (auto dest: decode_job_fields)
  qed simp
  then show "map j_id jobs = map qj_id rs" "map (int \<circ> j_attempt) jobs = map qj_attempt rs"
    by auto
qed

lemma length_filter_ids:
  assumes "distinct (map key t)"
  shows "length (filter (\<lambda>r. key r \<in> set ids) t) \<le> length ids"
proof -
  have "length (filter (\<lambda>r. key r \<in> set ids) t) = card (set (map key (filter (\<lambda>r. key r \<in> set ids) t)))"
    using distinct_card [OF distinct_map_filter [OF assms]] by (metis length_map)
  also have "\<dots> \<le> card (set ids)"
    by (intro card_mono) auto
  also have "\<dots> \<le> length ids"
    by (rule card_length)
  finally show ?thesis .
qed

text \<open>Evolution is kept by every statement of the queue.\<close>

lemma job_evolves_refl [intro!]: "job_evolves r r"
  by (simp add: job_evolves_def)

lemma job_evolves_trans: "job_evolves r s \<Longrightarrow> job_evolves s u \<Longrightarrow> job_evolves r u"
  by (auto simp: job_evolves_def)

lemma jobs_evolve_refl [simp]: "jobs_evolve t t"
  by (auto simp: jobs_evolve_def)

lemma jobs_evolve_trans: "jobs_evolve t u \<Longrightarrow> jobs_evolve u v \<Longrightarrow> jobs_evolve t v"
  unfolding jobs_evolve_def by (meson job_evolves_trans)

lemma jobs_evolve_append: "jobs_evolve t (t @ new)"
  by (auto simp: jobs_evolve_def)

lemma jobs_evolve_upd:
  assumes "\<And>r. r \<in> set t \<Longrightarrow> p r \<Longrightarrow> job_evolves r (f r)"
  shows "jobs_evolve t (upd_rows p f t)"
  unfolding jobs_evolve_def upd_rows_def
proof
  fix r
  assume r: "r \<in> set t"
  then have "job_evolves r (if p r then f r else r)"
    using assms by auto
  moreover have "(if p r then f r else r) \<in> set (map (\<lambda>r. if p r then f r else r) t)"
    unfolding set_map using r by (rule imageI)
  ultimately show "\<exists>r' \<in> set (map (\<lambda>r. if p r then f r else r) t). job_evolves r r'"
    by (rule bexI)
qed

text \<open>The invariant the operations keep, relative to a table they started from.\<close>

definition evolved :: "job_row list \<Rightarrow> world \<Rightarrow> bool" where
  "evolved t w \<longleftrightarrow> consistent w \<and> jobs_evolve t (queue_jobs (w_db w))"

lemma evolved_execute [intro]:
  assumes "\<And>d. db_ok d \<Longrightarrow> jobs_evolve (queue_jobs d) (queue_jobs (snd (f d)))"
  shows "keeps (evolved t) (execute f)"
proof (rule keepsI)
  fix w
  assume "evolved t w"
  with assms [of "w_db w"] show "evolved t (snd (execute f w))"
    by (auto simp: execute_def evolved_def consistent_def db_ok_def intro: jobs_evolve_trans
        split: prod.splits list.splits)
qed

lemma evolved_simple [intro!]:
  "keeps (evolved t) now" "keeps (evolved t) (draw_id i)" "keeps (evolved t) (query g)"
  by (simp_all add: keeps_def now_run draw_id_run query_run evolved_def consistent_def)

lemma evolved_update_jobs [intro]:
  assumes "\<And>r. p r \<Longrightarrow> job_evolves r (f r)"
  shows "keeps (evolved t) (update_table queue_jobs put_jobs p f)"
  unfolding update_table_def using assms by (intro evolved_execute) (auto intro: jobs_evolve_upd)

lemma evolved_other [intro!]:
  "keeps (evolved t) (update_table queue_schedules put_schedules ps fs)"
  "keeps (evolved t) (update_table queue_workers put_workers pw fw)"
  "keeps (evolved t) (insert_row queue_workers put_workers rw)"
  "keeps (evolved t) (delete_leader pl)"
  unfolding update_table_def insert_row_def delete_leader_def by (intro evolved_execute; simp)+

lemma evolved_insert_job [intro!]: "keeps (evolved t) (insert_row queue_jobs put_jobs r)"
  unfolding insert_row_def by (intro evolved_execute) (simp add: jobs_evolve_append)

lemma evolved_insert_retry [intro!]: "keeps (evolved t) (insert_retry i c at j)"
proof -
  have "keeps (evolved t) (execute (\<lambda>d. (n, put_jobs (queue_jobs d @ rows) d)))" for n :: nat and rows
    by (intro evolved_execute) (simp add: jobs_evolve_append)
  then show ?thesis
    by (intro keepsI) (simp add: insert_retry_def Let_def keeps_def)
qed

lemma evolved_mark [intro!]:
  "keeps (evolved t) (mark_as_completed i)" "keeps (evolved t) (mark_as_failed i reason)"
  "keeps (evolved t) (schedule_available_jobs)"
  unfolding mark_as_completed_def mark_as_failed_def schedule_available_jobs_def
  by (intro keeps_bindE evolved_simple evolved_update_jobs consistent_ensure_affected_rows;
      simp add: job_evolves_def status_rank_def)+

lemma evolved_schedule [intro!]:
  "keeps (evolved t) (schedule q p m)" "keeps (evolved t) (schedule_later q p m at n)"
  unfolding schedule_def schedule_later_def
  by (auto intro!: keeps_bindE keeps_thenE split: option.split)

lemma evolved_retry [intro!]: "keeps (evolved t) (retry i delay)"
  unfolding retry_def link_retry_def
  by (intro keeps_bindE keeps_thenE evolved_simple evolved_insert_retry evolved_other
      evolved_update_jobs consistent_ensure_affected_rows) (simp add: job_evolves_def)

lemma evolved_reserve [intro!]: "keeps (evolved t) (reserve pm k qs n)"
proof -
  have "jobs_evolve (queue_jobs d) (upd_rows (\<lambda>r. qj_id r \<in> set (lockable_jobs qs n (queue_jobs d)))
      (\<lambda>r. r\<lparr>qj_status := ''running'', qj_started_at := s, qj_started_by := b\<rparr>) (queue_jobs d))"
    if "db_ok d" for d s b
    using lockable_row [OF db_ok_distinct(11) [OF that]]
    by (intro jobs_evolve_upd) (simp add: job_evolves_def status_rank_def)
  then show ?thesis
    unfolding reserve_def by (intro keeps_bindE evolved_execute evolved_simple keeps_of_result)
      (simp add: Let_def)
qed

lemma evolved_abandoned [intro!]: "keeps (evolved t) (mark_abandoned_jobs_as_failed reason)"
  unfolding mark_abandoned_jobs_as_failed_def
  by (intro keeps_bindE evolved_execute evolved_simple keeps_of_result)
    (auto intro!: jobs_evolve_upd simp: job_evolves_def status_rank_def abandoned_def)

lemma evolved_workers [intro!]:
  "keeps (evolved t) worker_register" "keeps (evolved t) (worker_heartbeat i)"
  "keeps (evolved t) (worker_shutdown i)" "keeps (evolved t) (shutdown_dead_workers dur)"
  "keeps (evolved t) (remove_leader_lease_if_expired db_now)"
  "keeps (evolved t) (try_get_leader_lease db_now i)" "keeps (evolved t) (schedule_setup names)"
  unfolding worker_register_def worker_heartbeat_def worker_shutdown_def shutdown_dead_workers_def
    remove_leader_lease_if_expired_def try_get_leader_lease_def schedule_setup_def
  by (auto intro!: keeps_bindE keeps_thenE evolved_execute simp: Let_def upsert_leader_def)

lemma keeps_snd: "keeps P m \<Longrightarrow> P w \<Longrightarrow> P (snd (m w))"
  by (simp add: keeps_def)

lemma queue_step_evolved: "queue_step w w' \<Longrightarrow> evolved t w \<Longrightarrow> evolved t w'"
  by (induction rule: queue_step.induct; rule keeps_snd; (rule evolved_mark evolved_schedule
      evolved_retry evolved_reserve evolved_abandoned evolved_workers | assumption))

lemma queue_steps_evolved: "queue_step\<^sup>*\<^sup>* w w' \<Longrightarrow> evolved t w \<Longrightarrow> evolved t w'"
  by (induction rule: rtranclp_induct) (auto intro: queue_step_evolved)

text \<open>Once reserved, a job is never available again.\<close>

lemma reserved_rank:
  assumes run: "reserve pm k qs n w = (Inr jobs, w')" and ok: "consistent w" and j: "j \<in> set jobs"
  shows "\<exists>r \<in> set (queue_jobs (w_db w')). qj_id r = j_id j \<and> qj_status r = ''running''
    \<and> qj_started_by r = Some k"
proof -
  let ?P = "\<lambda>r. qj_id r \<in> set (lockable_jobs qs n (queue_jobs (w_db w)))"
  from map_Inr_ids(1) [OF reserve_Inr(1) [OF run]] j
  have "j_id j \<in> set (map qj_id (filter ?P (queue_jobs (w_db w))))"
    by (metis image_eqI list.set_map)
  then obtain r where r: "r \<in> set (queue_jobs (w_db w))" "?P r" "qj_id r = j_id j"
    by auto
  then have "reserve_row (clock_reading w) k r \<in> set (queue_jobs (w_db w'))"
    unfolding reserve_Inr(2) [OF run] upd_rows_def by force
  with r show ?thesis
    by (intro bexI) (auto simp: reserve_row_def)
qed

lemma reserved_was_available:
  assumes run: "reserve pm k qs n w = (Inr jobs, w')" and j: "j \<in> set jobs"
  shows "\<exists>r \<in> set (queue_jobs (w_db w)). qj_id r = j_id j \<and> qj_status r = ''available''
    \<and> qj_queue_name r \<in> set qs"
proof -
  from map_Inr_ids(1) [OF reserve_Inr(1) [OF run]] j
  have "j_id j \<in> set (map qj_id (filter (\<lambda>r. qj_id r \<in> set (lockable_jobs qs n (queue_jobs (w_db w))))
      (queue_jobs (w_db w))))"
    by (metis image_eqI list.set_map)
  then have "j_id j \<in> set (lockable_jobs qs n (queue_jobs (w_db w)))"
    by auto
  with set_lockable_jobs show ?thesis
    by fastforce
qed

lemma reserved_count:
  assumes "reserve pm k qs n w = (Inr jobs, w')" and "consistent w"
  shows "length jobs \<le> n"
proof -
  have "length jobs = length (map j_id jobs)"
    by simp
  also have "\<dots> = length (filter (\<lambda>r. qj_id r \<in> set (lockable_jobs qs n (queue_jobs (w_db w))))
      (queue_jobs (w_db w)))"
    unfolding map_Inr_ids(1) [OF reserve_Inr(1) [OF assms(1)]] by simp
  also have "\<dots> \<le> length (lockable_jobs qs n (queue_jobs (w_db w)))"
    using assms(2) by (intro length_filter_ids) (simp add: consistent_def db_ok_distinct)
  also have "\<dots> \<le> n"
    by (rule length_lockable_jobs)
  finally show ?thesis .
qed

lemma never_available_again:
  assumes "evolved t w" and "r \<in> set t" and "2 \<le> status_rank (qj_status r)"
    and "r' \<in> set (queue_jobs (w_db w))" and "qj_id r' = qj_id r"
  shows "qj_status r' \<noteq> ''available''"
proof -
  from assms obtain s where s: "s \<in> set (queue_jobs (w_db w))" "job_evolves r s"
    by (auto simp: evolved_def jobs_evolve_def)
  moreover have "distinct (map qj_id (queue_jobs (w_db w)))"
    using assms by (simp add: evolved_def consistent_def db_ok_distinct)
  ultimately have "s = r'"
    using assms by (metis distinct_map_key_inj job_evolves_def)
  with s assms(3) show ?thesis
    by (auto simp: job_evolves_def status_rank_def split: if_splits)
qed

text \<open>A retry inserts one row after a failed job and links the two.\<close>

lemma retry_run:
  "retry i delay w =
     bindE (insert_retry (next_id w) (clock_reading w) (clock_reading w + delay) i)
       (link_retry i (next_id w) (clock_reading w + delay)) (after_new_id w)"
  by (simp add: retry_def bindE_def [of now] bindE_def [of "draw_id _"] now_run draw_id_run
      next_id_def after_new_id_def)

lemma insert_retry_Inr:
  assumes "insert_retry k c at i w = (Inr n, w')"
  defines "rows \<equiv> filter (\<lambda>r. qj_id r = i \<and> qj_status r = ''failed'') (queue_jobs (w_db w))"
  shows "n = length rows" "\<forall>r \<in> set rows. qj_attempt r < 2 ^ 31 - 1"
    "w_db w' = put_jobs (queue_jobs (w_db w) @ map (retry_row k c at) rows) (w_db w)"
  using assms(1)
  by (auto simp: insert_retry_def rows_def [symmetric] execute_Inr list_ex_iff split: if_splits)

lemma retry_Inr:
  assumes "retry i delay w = (Inr u, w')"
  shows "\<exists>r. r \<in> set (queue_jobs (w_db w)) \<and> qj_id r = i \<and> qj_status r = ''failed''
    \<and> qj_attempt r < 2 ^ 31 - 1
    \<and> queue_jobs (w_db w') = upd_rows (\<lambda>r. qj_id r = i) (\<lambda>r. r\<lparr>qj_next_attempt_id := Some (next_id w)\<rparr>)
        (queue_jobs (w_db w) @ [retry_row (next_id w) (clock_reading w) (clock_reading w + delay) r])"
proof -
  let ?rows = "filter (\<lambda>r. qj_id r = i \<and> qj_status r = ''failed'') (queue_jobs (w_db w))"
  from assms obtain w1 where
    ins: "insert_retry (next_id w) (clock_reading w) (clock_reading w + delay) i (after_new_id w) =
      (Inr 1, w1)"
    and t: "queue_jobs (w_db w') = upd_rows (\<lambda>r. qj_id r = i)
        (\<lambda>r. r\<lparr>qj_next_attempt_id := Some (next_id w)\<rparr>) (queue_jobs (w_db w1))"
    by (auto simp: retry_def link_retry_def run_simps next_id_def after_new_id_def)
  note ins = insert_retry_Inr [OF ins, simplified]
  from ins(1) obtain r where r: "?rows = [r]"
    by (cases ?rows) auto
  then have "r \<in> set ?rows"
    by simp
  then have "r \<in> set (queue_jobs (w_db w))" "qj_id r = i" "qj_status r = ''failed''"
    by simp_all
  with r ins t show ?thesis
    by (intro exI [of _ r]) auto
qed

text \<open>The leader lease: at most one worker holds it.\<close>

lemma active_unique:
  assumes "distinct (map ql_active t)" and "r \<in> set t" and "s \<in> set t" and "ql_active r" and "ql_active s"
  shows "r = s"
  using assms by (intro distinct_map_key_inj [OF assms(1)]) simp_all

lemma active_rows:
  assumes "distinct (map ql_active t)" and "a \<in> set t" and "ql_active a"
  shows "n_rows (\<lambda>r. ql_active r \<and> ql_worker_id r = i) t = (if ql_worker_id a = i then 1 else 0)"
proof -
  have "filter (\<lambda>r. ql_active r \<and> ql_worker_id r = i) t =
      (if ql_worker_id a = i then filter (\<lambda>r. ql_active r = True) t else [])"
    using active_unique [OF assms(1) _ assms(2) _ assms(3)]
    by (auto simp: filter_empty_conv intro!: filter_cong)
  moreover have "n_rows (\<lambda>r. ql_active r = True) t = 1"
    using n_rows_key [OF assms(1), of True] assms(2,3) by (auto simp: image_iff)
  ultimately show ?thesis
    by (simp add: n_rows_def)
qed

lemma try_get_leader_lease_Inr:
  assumes run: "try_get_leader_lease db_now i w = (Inr b, w')" and ok: "consistent w"
  shows "b \<longleftrightarrow> (\<forall>r \<in> set (queue_leader (w_db w)). ql_active r \<longrightarrow> ql_worker_id r = i)"
    and "b \<Longrightarrow> \<exists>r \<in> set (queue_leader (w_db w')). ql_active r \<and> ql_worker_id r = i
               \<and> ql_expires_at r = db_now + 5000000"
proof -
  let ?t = "queue_leader (w_db w)"
  have dist: "distinct (map ql_active ?t)"
    using ok by (simp add: consistent_def db_ok_distinct)
  obtain n d where
    up: "upsert_leader (clock_reading w) (db_now + 5000000) i (w_db w) = (n, d)"
    by fastforce
  with run have b: "b \<longleftrightarrow> n = 1" and w': "w_db w' = d"
    by (auto simp: try_get_leader_lease_def run_simps)
  show "b \<longleftrightarrow> (\<forall>r \<in> set ?t. ql_active r \<longrightarrow> ql_worker_id r = i)"
  proof (cases "\<exists>a \<in> set ?t. ql_active a")
    case True
    then obtain a where a: "a \<in> set ?t" "ql_active a" by blast
    then have "list_ex ql_active ?t"
      by (auto simp: list_ex_iff)
    with up active_rows [OF dist a, of i] have "n = (if ql_worker_id a = i then 1 else 0)"
      by (simp add: upsert_leader_def)
    moreover have "(\<forall>r \<in> set ?t. ql_active r \<longrightarrow> ql_worker_id r = i) \<longleftrightarrow> ql_worker_id a = i"
      using a active_unique [OF dist a(1) _ a(2)] by blast
    ultimately show ?thesis
      using b by simp
  next
    case False
    then have "\<not> list_ex ql_active ?t"
      by (simp add: list_ex_iff)
    with up b False show ?thesis
      by (simp add: upsert_leader_def)
  qed
  show "b \<Longrightarrow> \<exists>r \<in> set (queue_leader (w_db w')). ql_active r \<and> ql_worker_id r = i
               \<and> ql_expires_at r = db_now + 5000000"
  proof (cases "list_ex ql_active ?t")
    assume b and ex: "list_ex ql_active ?t"
    with b up have "0 < n_rows (\<lambda>r. ql_active r \<and> ql_worker_id r = i) ?t"
      by (simp add: upsert_leader_def)
    then obtain a where a: "a \<in> set ?t" "ql_active a" "ql_worker_id a = i"
      unfolding n_rows_pos by blast
    from ex up have "queue_leader d = upd_rows (\<lambda>r. ql_active r \<and> ql_worker_id r = i)
        (\<lambda>r. r\<lparr>ql_expires_at := db_now + 5000000\<rparr>) ?t"
      by (auto simp: upsert_leader_def)
    with a w' have "a\<lparr>ql_expires_at := db_now + 5000000\<rparr> \<in> set (queue_leader (w_db w'))"
      by (force simp: upd_rows_def)
    with a show ?thesis
      by (intro bexI) auto
  next
    assume "\<not> list_ex ql_active ?t"
    with up have "\<exists>r \<in> set (queue_leader d). ql_active r \<and> ql_worker_id r = i
        \<and> ql_expires_at r = db_now + 5000000"
      by (auto simp: upsert_leader_def)
    with w' show ?thesis
      by simp
  qed
qed

end
