(* ===== verification/Frames.thy ===== *)
theory Frames
  imports Service_Env Personal_Storage Queue_Storage
begin

text \<open>
  Which tables an operation leaves alone. \<open>view_is get x\<close> says that the part \<open>get\<close> of the database
  is \<open>x\<close>: an operation keeps it when none of its statements writes a table that \<open>get\<close> reads.
\<close>

definition view_is :: "(db \<Rightarrow> 'a) \<Rightarrow> 'a \<Rightarrow> world \<Rightarrow> bool" where
  "view_is get x w \<longleftrightarrow> get (w_db w) = x"

lemma view_isD: "keeps (view_is get (get (w_db w))) m \<Longrightarrow> m w = (r, w') \<Longrightarrow> get (w_db w') = get (w_db w)"
  by (auto simp: keeps_def view_is_def dest!: spec [of _ w])

lemma view_same_db: "(\<And>d. keeps (same_db d) m) \<Longrightarrow> keeps (view_is get x) m"
  by (simp add: keeps_def same_db_def view_is_def)

lemma view_effects [intro!]:
  "keeps (view_is get x) now" "keeps (view_is get x) (draw f)" "keeps (view_is get x) (draw_id t)"
  "keeps (view_is get x) (query g)"
  "keeps (view_is get x) (record_oauth2_session ip s)"
  "keeps (view_is get x) (record_personal_session ip ps)"
  "keeps (view_is get x) (acquire_lock_for_sync user)"
  "keeps (view_is get x) (provision_devices e err u ids dn)"
  "keeps (view_is get x) save"
  by (auto intro!: view_same_db simp: draw_id_def)
    (simp add: keeps_def same_db_def save_def)

lemma view_execute [intro]:
  "(\<And>d. get (snd (f d)) = get d) \<Longrightarrow> keeps (view_is get x) (execute f)"
  by (auto simp: keeps_def view_is_def execute_def split: prod.splits list.splits)
    (metis snd_conv)

lemma view_update_table [intro]:
  "(\<And>t d. get (put t d) = get d) \<Longrightarrow> keeps (view_is get x) (update_table g put p f)"
  unfolding update_table_def by (rule view_execute) simp

lemma view_insert_row [intro]:
  "(\<And>t d. get (put t d) = get d) \<Longrightarrow> keeps (view_is get x) (insert_row g put r)"
  unfolding insert_row_def by (rule view_execute) simp

lemma view_update_then_transition [intro]:
  "(\<And>t d. get (put t d) = get d) \<Longrightarrow>
     keeps (view_is get x) (update_then_transition g put key ident upd tr m)"
  unfolding update_then_transition_def by (intro keeps_bindE keeps_thenE) auto

lemma view_transition_then_update [intro]:
  "(\<And>t d. get (put t d) = get d) \<Longrightarrow>
     keeps (view_is get x) (transition_then_update g put key ident upd tr m)"
  unfolding transition_then_update_def by (intro keeps_bindE keeps_thenE) auto

text \<open>Scheduling a job writes \<open>queue_jobs\<close> only.\<close>

lemma view_schedule_job [intro]:
  "(\<And>t d. get (put_jobs t d) = get d) \<Longrightarrow> keeps (view_is get x) (schedule_job m q p)"
  unfolding schedule_job_def schedule_def by (auto intro!: keeps_bindE)

text \<open>
  An operation whose failures commit nothing: the commit is its last effect.
\<close>

definition fails_clean :: "(world, 'e, 'a) exc \<Rightarrow> bool" where
  "fails_clean m \<longleftrightarrow> (\<forall>w err w'. m w = (Inl err, w') \<longrightarrow> w_committed w' = w_committed w)"

lemma fails_cleanD: "fails_clean m \<Longrightarrow> m w = (Inl err, w') \<Longrightarrow> w_committed w' = w_committed w"
  by (auto simp: fails_clean_def)

lemma fails_clean_committed: "(\<And>d. keeps (committed_is d) m) \<Longrightarrow> fails_clean m"
  unfolding fails_clean_def using keepsD [where P = "committed_is _"]
  by (metis committed_is_def)

lemma fails_clean_throw: "fails_clean (throw err)"
  by (rule fails_clean_committed) (rule keeps_throw)

lemma fails_clean_commit: "fails_clean (thenE save (ret x))"
  by (auto simp: fails_clean_def thenE_def bindE_def save_def ret_def)

lemma fails_clean_bindE:
  assumes "\<And>d. keeps (committed_is d) m" and "\<And>a. fails_clean (f a)"
  shows "fails_clean (bindE m f)"
  unfolding fails_clean_def
proof (intro allI impI)
  fix w err w'
  assume run: "bindE m f w = (Inl err, w')"
  obtain r w1 where m: "m w = (r, w1)"
    by (cases "m w")
  have "w_committed w1 = w_committed w"
    using keepsD [OF assms(1) m, of "w_committed w"] by (simp add: committed_is_def)
  then show "w_committed w' = w_committed w"
    using run m assms(2) by (cases r) (auto simp: bindE_def fails_clean_def)
qed

lemma fails_clean_thenE:
  "(\<And>d. keeps (committed_is d) m) \<Longrightarrow> fails_clean n \<Longrightarrow> fails_clean (thenE m n)"
  unfolding thenE_def by (rule fails_clean_bindE)

end
