(* ===== verification/Revocation.thy ===== *)
theory Revocation
  imports Introspection Frames
begin

text \<open>
  Token revocation: \<open>crates/backend/src/handlers/oauth2/revocation_service.rs\<close> and the reply of
  \<open>revoke.rs\<close>, from the authenticated caller on. \<open>client_id\<close> is \<open>None\<close> for a caller that presented
  the homeserver's secret.

  The lemmas show that a revocation ends the session of the token, that only its own client may ask
  for it, and that afterwards no token of the session is live.
\<close>

datatype revocation_error =
    VE_Repository db_error
  | VE_UnsupportedTokenType
  | VE_UnknownToken
  | VE_UnauthorizedClient

section \<open>Personal access tokens\<close>

definition owned_by_client :: "ulid option \<Rightarrow> personal_session_owner \<Rightarrow> bool" where
  "owned_by_client client_id owner =
     (case client_id of
        None \<Rightarrow> True
      | Some i \<Rightarrow> (case owner of OwnerOAuth2Client c \<Rightarrow> c = i | OwnerUser _ \<Rightarrow> False))"

definition load_personal_for_revocation ::
    "env \<Rightarrow> string \<Rightarrow> ulid option \<Rightarrow>
     (revocation_error, personal_access_token \<times> personal_session) io" where
  "load_personal_for_revocation e token client_id =
     bindE (map_err VE_Repository (personal_token_find_by_token (e_sha256 e) token)) (\<lambda>t.
     bindE (ok_or VE_UnknownToken t) (\<lambda>t.
     bindE now (\<lambda>at.
     thenE (ensure (pt_is_valid at t) VE_UnknownToken)
    (bindE (map_err VE_Repository (personal_session_lookup (pt_session_id t))) (\<lambda>s.
     bindE (ok_or VE_UnknownToken s) (\<lambda>s.
     thenE (ensure (ps_state s = PS_Valid) VE_UnknownToken)
    (thenE (ensure (owned_by_client client_id (ps_owner s)) VE_UnauthorizedClient)
       (ret (t, s)))))))))"

definition schedule_device_sync :: "env \<Rightarrow> ulid \<Rightarrow> (db_error, unit) io" where
  "schedule_device_sync e user_id =
     schedule_job (e_span_metadata e) sync_devices_queue
       (sync_devices_payload (e_ulid_string e) user_id)"

definition revoke_personal_token :: "env \<Rightarrow> string option \<Rightarrow> string \<Rightarrow> ulid option \<Rightarrow> (revocation_error, unit) io"
  where
  "revoke_personal_token e ip token client_id =
     bindE (load_personal_for_revocation e token client_id) (\<lambda>(t, s).
     thenE (record_personal_session ip s)
    (thenE (map_err VE_Repository (personal_token_revoke_op t))
    (bindE (map_err VE_Repository (personal_session_revoke_op s)) (\<lambda>revoked.
     whenE (has_device revoked)
       (map_err VE_Repository (schedule_device_sync e (ps_actor_user_id revoked)))))))"

section \<open>OAuth 2.0 tokens\<close>

definition find_access_for_revocation :: "string \<Rightarrow> (revocation_error, ulid) io" where
  "find_access_for_revocation token =
     bindE (map_err VE_Repository (access_token_find_by_token token)) (\<lambda>a.
     bindE (ok_or VE_UnknownToken a) (\<lambda>a.
     bindE now (\<lambda>at.
     thenE (ensure (at_is_valid at a) VE_UnknownToken)
       (ret (at_session_id a)))))"

definition find_refresh_for_revocation :: "string \<Rightarrow> (revocation_error, ulid) io" where
  "find_refresh_for_revocation token =
     bindE (map_err VE_Repository (refresh_token_find_by_token token)) (\<lambda>r.
     bindE (ok_or VE_UnknownToken r) (\<lambda>r.
     thenE (ensure (rt_is_valid r) VE_UnknownToken)
       (ret (rt_session_id r))))"

fun session_to_end :: "token_type_hint option \<Rightarrow> token_type \<Rightarrow> string \<Rightarrow> (revocation_error, ulid) io" where
  "session_to_end (Some Hint_AccessToken) TT_AccessToken token = find_access_for_revocation token"
| "session_to_end None TT_AccessToken token = find_access_for_revocation token"
| "session_to_end (Some Hint_RefreshToken) TT_RefreshToken token = find_refresh_for_revocation token"
| "session_to_end None TT_RefreshToken token = find_refresh_for_revocation token"
| "session_to_end (Some Hint_AccessToken) _ token = throw VE_UnknownToken"
| "session_to_end (Some Hint_RefreshToken) _ token = throw VE_UnknownToken"
| "session_to_end None _ token = throw VE_UnknownToken"
| "session_to_end (Some _) _ token = throw VE_UnsupportedTokenType"

definition load_session_to_end :: "ulid option \<Rightarrow> ulid \<Rightarrow> (revocation_error, session) io" where
  "load_session_to_end client_id session_id =
     bindE (map_err VE_Repository (oauth2_session_lookup session_id)) (\<lambda>s.
     bindE (ok_or VE_UnknownToken s) (\<lambda>s.
     thenE (ensure (session_is_valid (s_state s)) VE_UnknownToken)
    (thenE (ensure (case client_id of None \<Rightarrow> True | Some c \<Rightarrow> c = s_client_id s) VE_UnauthorizedClient)
       (ret s))))"

definition sync_session_user :: "env \<Rightarrow> session \<Rightarrow> (revocation_error, unit) io" where
  "sync_session_user e s =
     (case s_user_id s of
        None \<Rightarrow> ret ()
      | Some user_id \<Rightarrow>
          bindE (map_err VE_Repository (user_lookup (e_ulid_string e) user_id)) (\<lambda>user.
          bindE (ok_or VE_UnknownToken user) (\<lambda>user.
            map_err VE_Repository (schedule_device_sync e (u_id user)))))"

definition revoke_oauth2_token ::
    "env \<Rightarrow> string option \<Rightarrow> string \<Rightarrow> token_type_hint option \<Rightarrow> token_type \<Rightarrow> ulid option \<Rightarrow>
     (revocation_error, unit) io" where
  "revoke_oauth2_token e ip token hint token_type client_id =
     bindE (session_to_end hint token_type token) (\<lambda>session_id.
     bindE (load_session_to_end client_id session_id) (\<lambda>s.
     thenE (record_oauth2_session ip s)
    (thenE (sync_session_user e s)
    (bindE (map_err VE_Repository (oauth2_session_finish s)) (\<lambda>_. ret ())))))"

definition revoke_token ::
    "env \<Rightarrow> string option \<Rightarrow> string \<Rightarrow> token_type_hint option \<Rightarrow> ulid option \<Rightarrow>
     (revocation_error, unit) io" where
  "revoke_token e ip token hint client_id =
     bindE (map_err (\<lambda>_. VE_UnknownToken)
              (of_result (check (e_crc32 e) (e_base64url_decode e) token))) (\<lambda>token_type.
       if token_type = TT_PersonalAccessToken
       then (if hint = Some Hint_RefreshToken then throw VE_UnknownToken
             else revoke_personal_token e ip token client_id)
       else revoke_oauth2_token e ip token hint token_type client_id)"

section \<open>The endpoint\<close>

definition render_revocation_error :: "revocation_error \<Rightarrow> nat \<times> string option" where
  "render_revocation_error err =
     (case err of
        VE_Repository _ \<Rightarrow> (500, Some ''server_error'')
      | VE_UnsupportedTokenType \<Rightarrow> (400, Some ''unsupported_token_type'')
      | VE_UnknownToken \<Rightarrow> (200, None)
      | VE_UnauthorizedClient \<Rightarrow> (401, Some ''unauthorized_client''))"

definition revoke_post ::
    "env \<Rightarrow> string option \<Rightarrow> string \<Rightarrow> token_type_hint option \<Rightarrow> ulid option \<Rightarrow> world \<Rightarrow>
     (nat \<times> string option) \<times> world" where
  "revoke_post e ip token hint client_id w =
     (case request (revoke_token e ip token hint client_id) w of
        (Inr _, w') \<Rightarrow> ((200, None), w')
      | (Inl err, w') \<Rightarrow> (render_revocation_error err, w'))"

section \<open>Lemmas\<close>

text \<open>The session a stored access or refresh token belongs to.\<close>

definition session_of_token :: "db \<Rightarrow> token_type \<Rightarrow> string \<Rightarrow> ulid option" where
  "session_of_token d token_type token =
     (case token_type of
        TT_AccessToken \<Rightarrow>
          map_option oa_session_id (List.find (\<lambda>r. oa_access_token r = token) (oauth2_access_tokens d))
      | TT_RefreshToken \<Rightarrow>
          map_option or_session_id (List.find (\<lambda>r. or_refresh_token r = token) (oauth2_refresh_tokens d))
      | TT_PersonalAccessToken \<Rightarrow> None)"

lemma session_to_end_Inr:
  "session_to_end hint tt token w = (Inr i, w') \<Longrightarrow>
     w_db w' = w_db w \<and> session_of_token (w_db w) tt token = Some i"
  by (cases "(hint, tt, token)" rule: session_to_end.cases)
    (auto simp: find_access_for_revocation_def find_refresh_for_revocation_def run_simps
      session_of_token_def build_access_token_def decode_refresh_token_fields)

lemma load_session_to_end_Inr:
  "load_session_to_end client_id i w = (Inr s, w') \<longleftrightarrow>
     w' = w \<and> (\<exists>r. row_by_id os_id (oauth2_sessions (w_db w)) i = Some r \<and> decode_session r = Inr s
                \<and> os_finished_at r = None
                \<and> (client_id = None \<or> client_id = Some (os_client_id r)))"
  by (cases client_id)
    (auto simp: load_session_to_end_def run_simps decode_session_Inr split: option.splits)

abbreviation outside_jobs ::
    "db \<Rightarrow> user_row list \<times> session_row list \<times> access_token_row list \<times> refresh_token_row list
       \<times> grant_row list \<times> personal_session_row list \<times> personal_token_row list \<times> client_row list" where
  "outside_jobs d \<equiv> (users d, oauth2_sessions d, oauth2_access_tokens d, oauth2_refresh_tokens d,
     oauth2_authorization_grants d, personal_sessions d, personal_access_tokens d,
     oauth2_clients d)"

lemma view_device_sync [intro!]: "keeps (view_is outside_jobs x) (schedule_device_sync e i)"
  unfolding schedule_device_sync_def by (rule view_schedule_job) simp

lemma view_sync_session_user [intro!]: "keeps (view_is outside_jobs x) (sync_session_user e s)"
  unfolding sync_session_user_def
  by (auto simp: user_lookup_def intro!: keeps_bindE split: option.split)

lemma revoke_oauth2_token_Inr:
  assumes "revoke_oauth2_token e ip token hint tt client_id w = (Inr u, w')"
  obtains i r t where "session_of_token (w_db w) tt token = Some i"
    "row_by_id os_id (oauth2_sessions (w_db w)) i = Some r" "os_finished_at r = None"
    "client_id = None \<or> client_id = Some (os_client_id r)"
    "oauth2_sessions (w_db w') =
       upd_rows (\<lambda>r. os_id r = i) (finish_row t) (oauth2_sessions (w_db w))"
    "users (w_db w') = users (w_db w)"
    "oauth2_access_tokens (w_db w') = oauth2_access_tokens (w_db w)"
    "oauth2_refresh_tokens (w_db w') = oauth2_refresh_tokens (w_db w)"
    "oauth2_authorization_grants (w_db w') = oauth2_authorization_grants (w_db w)"
    "personal_sessions (w_db w') = personal_sessions (w_db w)"
    "personal_access_tokens (w_db w') = personal_access_tokens (w_db w)"
    "oauth2_clients (w_db w') = oauth2_clients (w_db w)"
proof -
  from assms obtain i w0 w1 s w2 w3 s' x1 x2 where
    i: "session_to_end hint tt token w = (Inr i, w0)"
    and s: "load_session_to_end client_id i w0 = (Inr s, w1)"
    and w2: "record_oauth2_session ip s w1 = (Inr x1 :: revocation_error + unit, w2)"
    and w3: "sync_session_user e s w2 = (Inr x2, w3)"
    and fin: "oauth2_session_finish s w3 = (Inr s', w')"
    by (simp only: revoke_oauth2_token_def bindE_Inr thenE_Inr map_err_Inr ret_run prod.inject) blast
  have "outside_jobs (w_db w3) = outside_jobs (w_db w2)"
    by (rule view_isD [OF view_sync_session_user w3])
  then have "outside_jobs (w_db w3) = outside_jobs (w_db w)"
    using session_to_end_Inr [OF i] s w2
    by (simp add: record_oauth2_session_run load_session_to_end_Inr)
  moreover obtain r where r: "row_by_id os_id (oauth2_sessions (w_db w)) i = Some r"
      "decode_session r = Inr s" "os_finished_at r = None"
      "client_id = None \<or> client_id = Some (os_client_id r)"
    using s session_to_end_Inr [OF i] by (auto simp: load_session_to_end_Inr)
  moreover have "s_id s = i"
    using r by (auto simp: decode_session_fields dest: row_by_id_SomeD)
  ultimately show ?thesis
    using that [of i r "clock_reading w3"] session_to_end_Inr [OF i] fin
    by (auto simp: oauth2_session_finish_def update_then_transition_Inr)
qed

text \<open>The session a token belongs to, of either kind.\<close>

definition token_session :: "env \<Rightarrow> db \<Rightarrow> string \<Rightarrow> (session_kind \<times> ulid) option" where
  "token_session e d token =
     (case check (e_crc32 e) (e_base64url_decode e) token of
        Inl _ \<Rightarrow> None
      | Inr tt \<Rightarrow>
          if tt = TT_PersonalAccessToken
          then map_option (\<lambda>r. (SK_Personal, pa_session_id r))
                 (List.find (\<lambda>r. pa_sha256 r = e_sha256 e token) (personal_access_tokens d))
          else map_option (Pair SK_OAuth2) (session_of_token d tt token))"

lemma live_personal_session_cong:
  assumes "users d' = users d" "oauth2_clients d' = oauth2_clients d"
    "row_by_id pr_id (personal_sessions d') i = row_by_id pr_id (personal_sessions d) i"
  shows "live_personal_session d' i = live_personal_session d i"
proof -
  have "good_actor d' = good_actor d" "live_owner d' = live_owner d"
    using assms(1,2)
    by (auto simp: fun_eq_iff good_actor_def live_owner_def good_user_def
        split: option.split personal_session_owner.split)
  then show ?thesis
    using assms(3) by (simp add: live_personal_session_def split: option.split sum.split)
qed

text \<open>A revocation ends the session of the token and no other.\<close>

lemma revoke_oauth2_token_ends:
  assumes "revoke_oauth2_token e ip token hint tt client_id w = (Inr u, w')"
    and "session_of_token (w_db w) tt token = Some i"
  shows "\<not> live_session (w_db w') i"
    and "j \<noteq> i \<Longrightarrow> live_session (w_db w') j = live_session (w_db w) j"
proof -
  from assms obtain r t where r: "row_by_id os_id (oauth2_sessions (w_db w)) i = Some r"
    and s: "oauth2_sessions (w_db w') =
       upd_rows (\<lambda>r. os_id r = i) (finish_row t) (oauth2_sessions (w_db w))"
    and u: "users (w_db w') = users (w_db w)"
    by (elim revoke_oauth2_token_Inr) auto
  have row: "row_by_id os_id (oauth2_sessions (w_db w')) j =
      (if j = i then map_option (finish_row t) (row_by_id os_id (oauth2_sessions (w_db w)) j)
       else row_by_id os_id (oauth2_sessions (w_db w)) j)" for j
    unfolding s by (simp add: row_by_id_upd finish_row_def)
  show "\<not> live_session (w_db w') i"
    using r row [of i] by (simp add: live_session_def finish_row_def)
  show "live_session (w_db w') j = live_session (w_db w) j" if "j \<noteq> i"
    using row [of j] that subject_cong(1) [OF u]
    by (simp add: live_session_def split: option.split)
qed

section \<open>Revoking a personal token\<close>

lemma load_personal_for_revocation_Inr:
  "load_personal_for_revocation e token client_id w = (Inr (t, s), w') \<longleftrightarrow>
     w' = tick w \<and> owned_by_client client_id (ps_owner s) \<and>
     (\<exists>r. List.find (\<lambda>r. pa_sha256 r = e_sha256 e token) (personal_access_tokens (w_db w)) = Some r
        \<and> t = build_personal_token r \<and> pt_is_valid (clock_reading w) t
        \<and> (\<exists>pr. row_by_id pr_id (personal_sessions (w_db w)) (pa_session_id r) = Some pr
             \<and> decode_personal_session pr = Inr s \<and> ps_state s = PS_Valid))"
  by (auto simp: load_personal_for_revocation_def run_simps)

lemma n_rows_1_unique: "n_rows p t = 1 \<Longrightarrow> x \<in> set t \<Longrightarrow> y \<in> set t \<Longrightarrow> p x \<Longrightarrow> p y \<Longrightarrow> x = y"
proof -
  assume "n_rows p t = 1"
  then obtain z where "filter p t = [z]"
    by (auto simp: n_rows_def length_Suc_conv)
  then have "{x \<in> set t. p x} = {z}"
    by (metis empty_set list.simps(15) set_filter)
  then show "x \<in> set t \<Longrightarrow> y \<in> set t \<Longrightarrow> p x \<Longrightarrow> p y \<Longrightarrow> x = y"
    by (metis (mono_tags, lifting) mem_Collect_eq singletonD)
qed

lemma revoke_personal_rows:
  assumes t: "personal_token_revoke_op t w = (Inr t', w1)"
    and s: "personal_session_revoke_op s w1 = (Inr s', w2)"
    and r: "r \<in> set (personal_access_tokens (w_db w))" "pa_id r = pt_id t" "pa_session_id r = ps_id s"
  shows "\<exists>f. personal_access_tokens (w_db w2) = map f (personal_access_tokens (w_db w))
    \<and> (\<forall>x. pa_sha256 (f x) = pa_sha256 x \<and> pa_session_id (f x) = pa_session_id x)
    \<and> (\<forall>x \<in> set (personal_access_tokens (w_db w)). pa_session_id x \<noteq> ps_id s \<longrightarrow> f x = x)"
proof -
  let ?g = "\<lambda>x. if pa_id x = pt_id t then x\<lparr>pa_revoked_at := Some (clock_reading w)\<rparr> else x"
  let ?h = "\<lambda>x. if pa_session_id x = ps_id s \<and> pa_revoked_at x = None
    then x\<lparr>pa_revoked_at := Some (clock_reading w1)\<rparr> else x"
  have g: "personal_access_tokens (w_db w1) = map ?g (personal_access_tokens (w_db w))"
    and one: "n_rows (\<lambda>x. pa_id x = pt_id t) (personal_access_tokens (w_db w)) = 1"
    using t by (auto simp: personal_token_revoke_op_def run_simps upd_rows_def)
  have "personal_access_tokens (w_db w2) = map (?h \<circ> ?g) (personal_access_tokens (w_db w))"
    using personal_session_revoke_Inr(3) [OF s] by (simp add: g upd_rows_def)
  moreover have "pa_id x \<noteq> pt_id t"
    if "x \<in> set (personal_access_tokens (w_db w))" "pa_session_id x \<noteq> ps_id s" for x
    using n_rows_1_unique [OF one that(1) r(1)] that(2) r(2,3) by auto
  ultimately show ?thesis
    by (intro exI [of _ "?h \<circ> ?g"]) auto
qed

lemma revoke_personal_token_Inr:
  assumes "revoke_personal_token e ip token client_id w = (Inr u, w')"
  obtains r t f where
    "List.find (\<lambda>r. pa_sha256 r = e_sha256 e token) (personal_access_tokens (w_db w)) = Some r"
    "row_by_id pr_id (personal_sessions (w_db w)) (pa_session_id r) \<noteq> None"
    "personal_sessions (w_db w') = upd_rows (\<lambda>x. pr_id x = pa_session_id r)
       (revoke_personal_session_row t) (personal_sessions (w_db w))"
    "personal_access_tokens (w_db w') = map f (personal_access_tokens (w_db w))"
    "\<forall>x. pa_sha256 (f x) = pa_sha256 x \<and> pa_session_id (f x) = pa_session_id x"
    "\<forall>x \<in> set (personal_access_tokens (w_db w)). pa_session_id x \<noteq> pa_session_id r \<longrightarrow> f x = x"
    "users (w_db w') = users (w_db w)" "oauth2_sessions (w_db w') = oauth2_sessions (w_db w)"
    "oauth2_access_tokens (w_db w') = oauth2_access_tokens (w_db w)"
    "oauth2_refresh_tokens (w_db w') = oauth2_refresh_tokens (w_db w)"
    "oauth2_clients (w_db w') = oauth2_clients (w_db w)"
proof -
  from assms obtain p w0 w1 w2 w3 s' t' x1 where
    load: "load_personal_for_revocation e token client_id w = (Inr p, w0)"
    and w1: "record_personal_session ip (snd p) w0 = (Inr x1 :: revocation_error + unit, w1)"
    and w2: "personal_token_revoke_op (fst p) w1 = (Inr t', w2)"
    and w3: "personal_session_revoke_op (snd p) w2 = (Inr s', w3)"
    and job: "whenE (has_device s')
       (map_err VE_Repository (schedule_device_sync e (ps_actor_user_id s'))) w3 = (Inr u, w')"
    by (simp only: revoke_personal_token_def bindE_Inr thenE_Inr map_err_Inr split_def) blast
  obtain t s where p: "p = (t, s)"
    by (cases p)
  from load obtain r pr where r:
    "List.find (\<lambda>r. pa_sha256 r = e_sha256 e token) (personal_access_tokens (w_db w)) = Some r"
    "row_by_id pr_id (personal_sessions (w_db w)) (pa_session_id r) = Some pr"
    "decode_personal_session pr = Inr s" "t = build_personal_token r" "w0 = tick w"
    unfolding p load_personal_for_revocation_Inr by auto
  have ids: "ps_id s = pa_session_id r" "pa_id r = pt_id t"
    using r(2-4) by (auto simp: decode_personal_session_Inr build_personal_token_def dest: row_by_id_SomeD)
  have w1: "w_db w1 = w_db w"
    using w1 r(5) by (simp add: record_personal_session_run)
  have "keeps (view_is outside_jobs x) (whenE (has_device s')
      (map_err VE_Repository (schedule_device_sync e (ps_actor_user_id s'))))" for x
    by auto
  from view_isD [OF this job] have job': "outside_jobs (w_db w') = outside_jobs (w_db w3)" .
  have rest: "users (w_db w3) = users (w_db w)" "oauth2_sessions (w_db w3) = oauth2_sessions (w_db w)"
    "oauth2_access_tokens (w_db w3) = oauth2_access_tokens (w_db w)"
    "oauth2_refresh_tokens (w_db w3) = oauth2_refresh_tokens (w_db w)"
    "oauth2_clients (w_db w3) = oauth2_clients (w_db w)"
    "personal_sessions (w_db w3) = upd_rows (\<lambda>x. pr_id x = pa_session_id r)
       (revoke_personal_session_row (clock_reading w2)) (personal_sessions (w_db w))"
    using w2 w3 w1 ids unfolding p
    by (auto simp: personal_token_revoke_op_def personal_session_revoke_op_def run_simps)
  have "r \<in> set (personal_access_tokens (w_db w1))"
    using r(1) w1 by (auto dest: find_SomeD)
  from revoke_personal_rows [OF w2 [unfolded p fst_conv] w3 [unfolded p snd_conv] this ids(2) ids(1) [symmetric]]
  obtain f where f: "personal_access_tokens (w_db w3) = map f (personal_access_tokens (w_db w))"
    "\<forall>x. pa_sha256 (f x) = pa_sha256 x \<and> pa_session_id (f x) = pa_session_id x"
    "\<forall>x \<in> set (personal_access_tokens (w_db w)). pa_session_id x \<noteq> pa_session_id r \<longrightarrow> f x = x"
    unfolding w1 ids by blast
  show ?thesis
    by (rule that [OF r(1) _ _ _ f(2,3)]) (use r(2) job' rest f(1) in simp_all)
qed

lemma decode_revoked_session:
  "decode_personal_session (revoke_personal_session_row t r) = Inr s \<Longrightarrow> ps_state s = PS_Revoked t"
  by (auto simp: decode_personal_session_Inr revoke_personal_session_row_def)

lemma revoked_personal_session:
  assumes "personal_sessions d' = upd_rows (\<lambda>x. pr_id x = i) (revoke_personal_session_row t) (personal_sessions d)"
    and "users d' = users d" "oauth2_clients d' = oauth2_clients d"
  shows "live_personal_session d' j \<longleftrightarrow> live_personal_session d j \<and> j \<noteq> i"
proof -
  have row: "row_by_id pr_id (personal_sessions d') j =
      (if j = i then map_option (revoke_personal_session_row t) (row_by_id pr_id (personal_sessions d) j)
       else row_by_id pr_id (personal_sessions d) j)"
    unfolding assms(1) by (simp add: row_by_id_upd revoke_personal_session_row_def)
  show ?thesis
  proof (cases "j = i")
    case True
    then show ?thesis
      using row by (auto simp: live_personal_session_def split: option.splits sum.splits
          dest!: decode_revoked_session)
  next
    case False
    then show ?thesis
      using row assms(2,3) by (simp add: live_personal_session_cong [of d' d])
  qed
qed

text \<open>Revoking a token ends the live tokens of its session and no other.\<close>

lemma revoke_token_Inr:
  "revoke_token e ip token hint client_id w = (Inr u, w') \<longleftrightarrow>
     (\<exists>tt. check (e_crc32 e) (e_base64url_decode e) token = Inr tt \<and>
       (if tt = TT_PersonalAccessToken
        then hint \<noteq> Some Hint_RefreshToken \<and> revoke_personal_token e ip token client_id w = (Inr u, w')
        else revoke_oauth2_token e ip token hint tt client_id w = (Inr u, w')))"
  by (auto simp: revoke_token_def bindE_Inr map_err_Inr split: if_splits)

lemma find_map_same:
  assumes "\<And>x. P (f x) = P x"
  shows "List.find P (map f xs) = map_option f (List.find P xs)"
  by (induction xs) (simp_all add: assms)

definition ends_session :: "env \<Rightarrow> (session_kind \<times> ulid) option \<Rightarrow> db \<Rightarrow> db \<Rightarrow> bool" where
  "ends_session e i d d' \<longleftrightarrow>
     (\<forall>at token hint. live_token e d' at token hint \<longleftrightarrow>
        live_token e d at token hint \<and> token_session e d token \<noteq> i)
     \<and> (\<forall>j. live_session d' j \<longleftrightarrow> live_session d j \<and> i \<noteq> Some (SK_OAuth2, j))
     \<and> (\<forall>j. live_personal_session d' j \<longleftrightarrow> live_personal_session d j \<and> i \<noteq> Some (SK_Personal, j))"

lemma revoke_oauth2_token_exact:
  assumes run: "revoke_oauth2_token e ip token hint tt client_id w = (Inr u, w')"
    and i: "session_of_token (w_db w) tt token = Some i"
  shows "ends_session e (Some (SK_OAuth2, i)) (w_db w) (w_db w')"
proof -
  from run have same: "personal_sessions (w_db w') = personal_sessions (w_db w)
    \<and> personal_access_tokens (w_db w') = personal_access_tokens (w_db w)
    \<and> oauth2_access_tokens (w_db w') = oauth2_access_tokens (w_db w)
    \<and> oauth2_refresh_tokens (w_db w') = oauth2_refresh_tokens (w_db w)
    \<and> oauth2_clients (w_db w') = oauth2_clients (w_db w) \<and> users (w_db w') = users (w_db w)"
    by (elim revoke_oauth2_token_Inr) simp
  have sess: "live_session (w_db w') j \<longleftrightarrow> live_session (w_db w) j \<and> j \<noteq> i" for j
    using revoke_oauth2_token_ends [OF run i] by (cases "j = i") auto
  have pers: "live_personal_session (w_db w') = live_personal_session (w_db w)"
    using same by (intro ext live_personal_session_cong) simp_all
  have "live_token e (w_db w') at token2 hint2 \<longleftrightarrow>
      live_token e (w_db w) at token2 hint2 \<and> token_session e (w_db w) token2 \<noteq> Some (SK_OAuth2, i)"
    for at token2 hint2
    by (auto simp: live_token_def live_access_token_def live_refresh_token_def live_personal_token_def
        same sess pers token_session_def session_of_token_def
        split: sum.splits token_type.splits option.splits)
  then show ?thesis
    using sess pers by (auto simp: ends_session_def)
qed

lemma revoke_personal_token_exact:
  assumes run: "revoke_personal_token e ip token client_id w = (Inr u, w')"
    and pat: "check (e_crc32 e) (e_base64url_decode e) token = Inr TT_PersonalAccessToken"
  shows "ends_session e (token_session e (w_db w) token) (w_db w) (w_db w')"
proof -
  from run obtain r t f where
    r: "List.find (\<lambda>r. pa_sha256 r = e_sha256 e token) (personal_access_tokens (w_db w)) = Some r"
    and ps: "personal_sessions (w_db w') = upd_rows (\<lambda>x. pr_id x = pa_session_id r)
       (revoke_personal_session_row t) (personal_sessions (w_db w))"
    and f: "personal_access_tokens (w_db w') = map f (personal_access_tokens (w_db w))"
      "\<forall>x. pa_sha256 (f x) = pa_sha256 x \<and> pa_session_id (f x) = pa_session_id x"
      "\<forall>x \<in> set (personal_access_tokens (w_db w)). pa_session_id x \<noteq> pa_session_id r \<longrightarrow> f x = x"
    and same: "users (w_db w') = users (w_db w)" "oauth2_sessions (w_db w') = oauth2_sessions (w_db w)"
      "oauth2_access_tokens (w_db w') = oauth2_access_tokens (w_db w)"
      "oauth2_refresh_tokens (w_db w') = oauth2_refresh_tokens (w_db w)"
      "oauth2_clients (w_db w') = oauth2_clients (w_db w)"
    by (rule revoke_personal_token_Inr)
  have i: "token_session e (w_db w) token = Some (SK_Personal, pa_session_id r)"
    by (simp add: token_session_def pat r)
  have sess: "live_session (w_db w') = live_session (w_db w)"
    using same(2) subject_cong(1) [OF same(1)] by (simp add: fun_eq_iff live_session_def split: option.split)
  have oauth: "live_access_token (w_db w') = live_access_token (w_db w)"
    "live_refresh_token (w_db w') = live_refresh_token (w_db w)"
    by (simp_all add: fun_eq_iff live_access_token_def live_refresh_token_def same sess
        split: option.split)
  have pers: "live_personal_session (w_db w') j \<longleftrightarrow> live_personal_session (w_db w) j \<and> j \<noteq> pa_session_id r" for j
    by (rule revoked_personal_session [OF ps same(1,5)])
  have find: "List.find (\<lambda>x. pa_sha256 x = h) (personal_access_tokens (w_db w')) =
      map_option f (List.find (\<lambda>x. pa_sha256 x = h) (personal_access_tokens (w_db w)))" for h
    unfolding f(1) using f(2) by (intro find_map_same) simp
  have "live_personal_token (e_sha256 e) (w_db w') at token2 \<longleftrightarrow>
      live_personal_token (e_sha256 e) (w_db w) at token2
      \<and> map_option pa_session_id (List.find (\<lambda>x. pa_sha256 x = e_sha256 e token2)
           (personal_access_tokens (w_db w))) \<noteq> Some (pa_session_id r)" for at token2
    using f(2,3)
    by (auto simp: live_personal_token_def find pers split: option.splits dest!: find_SomeD)
  then have "live_token e (w_db w') at token2 hint2 \<longleftrightarrow> live_token e (w_db w) at token2 hint2
      \<and> token_session e (w_db w) token2 \<noteq> Some (SK_Personal, pa_session_id r)"
    for at token2 hint2
    by (auto simp: live_token_def oauth token_session_def split: sum.splits token_type.splits)
  then show ?thesis
    unfolding i using sess pers by (auto simp: ends_session_def)
qed

lemma revoke_token_exact:
  assumes "revoke_token e ip token hint client_id w = (Inr u, w')"
  shows "token_session e (w_db w) token \<noteq> None
    \<and> ends_session e (token_session e (w_db w) token) (w_db w) (w_db w')"
proof -
  from assms obtain tt where tt: "check (e_crc32 e) (e_base64url_decode e) token = Inr tt"
    and run: "if tt = TT_PersonalAccessToken
        then hint \<noteq> Some Hint_RefreshToken \<and> revoke_personal_token e ip token client_id w = (Inr u, w')
        else revoke_oauth2_token e ip token hint tt client_id w = (Inr u, w')"
    unfolding revoke_token_Inr by blast
  show ?thesis
  proof (cases "tt = TT_PersonalAccessToken")
    case True
    with run have run': "revoke_personal_token e ip token client_id w = (Inr u, w')"
      by simp
    then have "token_session e (w_db w) token \<noteq> None"
      by (elim revoke_personal_token_Inr) (simp add: token_session_def tt True)
    with revoke_personal_token_exact [OF run'] tt True show ?thesis
      by simp
  next
    case False
    with run have run': "revoke_oauth2_token e ip token hint tt client_id w = (Inr u, w')"
      by simp
    then obtain i where i: "session_of_token (w_db w) tt token = Some i"
      by (elim revoke_oauth2_token_Inr)
    then have "token_session e (w_db w) token = Some (SK_OAuth2, i)"
      by (simp add: token_session_def tt False)
    with revoke_oauth2_token_exact [OF run' i] show ?thesis
      by simp
  qed
qed

end
