(* ===== verification/User_Jobs.thy ===== *)
theory User_Jobs
  imports Account_Storage Personal_Listing Revocation
begin

text \<open>
  The jobs that deactivate and reactivate a user, \<open>crates/tasks/src/user.rs\<close>. The homeserver is a
  parameter: \<open>delete_user\<close> and \<open>reactivate_user\<close> say whether its call succeeds.

  The lemmas show that a deactivation leaves the user without any session or token that works, even
  when the homeserver call after it fails.
\<close>

datatype job_error = JE_Retry "db_error option" | JE_Fail

definition retry_on :: "(db_error, 'a) io \<Rightarrow> (job_error, 'a) io" where
  "retry_on = map_err (\<lambda>e. JE_Retry (Some e))"

definition browser_sessions_of :: "ulid \<Rightarrow> browser_session_filter" where
  "browser_sessions_of user_id =
     \<lparr>bf_user = Some user_id, bf_state = Some True, bf_last_active_before = None,
      bf_last_active_after = None, bf_upstream = None\<rparr>"

definition oauth2_sessions_of :: "ulid \<Rightarrow> session_filter" where
  "oauth2_sessions_of user_id =
     \<lparr>sf_user = Some user_id, sf_any_user = None, sf_browser_session = None,
      sf_browser_session_filter = None, sf_device = None, sf_client = None, sf_client_static = None,
      sf_state = Some True, sf_scope = None, sf_last_active_before = None,
      sf_last_active_after = None\<rparr>"

definition terminate_all_sessions_for :: "user \<Rightarrow> (job_error, unit) io" where
  "terminate_all_sessions_for target =
     thenE (retry_on (browser_session_finish_bulk (browser_sessions_of (u_id target))))
    (thenE (retry_on (oauth2_session_finish_bulk (oauth2_sessions_of (u_id target))))
    (thenE (retry_on (personal_session_revoke_bulk
              (no_personal_filter\<lparr>pf_actor_user := Some (u_id target), pf_state := Some True\<rparr>)))
    (thenE (retry_on (personal_session_revoke_bulk
              (no_personal_filter\<lparr>pf_owner_user := Some (u_id target), pf_state := Some True\<rparr>)))
       (ret ()))))"

text \<open>A repository created for the job: dropped unsaved when the job fails before \<open>save\<close>.\<close>

definition deactivate_locally ::
    "env \<Rightarrow> (string \<Rightarrow> string) \<Rightarrow> (string \<Rightarrow> string) \<Rightarrow> ulid \<Rightarrow> (job_error, user) io" where
  "deactivate_locally e lower to_lowercase user_id =
     bindE (retry_on (user_lookup (e_ulid_string e) user_id)) (\<lambda>target.
     bindE (ok_or JE_Fail target) (\<lambda>target.
     bindE (retry_on (user_deactivate target)) (\<lambda>target.
     thenE (terminate_all_sessions_for target)
    (thenE (retry_on (email_remove_bulk lower to_lowercase \<lparr>ef_user = Some (u_id target), ef_email = None\<rparr>))
    (thenE save
       (ret target))))))"

definition run_deactivate_user ::
    "env \<Rightarrow> (string \<Rightarrow> string) \<Rightarrow> (string \<Rightarrow> string) \<Rightarrow> (string \<Rightarrow> bool \<Rightarrow> bool) \<Rightarrow> ulid \<Rightarrow> bool \<Rightarrow>
     (job_error, unit) io" where
  "run_deactivate_user e lower to_lowercase delete_user user_id hs_erase =
     bindE (deactivate_locally e lower to_lowercase user_id) (\<lambda>target.
       ensure (delete_user (u_username target) hs_erase) (JE_Retry None))"

definition run_reactivate_user ::
    "env \<Rightarrow> (string \<Rightarrow> bool) \<Rightarrow> ulid \<Rightarrow> (job_error, unit) io" where
  "run_reactivate_user e reactivate_user user_id =
     bindE (retry_on (user_lookup (e_ulid_string e) user_id)) (\<lambda>target.
     bindE (ok_or JE_Fail target) (\<lambda>target.
     thenE (ensure (reactivate_user (u_username target)) (JE_Retry None))
    (thenE (retry_on (user_reactivate target))
       save)))"

section \<open>Lemmas\<close>

lemma consistent_finish_browser: "keeps consistent (browser_session_finish_bulk f)"
  unfolding browser_session_finish_bulk_def by (auto intro!: keeps_bindE)

lemma consistent_user_deactivate: "keeps consistent (user_deactivate u)"
  by auto

lemma finish_browser_sessions:
  assumes "browser_session_finish_bulk (browser_sessions_of i) w = (Inr n, w')"
  obtains f where "w_db w' = (w_db w)\<lparr>user_sessions := map f (user_sessions (w_db w))\<rparr>"
    "\<And>r. us_user_id (f r) = us_user_id r" "\<And>r. us_user_id r = i \<Longrightarrow> us_finished_at (f r) \<noteq> None"
    "\<And>r. us_user_id r \<noteq> i \<Longrightarrow> f r = r"
  using assms
  by (auto simp: browser_session_finish_bulk_def run_simps upd_rows_def browser_filter_matches_def
      browser_sessions_of_def opt_filter_def state_matches_def
      intro!: that [of "\<lambda>r. if us_user_id r = i \<and> us_finished_at r = None
        then r\<lparr>us_finished_at := Some (clock_reading w)\<rparr> else r"])

lemma finish_oauth2_sessions:
  assumes "oauth2_session_finish_bulk (oauth2_sessions_of i) w = (Inr n, w')"
  obtains t where "w_db w' = (w_db w)\<lparr>oauth2_sessions := t\<rparr>"
    "\<And>r. r \<in> set t \<Longrightarrow> os_user_id r = Some i \<Longrightarrow> os_finished_at r \<noteq> None"
proof -
  have matches: "session_filter_matches d (oauth2_sessions_of i) r \<longleftrightarrow>
      os_user_id r = Some i \<and> os_finished_at r = None" for d r
    by (simp add: session_filter_matches_def oauth2_sessions_of_def opt_filter_def state_matches_def)
  let ?t = "upd_rows (\<lambda>r. os_id r \<in> os_id ` {r \<in> set (oauth2_sessions (w_db w)).
      os_user_id r = Some i \<and> os_finished_at r = None})
    (\<lambda>r. r\<lparr>os_finished_at := Some (clock_reading w)\<rparr>) (oauth2_sessions (w_db w))"
  have "w_db w' = (w_db w)\<lparr>oauth2_sessions := ?t\<rparr>"
    using assms by (auto simp: oauth2_session_finish_bulk_def run_simps Let_def matches)
  then show ?thesis
    by (rule that) (auto simp: upd_rows_def split: if_splits)
qed

lemma revoked_row [simp]:
  "owner_matches f (revoke_personal_session_row t r) = owner_matches f r"
  "pr_actor_user_id (revoke_personal_session_row t r) = pr_actor_user_id r"
  "pr_owner_user_id (revoke_personal_session_row t r) = pr_owner_user_id r"
  "pr_revoked_at (revoke_personal_session_row t r) = Some t"
  by (simp_all add: owner_matches_def revoke_personal_session_row_def opt_filter_def
      split: option.split)

text \<open>Every session that a bulk revocation selects is revoked, and none is brought back.\<close>

lemma revoke_personal_sessions:
  assumes "personal_session_revoke_bulk f w = (Inr n, w')"
    "pf_expires_before f = None" "pf_expires_after f = None" "pf_expires f = None"
    "pf_state f = Some True" "pf_scope f = None" "pf_last_active_before f = None"
    "pf_last_active_after f = None" "consistent w"
  obtains g where "w_db w' = (w_db w)\<lparr>personal_sessions := map g (personal_sessions (w_db w))\<rparr>"
    "\<And>r. pr_owner_user_id (g r) = pr_owner_user_id r"
    "\<And>r. pr_actor_user_id (g r) = pr_actor_user_id r"
    "\<And>r. pr_revoked_at r \<noteq> None \<Longrightarrow> pr_revoked_at (g r) \<noteq> None"
    "\<And>r. owner_matches f r \<Longrightarrow> pr_revoked_at (g r) \<noteq> None"
proof -
  define g where "g r = (if owner_matches f r \<and> personal_state_matches f r
      then revoke_personal_session_row (clock_reading w) r else r)" for r
  have d: "distinct (map pr_id (personal_sessions (w_db w)))"
    using assms(9) by (simp add: consistent_def db_ok_distinct)
  have "w_db w' = (w_db w)\<lparr>personal_sessions := map g (personal_sessions (w_db w))\<rparr>"
    unfolding revoke_bulk_Inr [OF assms(1-4) d] upd_rows_def g_def ..
  then show ?thesis
    by (rule that)
      (use assms(5-8) in \<open>auto simp: g_def
        personal_state_matches_def opt_filter_def state_matches_def\<close>)
qed

text \<open>Nothing that belongs to user \<open>i\<close> is left running.\<close>

definition no_sessions_of :: "ulid \<Rightarrow> db \<Rightarrow> bool" where
  "no_sessions_of i d \<longleftrightarrow>
     (\<forall>r \<in> set (user_sessions d). us_user_id r = i \<longrightarrow> us_finished_at r \<noteq> None)
     \<and> (\<forall>r \<in> set (oauth2_sessions d). os_user_id r = Some i \<longrightarrow> os_finished_at r \<noteq> None)
     \<and> (\<forall>r \<in> set (personal_sessions d).
          pr_actor_user_id r = i \<or> pr_owner_user_id r = Some i \<longrightarrow> pr_revoked_at r \<noteq> None)"

lemma terminate_all_Inr:
  assumes "terminate_all_sessions_for u w = (Inr x, w')" "consistent w"
  shows "no_sessions_of (u_id u) (w_db w') \<and> users (w_db w') = users (w_db w)
    \<and> user_emails (w_db w') = user_emails (w_db w)"
proof -
  let ?actor = "no_personal_filter\<lparr>pf_actor_user := Some (u_id u), pf_state := Some True\<rparr>"
  let ?owner = "no_personal_filter\<lparr>pf_owner_user := Some (u_id u), pf_state := Some True\<rparr>"
  from assms(1) obtain n1 w1 n2 w2 n3 w3 n4 where
    r1: "browser_session_finish_bulk (browser_sessions_of (u_id u)) w = (Inr n1, w1)"
    and r2: "oauth2_session_finish_bulk (oauth2_sessions_of (u_id u)) w1 = (Inr n2, w2)"
    and r3: "personal_session_revoke_bulk ?actor w2 = (Inr n3, w3)"
    and r4: "personal_session_revoke_bulk ?owner w3 = (Inr n4, w')"
    by (auto simp: terminate_all_sessions_for_def retry_on_def thenE_Inr map_err_Inr)
  have c: "consistent w2" "consistent w3"
  proof -
    have "consistent w1"
      by (rule keepsD [OF consistent_finish_browser r1 assms(2)])
    then show c2: "consistent w2"
      by (rule keepsD [OF consistent_storage(5) r2])
    show "consistent w3"
      by (rule keepsD [OF consistent_personal_listing(1) r3 c2])
  qed
  obtain f where f: "w_db w1 = (w_db w)\<lparr>user_sessions := map f (user_sessions (w_db w))\<rparr>"
      "\<And>r. us_user_id (f r) = us_user_id r"
      "\<And>r. us_user_id r = u_id u \<Longrightarrow> us_finished_at (f r) \<noteq> None"
    by (rule finish_browser_sessions [OF r1]) (rule that)
  obtain t where t: "w_db w2 = (w_db w1)\<lparr>oauth2_sessions := t\<rparr>"
      "\<And>r. r \<in> set t \<Longrightarrow> os_user_id r = Some (u_id u) \<Longrightarrow> os_finished_at r \<noteq> None"
    by (rule finish_oauth2_sessions [OF r2]) (rule that)
  obtain g where g: "w_db w3 = (w_db w2)\<lparr>personal_sessions := map g (personal_sessions (w_db w2))\<rparr>"
      "\<And>r. pr_actor_user_id (g r) = pr_actor_user_id r"
      "\<And>r. owner_matches ?actor r \<Longrightarrow> pr_revoked_at (g r) \<noteq> None"
    by (rule revoke_personal_sessions [OF r3 _ _ _ _ _ _ _ c(1)])
      (simp_all add: no_personal_filter_def that)
  obtain h where h: "w_db w' = (w_db w3)\<lparr>personal_sessions := map h (personal_sessions (w_db w3))\<rparr>"
      "\<And>r. pr_owner_user_id (h r) = pr_owner_user_id r"
      "\<And>r. pr_actor_user_id (h r) = pr_actor_user_id r"
      "\<And>r. pr_revoked_at r \<noteq> None \<Longrightarrow> pr_revoked_at (h r) \<noteq> None"
      "\<And>r. owner_matches ?owner r \<Longrightarrow> pr_revoked_at (h r) \<noteq> None"
    by (rule revoke_personal_sessions [OF r4 _ _ _ _ _ _ _ c(2)])
      (simp_all add: no_personal_filter_def that)
  have actor: "owner_matches ?actor r \<longleftrightarrow> pr_actor_user_id r = u_id u" for r
    by (simp add: owner_matches_def no_personal_filter_def opt_filter_def)
  have owner: "owner_matches ?owner r \<longleftrightarrow> pr_owner_user_id r = Some (u_id u)" for r
    by (simp add: owner_matches_def no_personal_filter_def opt_filter_def)
  show ?thesis
    using f(2,3) t(2) g(2,3) h(2-5) unfolding actor owner
    by (simp add: no_sessions_of_def h(1) g(1) t(1) f(1))
qed

text \<open>What does not belong to user \<open>i\<close>.\<close>

definition others :: "ulid \<Rightarrow> db \<Rightarrow> user_row list \<times> user_session_row list \<times> session_row list
    \<times> personal_session_row list \<times> user_email_row list" where
  "others i d =
     (filter (\<lambda>r. ur_id r \<noteq> i) (users d), filter (\<lambda>r. us_user_id r \<noteq> i) (user_sessions d),
      filter (\<lambda>r. os_user_id r \<noteq> Some i) (oauth2_sessions d),
      filter (\<lambda>r. pr_actor_user_id r \<noteq> i \<and> pr_owner_user_id r \<noteq> Some i) (personal_sessions d),
      filter (\<lambda>m. em_user_id m \<noteq> i) (user_emails d))"

lemma filter_map_same:
  "(\<And>r. Q (f r) = Q r) \<Longrightarrow> (\<And>r. Q r \<Longrightarrow> f r = r) \<Longrightarrow> filter Q (map f t) = filter Q t"
  by (induction t) auto

lemma filter_upd_rows:
  "(\<And>r. r \<in> set t \<Longrightarrow> p r \<Longrightarrow> \<not> Q r \<and> \<not> Q (f r)) \<Longrightarrow> filter Q (upd_rows p f t) = filter Q t"
  by (induction t) (auto simp: upd_rows_def)

lemma finish_oauth2_others:
  assumes run: "oauth2_session_finish_bulk (oauth2_sessions_of i) w = (Inr n, w')" and ok: "consistent w"
  shows "others i (w_db w') = others i (w_db w)"
proof -
  have matches: "session_filter_matches d (oauth2_sessions_of i) r \<longleftrightarrow>
      os_user_id r = Some i \<and> os_finished_at r = None" for d r
    by (simp add: session_filter_matches_def oauth2_sessions_of_def opt_filter_def state_matches_def)
  let ?p = "\<lambda>r. os_id r \<in> os_id ` {r \<in> set (oauth2_sessions (w_db w)).
      os_user_id r = Some i \<and> os_finished_at r = None}"
  let ?t = "upd_rows ?p (\<lambda>r. r\<lparr>os_finished_at := Some (clock_reading w)\<rparr>) (oauth2_sessions (w_db w))"
  have w': "w_db w' = (w_db w)\<lparr>oauth2_sessions := ?t\<rparr>"
    using run by (auto simp: oauth2_session_finish_bulk_def run_simps Let_def matches)
  have "os_user_id r = Some i" if "r \<in> set (oauth2_sessions (w_db w))" "?p r" for r
    using that db_ok_distinct(4) [OF ok [unfolded consistent_def]]
    by (auto dest: distinct_map_key_inj)
  then have "filter (\<lambda>r. os_user_id r \<noteq> Some i) ?t = filter (\<lambda>r. os_user_id r \<noteq> Some i) (oauth2_sessions (w_db w))"
    by (intro filter_upd_rows) simp
  then show ?thesis
    by (simp add: others_def w')
qed

lemma revoke_personal_others:
  assumes run: "personal_session_revoke_bulk f w = (Inr n, w')" and ok: "consistent w"
    and f: "pf_expires_before f = None" "pf_expires_after f = None" "pf_expires f = None"
      "\<And>r. owner_matches f r \<Longrightarrow> pr_actor_user_id r = i \<or> pr_owner_user_id r = Some i"
  shows "others i (w_db w') = others i (w_db w)"
proof -
  let ?Q = "\<lambda>r. pr_actor_user_id r \<noteq> i \<and> pr_owner_user_id r \<noteq> Some i"
  have "filter ?Q (upd_rows (\<lambda>r. owner_matches f r \<and> personal_state_matches f r)
      (revoke_personal_session_row (clock_reading w)) (personal_sessions (w_db w)))
    = filter ?Q (personal_sessions (w_db w))"
    using f(4) by (intro filter_upd_rows) auto
  then show ?thesis
    unfolding revoke_bulk_Inr [OF run f(1-3) db_ok_distinct(15) [OF ok [unfolded consistent_def]]]
    by (simp add: others_def)
qed

lemma consistent_terminate_all: "keeps consistent (terminate_all_sessions_for u)"
  unfolding terminate_all_sessions_for_def retry_on_def
  by (auto intro!: keeps_thenE consistent_finish_browser consistent_storage consistent_personal_listing)

lemma terminate_all_others:
  assumes run: "terminate_all_sessions_for u w = (Inr x, w')" and ok: "consistent w"
  shows "others (u_id u) (w_db w') = others (u_id u) (w_db w)"
proof -
  let ?actor = "no_personal_filter\<lparr>pf_actor_user := Some (u_id u), pf_state := Some True\<rparr>"
  let ?owner = "no_personal_filter\<lparr>pf_owner_user := Some (u_id u), pf_state := Some True\<rparr>"
  from run obtain n1 w1 n2 w2 n3 w3 n4 where
    r1: "browser_session_finish_bulk (browser_sessions_of (u_id u)) w = (Inr n1, w1)"
    and r2: "oauth2_session_finish_bulk (oauth2_sessions_of (u_id u)) w1 = (Inr n2, w2)"
    and r3: "personal_session_revoke_bulk ?actor w2 = (Inr n3, w3)"
    and r4: "personal_session_revoke_bulk ?owner w3 = (Inr n4, w')"
    by (auto simp: terminate_all_sessions_for_def retry_on_def thenE_Inr map_err_Inr)
  have c1: "consistent w1"
    by (rule keepsD [OF consistent_finish_browser r1 ok])
  have c2: "consistent w2"
    by (rule keepsD [OF consistent_storage(5) r2 c1])
  have c3: "consistent w3"
    by (rule keepsD [OF consistent_personal_listing(1) r3 c2])
  obtain f where f: "w_db w1 = (w_db w)\<lparr>user_sessions := map f (user_sessions (w_db w))\<rparr>"
      "\<And>r. us_user_id (f r) = us_user_id r" "\<And>r. us_user_id r \<noteq> u_id u \<Longrightarrow> f r = r"
    by (rule finish_browser_sessions [OF r1]) (rule that)
  have "filter (\<lambda>r. us_user_id r \<noteq> u_id u) (map f (user_sessions (w_db w)))
      = filter (\<lambda>r. us_user_id r \<noteq> u_id u) (user_sessions (w_db w))"
    using f(2,3) by (intro filter_map_same) simp_all
  then have "others (u_id u) (w_db w1) = others (u_id u) (w_db w)"
    by (simp add: others_def f(1))
  moreover have "others (u_id u) (w_db w3) = others (u_id u) (w_db w2)"
    by (rule revoke_personal_others [OF r3 c2])
      (simp_all add: no_personal_filter_def owner_matches_def opt_filter_def)
  moreover have "others (u_id u) (w_db w') = others (u_id u) (w_db w3)"
    by (rule revoke_personal_others [OF r4 c3])
      (simp_all add: no_personal_filter_def owner_matches_def opt_filter_def)
  ultimately show ?thesis
    using finish_oauth2_others [OF r2 c1] by simp
qed

lemma remove_emails_others:
  assumes run: "email_remove_bulk lower to_lowercase \<lparr>ef_user = Some i, ef_email = None\<rparr> w = (Inr n, w')"
    and ok: "consistent w"
  shows "others i (w_db w') = others i (w_db w)"
proof -
  let ?ids = "em_id ` {m \<in> set (user_emails (w_db w)). em_user_id m = i}"
  have matches: "email_filter_matches lower to_lowercase \<lparr>ef_user = Some i, ef_email = None\<rparr> m
      \<longleftrightarrow> em_user_id m = i" for m
    by (simp add: email_filter_matches_def opt_filter_def)
  have "em_user_id m = i" if "m \<in> set (user_emails (w_db w))" "em_id m \<in> ?ids" for m
    using that db_ok_distinct(17) [OF ok [unfolded consistent_def]] by (auto dest: distinct_map_key_inj)
  then have "filter (\<lambda>m. em_user_id m \<noteq> i) (del_rows (\<lambda>r. em_id r \<in> ?ids) (user_emails (w_db w)))
      = filter (\<lambda>m. em_user_id m \<noteq> i) (user_emails (w_db w))"
    unfolding del_rows_def filter_filter by (intro filter_cong refl) blast
  moreover have "w_db w' = w_db w \<or> w_db w' = (w_db w)\<lparr>user_emails :=
      del_rows (\<lambda>r. em_id r \<in> ?ids) (user_emails (w_db w))\<rparr>"
    using run by (auto simp: email_remove_bulk_def bindE_Inr query_run execute_Inr matches split: if_splits)
  ultimately show ?thesis
    by (auto simp: others_def)
qed

lemma user_deactivate_others:
  assumes "user_deactivate u w = (Inr u', w')"
  shows "others (u_id u) (w_db w') = others (u_id u) (w_db w)"
proof -
  have id: "u_id (fst (apply_patch at p u)) = u_id u" for at p
    using apply_patch_identity by simp
  have "w_db w' = w_db w \<or> (\<exists>v. w_db w' = (w_db w)\<lparr>users :=
      upd_rows (\<lambda>r. ur_id r = u_id u) (write_user v) (users (w_db w))\<rparr>)"
    using assms id
    by (auto simp: user_deactivate_def user_patch_op_def bindE_Inr now_run update_user_Inr
        update_table_Inr split_def Let_def split: if_splits)
  moreover have "filter (\<lambda>r. ur_id r \<noteq> u_id u) (upd_rows (\<lambda>r. ur_id r = u_id u) (write_user v) t)
      = filter (\<lambda>r. ur_id r \<noteq> u_id u) t" for v t
    by (rule filter_upd_rows) (simp add: write_user_def)
  ultimately show ?thesis
    by (auto simp: others_def)
qed

text \<open>What a deactivation leaves behind.\<close>

definition deactivated :: "ulid \<Rightarrow> db \<Rightarrow> bool" where
  "deactivated i d \<longleftrightarrow>
     (case row_by_id ur_id (users d) i of None \<Rightarrow> False | Some r \<Rightarrow> ur_deactivated_at r \<noteq> None)
     \<and> no_sessions_of i d \<and> (\<forall>m \<in> set (user_emails d). em_user_id m \<noteq> i)"

lemma remove_emails_of:
  assumes "email_remove_bulk lower to_lowercase \<lparr>ef_user = Some i, ef_email = None\<rparr> w = (Inr n, w')"
  shows "(\<forall>m \<in> set (user_emails (w_db w')). em_user_id m \<noteq> i) \<and> users (w_db w') = users (w_db w)
    \<and> (no_sessions_of i (w_db w') \<longleftrightarrow> no_sessions_of i (w_db w))"
  using assms
  by (auto simp: email_remove_bulk_def bindE_Inr query_run execute_Inr email_filter_matches_def
      opt_filter_def del_rows_def filter_empty_conv no_sessions_of_def split: if_splits)

lemma deactivate_locally_Inr:
  assumes run: "deactivate_locally e lower to_lowercase i w = (Inr u, w')" and ok: "consistent w"
  shows "deactivated i (w_committed w') \<and> others i (w_committed w') = others i (w_db w)"
proof -
  from run obtain u0 w1 w2 w3 w4 n x where
    lookup: "user_lookup (e_ulid_string e) i w = (Inr (Some u0), w1)"
    and deact: "user_deactivate u0 w1 = (Inr u, w2)"
    and ended: "terminate_all_sessions_for u w2 = (Inr x, w3)"
    and mails: "email_remove_bulk lower to_lowercase \<lparr>ef_user = Some (u_id u), ef_email = None\<rparr> w3
      = (Inr n, w4)"
    and w': "w_committed w' = w_db w4"
    by (auto simp: deactivate_locally_def retry_on_def bindE_Inr thenE_Inr map_err_Inr ok_or_Inr
        save_def ret_def)
  from lookup obtain r where r: "row_by_id ur_id (users (w_db w1)) i = Some r"
      "build_user (e_ulid_string e) r = u0" and w1: "w1 = w"
    unfolding user_lookup_run prod.inject sum.inject map_option_eq_Some by blast
  have i: "u_id u0 = i"
    using row_by_id_SomeD [OF r(1)] by (simp add: r(2) [symmetric] build_user_def)
  obtain r' where r': "row_by_id ur_id (users (w_db w2)) (u_id u0) = Some r'"
      "ur_deactivated_at r' \<noteq> None" "u_id u = u_id u0"
    by (rule user_deactivate_Inr [OF deact, of r "e_ulid_string e"]) (use r i that in simp_all)
  have c2: "consistent w2"
    by (rule keepsD [OF consistent_user_deactivate deact]) (use ok w1 in simp)
  have c3: "consistent w3"
    by (rule keepsD [OF consistent_terminate_all ended c2])
  have "others i (w_db w4) = others i (w_db w)"
    using user_deactivate_others [OF deact] terminate_all_others [OF ended c2]
      remove_emails_others [OF mails c3] r' i w1 by simp
  with terminate_all_Inr [OF ended c2] remove_emails_of [OF mails] show ?thesis
    using r' i by (simp add: deactivated_def w')
qed

text \<open>
  Whatever the homeserver answers, a job that got past its own database work leaves the user
  deactivated: the homeserver call comes after \<open>save\<close>.
\<close>

lemma run_deactivate_user_saved:
  assumes run: "run_deactivate_user e lower to_lowercase delete_user i hs_erase w = (r, w')"
    and ok: "consistent w" and r: "r = Inr () \<or> r = Inl (JE_Retry None)"
  shows "deactivated i (w_committed w') \<and> others i (w_committed w') = others i (w_db w)"
proof (cases "deactivate_locally e lower to_lowercase i w")
  case (Pair r0 w0)
  show ?thesis
  proof (cases r0)
    case (Inr u)
    with Pair run have "w' = w0"
      by (auto simp: run_deactivate_user_def bindE_def ensure_def ret_def throw_def split: if_splits)
    with deactivate_locally_Inr [OF _ ok] Pair Inr show ?thesis
      by blast
  next
    case (Inl err)
    with Pair run r have "deactivate_locally e lower to_lowercase i w = (Inl (JE_Retry None), w0)"
      by (auto simp: run_deactivate_user_def bindE_def)
    then show ?thesis
      by (auto simp: deactivate_locally_def terminate_all_sessions_for_def retry_on_def bindE_Inl
          thenE_Inl map_err_Inl ok_or_Inl save_def ret_def)
  qed
qed

end
