(* ===== verification/Demo_World.thy ===== *)
theory Demo_World
  imports Refresh_Rotation User_Jobs
begin

text \<open>
  A small concrete instance of the model, on which the hypotheses of the properties are shown to
  hold: an environment, a client, a user with a browser session, and the world of a request.
\<close>

definition demo_env :: env where
  "demo_env =
     \<lparr>e_ulid_string = (\<lambda>_. ''ulid''), e_url_parse = Some, e_crc32 = (\<lambda>_. 7), e_sha256 = (\<lambda>_. replicate 32 1),
      e_sha384 = (\<lambda>_. replicate 48 1), e_sha512 = (\<lambda>_. replicate 64 1), e_base64url = (\<lambda>_. ''AQ''),
      e_base64url_decode = (\<lambda>_. None), e_locale_ok = (\<lambda>_. True),
      e_device_name = (\<lambda>_ _ _. Some ''device''), e_upsert_ok = (\<lambda>_ _ _. True),
      e_signer = (\<lambda>_. Some ''kid''), e_sign = (\<lambda>_ _ _ g. (Some ''jwt'', g)),
      e_policy = (\<lambda>_ _ _ _. Some True), e_issuer = ''https://id.example/'',
      e_access_token_ttl = 300000000, e_span_metadata = JNull\<rparr>"

definition demo_client :: client where
  "demo_client =
     \<lparr>c_id = 2, c_client_id = ''client'', c_redirect_uris = [''https://app.example/''],
      c_grant_types = [GT_AuthorizationCode, GT_RefreshToken, GT_ClientCredentials, GT_DeviceCode],
      c_client_name = None, c_id_token_signed_response_alg = None\<rparr>"

definition demo_user :: user_row where
  "demo_user =
     \<lparr>ur_id = 1, ur_username = ''alice'', ur_created_at = 0, ur_updated_at = 0, ur_locked_at = None,
      ur_deactivated_at = None, ur_can_request_admin = False, ur_is_guest = False,
      ur_display_name = None, ur_avatar_url = None, ur_preferred_locale = None\<rparr>"

definition demo_user_session :: user_session_row where
  "demo_user_session =
     \<lparr>us_id = 3, us_user_id = 1, us_created_at = 0, us_finished_at = None, us_user_agent = None,
      us_last_active_at = None, us_last_active_ip = None\<rparr>"

definition demo_session :: session_row where
  "demo_session =
     \<lparr>os_id = 4, os_user_id = Some 1, os_user_session_id = Some 3, os_client_id = 2,
      os_scope_list = [''openid''], os_created_at = 0, os_finished_at = None, os_user_agent = None,
      os_last_active_at = None, os_last_active_ip = None, os_human_name = None\<rparr>"

definition demo_grant :: grant_row where
  "demo_grant =
     \<lparr>og_id = 5, og_created_at = 0, og_cancelled_at = None, og_fulfilled_at = Some 0,
      og_exchanged_at = None, og_scope = ''openid'', og_state = None, og_nonce = None,
      og_redirect_uri = ''https://app.example/'', og_response_mode = ''query'',
      og_response_type_code = True, og_response_type_id_token = False,
      og_authorization_code = Some ''code'', og_code_challenge = None,
      og_code_challenge_method = None, og_login_hint = None, og_locale = None, og_client_id = 2,
      og_session_id = Some 4\<rparr>"

definition demo_db :: db where
  "demo_db =
     \<lparr>users = [demo_user], user_sessions = [demo_user_session], user_session_authentications = [],
      user_emails = [], user_email_authentications = [], user_email_authentication_codes = [],
      user_registration_tokens = [], upstream_oauth_authorization_sessions = [],
      oauth2_clients = [\<lparr>cr_client = demo_client, cr_is_static = False\<rparr>],
      oauth2_sessions = [demo_session], oauth2_access_tokens = [], oauth2_refresh_tokens = [],
      oauth2_authorization_grants = [demo_grant], oauth2_device_code_grant = [],
      personal_sessions = [], personal_access_tokens = [], queue_jobs = [], queue_workers = [],
      queue_schedules = [], queue_leader = []\<rparr>"

definition demo_world :: "db \<Rightarrow> world" where
  "demo_world d =
     \<lparr>w_db = d, w_committed = d, w_clock = \<lparr>clock_at = (\<lambda>_. 1000000), clock_pos = 1\<rparr>,
      w_rng = \<lparr>rng_bytes = of_nat, rng_pos = 0\<rparr>, w_locks = [], w_devices = [], w_activity = []\<rparr>"

lemma demo_db_ok: "db_ok demo_db"
  by (simp add: db_ok_def violations_defs demo_db_def demo_user_def demo_user_session_def
      demo_session_def demo_grant_def demo_client_def unique_on_def unique_non_null_def
      references_def not_null_def map_filter_def)

lemmas demo_defs =
  demo_env_def demo_client_def demo_user_def demo_user_session_def demo_session_def demo_grant_def
  demo_db_def demo_world_def

lemmas run_defs =
  bindE_def thenE_def map_err_def ok_or_def ensure_def whenE_def now_def draw_def draw_id_def query_def
  execute_def save_def fetch_def insert_row_def update_table_def row_by_id_def clock_reading_def
  tick_def clock_now_def violations_defs unique_on_def unique_non_null_def references_def not_null_def check_on_def
  map_filter_def upd_rows_def n_rows_def Let_def split_def

lemmas decode_defs =
  decode_grant_def decode_stage_def decode_pkce_def decode_code_def parse_scope_def
  parse_scope_token_def is_nqchar_def collect_set_def decode_session_def

text \<open>The identifiers of the demonstration are smaller than any that is drawn.\<close>

lemma new_id_demo: "100 < fst (new_id 1000000 g)"
proof -
  obtain r where "fst (new_id 1000000 g) = id_millis 1000000 mod 2 ^ 48 * 2 ^ 80 + r"
    using new_id_split by metis
  moreover have "id_millis 1000000 mod 2 ^ 48 = 1000"
    by (simp add: id_millis_def timestamp_millis_def)
  ultimately show ?thesis
    by simp
qed

lemma new_id_other [simp]: "fst (new_id 1000000 g) \<noteq> 6" "fst (new_id 1000000 g) \<noteq> 7"
  "6 \<noteq> fst (new_id 1000000 g)" "7 \<noteq> fst (new_id 1000000 g)"
  using new_id_demo [of g] by auto

lemma generate_other [simp]: "length t \<noteq> 41 \<Longrightarrow> fst (generate crc tt g) \<noteq> t"
  "length t \<noteq> 41 \<Longrightarrow> t \<noteq> fst (generate crc tt g)"
  using well_formed_token_length [OF generate_fst] by metis+

section \<open>A code is exchanged\<close>

definition demo_code :: authorization_code_request where
  "demo_code = \<lparr>cq_code = ''code'', cq_redirect_uri = Some ''https://app.example/'',
     cq_code_verifier = None\<rparr>"

definition demo_grant_value :: authorization_grant where
  "demo_grant_value =
     \<lparr>ag_id = 5, ag_stage = G_Fulfilled 4 0, ag_code = Some \<lparr>ac_code = ''code'', ac_pkce = None\<rparr>,
      ag_client_id = 2, ag_redirect_uri = ''https://app.example/'',
      ag_raw_redirect_uri = ''https://app.example/'', ag_scope = [''openid''], ag_state = None,
      ag_nonce = None, ag_response_mode = parse_response_mode ''query'',
      ag_response_type_id_token = False, ag_created_at = 0, ag_login_hint = None, ag_locale = None\<rparr>"

definition demo_session_value :: session where
  "demo_session_value =
     \<lparr>s_id = 4, s_state = S_Valid, s_created_at = 0, s_user_id = Some 1, s_user_session_id = Some 3,
      s_client_id = 2, s_scope = [''openid''], s_user_agent = None, s_last_active_at = None,
      s_last_active_ip = None, s_human_name = None\<rparr>"

definition demo_browser_session :: browser_session where
  "demo_browser_session = build_browser_session (e_ulid_string demo_env) demo_user_session demo_user"

lemma demo_clock: "clock_reading (demo_world d) = 1000000"
  by (simp add: demo_defs clock_reading_def clock_now_def)

lemma demo_world_db: "w_db (demo_world d) = d" "w_committed (demo_world d) = d"
  by (simp_all add: demo_world_def)

lemma demo_load_grant:
  "load_grant demo_env demo_code demo_client (demo_world demo_db)
     = (Inr demo_grant_value, demo_world demo_db)"
  by (simp add: load_grant_def demo_defs run_defs find_by_code_def demo_code_def decode_defs
      demo_grant_value_def)

lemma demo_redeem: "redeem_grant 1000000 demo_grant_value w = (Inr 4, w)"
  by (simp add: redeem_grant_def demo_grant_value_def run_defs)

lemma demo_lookup:
  "oauth2_session_lookup 4 (tick (demo_world demo_db))
     = (Inr (Some demo_session_value), tick (demo_world demo_db))"
  by (simp add: oauth2_session_lookup_def demo_defs run_defs decode_defs demo_session_value_def)

lemma demo_device_name:
  "render_device_name demo_env demo_grant_value demo_client None w = (Inr ''device'', w)"
  by (simp add: render_device_name_def demo_defs run_defs demo_grant_value_def)

lemma demo_owner:
  "check_code_owner demo_env demo_code demo_client demo_grant_value demo_session_value w = (Inr (), w)"
  by (simp add: check_code_owner_def check_pkce_def demo_defs run_defs demo_grant_value_def
      demo_session_value_def demo_code_def)

lemma demo_not_admin: "requires_admin [''openid''] = False"
  by (simp add: requires_admin_def is_privileged_scope_token_def ADMIN_SCOPE_def
      ADMIN_SCOPE_LEGACY_def starts_with_def)

lemma demo_admin: "check_code_admin demo_env demo_session_value w = (Inr (), w)"
  by (simp add: check_code_admin_def session_may_keep_admin_scope_def run_defs demo_not_admin
      demo_session_value_def)

lemma demo_load_browser:
  "load_browser_session demo_env 5 demo_session_value (tick (demo_world demo_db))
     = (Inr demo_browser_session, tick (demo_world demo_db))"
  by (simp add: load_browser_session_def browser_session_lookup_def load_session_lookup_def run_defs
      demo_defs demo_session_value_def demo_browser_session_def)

lemma demo_issue:
  "\<exists>params w1. issue_code_tokens demo_env demo_client demo_grant_value demo_session_value
     demo_browser_session (tick (demo_world demo_db)) = (Inr params, w1)"
  by (simp add: issue_code_tokens_def get_last_authentication_def generate_token_pair_def
      refresh_token_add_def access_token_add_def new_access_token_row_def new_refresh_token_row_def
      issue_id_token_def scope_contains_def OPENID_def parse_scope_token_def is_nqchar_def
      generate_id_token_def demo_browser_session_def opt_hash_def hash_token_def sha_family_for_def
      ends_with_def starts_with_def demo_grant_value_def run_defs demo_defs demo_session_value_def)

lemma demo_finish:
  assumes "w_db w = add_pair arow rrow demo_db" "pair_rows e 4 arow rrow"
  shows "\<exists>w'. finish_code_exchange demo_env None demo_grant_value demo_session_value
    demo_browser_session n w = (Inr (), w')"
  using assms
  by (simp add: finish_code_exchange_def acquire_lock_for_sync_def provision_devices_def
      matrix_device_ids_def device_id_of_token_def strip_prefix_def starts_with_def
      grant_exchange_op_def update_then_transition_def exchange_grant_row_def
      ensure_affected_rows_def to_invalid_operation_def grant_exchange_def record_oauth2_session_def
      run_defs demo_defs demo_session_value_def demo_grant_value_def pair_rows_def add_pair_def)

lemma demo_exchange:
  "\<exists>params w'. exchange_authorization_code demo_env None None demo_code demo_client
     (demo_world demo_db) = (Inr params, w')"
proof -
  obtain params w1 where i: "issue_code_tokens demo_env demo_client demo_grant_value
      demo_session_value demo_browser_session (tick (demo_world demo_db)) = (Inr params, w1)"
    using demo_issue by blast
  from issue_code_tokens_Inr [OF i] obtain arow rrow where
    "w_db w1 = add_pair arow rrow demo_db" "pair_rows demo_env 4 arow rrow"
    by (auto simp: demo_session_value_def demo_world_def)
  from demo_finish [OF this] obtain w2 where "finish_code_exchange demo_env None demo_grant_value
      demo_session_value demo_browser_session ''device'' w1 = (Inr (), w2)"
    by blast
  moreover have "ag_id demo_grant_value = 5"
    by (simp add: demo_grant_value_def)
  ultimately show ?thesis
    using i
    by (simp add: exchange_authorization_code_def bindE_def thenE_def map_err_def ok_or_def demo_clock
        demo_load_grant demo_redeem demo_lookup demo_device_name demo_owner demo_admin
        demo_load_browser now_def record_agent_def)
qed

section \<open>A token pair that is refreshed and revoked\<close>

definition demo_access_token :: string where
  "demo_access_token = ''mat_'' @ replicate 30 (CHR ''a'') @ ''_'' @ base62_encode 7"

definition demo_access_row :: "string \<Rightarrow> access_token_row" where
  "demo_access_row token =
     \<lparr>oa_id = 6, oa_session_id = 4, oa_access_token = token, oa_created_at = 0,
      oa_expires_at = Some 300000000, oa_revoked_at = None, oa_first_used_at = None\<rparr>"

definition demo_refresh_row :: refresh_token_row where
  "demo_refresh_row =
     \<lparr>or_id = 7, or_refresh_token = ''refresh'', or_created_at = 0, or_consumed_at = None,
      or_revoked_at = None, or_access_token_id = Some 6, or_session_id = 4, or_next_id = None\<rparr>"

definition demo_token_db :: "string \<Rightarrow> db" where
  "demo_token_db token = demo_db\<lparr>oauth2_authorization_grants := [exchange_grant_row 0 demo_grant],
     oauth2_access_tokens := [demo_access_row token], oauth2_refresh_tokens := [demo_refresh_row]\<rparr>"

lemma demo_token_db_ok: "db_ok (demo_token_db token)"
  by (simp add: db_ok_def violations_defs demo_token_db_def demo_db_def demo_user_def
      demo_user_session_def demo_session_def demo_grant_def demo_client_def demo_access_row_def
      demo_refresh_row_def exchange_grant_row_def unique_on_def unique_non_null_def references_def
      not_null_def map_filter_def)

lemma demo_check: "check (e_crc32 demo_env) (e_base64url_decode demo_env) demo_access_token
    = Inr TT_AccessToken"
  unfolding check_Inr_iff
  by (auto simp: well_formed_token_def is_likely_palpo_macaroon_def demo_env_def demo_access_token_def
      intro!: exI [of _ "replicate 30 (CHR ''a'')"])


definition demo_refresh_value :: refresh_token where
  "demo_refresh_value =
     \<lparr>rt_id = 7, rt_state = RT_Valid, rt_refresh_token = ''refresh'', rt_session_id = 4,
      rt_created_at = 0, rt_access_token_id = Some 6\<rparr>"

lemmas demo_token_defs = demo_token_db_def demo_access_row_def demo_refresh_row_def
  exchange_grant_row_def

lemma demo_load_refresh:
  "load_refresh_session None ''refresh'' demo_client (demo_world (demo_token_db ''access''))
     = (Inr (demo_refresh_value, demo_session_value),
        demo_world (demo_token_db ''access''))"
  by (simp add: load_refresh_session_def refresh_token_find_by_token_def oauth2_session_lookup_def
      record_agent_def run_defs demo_defs demo_token_defs decode_defs demo_refresh_value_def
      demo_session_value_def decode_refresh_token_def)

lemma demo_check_refresh: "check_refresh_session demo_env demo_client demo_session_value w = (Inr (), w)"
  by (simp add: check_refresh_session_Inr may_keep_admin_def demo_not_admin demo_session_value_def
      demo_client_def)

lemma demo_rotate:
  "\<exists>params w1. rotate_tokens demo_env demo_refresh_value demo_session_value
     ((tick (demo_world (demo_token_db ''access'')))\<lparr>w_activity := a\<rparr>) = (Inr params, w1)"
  by (simp add: rotate_tokens_def generate_token_pair_def
      refresh_token_add_def access_token_add_def new_access_token_row_def new_refresh_token_row_def
      refresh_token_consume_op_def update_then_transition_def consume_row_def ensure_affected_rows_def
      to_invalid_operation_def refresh_token_consume_def revoke_old_access_token_def
      access_token_lookup_def decode_access_token_def build_access_token_def at_is_revoked_def
      access_token_revoke_op_def revoke_access_token_row_def access_token_revoke_def
      run_defs demo_defs demo_token_defs demo_session_value_def demo_refresh_value_def)

lemma demo_refresh:
  "\<exists>params w'. handle_refresh_token demo_env None None ''refresh'' demo_client
     (demo_world (demo_token_db ''access'')) = (Inr params, w')"
proof -
  obtain params w1 where "rotate_tokens demo_env demo_refresh_value demo_session_value
      ((tick (demo_world (demo_token_db ''access'')))\<lparr>w_activity :=
         w_activity (demo_world (demo_token_db ''access'')) @ [(SK_OAuth2, s_id demo_session_value,
           clock_reading (demo_world (demo_token_db ''access'')), None)]\<rparr>) = (Inr params, w1)"
    using demo_rotate by blast
  moreover have "rt_is_valid demo_refresh_value"
    by (simp add: rt_is_valid_def demo_refresh_value_def)
  ultimately show ?thesis
    by (simp add: handle_refresh_token_def demo_load_refresh demo_check_refresh bindE_def thenE_def
        whenE_def map_err_def record_oauth2_session_def)
qed

abbreviation demo_live_world :: world where
  "demo_live_world \<equiv> demo_world (demo_token_db demo_access_token)"

lemma demo_live_token: "live_token demo_env (w_db demo_live_world) 1000000 demo_access_token None"
  by (simp add: live_token_def demo_check live_access_token_def live_session_def good_subject_def
      good_user_def row_by_id_def at_is_valid_def build_access_token_def demo_token_defs demo_db_def
      demo_world_def demo_session_def demo_user_def at_is_expired_def valid_token_def is_nqchar_def)

lemma demo_find_access:
  "find_access_for_revocation demo_access_token demo_live_world = (Inr 4, tick demo_live_world)"
  by (simp add: find_access_for_revocation_def access_token_find_by_token_def decode_access_token_def
      build_access_token_def at_is_valid_def at_is_expired_def run_defs demo_defs demo_token_defs)

lemma demo_load_session:
  assumes "w_db w = demo_token_db t"
  shows "load_session_to_end (Some 2) 4 w = (Inr demo_session_value, w)"
  using assms
  by (simp add: load_session_to_end_def oauth2_session_lookup_def run_defs demo_token_defs demo_db_def
      demo_session_def demo_session_value_def decode_defs)

lemma db_ok_new_job:
  assumes "db_ok d" "queue_jobs d = []"
  shows "db_ok (put_jobs [new_job_row i t q p m] d)"
proof -
  let ?d = "put_jobs [new_job_row i t q p m] d"
  have "queue_violations d = []"
    using assms(1) by (simp add: db_ok_def violations_def)
  then have "queue_violations ?d = []"
    using assms(2)
    by (simp add: queue_violations_def new_job_row_def)
  moreover have "user_violations ?d = user_violations d" "account_violations ?d = account_violations d"
    "session_violations ?d = session_violations d" "token_violations ?d = token_violations d"
    "grant_violations ?d = grant_violations d" "personal_violations ?d = personal_violations d"
    by (simp_all add: user_violations_def account_violations_def session_violations_def
        token_violations_def grant_violations_def personal_violations_def)
  ultimately show ?thesis
    using assms(1) by (simp add: db_ok_def violations_def)
qed

lemma demo_queue_jobs: "queue_jobs (demo_token_db t) = []"
  by (simp add: demo_token_db_def demo_db_def)

lemma schedule_first:
  assumes "consistent w" "queue_jobs (w_db w) = []"
  shows "\<exists>j w'. schedule_job m q p w = (Inr (), w') \<and> w_db w' = put_jobs [j] (w_db w)
    \<and> db_ok (w_db w')"
proof -
  let ?j = "new_job_row (next_id w) (clock_reading w) q p m"
  have "db_ok (put_jobs [?j] (w_db w))"
    using assms by (simp add: consistent_def db_ok_new_job)
  then have "schedule_job m q p w = (Inr (), (after_new_id w)\<lparr>w_db := put_jobs [?j] (w_db w)\<rparr>)"
    using assms(2)
    by (simp add: schedule_job_def schedule_def bindE_Inr now_run draw_id_run insert_row_Inr
        next_id_def after_new_id_def)
  then show ?thesis
    using \<open>db_ok (put_jobs [?j] (w_db w))\<close> by (intro exI [of _ ?j] exI conjI) (assumption, simp_all)
qed

lemma demo_sync:
  assumes "w_db w = demo_token_db t"
  shows "\<exists>j w'. sync_session_user demo_env demo_session_value w = (Inr (), w')
    \<and> w_db w' = put_jobs [j] (demo_token_db t) \<and> db_ok (w_db w')"
proof -
  have "row_by_id ur_id (users (demo_token_db t)) 1 = Some demo_user"
    by (simp add: demo_token_db_def demo_db_def row_by_id_def demo_user_def)
  moreover obtain j w' where "schedule_device_sync demo_env 1 w = (Inr (), w')"
      "w_db w' = put_jobs [j] (w_db w)" "db_ok (w_db w')"
    using schedule_first [of w, unfolded consistent_def assms, OF demo_token_db_ok demo_queue_jobs]
    unfolding schedule_device_sync_def assms by blast
  moreover have "u_id (build_user us demo_user) = 1" for us
    by (simp add: demo_user_def)
  ultimately show ?thesis
    using assms
    by (intro exI [of _ j] exI [of _ w'])
      (simp add: sync_session_user_def user_lookup_run bindE_def map_err_def ok_or_def
        demo_session_value_def)
qed

lemma demo_session_finish:
  assumes "w_db w = put_jobs [j] (demo_token_db t)" "db_ok (w_db w)"
  shows "\<exists>s w'. oauth2_session_finish demo_session_value w = (Inr s, w')"
proof -
  have "n_rows (\<lambda>r. os_id r = 4) (oauth2_sessions (w_db w)) = 1"
    by (simp add: assms(1) demo_token_db_def demo_db_def demo_session_def n_rows_def)
  then show ?thesis
    using assms(2)
    by (simp add: oauth2_session_finish_def update_then_transition_Inr session_finish_Inr
        demo_session_value_def db_ok_finish)
qed

lemma demo_revoke:
  "\<exists>w'. revoke_token demo_env None demo_access_token None (Some 2) demo_live_world = (Inr (), w')"
proof -
  let ?w = "(tick (tick demo_live_world))\<lparr>w_activity := w_activity demo_live_world @
    [(SK_OAuth2, s_id demo_session_value, clock_reading (tick demo_live_world), None)]\<rparr>"
  obtain j w1 where w1: "sync_session_user demo_env demo_session_value ?w = (Inr (), w1)"
      "w_db w1 = put_jobs [j] (demo_token_db demo_access_token)" "db_ok (w_db w1)"
    using demo_sync [of ?w demo_access_token] demo_world_db by auto
  obtain s w2 where "oauth2_session_finish demo_session_value w1 = (Inr s, w2)"
    using demo_session_finish [OF w1(2,3)] by blast
  moreover have "load_session_to_end (Some 2) 4 (tick demo_live_world)
      = (Inr demo_session_value, tick demo_live_world)"
    by (rule demo_load_session) (simp add: demo_world_db)
  ultimately show ?thesis
    using w1(1)
    by (simp add: revoke_token_def demo_check revoke_oauth2_token_def demo_find_access bindE_def
        map_err_def thenE_def record_oauth2_session_def)
qed

section \<open>A user is deactivated\<close>

lemma demo_user_lookup:
  "user_lookup us 1 (demo_world demo_db) = (Inr (Some (build_user us demo_user)), demo_world demo_db)"
  by (simp add: user_lookup_run demo_world_db demo_db_def row_by_id_def demo_user_def)

lemma demo_deactivate_user:
  "\<exists>u w'. user_deactivate (build_user us demo_user) (demo_world demo_db) = (Inr u, w') \<and> u_id u = 1
    \<and> w_db w' = demo_db\<lparr>users := [write_user u demo_user]\<rparr>"
  by (simp add: user_deactivate_def user_patch_op_def user_patch_is_empty_def empty_patch_def
      apply_patch_def assign_def flag_def next_instant_def update_user_def write_user_def
      ensure_affected_rows_def run_defs demo_defs build_user_def)

lemma demo_terminate:
  assumes "w_db w = demo_db\<lparr>users := [write_user v demo_user]\<rparr>" "u_id u = 1"
  shows "\<exists>w'. terminate_all_sessions_for u w = (Inr (), w') \<and> user_emails (w_db w') = []"
  using assms
  by (simp add: terminate_all_sessions_for_def retry_on_def browser_session_finish_bulk_def
      oauth2_session_finish_bulk_def personal_session_revoke_bulk_def filtered_sessions_def
      joined_sessions_def browser_sessions_of_def oauth2_sessions_of_def browser_filter_matches_def
      session_filter_matches_def opt_filter_def state_matches_def run_defs demo_db_def demo_user_def
      write_user_def demo_user_session_def demo_session_def demo_grant_def demo_client_def)

lemma demo_deactivate:
  "\<exists>w'. run_deactivate_user demo_env id id (\<lambda>_ _. False) 1 True (demo_world demo_db)
     = (Inl (JE_Retry None), w')"
proof -
  obtain u w1 where u: "user_deactivate (build_user (e_ulid_string demo_env) demo_user)
      (demo_world demo_db) = (Inr u, w1)" "u_id u = 1"
      "w_db w1 = demo_db\<lparr>users := [write_user u demo_user]\<rparr>"
    using demo_deactivate_user by blast
  obtain w2 where "terminate_all_sessions_for u w1 = (Inr (), w2)" "user_emails (w_db w2) = []"
    using demo_terminate [OF u(3,2)] by blast
  then show ?thesis
    using u
    by (simp add: run_deactivate_user_def deactivate_locally_def retry_on_def bindE_def thenE_def
        map_err_def demo_user_lookup [simplified] ok_or_def email_remove_bulk_def query_run save_def ensure_def)
qed

end
