(* ===== verification/Protocol_Types.thy ===== *)
theory Protocol_Types
  imports Scope "HOL-Library.Product_Lexorder"
begin

text \<open>
  Response types (\<open>crates/oauth2-types/src/response_type.rs\<close>) and the error codes sent back to
  clients (\<open>crates/oauth2-types/src/errors.rs\<close>), with their textual forms.

  A response type is a set of tokens, kept like a \<open>BTreeSet\<close> as the sorted list of its members;
  the order of the tokens is the one Rust derives: the constructors as declared, then the string
  of an unknown token.
\<close>

section \<open>Response types\<close>

datatype response_type_token = RT_Code | RT_IdToken | RT_Token | RT_Unknown string

fun token_rank :: "response_type_token \<Rightarrow> nat \<times> string" where
  "token_rank RT_Code = (0, [])"
| "token_rank RT_IdToken = (1, [])"
| "token_rank RT_Token = (2, [])"
| "token_rank (RT_Unknown v) = (3, v)"

lemma token_rank_inject: "token_rank a = token_rank b \<Longrightarrow> a = b"
  by (cases a; cases b) simp_all

instantiation response_type_token :: linorder
begin

definition less_eq_response_type_token :: "response_type_token \<Rightarrow> response_type_token \<Rightarrow> bool" where
  "less_eq_response_type_token a b \<longleftrightarrow> token_rank a \<le> token_rank b"

definition less_response_type_token :: "response_type_token \<Rightarrow> response_type_token \<Rightarrow> bool" where
  "less_response_type_token a b \<longleftrightarrow> token_rank a < token_rank b"

instance
proof
  fix a b c :: response_type_token
  show "a < b \<longleftrightarrow> a \<le> b \<and> \<not> b \<le> a" "a \<le> a" "a \<le> b \<or> b \<le> a"
    by (auto simp: less_eq_response_type_token_def less_response_type_token_def)
  show "a \<le> c" if "a \<le> b" "b \<le> c"
    using that unfolding less_eq_response_type_token_def by (rule order_trans)
  show "a = b" if "a \<le> b" "b \<le> a"
    using that unfolding less_eq_response_type_token_def by (intro token_rank_inject order_antisym)
qed

end

type_synonym response_type = "response_type_token list"

fun display_response_type_token :: "response_type_token \<Rightarrow> string" where
  "display_response_type_token RT_Code = ''code''"
| "display_response_type_token RT_IdToken = ''id_token''"
| "display_response_type_token RT_Token = ''token''"
| "display_response_type_token (RT_Unknown v) = v"

definition parse_response_type_token :: "string \<Rightarrow> response_type_token" where
  "parse_response_type_token s =
     (if s = ''code'' then RT_Code
      else if s = ''id_token'' then RT_IdToken
      else if s = ''token'' then RT_Token
      else RT_Unknown s)"

definition has_code :: "response_type \<Rightarrow> bool" where
  "has_code rt \<longleftrightarrow> RT_Code \<in> set rt"

definition has_id_token :: "response_type \<Rightarrow> bool" where
  "has_id_token rt \<longleftrightarrow> RT_IdToken \<in> set rt"

definition has_token :: "response_type \<Rightarrow> bool" where
  "has_token rt \<longleftrightarrow> RT_Token \<in> set rt"

text \<open>
  White space in UTF-8: what \<open>str::trim\<close> removes at both ends, and what
  \<open>split_ascii_whitespace\<close> separates on.
\<close>

definition white_space :: "string list" where
  "white_space =
     [[CHR 0x09], [CHR 0x0A], [CHR 0x0B], [CHR 0x0C], [CHR 0x0D], [CHR 0x20],
      [CHR 0xC2, CHR 0x85], [CHR 0xC2, CHR 0xA0], [CHR 0xE1, CHR 0x9A, CHR 0x80],
      [CHR 0xE2, CHR 0x80, CHR 0x80], [CHR 0xE2, CHR 0x80, CHR 0x81], [CHR 0xE2, CHR 0x80, CHR 0x82],
      [CHR 0xE2, CHR 0x80, CHR 0x83], [CHR 0xE2, CHR 0x80, CHR 0x84], [CHR 0xE2, CHR 0x80, CHR 0x85],
      [CHR 0xE2, CHR 0x80, CHR 0x86], [CHR 0xE2, CHR 0x80, CHR 0x87], [CHR 0xE2, CHR 0x80, CHR 0x88],
      [CHR 0xE2, CHR 0x80, CHR 0x89], [CHR 0xE2, CHR 0x80, CHR 0x8A], [CHR 0xE2, CHR 0x80, CHR 0xA8],
      [CHR 0xE2, CHR 0x80, CHR 0xA9], [CHR 0xE2, CHR 0x80, CHR 0xAF], [CHR 0xE2, CHR 0x81, CHR 0x9F],
      [CHR 0xE3, CHR 0x80, CHR 0x80]]"

function drop_leading :: "string list \<Rightarrow> string \<Rightarrow> string" where
  "drop_leading ws s =
     (case List.find (\<lambda>w. w \<noteq> [] \<and> starts_with w s) ws of
        None \<Rightarrow> s
      | Some w \<Rightarrow> drop_leading ws (drop (length w) s))"
  by pat_completeness auto
termination
proof (relation "measure (length \<circ> snd)")
  fix ws s w
  assume "List.find (\<lambda>w. w \<noteq> [] \<and> starts_with w s) ws = Some w"
  then have "w \<noteq> []" "starts_with w s"
    by (auto dest: find_SomeD)
  then show "((ws, drop (length w) s), ws, s) \<in> measure (length \<circ> snd)"
    by (auto simp: starts_with_iff)
qed simp

declare drop_leading.simps [simp del]

definition trim :: "string \<Rightarrow> string" where
  "trim s = rev (drop_leading (map rev white_space) (rev (drop_leading white_space s)))"

definition is_ascii_whitespace :: "char \<Rightarrow> bool" where
  "is_ascii_whitespace c \<longleftrightarrow> c \<in> {CHR 0x09, CHR 0x0A, CHR 0x0C, CHR 0x0D, CHR 0x20}"

text \<open>\<open>split_ascii_whitespace\<close>: the non-empty pieces between white space.\<close>

fun pieces :: "string \<Rightarrow> string \<Rightarrow> string list" where
  "pieces cur [] = (if cur = [] then [] else [cur])"
| "pieces cur (c # s) =
     (if is_ascii_whitespace c then (if cur = [] then pieces [] s else cur # pieces [] s)
      else pieces (cur @ [c]) s)"

definition split_ascii_whitespace :: "string \<Rightarrow> string list" where
  "split_ascii_whitespace = pieces []"

definition parse_response_type :: "string \<Rightarrow> response_type option" where
  "parse_response_type s =
     (let trimmed = trim s
      in if trimmed = [] then None
         else if trimmed = ''none'' then Some []
         else Some (collect_set (map parse_response_type_token (split_ascii_whitespace trimmed))))"

definition display_response_type :: "response_type \<Rightarrow> string" where
  "display_response_type rt =
     (if rt = [] then ''none''
      else join_with (CHR '' '') (map display_response_type_token rt))"

section \<open>Error codes\<close>

datatype client_error_code =
    CEC_InvalidRequest
  | CEC_InvalidClient
  | CEC_InvalidGrant
  | CEC_UnauthorizedClient
  | CEC_UnsupportedGrantType
  | CEC_AccessDenied
  | CEC_UnsupportedResponseType
  | CEC_InvalidScope
  | CEC_ServerError
  | CEC_TemporarilyUnavailable
  | CEC_InteractionRequired
  | CEC_LoginRequired
  | CEC_AccountSelectionRequired
  | CEC_ConsentRequired
  | CEC_InvalidRequestUri
  | CEC_InvalidRequestObject
  | CEC_RequestNotSupported
  | CEC_RequestUriNotSupported
  | CEC_RegistrationNotSupported
  | CEC_InvalidRedirectUri
  | CEC_InvalidClientMetadata
  | CEC_AuthorizationPending
  | CEC_SlowDown
  | CEC_ExpiredToken
  | CEC_UnsupportedTokenType
  | CEC_Unknown string

fun display_error_code :: "client_error_code \<Rightarrow> string" where
  "display_error_code CEC_InvalidRequest = ''invalid_request''"
| "display_error_code CEC_InvalidClient = ''invalid_client''"
| "display_error_code CEC_InvalidGrant = ''invalid_grant''"
| "display_error_code CEC_UnauthorizedClient = ''unauthorized_client''"
| "display_error_code CEC_UnsupportedGrantType = ''unsupported_grant_type''"
| "display_error_code CEC_AccessDenied = ''access_denied''"
| "display_error_code CEC_UnsupportedResponseType = ''unsupported_response_type''"
| "display_error_code CEC_InvalidScope = ''invalid_scope''"
| "display_error_code CEC_ServerError = ''server_error''"
| "display_error_code CEC_TemporarilyUnavailable = ''temporarily_unavailable''"
| "display_error_code CEC_InteractionRequired = ''interaction_required''"
| "display_error_code CEC_LoginRequired = ''login_required''"
| "display_error_code CEC_AccountSelectionRequired = ''account_selection_required''"
| "display_error_code CEC_ConsentRequired = ''consent_required''"
| "display_error_code CEC_InvalidRequestUri = ''invalid_request_uri''"
| "display_error_code CEC_InvalidRequestObject = ''invalid_request_object''"
| "display_error_code CEC_RequestNotSupported = ''request_not_supported''"
| "display_error_code CEC_RequestUriNotSupported = ''request_uri_not_supported''"
| "display_error_code CEC_RegistrationNotSupported = ''registration_not_supported''"
| "display_error_code CEC_InvalidRedirectUri = ''invalid_redirect_uri''"
| "display_error_code CEC_InvalidClientMetadata = ''invalid_client_metadata''"
| "display_error_code CEC_AuthorizationPending = ''authorization_pending''"
| "display_error_code CEC_SlowDown = ''slow_down''"
| "display_error_code CEC_ExpiredToken = ''expired_token''"
| "display_error_code CEC_UnsupportedTokenType = ''unsupported_token_type''"
| "display_error_code (CEC_Unknown value) = value"

definition parse_error_code :: "string \<Rightarrow> client_error_code" where
  "parse_error_code s =
     (if s = ''invalid_request'' then CEC_InvalidRequest
      else if s = ''invalid_client'' then CEC_InvalidClient
      else if s = ''invalid_grant'' then CEC_InvalidGrant
      else if s = ''unauthorized_client'' then CEC_UnauthorizedClient
      else if s = ''unsupported_grant_type'' then CEC_UnsupportedGrantType
      else if s = ''access_denied'' then CEC_AccessDenied
      else if s = ''unsupported_response_type'' then CEC_UnsupportedResponseType
      else if s = ''invalid_scope'' then CEC_InvalidScope
      else if s = ''server_error'' then CEC_ServerError
      else if s = ''temporarily_unavailable'' then CEC_TemporarilyUnavailable
      else if s = ''interaction_required'' then CEC_InteractionRequired
      else if s = ''login_required'' then CEC_LoginRequired
      else if s = ''account_selection_required'' then CEC_AccountSelectionRequired
      else if s = ''consent_required'' then CEC_ConsentRequired
      else if s = ''invalid_request_uri'' then CEC_InvalidRequestUri
      else if s = ''invalid_request_object'' then CEC_InvalidRequestObject
      else if s = ''request_not_supported'' then CEC_RequestNotSupported
      else if s = ''request_uri_not_supported'' then CEC_RequestUriNotSupported
      else if s = ''registration_not_supported'' then CEC_RegistrationNotSupported
      else if s = ''invalid_redirect_uri'' then CEC_InvalidRedirectUri
      else if s = ''invalid_client_metadata'' then CEC_InvalidClientMetadata
      else if s = ''authorization_pending'' then CEC_AuthorizationPending
      else if s = ''slow_down'' then CEC_SlowDown
      else if s = ''expired_token'' then CEC_ExpiredToken
      else if s = ''unsupported_token_type'' then CEC_UnsupportedTokenType
      else CEC_Unknown s)"

fun default_description :: "client_error_code \<Rightarrow> string" where
  "default_description CEC_InvalidRequest =
     ''The request is missing a required parameter, includes an invalid parameter '' @
     ''value, includes a parameter more than once, or is otherwise malformed.''"
| "default_description CEC_InvalidClient =
     ''Client authentication failed.''"
| "default_description CEC_InvalidGrant =
     ''The provided access grant is invalid, expired, or revoked.''"
| "default_description CEC_UnauthorizedClient =
     ''The client is not authorized to request an access token using this method.''"
| "default_description CEC_UnsupportedGrantType =
     ''The authorization grant type is not supported by the authorization server.''"
| "default_description CEC_AccessDenied =
     ''The resource owner or authorization server denied the request.''"
| "default_description CEC_UnsupportedResponseType =
     ''The authorization server does not support obtaining an access token using '' @
     ''this method.''"
| "default_description CEC_InvalidScope =
     ''The requested scope is invalid, unknown, or malformed.''"
| "default_description CEC_ServerError =
     ''The authorization server encountered an unexpected condition that prevented '' @
     ''it from fulfilling the request.''"
| "default_description CEC_TemporarilyUnavailable =
     ''The authorization server is currently unable to handle the request due to a '' @
     ''temporary overloading or maintenance of the server.''"
| "default_description CEC_InteractionRequired =
     ''The Authorization Server requires End-User interaction of some form to '' @
     ''proceed.''"
| "default_description CEC_LoginRequired =
     ''The Authorization Server requires End-User authentication.''"
| "default_description CEC_AccountSelectionRequired =
     ''The End-User is required to select a session at the Authorization Server.''"
| "default_description CEC_ConsentRequired =
     ''The Authorization Server requires End-User consent.''"
| "default_description CEC_InvalidRequestUri =
     ''The request_uri in the Authorization Request returns an error or contains '' @
     ''invalid data.''"
| "default_description CEC_InvalidRequestObject =
     ''The request parameter contains an invalid Request Object.''"
| "default_description CEC_RequestNotSupported =
     ''The provider does not support use of the request parameter.''"
| "default_description CEC_RequestUriNotSupported =
     ''The provider does not support use of the request_uri parameter.''"
| "default_description CEC_RegistrationNotSupported =
     ''The provider does not support use of the registration parameter.''"
| "default_description CEC_InvalidRedirectUri =
     ''The value of one or more redirection URIs is invalid.''"
| "default_description CEC_InvalidClientMetadata =
     ''The value of one of the client metadata fields is invalid''"
| "default_description CEC_AuthorizationPending =
     ''The authorization request is still pending''"
| "default_description CEC_SlowDown =
     ''The interval must be increased by 5 seconds for this and all subsequent '' @
     ''requests''"
| "default_description CEC_ExpiredToken =
     ''The '' @ [CHR 0x22] @ ''device_code'' @ [CHR 0x22] @ '' has expired, and the device authorization session has '' @
     ''concluded''"
| "default_description CEC_UnsupportedTokenType =
     ''The authorization server does not support the revocation of the presented '' @
     ''token type.''"
| "default_description (CEC_Unknown _) = ''''"

text \<open>The parameters a \<open>ClientError\<close> serialises to.\<close>

definition client_error :: "client_error_code \<Rightarrow> (string \<times> string) list" where
  "client_error code =
     [(''error'', display_error_code code), (''error_description'', default_description code)]"

section \<open>Lemmas\<close>

lemma display_parse_error_code: "display_error_code (parse_error_code s) = s"
  by (simp add: parse_error_code_def)

lemma parse_display_error_code:
  "(\<forall>v. c \<noteq> CEC_Unknown v) \<Longrightarrow> parse_error_code (display_error_code c) = c"
  by (cases c) (simp_all add: parse_error_code_def)

lemma display_parse_token: "display_response_type_token (parse_response_type_token s) = s"
  by (simp add: parse_response_type_token_def)

text \<open>Tokens of printable ASCII characters, in the form parsing gives them.\<close>

definition is_graphic :: "char \<Rightarrow> bool" where
  "is_graphic c \<longleftrightarrow> 0x21 \<le> (of_char c :: nat) \<and> (of_char c :: nat) \<le> 0x7E"

definition valid_response_token :: "response_type_token \<Rightarrow> bool" where
  "valid_response_token t \<longleftrightarrow>
     display_response_type_token t \<noteq> [] \<and> list_all is_graphic (display_response_type_token t)
     \<and> parse_response_type_token (display_response_type_token t) = t"

definition valid_response_type :: "response_type \<Rightarrow> bool" where
  "valid_response_type rt \<longleftrightarrow>
     sorted rt \<and> distinct rt \<and> list_all valid_response_token rt \<and> rt \<noteq> [RT_Unknown ''none'']"

lemma white_space_edges:
  "w \<in> set white_space \<Longrightarrow> w \<noteq> [] \<and> \<not> is_graphic (hd w) \<and> \<not> is_graphic (last w)"
  unfolding white_space_def by (auto simp: is_graphic_def)

lemma drop_leading_graphic:
  assumes "\<And>w. w \<in> set ws \<Longrightarrow> w \<noteq> [] \<Longrightarrow> \<not> is_graphic (hd w)" and "s = [] \<or> is_graphic (hd s)"
  shows "drop_leading ws s = s"
proof -
  have "List.find (\<lambda>w. w \<noteq> [] \<and> starts_with w s) ws = None"
    unfolding find_None_iff
  proof
    assume "\<exists>w. w \<in> set ws \<and> w \<noteq> [] \<and> starts_with w s"
    then obtain w where w: "w \<in> set ws" "w \<noteq> []" "starts_with w s"
      by blast
    then have "hd s = hd w" "s \<noteq> []"
      by (auto simp: starts_with_iff)
    with assms(1) [OF w(1,2)] assms(2) show False
      by simp
  qed
  then show ?thesis
    by (subst drop_leading.simps) simp
qed

lemma trim_graphic:
  assumes "s \<noteq> []" and "is_graphic (hd s)" and "is_graphic (last s)"
  shows "trim s = s"
proof -
  have "drop_leading white_space s = s"
    using white_space_edges assms by (intro drop_leading_graphic) auto
  moreover have "drop_leading (map rev white_space) (rev s) = rev s"
    using white_space_edges assms by (intro drop_leading_graphic) (auto simp: hd_rev)
  ultimately show ?thesis
    by (simp add: trim_def)
qed

lemma graphic_not_space: "is_graphic c \<Longrightarrow> \<not> is_ascii_whitespace c"
  by (auto simp: is_graphic_def is_ascii_whitespace_def)

lemma pieces_graphic:
  "list_all is_graphic x \<Longrightarrow> pieces cur (x @ s) = pieces (cur @ x) s"
  by (induction x arbitrary: cur) (auto dest: graphic_not_space)

lemma pieces_join:
  "list_all (\<lambda>x. x \<noteq> [] \<and> list_all is_graphic x) xs \<Longrightarrow> pieces [] (join_with (CHR '' '') xs) = xs"
proof (induction xs rule: induct_list012)
  case (2 x)
  then show ?case
    using pieces_graphic [of x "[]" "[]"] by simp
next
  case (3 x y zs)
  then show ?case
    using pieces_graphic [of x "[]"] by (simp add: is_ascii_whitespace_def)
qed simp

lemma join_edges:
  assumes "list_all (\<lambda>x. x \<noteq> [] \<and> list_all is_graphic x) xs" and "xs \<noteq> []"
  shows "join_with (CHR '' '') xs \<noteq> [] \<and> is_graphic (hd (join_with (CHR '' '') xs))
    \<and> is_graphic (last (join_with (CHR '' '') xs))"
  using assms
proof (induction xs rule: induct_list012)
  case (2 x)
  then show ?case
    by (simp add: list_all_iff)
next
  case (3 x y zs)
  then show ?case
    by (auto simp: list_all_iff)
qed simp

text \<open>Printing and parsing a response type.\<close>

lemma parse_display_response_type:
  assumes "valid_response_type rt"
  shows "parse_response_type (display_response_type rt) = Some rt"
proof (cases "rt = []")
  case True
  then show ?thesis
    by (simp add: parse_response_type_def display_response_type_def trim_graphic is_graphic_def)
next
  case False
  let ?xs = "map display_response_type_token rt"
  let ?s = "join_with (CHR '' '') ?xs"
  have tokens: "list_all (\<lambda>x. x \<noteq> [] \<and> list_all is_graphic x) ?xs"
    using assms by (auto simp: valid_response_type_def valid_response_token_def list_all_iff)
  have pieces: "pieces [] ?s = ?xs"
    by (rule pieces_join [OF tokens])
  have edges: "?s \<noteq> [] \<and> is_graphic (hd ?s) \<and> is_graphic (last ?s)"
    using False by (intro join_edges [OF tokens]) simp
  have "?s \<noteq> ''none''"
  proof
    assume "?s = ''none''"
    with pieces have "?xs = [''none'']"
      by (simp add: is_ascii_whitespace_def)
    then obtain t where "rt = [t]" "display_response_type_token t = ''none''"
      by (auto simp: map_eq_Cons_conv)
    with assms show False
      by (auto simp: valid_response_type_def valid_response_token_def parse_response_type_token_def)
  qed
  have "map parse_response_type_token ?xs = rt"
    using assms by (simp add: valid_response_type_def valid_response_token_def list_all_iff map_idI)
  then show ?thesis
    using assms pieces edges False \<open>?s \<noteq> ''none''\<close>
    by (simp add: parse_response_type_def display_response_type_def trim_graphic
        split_ascii_whitespace_def collect_set_id valid_response_type_def Let_def)
qed

text \<open>What parsing gives, on strings of printable ASCII characters and ASCII white space.\<close>

definition ascii_words :: "string \<Rightarrow> bool" where
  "ascii_words s \<longleftrightarrow> list_all (\<lambda>c. is_graphic c \<or> is_ascii_whitespace c) s"

lemma set_drop_leading: "set (drop_leading ws s) \<subseteq> set s"
proof (induction ws s rule: drop_leading.induct)
  case (1 ws s)
  then show ?case
    by (subst drop_leading.simps) (auto split: option.split dest: in_set_dropD)
qed

lemma ascii_words_trim: "ascii_words s \<Longrightarrow> ascii_words (trim s)"
  using set_drop_leading unfolding trim_def ascii_words_def list_all_iff set_rev by (metis set_rev subsetD)

lemma pieces_words:
  "ascii_words s \<Longrightarrow> list_all is_graphic cur \<Longrightarrow>
     list_all (\<lambda>x. x \<noteq> [] \<and> list_all is_graphic x) (pieces cur s)"
  by (induction cur s rule: pieces.induct) (auto simp: ascii_words_def)

lemma valid_parsed_token:
  "x \<noteq> [] \<Longrightarrow> list_all is_graphic x \<Longrightarrow> valid_response_token (parse_response_type_token x)"
  by (simp add: valid_response_token_def display_parse_token)

lemma parsed_response_type:
  assumes "ascii_words s" and "parse_response_type s = Some rt" and "rt \<noteq> [RT_Unknown ''none'']"
  shows "valid_response_type rt"
proof (cases "trim s = ''none''")
  case True
  then show ?thesis
    using assms(2) by (auto simp: parse_response_type_def valid_response_type_def)
next
  case False
  then have rt: "rt = collect_set (map parse_response_type_token (pieces [] (trim s)))"
    using assms(2) by (auto simp: parse_response_type_def split_ascii_whitespace_def Let_def split: if_splits)
  have "list_all valid_response_token rt"
    using pieces_words [OF ascii_words_trim [OF assms(1)], of "[]"]
    by (auto simp: rt list_all_iff intro: valid_parsed_token)
  then show ?thesis
    using assms(3) by (simp add: valid_response_type_def rt)
qed

lemma parse_display_iff:
  assumes "ascii_words s" and "parse_response_type s = Some rt"
  shows "parse_response_type (display_response_type rt) = Some rt \<longleftrightarrow> rt \<noteq> [RT_Unknown ''none'']"
proof (cases "rt = [RT_Unknown ''none'']")
  case True
  then show ?thesis
    by (simp add: parse_response_type_def display_response_type_def trim_graphic is_graphic_def)
next
  case False
  with parse_display_response_type [OF parsed_response_type [OF assms]] show ?thesis
    by simp
qed

end
