(* ===== verification/Authorization.thy ===== *)
theory Authorization
  imports Protocol_Types Service_Env Frames
begin

text \<open>
  The authorization endpoint: \<open>handle_get\<close> of
  \<open>crates/backend/src/handlers/oauth2/authorization/mod.rs\<close> with the callback of
  \<open>authorization/callback.rs\<close>, the redirect URI rules of \<open>crates/data/src/oauth2/client.rs\<close> and of
  \<open>crates/backend/src/handlers/oauth2/mod.rs\<close>, and the device authorization endpoint
  (\<open>device/authorize.rs\<close>) from the authenticated client on.

  A URL is its serialisation; \<open>url_api\<close> holds what the code uses of the \<open>url\<close> and
  \<open>serde_urlencoded\<close> crates. The code drawn for a grant comes from a rejection sampling loop, which
  returns only if the generator gives enough acceptable bytes (\<open>generate_code\<close>).
\<close>

record url_api =
  url_scheme :: "string \<Rightarrow> string"
  url_host_str :: "string \<Rightarrow> string option"
  url_port :: "string \<Rightarrow> nat option"
  url_without_port :: "string \<Rightarrow> string option"
  url_fragment :: "string \<Rightarrow> string option"
  url_query :: "string \<Rightarrow> string option"
  url_set_query :: "string option \<Rightarrow> string \<Rightarrow> string"
  url_set_fragment :: "string option \<Rightarrow> string \<Rightarrow> string"
  form_decode :: "string \<Rightarrow> (string \<times> string) list option"
  form_encode :: "(string \<times> string) list \<Rightarrow> string option"
  form_post_page :: "string \<Rightarrow> (string \<times> string) list \<Rightarrow> string option"

section \<open>Redirect URIs\<close>

definition LOCAL_HOSTS :: "string list" where
  "LOCAL_HOSTS = [''localhost'', ''127.0.0.1'', ''[::1]'']"

definition uri_matches_one_of :: "url_api \<Rightarrow> string \<Rightarrow> string list \<Rightarrow> bool" where
  "uri_matches_one_of api uri registered_uris =
     (if (case url_host_str api uri of None \<Rightarrow> [] | Some h \<Rightarrow> h) \<in> set LOCAL_HOSTS
         \<and> (case url_without_port api uri of None \<Rightarrow> False | Some u \<Rightarrow> u \<in> set registered_uris)
      then True
      else uri \<in> set registered_uris)"

datatype invalid_redirect_uri = NotAllowed | MultipleRegistered | NoneRegistered

definition resolve_redirect_uri ::
    "url_api \<Rightarrow> client \<Rightarrow> string option \<Rightarrow> invalid_redirect_uri + string" where
  "resolve_redirect_uri api client redirect_uri =
     (case (c_redirect_uris client, redirect_uri) of
        ([], _) \<Rightarrow> Inl NoneRegistered
      | ([one], None) \<Rightarrow> Inr one
      | (_, None) \<Rightarrow> Inl MultipleRegistered
      | (uris, Some uri) \<Rightarrow> if uri_matches_one_of api uri uris then Inr uri else Inl NotAllowed)"

definition redirect_uri_matches_authorized :: "url_api \<Rightarrow> string \<Rightarrow> string \<Rightarrow> bool" where
  "redirect_uri_matches_authorized api raw authorized =
     (if raw = authorized then True
      else if url_scheme api authorized \<noteq> ''http'' \<or> url_port api authorized \<noteq> None then False
      else (case url_host_str api authorized of
              None \<Rightarrow> False
            | Some host \<Rightarrow>
                if host \<noteq> ''localhost'' \<and> host \<noteq> ''127.0.0.1'' \<and> host \<noteq> ''[::1]'' then False
                else (let prefix = ''http://'' @ host
                      in (case strip_prefix prefix authorized of
                            None \<Rightarrow> False
                          | Some suffix \<Rightarrow> raw = prefix @ '':80'' @ suffix))))"

section \<open>The callback\<close>

datatype callback_mode = CM_Query "(string \<times> string) list" | CM_Fragment | CM_FormPost

record callback_destination =
  cd_mode :: callback_mode
  cd_redirect_uri :: string
  cd_state :: "string option"

datatype into_callback_error =
  RedirectUriFragmentNotAllowed | RedirectUriInvalidQueryParams | UnsupportedResponseMode

definition callback_try_new ::
    "url_api \<Rightarrow> response_mode \<Rightarrow> string \<Rightarrow> string option \<Rightarrow>
     into_callback_error + callback_destination" where
  "callback_try_new api mode redirect_uri state =
     (if url_fragment api redirect_uri \<noteq> None then Inl RedirectUriFragmentNotAllowed
      else (case mode of
              RM_Query \<Rightarrow>
                (case (case url_query api redirect_uri of
                         None \<Rightarrow> Some [] | Some q \<Rightarrow> form_decode api q) of
                   None \<Rightarrow> Inl RedirectUriInvalidQueryParams
                 | Some existing_params \<Rightarrow>
                     Inr \<lparr>cd_mode = CM_Query existing_params,
                          cd_redirect_uri = url_set_query api None redirect_uri, cd_state = state\<rparr>)
            | RM_Fragment \<Rightarrow>
                Inr \<lparr>cd_mode = CM_Fragment, cd_redirect_uri = redirect_uri, cd_state = state\<rparr>
            | RM_FormPost \<Rightarrow>
                Inr \<lparr>cd_mode = CM_FormPost, cd_redirect_uri = redirect_uri, cd_state = state\<rparr>
            | RM_Unknown _ \<Rightarrow> Inl UnsupportedResponseMode))"

text \<open>\<open>AllParams\<close>: the existing parameters, the state, then the parameters of the reply.\<close>

definition all_params ::
    "(string \<times> string) list \<Rightarrow> string option \<Rightarrow> (string \<times> string) list \<Rightarrow> (string \<times> string) list" where
  "all_params existing state params =
     existing @ (case state of None \<Rightarrow> [] | Some s \<Rightarrow> [(''state'', s)]) @ params"

text \<open>The URL given to the single page application, and the name of the response mode.\<close>

definition callback_redirect_url ::
    "url_api \<Rightarrow> callback_destination \<Rightarrow> (string \<times> string) list \<Rightarrow> (string \<times> string) option" where
  "callback_redirect_url api dest params =
     (case cd_mode dest of
        CM_Query existing_params \<Rightarrow>
          map_option (\<lambda>qs. (url_set_query api (Some qs) (cd_redirect_uri dest), ''query''))
            (form_encode api (all_params existing_params (cd_state dest) params))
      | CM_Fragment \<Rightarrow>
          map_option (\<lambda>qs. (url_set_fragment api (Some qs) (cd_redirect_uri dest), ''fragment''))
            (form_encode api (all_params [] (cd_state dest) params))
      | CM_FormPost \<Rightarrow>
          map_option (\<lambda>qs. (url_set_query api (Some qs) (cd_redirect_uri dest), ''form_post''))
            (form_encode api (all_params [] (cd_state dest) params)))"

datatype callback_reply = Callback_Redirect string | Callback_Page string

definition callback_go ::
    "url_api \<Rightarrow> callback_destination \<Rightarrow> (string \<times> string) list \<Rightarrow> callback_reply option" where
  "callback_go api dest params =
     (case cd_mode dest of
        CM_Query existing_params \<Rightarrow>
          map_option (\<lambda>qs. Callback_Redirect (url_set_query api (Some qs) (cd_redirect_uri dest)))
            (form_encode api (all_params existing_params (cd_state dest) params))
      | CM_Fragment \<Rightarrow>
          map_option (\<lambda>qs. Callback_Redirect (url_set_fragment api (Some qs) (cd_redirect_uri dest)))
            (form_encode api (all_params [] (cd_state dest) params))
      | CM_FormPost \<Rightarrow>
          map_option Callback_Page
            (form_post_page api (cd_redirect_uri dest) (all_params [] (cd_state dest) params)))"

section \<open>The code\<close>

text \<open>Bytes from 248 on are rejected, so that the characters are uniformly distributed.\<close>

fun accept_bytes :: "u8 list \<Rightarrow> string \<Rightarrow> string" where
  "accept_bytes [] out = out"
| "accept_bytes (b # bs) out =
     (if b < 248
      then (let out = out @ [alphanumeric_charset ! unat (b mod 62)]
            in if length out = 32 then out else accept_bytes bs out)
      else accept_bytes bs out)"

partial_function (option) generate_code :: "string \<Rightarrow> rng \<Rightarrow> (string \<times> rng) option" where
  "generate_code out g =
     (if length out < 32
      then generate_code (accept_bytes (fst (fill_bytes 64 g)) out) (snd (fill_bytes 64 g))
      else Some (out, g))"

section \<open>The request\<close>

datatype prompt = P_None | P_Login | P_Consent | P_SelectAccount | P_Create | P_Unknown string

record authorization_request =
  az_client_id :: string
  az_redirect_uri :: "string option"
  az_raw_redirect_uri :: "string option"
  az_response_type :: response_type
  az_response_mode :: "response_mode option"
  az_scope :: scope
  az_state :: "string option"
  az_nonce :: "string option"
  az_login_hint :: "string option"
  az_prompt :: "prompt list"
  az_has_request :: bool
  az_has_request_uri :: bool
  az_has_registration :: bool
  az_pkce :: "pkce option"

datatype authorization_error =
    AE_Internal
  | AE_ClientNotFound
  | AE_InvalidResponseMode
  | AE_IntoCallbackDestination into_callback_error
  | AE_UnknownRedirectUri invalid_redirect_uri

definition resolve_response_mode ::
    "response_type \<Rightarrow> response_mode option \<Rightarrow> authorization_error + response_mode" where
  "resolve_response_mode response_type suggested =
     (if has_token response_type \<or> has_id_token response_type
      then (case suggested of
              None \<Rightarrow> Inr RM_Fragment
            | Some RM_Query \<Rightarrow> Inl AE_InvalidResponseMode
            | Some mode \<Rightarrow> Inr mode)
      else Inr (case suggested of None \<Rightarrow> RM_Query | Some mode \<Rightarrow> mode))"

definition find_by_client_id ::
    "(string \<Rightarrow> ulid option) \<Rightarrow> string \<Rightarrow> (db_error, client option) io" where
  "find_by_client_id ulid_parse client_id =
     (case ulid_parse client_id of None \<Rightarrow> ret None | Some i \<Rightarrow> client_lookup i)"

definition load_active_session ::
    "(ulid \<Rightarrow> string) \<Rightarrow> ulid option \<Rightarrow> (db_error, browser_session option) io" where
  "load_active_session ulid_string current =
     (case current of
        None \<Rightarrow> ret None
      | Some session_id \<Rightarrow>
          bindE (browser_session_lookup ulid_string session_id) (\<lambda>b.
            ret (case b of None \<Rightarrow> None | Some b \<Rightarrow> if bs_active b then Some b else None)))"

text \<open>The client, the redirect URI to use and as it was sent, and the response mode.\<close>

record resolved_request =
  rr_client :: client
  rr_redirect_uri :: string
  rr_raw_redirect_uri :: string
  rr_response_mode :: response_mode
  rr_callback :: callback_destination

definition raw_uri_ok :: "url_api \<Rightarrow> authorization_request \<Rightarrow> bool" where
  "raw_uri_ok api q =
     (case (az_raw_redirect_uri q, az_redirect_uri q) of
        (Some raw, Some uri) \<Rightarrow> redirect_uri_matches_authorized api raw uri
      | _ \<Rightarrow> True)"

definition resolve_request ::
    "url_api \<Rightarrow> (string \<Rightarrow> ulid option) \<Rightarrow> authorization_request \<Rightarrow>
     (authorization_error, resolved_request) io" where
  "resolve_request api ulid_parse q =
     bindE (map_err (\<lambda>_. AE_Internal) (find_by_client_id ulid_parse (az_client_id q))) (\<lambda>client.
     bindE (ok_or AE_ClientNotFound client) (\<lambda>client.
     thenE (ensure (raw_uri_ok api q) (AE_UnknownRedirectUri NotAllowed))
    (bindE (map_err AE_UnknownRedirectUri
              (of_result (resolve_redirect_uri api client (az_redirect_uri q)))) (\<lambda>uri.
     bindE (of_result (resolve_response_mode (az_response_type q) (az_response_mode q))) (\<lambda>mode.
     bindE (map_err AE_IntoCallbackDestination
              (of_result (callback_try_new api mode uri (az_state q)))) (\<lambda>callback.
       ret \<lparr>rr_client = client, rr_redirect_uri = uri,
            rr_raw_redirect_uri = (case az_raw_redirect_uri q of None \<Rightarrow> uri | Some raw \<Rightarrow> raw),
            rr_response_mode = mode, rr_callback = callback\<rparr>))))))"

text \<open>The requests that go back to the client with an error, in the order of the checks.\<close>

definition refusal :: "client \<Rightarrow> authorization_request \<Rightarrow> client_error_code option" where
  "refusal client q =
     (if az_has_request q then Some CEC_RequestNotSupported
      else if az_has_request_uri q then Some CEC_RequestUriNotSupported
      else if has_token (az_response_type q) then Some CEC_UnsupportedResponseType
      else if has_id_token (az_response_type q) \<and> GT_Implicit \<notin> set (c_grant_types client)
      then Some CEC_UnauthorizedClient
      else if az_has_registration q then Some CEC_RegistrationNotSupported
      else if P_None \<in> set (az_prompt q) then Some CEC_LoginRequired
      else if has_code (az_response_type q)
      then (if GT_AuthorizationCode \<notin> set (c_grant_types client) then Some CEC_UnauthorizedClient
            else None)
      else if az_pkce q \<noteq> None then Some CEC_InvalidRequest
      else None)"

definition grant_params_of ::
    "resolved_request \<Rightarrow> authorization_request \<Rightarrow> string option \<Rightarrow> string \<Rightarrow> grant_params" where
  "grant_params_of rr q code language =
     \<lparr>gp_client = rr_client rr, gp_redirect_uri = rr_redirect_uri rr,
      gp_raw_redirect_uri = rr_raw_redirect_uri rr, gp_scope = az_scope q,
      gp_code = map_option (\<lambda>c. \<lparr>ac_code = c, ac_pkce = az_pkce q\<rparr>) code,
      gp_state = az_state q, gp_nonce = az_nonce q, gp_response_mode = rr_response_mode rr,
      gp_response_type_id_token = has_id_token (az_response_type q),
      gp_login_hint = az_login_hint q, gp_locale = Some language\<rparr>"

datatype authorization_reply =
  AR_Callback callback_reply | AR_Register ulid | AR_Login ulid | AR_Consent ulid

definition sessions_of_browser :: "ulid \<Rightarrow> bool option \<Rightarrow> session_filter" where
  "sessions_of_browser browser_session_id state =
     \<lparr>sf_user = None, sf_any_user = None, sf_browser_session = Some browser_session_id,
      sf_browser_session_filter = None, sf_device = None, sf_client = None, sf_client_static = None,
      sf_state = state, sf_scope = None, sf_last_active_before = None, sf_last_active_after = None\<rparr>"

definition record_browser_session :: "string option \<Rightarrow> browser_session \<Rightarrow> ('e, unit) io" where
  "record_browser_session ip b w =
     (Inr (), (tick w)\<lparr>w_activity := w_activity w @ [(SK_Browser, bs_id b, clock_reading w, ip)]\<rparr>)"

text \<open>Where the user goes with the new grant.\<close>

definition continue_grant ::
    "string option \<Rightarrow> prompt list \<Rightarrow> browser_session option \<Rightarrow> ulid \<Rightarrow> (db_error, authorization_reply) io" where
  "continue_grant ip prompts session grant_id =
     (if P_Create \<in> set prompts then thenE save (ret (AR_Register grant_id))
      else (case session of
              None \<Rightarrow> thenE save (ret (AR_Login grant_id))
            | Some b \<Rightarrow>
                if P_Login \<in> set prompts then thenE save (ret (AR_Login grant_id))
                else
                  bindE (oauth2_session_count (sessions_of_browser (bs_id b) None)) (\<lambda>total.
                  bindE (oauth2_session_count (sessions_of_browser (bs_id b) (Some True))) (\<lambda>active.
                  thenE save
                    (if total > 0 \<and> active = 0 then ret (AR_Login grant_id)
                     else thenE (record_browser_session ip b) (ret (AR_Consent grant_id)))))))"

definition start_grant ::
    "string option \<Rightarrow> string \<Rightarrow> resolved_request \<Rightarrow> authorization_request \<Rightarrow> browser_session option \<Rightarrow>
     string option \<Rightarrow> (db_error, authorization_reply) io" where
  "start_grant ip language rr q session code =
     bindE (grant_add (grant_params_of rr q code language)) (\<lambda>grant.
       continue_grant ip (az_prompt q) session (ag_id grant))"

text \<open>The inner block: \<open>None\<close> when the sampling loop does not end.\<close>

definition authorization_inner ::
    "url_api \<Rightarrow> (ulid \<Rightarrow> string) \<Rightarrow> string option \<Rightarrow> string \<Rightarrow> ulid option \<Rightarrow> resolved_request \<Rightarrow>
     authorization_request \<Rightarrow> world \<Rightarrow> ((unit + authorization_reply) \<times> world) option" where
  "authorization_inner api ulid_string ip language cookie rr q w =
     (case load_active_session ulid_string cookie w of
        (Inl _, w) \<Rightarrow> Some (Inl (), w)
      | (Inr session, w) \<Rightarrow>
          (case refusal (rr_client rr) q of
             Some err \<Rightarrow>
               (case callback_go api (rr_callback rr) (client_error err) of
                  None \<Rightarrow> Some (Inl (), w)
                | Some reply \<Rightarrow> Some (Inr (AR_Callback reply), drop_repo w))
           | None \<Rightarrow>
               if has_code (az_response_type q)
               then (case generate_code [] (w_rng w) of
                       None \<Rightarrow> None
                     | Some (code, g) \<Rightarrow>
                         Some (map_err (\<lambda>_. ()) (start_grant ip language rr q session (Some code))
                                 (w\<lparr>w_rng := g\<rparr>)))
               else Some (map_err (\<lambda>_. ()) (start_grant ip language rr q session None) w)))"

definition authorization_get ::
    "url_api \<Rightarrow> (ulid \<Rightarrow> string) \<Rightarrow> (string \<Rightarrow> ulid option) \<Rightarrow> string option \<Rightarrow> string \<Rightarrow> ulid option \<Rightarrow>
     authorization_request \<Rightarrow> world \<Rightarrow> ((authorization_error + authorization_reply) \<times> world) option" where
  "authorization_get api ulid_string ulid_parse ip language cookie q w =
     (case resolve_request api ulid_parse q w of
        (Inl e, w) \<Rightarrow> Some (Inl e, drop_repo w)
      | (Inr rr, w) \<Rightarrow>
          (case authorization_inner api ulid_string ip language cookie rr q w of
             None \<Rightarrow> None
           | Some (Inr reply, w) \<Rightarrow> Some (Inr reply, w)
           | Some (Inl _, w) \<Rightarrow>
               (case callback_go api (rr_callback rr) (client_error CEC_ServerError) of
                  None \<Rightarrow> Some (Inl AE_Internal, drop_repo w)
                | Some reply \<Rightarrow> Some (Inr (AR_Callback reply), drop_repo w))))"

section \<open>Device authorization\<close>

datatype device_authorization_error = DA_ClientNotAllowed ulid | DA_Repository db_error

record device_authorization_response =
  dr_device_code :: string
  dr_user_code :: string
  dr_expires_in :: duration
  dr_interval :: "duration option"

definition device_authorization_post ::
    "string option \<Rightarrow> string option \<Rightarrow> string \<Rightarrow> string \<Rightarrow> scope option \<Rightarrow> client \<Rightarrow>
     (device_authorization_error, device_authorization_response) io" where
  "device_authorization_post ip user_agent device_code user_code requested client =
     thenE (ensure (GT_DeviceCode \<in> set (c_grant_types client)) (DA_ClientNotAllowed (c_id client)))
    (let sc = (case requested of None \<Rightarrow> [] | Some sc \<Rightarrow> sc);
         expires_in = 20 * 60 * 1000 * 1000
     in bindE (map_err DA_Repository (device_grant_add
                 \<lparr>dp_client = client, dp_scope = sc, dp_device_code = device_code,
                  dp_user_code = user_code, dp_expires_in = expires_in, dp_ip_address = ip,
                  dp_user_agent = user_agent\<rparr>)) (\<lambda>grant.
        thenE save
          (ret \<lparr>dr_device_code = dg_device_code grant, dr_user_code = dg_user_code grant,
                dr_expires_in = expires_in, dr_interval = Some (5 * 1000 * 1000)\<rparr>)))"

section \<open>Lemmas\<close>

text \<open>Rejection sampling: enough acceptable bytes give a code of 32 characters.\<close>

definition acceptable :: "nat \<Rightarrow> rng \<Rightarrow> nat" where
  "acceptable n g = length (filter (\<lambda>b. b < 248) (fst (fill_bytes n g)))"

lemma accept_bytes_length:
  "length out < 32 \<Longrightarrow>
     length (accept_bytes bs out) = min 32 (length out + length (filter (\<lambda>b. b < 248) bs))"
  by (induction bs arbitrary: out) (auto simp: Let_def)

lemma accept_bytes_chars:
  "set (accept_bytes bs out) \<subseteq> set out \<union> set alphanumeric_charset"
proof (induction bs arbitrary: out)
  case (Cons b bs)
  have c: "alphanumeric_charset ! unat (b mod 62) \<in> set alphanumeric_charset"
  proof (rule nth_mem)
    have "unat (b mod 62) < 62"
      by (simp add: unat_mod)
    then show "unat (b mod 62) < length alphanumeric_charset"
      by (simp add: alphanumeric_charset_length)
  qed
  show ?case
  proof (cases "b < 248")
    case True
    let ?out = "out @ [alphanumeric_charset ! unat (b mod 62)]"
    have "set (accept_bytes bs ?out) \<subseteq> set ?out \<union> set alphanumeric_charset"
      by (rule Cons.IH)
    with c True show ?thesis
      by (auto simp: Let_def)
  qed (simp add: Cons.IH)
qed simp

lemma acceptable_step:
  "acceptable (64 * Suc n) g = acceptable 64 g + acceptable (64 * n) (snd (fill_bytes 64 g))"
proof -
  have "[0..<64 * Suc n] = [0..<64] @ map (\<lambda>i. i + 64) [0..<64 * n]"
    by (simp add: map_add_upt upt_add_eq_append [of 0 64, simplified] add.commute)
  then show ?thesis
    by (simp add: acceptable_def fill_bytes_def comp_def add.assoc add.commute [of 64] del: upt_Suc)
qed

lemma generate_code_returns:
  assumes "length out \<le> 32" and "32 \<le> length out + acceptable (64 * n) g"
  shows "\<exists>code g'. generate_code out g = Some (code, g') \<and> length code = 32
    \<and> set code \<subseteq> set out \<union> set alphanumeric_charset"
  using assms
proof (induction n arbitrary: out g)
  case 0
  then have "length out = 32"
    by (simp add: acceptable_def fill_bytes_def)
  then show ?case
    by (subst generate_code.simps) auto
next
  case (Suc n)
  show ?case
  proof (cases "length out < 32")
    case False
    with Suc.prems show ?thesis
      by (subst generate_code.simps) auto
  next
    case True
    let ?out = "accept_bytes (fst (fill_bytes 64 g)) out" and ?g = "snd (fill_bytes 64 g)"
    have len: "length ?out = min 32 (length out + acceptable 64 g)"
      using True by (simp add: accept_bytes_length acceptable_def)
    have "32 \<le> length ?out + acceptable (64 * n) ?g"
      using Suc.prems(2) unfolding acceptable_step len by linarith
    from Suc.IH [OF _ this] len obtain code g' where
      "generate_code ?out ?g = Some (code, g')" "length code = 32"
      "set code \<subseteq> set ?out \<union> set alphanumeric_charset"
      by auto
    with True accept_bytes_chars show ?thesis
      by (subst generate_code.simps) fastforce
  qed
qed

text \<open>Redirect URIs: only registered ones, up to the port of a loopback address.\<close>

definition registered_uri :: "url_api \<Rightarrow> client \<Rightarrow> string \<Rightarrow> bool" where
  "registered_uri api client uri \<longleftrightarrow>
     uri \<in> set (c_redirect_uris client)
     \<or> (\<exists>h u. url_host_str api uri = Some h \<and> h \<in> set LOCAL_HOSTS \<and> url_without_port api uri = Some u
          \<and> u \<in> set (c_redirect_uris client))"

lemma resolve_redirect_uri_registered:
  assumes "resolve_redirect_uri api client given = Inr uri"
  shows "registered_uri api client uri" "given = None \<or> given = Some uri"
proof -
  have local: "[] \<notin> set LOCAL_HOSTS"
    by (simp add: LOCAL_HOSTS_def)
  show "registered_uri api client uri"
    using assms local
    by (auto simp: resolve_redirect_uri_def registered_uri_def uri_matches_one_of_def
        split: list.splits option.splits if_splits)
  show "given = None \<or> given = Some uri"
    using assms by (auto simp: resolve_redirect_uri_def split: list.splits option.splits if_splits)
qed

lemma resolve_response_mode_Inr:
  "resolve_response_mode rt m = Inr RM_Query \<Longrightarrow> \<not> has_token rt \<and> \<not> has_id_token rt"
  by (auto simp: resolve_response_mode_def split: if_splits option.splits response_mode.splits)

lemma resolve_request_Inr:
  assumes "resolve_request api ulid_parse q w = (Inr rr, w')"
  shows "w' = w" "resolve_redirect_uri api (rr_client rr) (az_redirect_uri q) = Inr (rr_redirect_uri rr)"
    "raw_uri_ok api q"
    "resolve_response_mode (az_response_type q) (az_response_mode q) = Inr (rr_response_mode rr)"
    "callback_try_new api (rr_response_mode rr) (rr_redirect_uri rr) (az_state q) = Inr (rr_callback rr)"
    "\<exists>i row. ulid_parse (az_client_id q) = Some i
       \<and> row_by_id (c_id \<circ> cr_client) (oauth2_clients (w_db w)) i = Some row \<and> cr_client row = rr_client rr"
    "rr_raw_redirect_uri rr = (case az_raw_redirect_uri q of None \<Rightarrow> rr_redirect_uri rr | Some raw \<Rightarrow> raw)"
proof -
  have client: "w1 = v \<and> (\<exists>i row. ulid_parse x = Some i
      \<and> row_by_id (c_id \<circ> cr_client) (oauth2_clients (w_db v)) i = Some row \<and> cr_client row = c)"
    if "find_by_client_id ulid_parse x v = (Inr (Some c), w1)" for x v c w1
    using that by (auto simp: find_by_client_id_def client_lookup_def fetch_Some split: option.splits)
  from assms obtain client uri mode callback w1 where
    "find_by_client_id ulid_parse (az_client_id q) w = (Inr (Some client), w1)" "raw_uri_ok api q"
    "resolve_redirect_uri api client (az_redirect_uri q) = Inr uri"
    "resolve_response_mode (az_response_type q) (az_response_mode q) = Inr mode"
    "callback_try_new api mode uri (az_state q) = Inr callback" "w' = w1"
    "rr = \<lparr>rr_client = client, rr_redirect_uri = uri,
      rr_raw_redirect_uri = (case az_raw_redirect_uri q of None \<Rightarrow> uri | Some raw \<Rightarrow> raw),
      rr_response_mode = mode, rr_callback = callback\<rparr>"
    unfolding resolve_request_def
    by (auto simp: bindE_Inr thenE_Inr map_err_Inr ok_or_Inr ensure_Inr)
  with client show "w' = w"
    "resolve_redirect_uri api (rr_client rr) (az_redirect_uri q) = Inr (rr_redirect_uri rr)"
    "raw_uri_ok api q"
    "resolve_response_mode (az_response_type q) (az_response_mode q) = Inr (rr_response_mode rr)"
    "callback_try_new api (rr_response_mode rr) (rr_redirect_uri rr) (az_state q) = Inr (rr_callback rr)"
    "\<exists>i row. ulid_parse (az_client_id q) = Some i
       \<and> row_by_id (c_id \<circ> cr_client) (oauth2_clients (w_db w)) i = Some row \<and> cr_client row = rr_client rr"
    "rr_raw_redirect_uri rr = (case az_raw_redirect_uri q of None \<Rightarrow> rr_redirect_uri rr | Some raw \<Rightarrow> raw)"
    by (simp_all split: option.split)
qed

lemma callback_try_new_Inr:
  assumes "callback_try_new api mode uri state = Inr dest"
  shows "cd_state dest = state"
    "cd_redirect_uri dest = (if mode = RM_Query then url_set_query api None uri else uri)"
  using assms by (auto simp: callback_try_new_def split: if_splits response_mode.splits option.splits)

text \<open>What the endpoint commits: nothing, or one new pending grant.\<close>

lemma load_active_session_run:
  assumes "load_active_session us cookie w = (r, w')"
  shows "w' = w"
  using assms
  by (auto simp: load_active_session_def browser_session_lookup_def fetch_def bindE_def
      split: option.splits prod.splits sum.splits)

lemma continue_grant_Inr:
  assumes "continue_grant ip ps session i w = (r, w')"
  shows "w_committed w' = w_db w \<and> w_db w' = w_db w \<and> (\<exists>reply. r = Inr reply \<and> (\<forall>c. reply \<noteq> AR_Callback c))"
  using assms
  by (auto simp: continue_grant_def thenE_def bindE_def save_def oauth2_session_count_def query_run
      record_browser_session_def split: if_splits option.splits)

lemma start_grant_run:
  assumes "start_grant ip language rr q session code w = (r, w')"
  shows "(\<exists>err. r = Inl err \<and> w_committed w' = w_committed w)
    \<or> (\<exists>i t reply. r = Inr reply \<and> w_committed w' = w_db w' \<and> db_ok (w_db w')
        \<and> w_db w' = put_grants (oauth2_authorization_grants (w_db w)
            @ [new_grant_row i t (grant_params_of rr q code language)]) (w_db w))"
proof (cases "grant_add (grant_params_of rr q code language) w")
  case (Pair r0 w0)
  show ?thesis
  proof (cases r0)
    case (Inl err)
    moreover have "committed_is (w_committed w) w0"
      by (rule keepsD [OF committed_grant_storage(3) Pair]) (simp add: committed_is_def)
    ultimately show ?thesis
      using assms Pair by (auto simp: start_grant_def bindE_def committed_is_def)
  next
    case (Inr g)
    with assms Pair have run: "continue_grant ip (az_prompt q) session (ag_id g) w0 = (r, w')"
      by (simp add: start_grant_def bindE_def)
    from Pair Inr have "w_db w0 = put_grants (oauth2_authorization_grants (w_db w)
        @ [new_grant_row (next_id w) (clock_reading w) (grant_params_of rr q code language)]) (w_db w)"
      "db_ok (w_db w0)"
      by (auto simp: grant_add_Inr insert_row_Inr)
    with continue_grant_Inr [OF run] show ?thesis
      by metis
  qed
qed

lemma authorization_inner_effect:
  assumes "authorization_inner api us ip language cookie rr q w = Some (r, w')"
    and "w_committed w = w_db w"
  shows "w_committed w' = w_db w \<and> (r = Inl () \<or> w_db w' = w_db w)
    \<or> (\<exists>i t code reply. r = Inr reply \<and> refusal (rr_client rr) q = None \<and> w_committed w' = w_db w'
        \<and> db_ok (w_db w') \<and> (code \<noteq> None \<longleftrightarrow> has_code (az_response_type q))
        \<and> w_db w' = put_grants (oauth2_authorization_grants (w_db w)
            @ [new_grant_row i t (grant_params_of rr q code language)]) (w_db w))"
proof -
  obtain r0 w0 where load: "load_active_session us cookie w = (r0, w0)"
    by fastforce
  then have w0: "w0 = w"
    by (rule load_active_session_run)
  show ?thesis
  proof (cases "\<exists>session. r0 = Inr session \<and> refusal (rr_client rr) q = None")
    case False
    with assms load w0 show ?thesis
      by (auto simp: authorization_inner_def drop_repo_def split: sum.splits option.splits)
  next
    case True
    then obtain session where s: "r0 = Inr session" "refusal (rr_client rr) q = None"
      by blast
    have start: "?thesis" if "map_err (\<lambda>_. ()) (start_grant ip language rr q session code) (w\<lparr>w_rng := g\<rparr>)
        = (r, w')" "code \<noteq> None \<longleftrightarrow> has_code (az_response_type q)" for code g
    proof (cases "start_grant ip language rr q session code (w\<lparr>w_rng := g\<rparr>)")
      case (Pair r1 w1)
      then have "w' = w1" "r = map_sum (\<lambda>_. ()) id r1"
        using that(1) by (auto simp: map_err_def split: sum.splits)
      with start_grant_run [OF Pair] that(2) s(2) assms(2) show ?thesis
        by (elim disjE exE conjE) (simp, fastforce)
    qed
    show ?thesis
    proof (cases "has_code (az_response_type q)")
      case True
      with assms(1) load w0 s obtain code g where
        "map_err (\<lambda>_. ()) (start_grant ip language rr q session (Some code)) (w\<lparr>w_rng := g\<rparr>) = (r, w')"
        by (auto simp: authorization_inner_def split: option.splits prod.splits)
      then show ?thesis
        by (rule start) (simp add: True)
    next
      case False
      with assms(1) load w0 s have
        "map_err (\<lambda>_. ()) (start_grant ip language rr q session None) (w\<lparr>w_rng := w_rng w\<rparr>) = (r, w')"
        by (simp add: authorization_inner_def)
      then show ?thesis
        by (rule start) (simp add: False)
    qed
  qed
qed

lemma keeps_resolve_request: "keeps P (resolve_request api ulid_parse q)"
  unfolding resolve_request_def find_by_client_id_def client_lookup_def
  by (auto intro!: keeps_bindE keeps_thenE split: option.split)

lemma authorization_get_effect:
  assumes run: "authorization_get api us ulid_parse ip language cookie q w = Some (r, w')"
    and c: "w_committed w = w_db w"
  shows "w_committed w' = w_db w' \<and> (w_db w' = w_db w
    \<or> (\<exists>i t rr code. resolve_request api ulid_parse q w = (Inr rr, w) \<and> refusal (rr_client rr) q = None
        \<and> db_ok (w_db w') \<and> (code \<noteq> None \<longleftrightarrow> has_code (az_response_type q))
        \<and> w_db w' = put_grants (oauth2_authorization_grants (w_db w)
            @ [new_grant_row i t (grant_params_of rr q code language)]) (w_db w)))"
proof (cases "resolve_request api ulid_parse q w")
  case (Pair r0 w0)
  have w0: "w_committed w0 = w_committed w"
    using keepsD [OF keeps_resolve_request Pair, where P = "committed_is (w_committed w)"]
    by (simp add: committed_is_def)
  show ?thesis
  proof (cases r0)
    case (Inl e)
    with run Pair w0 c show ?thesis
      by (auto simp: authorization_get_def drop_repo_def)
  next
    case (Inr rr)
    with Pair have res: "resolve_request api ulid_parse q w = (Inr rr, w)"
      using resolve_request_Inr(1) by blast
    obtain r1 w1 where inner: "authorization_inner api us ip language cookie rr q w = Some (r1, w1)"
      using run res by (auto simp: authorization_get_def split: option.splits)
    from authorization_inner_effect [OF inner c] run res inner show ?thesis
      by (auto simp: authorization_get_def drop_repo_def split: sum.splits option.splits)
  qed
qed

text \<open>Whoever is sent away from the endpoint goes to the redirect URI of the resolved request.\<close>

lemma start_grant_not_callback:
  assumes "start_grant ip language rr q session code w = (Inr (AR_Callback reply), w')"
  shows False
  using assms continue_grant_Inr by (fastforce simp: start_grant_def bindE_Inr)

lemma authorization_inner_callback:
  assumes "authorization_inner api us ip language cookie rr q w = Some (Inr (AR_Callback reply), w')"
  shows "\<exists>params. callback_go api (rr_callback rr) params = Some reply"
proof -
  obtain r0 w0 where load: "load_active_session us cookie w = (r0, w0)"
    by fastforce
  have no: "map_err f (start_grant ip language rr q s code) v \<noteq> (Inr (AR_Callback reply), w')"
    for f :: "db_error \<Rightarrow> unit" and s code v
    using start_grant_not_callback by (auto simp: map_err_Inr)
  show ?thesis
  proof (cases "\<exists>s. r0 = Inr s \<and> refusal (rr_client rr) q = None")
    case True
    with assms load no show ?thesis
      by (auto simp: authorization_inner_def split: if_splits option.splits prod.splits)
  next
    case False
    with assms load show ?thesis
      by (auto simp: authorization_inner_def split: sum.splits option.splits)
  qed
qed

lemma authorization_get_callback:
  assumes run: "authorization_get api us ulid_parse ip language cookie q w =
      Some (Inr (AR_Callback reply), w')"
  obtains rr params where "resolve_request api ulid_parse q w = (Inr rr, w)"
    "callback_go api (rr_callback rr) params = Some reply"
proof (cases "resolve_request api ulid_parse q w")
  case (Pair r0 w0)
  with run obtain rr where "r0 = Inr rr"
    by (auto simp: authorization_get_def split: sum.splits)
  with Pair have res: "resolve_request api ulid_parse q w = (Inr rr, w)"
    using resolve_request_Inr(1) by blast
  obtain r1 w1 where inner: "authorization_inner api us ip language cookie rr q w = Some (r1, w1)"
    using run res by (auto simp: authorization_get_def split: option.splits)
  show thesis
  proof (cases r1)
    case (Inl u)
    with run res inner show thesis
      by (auto simp: authorization_get_def split: option.splits intro: that)
  next
    case (Inr reply')
    with run res inner have "reply' = AR_Callback reply"
      by (simp add: authorization_get_def)
    with inner Inr res that show thesis
      using authorization_inner_callback by blast
  qed
qed

end
