(* ===== verification/Token_Effects.thy ===== *)
theory Token_Effects
  imports Refresh_Rotation Frames
begin

text \<open>
  What a request to the token endpoint commits. A refused request commits nothing, except that it
  may finish sessions: a replayed code or an administrator scope that is no longer allowed ends the
  session at once. A request that is granted keeps the invariant \<open>tokens_ok\<close>.
\<close>

section \<open>Refused requests\<close>

text \<open>A session row, and the database, up to the end and the user agent of OAuth 2.0 sessions.\<close>

definition unended :: "session_row \<Rightarrow> session_row" where
  "unended r = r\<lparr>os_finished_at := None, os_user_agent := None\<rparr>"

definition but_sessions :: "db \<Rightarrow> db" where
  "but_sessions d = d\<lparr>oauth2_sessions := map unended (oauth2_sessions d)\<rparr>"

definition committed_rest :: "db \<Rightarrow> world \<Rightarrow> bool" where
  "committed_rest x w \<longleftrightarrow> but_sessions (w_committed w) = x"

definition settled :: "db \<Rightarrow> world \<Rightarrow> bool" where
  "settled x w \<longleftrightarrow> but_sessions (w_db w) = x \<and> but_sessions (w_committed w) = x"

text \<open>A run that starts settled and ends with the same committed rest.\<close>

definition holds_back :: "db \<Rightarrow> (world, 'e, 'a) exc \<Rightarrow> bool" where
  "holds_back x m \<longleftrightarrow> (\<forall>w. settled x w \<longrightarrow> committed_rest x (snd (m w)))"

lemma but_sessions_put:
  "map unended t = map unended (oauth2_sessions d) \<Longrightarrow> but_sessions (put_sessions t d) = but_sessions d"
  by (simp add: but_sessions_def)

lemma unended_upd_rows:
  "(\<And>r. unended (f r) = unended r) \<Longrightarrow> map unended (upd_rows P f t) = map unended t"
  by (simp add: upd_rows_def)

lemma holds_back_settled: "keeps (settled x) m \<Longrightarrow> holds_back x m"
  by (simp add: holds_back_def keeps_def settled_def committed_rest_def)

lemma holds_back_committed: "(\<And>d. keeps (committed_is d) m) \<Longrightarrow> holds_back x m"
  by (simp add: holds_back_def keeps_def settled_def committed_rest_def committed_is_def)

lemma holds_back_throw: "holds_back x (throw err)"
  by (intro holds_back_settled keeps_throw)

lemma holds_back_bindE:
  assumes "keeps (settled x) m" and "\<And>a. holds_back x (f a)"
  shows "holds_back x (bindE m f)"
proof -
  have "committed_rest x (snd (bindE m f w))" if w: "settled x w" for w
  proof (cases "m w")
    case (Pair r w1)
    then have "settled x w1"
      using keepsD [OF assms(1) Pair w] by simp
    with assms(2) Pair show ?thesis
      by (cases r) (auto simp: bindE_def holds_back_def settled_def committed_rest_def)
  qed
  then show ?thesis
    by (simp add: holds_back_def)
qed

lemma holds_back_thenE: "keeps (settled x) m \<Longrightarrow> holds_back x n \<Longrightarrow> holds_back x (thenE m n)"
  unfolding thenE_def by (rule holds_back_bindE)

lemma holds_back_map_err: "holds_back x m \<Longrightarrow> holds_back x (map_err f m)"
  by (auto simp: holds_back_def map_err_def split: prod.splits sum.splits)

lemma settled_simple [intro!]:
  "keeps (settled x) now" "keeps (settled x) (query f)" "keeps (settled x) save"
  by (simp_all add: keeps_def settled_def now_run query_run save_def)

lemma settled_execute:
  "(\<And>d. but_sessions (snd (f d)) = but_sessions d) \<Longrightarrow> keeps (settled x) (execute f)"
  by (auto simp: keeps_def settled_def execute_def split: prod.splits list.splits)
    (metis snd_conv)

lemma settled_sessions [intro!]:
  "keeps (settled x) (oauth2_session_lookup i)" "keeps (settled x) (oauth2_session_finish s)"
  "keeps (settled x) (record_agent ua s)" "keeps (settled x) (user_lookup us i)"
  "keeps (settled x) (browser_session_lookup us i)"
  unfolding oauth2_session_lookup_def oauth2_session_finish_def record_agent_def
    record_user_agent_def user_lookup_def browser_session_lookup_def update_then_transition_def
    update_table_def
  by (auto intro!: keeps_bindE keeps_thenE settled_execute but_sessions_put unended_upd_rows
      simp: unended_def finish_row_def split: option.split)

lemma settled_end_session [intro!]: "keeps (settled x) (end_session err s)"
  unfolding end_session_def by (auto intro!: keeps_thenE)

lemma settled_admin [intro!]: "keeps (settled x) (session_may_keep_admin_scope e s)"
  unfolding session_may_keep_admin_scope_def
  by (rule keeps_if, rule keeps_ret, rule keeps_bindE) (auto split: option.split)

lemma settled_code_steps [intro!]:
  "keeps (settled x) (load_grant e q c)" "keeps (settled x) (redeem_grant at g)"
  "keeps (settled x) (render_device_name e g c ua)" "keeps (settled x) (check_code_owner e q c g s)"
  "keeps (settled x) (check_code_admin e s)" "keeps (settled x) (load_browser_session e i s)"
  unfolding load_grant_def redeem_grant_def replayed_code_def render_device_name_def
    check_code_owner_def check_pkce_def check_code_admin_def load_browser_session_def
    find_by_code_def Let_def
  by (auto intro!: keeps_bindE keeps_thenE split: grant_stage.split option.split)

lemma settled_refresh_steps [intro!]:
  "keeps (settled x) (load_refresh_session ua t c)" "keeps (settled x) (check_refresh_session e c s)"
  unfolding load_refresh_session_def check_refresh_session_def refresh_token_find_by_token_def
  by (auto intro!: keeps_bindE keeps_thenE)

lemma settled_device_steps [intro!]:
  "keeps (settled x) (load_device_grant dc c)" "keeps (settled x) (approving_session st)"
  unfolding load_device_grant_def approving_session_def find_by_device_code_def
  by (auto intro!: keeps_bindE keeps_thenE split: device_state.split)

lemma committed_issue [intro!]:
  "keeps (committed_is d) (issue_id_token e c g b a la s err)"
  "keeps (committed_is d) (issue_code_tokens e c g' s b)"
  "keeps (committed_is d) (finish_code_exchange e ip g' s b dn)"
  "keeps (committed_is d) (rotate_tokens e r s)" "keeps (committed_is d) (double_refresh r)"
  "keeps (committed_is d) (issue_client_token e ip ua c sc)"
  "keeps (committed_is d) (start_device_session e ua c dg b)"
  "keeps (committed_is d) (issue_device_tokens e c s b)"
proof -
  have id: "keeps (committed_is d) (issue_id_token e c g b a la s err)"
    for e c g b a la s and err :: 'z
    unfolding issue_id_token_def by (auto intro!: keeps_bindE)
  then show "keeps (committed_is d) (issue_id_token e c g b a la s err)" .
  have agent: "keeps (committed_is d) (record_agent ua s)" for s
    unfolding record_agent_def by (auto split: option.split)
  have split: "keeps (committed_is d) (case p of (u, v) \<Rightarrow> f u v)"
    if "\<And>u v. keeps (committed_is d) (f u v)" for p :: "'u \<times> 'v" and f :: "'u \<Rightarrow> 'v \<Rightarrow> ('z, 'y) io"
    using that by (cases p) simp
  show "keeps (committed_is d) (issue_code_tokens e c g' s b)"
    unfolding issue_code_tokens_def by (auto intro!: keeps_bindE id split)
  show "keeps (committed_is d) (finish_code_exchange e ip g' s b dn)"
    unfolding finish_code_exchange_def by (auto intro!: keeps_thenE)
  have "keeps (committed_is d) (revoke_old_access_token r)" for r
    unfolding revoke_old_access_token_def by (auto intro!: keeps_bindE split: option.split)
  then show "keeps (committed_is d) (rotate_tokens e r s)"
    unfolding rotate_tokens_def by (auto intro!: keeps_bindE keeps_thenE split)
  show "keeps (committed_is d) (double_refresh r)"
    unfolding double_refresh_def load_next_tokens_def by (auto intro!: keeps_bindE keeps_thenE split)
  show "keeps (committed_is d) (issue_client_token e ip ua c sc)"
    unfolding issue_client_token_def add_from_client_credentials_def
    by (auto intro!: keeps_bindE keeps_thenE agent)
  show "keeps (committed_is d) (start_device_session e ua c dg b)"
    unfolding start_device_session_def by (auto intro!: keeps_bindE keeps_thenE agent)
  show "keeps (committed_is d) (issue_device_tokens e c s b)"
    unfolding issue_device_tokens_def by (auto intro!: keeps_bindE id)
qed


lemma committed_provisioned [intro!]:
  "keeps (committed_is d) (thenE (map_err f (acquire_lock_for_sync u))
     (thenE (provision_devices e err v ids dn) (thenE (record_oauth2_session ip s) (ret params))))"
  by (auto intro!: keeps_thenE)

lemma code_exchange_holds_back: "holds_back x (exchange_authorization_code e ip ua q c)"
  unfolding exchange_authorization_code_def
  by (intro holds_back_bindE holds_back_thenE settled_code_steps settled_simple settled_sessions
      keeps_map_err keeps_ok_or holds_back_committed keeps_bindE keeps_thenE committed_issue keeps_ret)

lemma refresh_holds_back: "holds_back x (handle_refresh_token e ip ua token c)"
proof -
  have "holds_back x (thenE (check_refresh_session e c s)
      (thenE (whenE (\<not> rt_is_valid r) (double_refresh r))
        (thenE (record_oauth2_session ip s) (map_err RE_Repository (rotate_tokens e r s)))))" for r s
    by (intro holds_back_thenE settled_refresh_steps holds_back_committed keeps_thenE keeps_whenE
        keeps_map_err committed_issue committed_effects)
  then show ?thesis
    unfolding handle_refresh_token_def
    by (intro holds_back_bindE settled_refresh_steps) (simp add: split_def)
qed

lemma client_credentials_holds_back: "holds_back x (handle_client_credentials e ip ua sc c)"
  unfolding handle_client_credentials_def check_policy_def Let_def
  by (intro holds_back_thenE keeps_ensure keeps_bindE keeps_ok_or holds_back_committed keeps_map_err
      committed_issue)

lemma device_exchange_holds_back: "holds_back x (exchange_device_code e ip ua dc c)"
  unfolding exchange_device_code_def
  by (intro holds_back_bindE holds_back_thenE settled_device_steps settled_sessions keeps_ok_or
      keeps_map_err keeps_ensure holds_back_committed keeps_bindE keeps_thenE committed_issue
      committed_provision committed_effects committed_storage keeps_ret)

lemma dispatch_holds_back: "holds_back x (dispatch_grant e ip ua c q)"
  by (cases q)
    (auto simp: dispatch_grant_def intro!: holds_back_map_err code_exchange_holds_back
      refresh_holds_back client_credentials_holds_back device_exchange_holds_back
      holds_back_throw)

text \<open>A refused token request commits nothing but the end of sessions.\<close>

lemma token_post_refused:
  assumes "token_post e ip ua c form w = (Inl err, w')" and "w_committed w = w_db w"
  shows "but_sessions (w_committed w') = but_sessions (w_committed w)" "w_db w' = w_committed w'"
proof -
  let ?m = "bindE (ok_or TE_BadRequest form) (dispatch_grant e ip ua c)"
  have "holds_back (but_sessions (w_db w)) ?m"
    by (intro holds_back_bindE keeps_ok_or dispatch_holds_back)
  then have "committed_rest (but_sessions (w_db w)) (snd (?m w))"
    using assms(2) by (simp add: holds_back_def settled_def)
  then show "but_sessions (w_committed w') = but_sessions (w_committed w)" "w_db w' = w_committed w'"
    using assms by (auto simp: token_post_def request_Inl committed_rest_def)
qed


section \<open>Granted requests\<close>

lemma db_ok_refresh_session:
  "db_ok d \<Longrightarrow> r \<in> set (oauth2_refresh_tokens d) \<Longrightarrow> or_session_id r \<in> os_id ` set (oauth2_sessions d)"
  by (auto simp: db_ok_def violations_defs)

lemma db_ok_grant_session:
  "db_ok d \<Longrightarrow> g \<in> set (oauth2_authorization_grants d) \<Longrightarrow> og_session_id g = Some i \<Longrightarrow>
     i \<in> os_id ` set (oauth2_sessions d)"
  by (auto simp: db_ok_def violations_defs)

text \<open>A new refresh token of a session that has none yet.\<close>

lemma first_token_keeps:
  assumes ok: "db_ok d" "tokens_ok d" and new: "distinct (map or_id (oauth2_refresh_tokens d @ [r]))"
    and next_id: "or_next_id r = None"
    and first: "\<And>x. x \<in> set (oauth2_refresh_tokens d) \<Longrightarrow> or_session_id x \<noteq> or_session_id r"
  shows "one_live (oauth2_refresh_tokens d @ [r]) \<and> chained (oauth2_refresh_tokens d @ [r])"
proof
  show "one_live (oauth2_refresh_tokens d @ [r])"
    using ok(2) first by (intro one_live_snoc) (auto simp: tokens_ok_def)
  show "chained (oauth2_refresh_tokens d @ [r])"
    using ok(2) next_id db_ok_next [OF ok(1)] snoc_fresh [OF new]
    by (intro chained_snoc) (auto simp: tokens_ok_def)
qed

text \<open>Marking the grants of a session as exchanged.\<close>

lemma own_sessions_exchange:
  "own_sessions G \<Longrightarrow> own_sessions (upd_rows p (exchange_grant_row t) G)"
  unfolding own_sessions_def upd_rows_def by (fastforce simp: exchange_grant_row_def)

lemma fulfilled_row:
  assumes "decode_grant url_parse r = Inr g" "ag_stage g = G_Fulfilled i f"
  shows "og_id r = ag_id g \<and> og_session_id r = Some i \<and> og_exchanged_at r = None"
  using decode_grant_fields(1,2) [OF assms(1)] assms(2)
  by (auto simp: decode_stage_def split: option.splits)

lemma code_exchange_keeps:
  assumes run: "exchange_authorization_code e ip ua q c w = (Inr params, w')"
    and ok: "db_ok (w_db w)" "tokens_ok (w_db w)"
  shows "tokens_ok (w_db w')"
proof -
  let ?T = "oauth2_refresh_tokens (w_db w)" and ?G = "oauth2_authorization_grants (w_db w)"
  from exchange_code_Inr [OF run] obtain g s at arow rrow f where
    red: "redeemable e q c (w_db w) (clock_reading w) g s" and pair: "pair_rows e (s_id s) arow rrow"
    and w': "w_db w' = (add_pair arow rrow (w_db w))\<lparr>oauth2_sessions := map f (oauth2_sessions (w_db w)),
        oauth2_authorization_grants := upd_rows (\<lambda>r. og_id r = ag_id g) (exchange_grant_row at) ?G\<rparr>"
    and ok': "db_ok (w_db w')"
    by blast
  from red obtain r where r: "r \<in> set ?G" "og_id r = ag_id g" "og_session_id r = Some (s_id s)"
      "og_exchanged_at r = None"
    unfolding redeemable_def using fulfilled_row by metis
  have none: "or_session_id x \<noteq> s_id s" if "x \<in> set ?T" for x
    using ok(2) r that unfolding tokens_ok_def fresh_codes_def by metis
  have T': "oauth2_refresh_tokens (w_db w') = ?T @ [rrow]"
    by (simp add: w' add_pair_def)
  have "distinct (map or_id (?T @ [rrow]))"
    using db_ok_distinct(7) [OF ok'] by (simp add: T')
  then have "one_live (?T @ [rrow]) \<and> chained (?T @ [rrow])"
    using pair none by (intro first_token_keeps ok) (auto simp: pair_rows_def)
  moreover have "own_sessions (oauth2_authorization_grants (w_db w'))"
    using ok(2) by (simp add: w' own_sessions_exchange tokens_ok_def)
  moreover have "fresh_codes (oauth2_authorization_grants (w_db w')) (?T @ [rrow])"
  proof -
    have own: "og_id h = ag_id g" if "h \<in> set ?G" "og_session_id h = Some (s_id s)" for h
      using ok(2) r that unfolding tokens_ok_def own_sessions_def by metis
    have "fresh_codes ?G ?T"
      using ok(2) by (simp add: tokens_ok_def)
    then show ?thesis
      using own pair
      by (auto simp: w' fresh_codes_def upd_rows_def exchange_grant_row_def pair_rows_def)
  qed
  ultimately show ?thesis
    by (simp add: tokens_ok_def T')
qed

lemma refresh_keeps:
  assumes run: "handle_refresh_token e ip ua token c w = (Inr params, w')"
    and ok: "db_ok (w_db w)" "tokens_ok (w_db w)"
  shows "tokens_ok (w_db w')"
proof -
  from handle_refresh_Inr [OF run ok(1)] obtain r s arow rrow T1 t0 t t2 where
    may: "may_refresh c (w_db w) token r s"
    and lost: "lost_pair_revoked r (oauth2_refresh_tokens (w_db w)) T1"
    and pair: "pair_rows e (s_id s) arow rrow"
    and w': "w_db w' = rotated ua r s T1 arow rrow t0 t t2 (w_db w)"
    and ok': "db_ok (w_db w')" and one: "n_rows (\<lambda>x. or_id x = rt_id r) (T1 @ [rrow]) = 1"
    by (elim exE conjE) (rule that)
  let ?T = "consume_rows (rt_id r) (or_id rrow) t (T1 @ [rrow])"
  have "map or_id ?T = map or_id (T1 @ [rrow])"
    by (rule map_upd_rows) (simp add: consume_row_def)
  then have "distinct (map or_id (T1 @ [rrow]))"
    using db_ok_distinct(7) [OF ok'] by (simp add: w' rotated_def)
  then have "one_live ?T \<and> chained ?T \<and> fresh_codes (oauth2_authorization_grants (w_db w)) ?T"
    using pair by (intro rotation_keeps [OF ok may lost _ _ _ one refl]) (auto simp: pair_rows_def)
  then show ?thesis
    using ok(2) by (simp add: w' rotated_def tokens_ok_def)
qed

lemma client_credentials_fails: "handle_client_credentials e ip ua sc c w \<noteq> (Inr params, w')"
  by (auto simp: handle_client_credentials_def Let_def thenE_Inr map_err_Inr issue_client_token_def
      bindE_Inr add_from_client_credentials_def add_without_user_fails)

text \<open>What entitles a client to the tokens of a device code.\<close>

definition device_redeemable ::
    "env \<Rightarrow> string \<Rightarrow> client \<Rightarrow> db \<Rightarrow> time \<Rightarrow> device_code_grant \<Rightarrow> browser_session \<Rightarrow> bool" where
  "device_redeemable e device_code c d at g b \<longleftrightarrow>
     GT_DeviceCode \<in> set (c_grant_types c)
     \<and> (\<exists>r \<in> set (oauth2_device_code_grant d).
          od_device_code r = device_code \<and> decode_device_grant r = Inr g)
     \<and> dg_client_id g = c_id c \<and> at \<le> dg_expires_at g
     \<and> (\<exists>i t us u. dg_state g = D_Fulfilled i t \<and> load_session_lookup d i = Some (us, u)
          \<and> b = build_browser_session (e_ulid_string e) us u)
     \<and> admin_scope_allowed (bs_user b) (dg_scope g)"

lemma load_device_grant_Inr:
  "load_device_grant dc c w = (Inr g, w') \<longleftrightarrow>
     w' = tick w \<and> GT_DeviceCode \<in> set (c_grant_types c) \<and> dg_client_id g = c_id c
     \<and> clock_reading w \<le> dg_expires_at g
     \<and> (\<exists>r. List.find (\<lambda>r. od_device_code r = dc) (oauth2_device_code_grant (w_db w)) = Some r
          \<and> decode_device_grant r = Inr g)"
  by (auto simp: load_device_grant_def run_simps)

lemma approving_session_Inr:
  "approving_session st w = (Inr i, w') \<longleftrightarrow> w' = w \<and> (\<exists>t. st = D_Fulfilled i t)"
  by (cases st) (auto simp: approving_session_def)

lemma browser_session_lookup_Some:
  "browser_session_lookup us i w = (Inr (Some b), w') \<longleftrightarrow>
     w' = w \<and> (\<exists>s u. load_session_lookup (w_db w) i = Some (s, u) \<and> b = build_browser_session us s u)"
  by (auto simp: browser_session_lookup_def fetch_Some)

lemma start_device_session_Inr:
  assumes "start_device_session e ua c g b w = (Inr s, w')"
  shows "\<exists>row t f. w_db w' = (w_db w)\<lparr>oauth2_sessions := map f (oauth2_sessions (w_db w) @ [row]),
        oauth2_device_code_grant := upd_rows (\<lambda>r. od_id r = dg_id g) (exchange_device_row (s_id s) t)
          (oauth2_device_code_grant (w_db w))\<rparr>
    \<and> agent_update f \<and> os_id row = s_id s \<and> os_user_id row = Some (u_id (bs_user b))
    \<and> os_client_id row = c_id c \<and> os_scope_list row = dg_scope g \<and> s_scope s = dg_scope g
    \<and> s_id s \<notin> os_id ` set (oauth2_sessions (w_db w))"
proof -
  from assms obtain s0 w1 g' w2 where
    add: "oauth2_session_add c (Some (bs_user b)) (Some b) (dg_scope g) w = (Inr s0, w1)"
    and ex: "device_grant_exchange_op s0 g w1 = (Inr g', w2)"
    and ua: "record_agent ua s0 w2 = (Inr s, w')"
    by (auto simp: start_device_session_def add_from_browser_session_def bindE_Inr thenE_Inr)
  let ?row = "new_session_row (next_id w) (clock_reading w) c (Some (bs_user b)) (Some b) (dg_scope g)"
  from add have w1: "w_db w1 = put_sessions (oauth2_sessions (w_db w) @ [?row]) (w_db w)"
      "db_ok (w_db w1)" and s0: "s0 = new_session (next_id w) (clock_reading w) c
        (Some (bs_user b)) (Some b) (dg_scope g)"
    by (auto simp: oauth2_session_add_Inr insert_row_Inr)
  from ex obtain t where w2: "w_db w2 = put_device_grants (upd_rows (\<lambda>r. od_id r = dg_id g)
      (exchange_device_row (s_id s0) t) (oauth2_device_code_grant (w_db w1))) (w_db w1)"
    by (auto simp: device_grant_exchange_op_def transition_then_update_Inr device_grant_exchange_Inr)
  note agent = record_agent_Inr [OF ua]
  from agent(7) obtain f where f: "agent_update f"
      "w_db w' = (w_db w2)\<lparr>oauth2_sessions := map f (oauth2_sessions (w_db w2))\<rparr>"
    by auto
  have "next_id w \<notin> os_id ` set (oauth2_sessions (w_db w))"
    using db_ok_distinct(4) [OF w1(2)] w1(1) by (auto simp: new_session_row_def)
  then show ?thesis
    using f w2 w1(1) agent(1,2) s0
    by (intro exI [of _ ?row] exI [of _ t] exI [of _ f]) (simp add: new_session_row_def new_session_def)
qed

text \<open>The rows of a device's tokens: the refresh token only for clients that may use it.\<close>

definition device_tokens ::
    "env \<Rightarrow> client \<Rightarrow> ulid \<Rightarrow> access_token_row \<Rightarrow> refresh_token_row list \<Rightarrow> bool" where
  "device_tokens e c sid arow rrows \<longleftrightarrow>
     oa_session_id arow = sid \<and> oa_revoked_at arow = None
     \<and> well_formed_token (e_crc32 e) TT_AccessToken (oa_access_token arow)
     \<and> (if GT_RefreshToken \<in> set (c_grant_types c)
        then \<exists>r. rrows = [r] \<and> pair_rows e sid arow r
        else rrows = [])"

lemma issue_device_tokens_Inr:
  assumes "issue_device_tokens e c s b w = (Inr params, w')"
  shows "\<exists>arow rrows. device_tokens e c (s_id s) arow rrows
    \<and> ar_access_token params = oa_access_token arow
    \<and> ar_refresh_token params = (case rrows of [] \<Rightarrow> None | r # _ \<Rightarrow> Some (or_refresh_token r))
    \<and> w_db w' = (w_db w)\<lparr>oauth2_access_tokens := oauth2_access_tokens (w_db w) @ [arow],
        oauth2_refresh_tokens := oauth2_refresh_tokens (w_db w) @ rrows\<rparr>
    \<and> db_ok (w_db w')"
proof -
  let ?token = "generate (e_crc32 e) TT_AccessToken (w_rng w)"
  from assms obtain a w1 refresh w2 idt w3 where
    a: "access_token_add s (fst ?token) (Some (e_access_token_ttl e)) (w\<lparr>w_rng := snd ?token\<rparr>)
      = (Inr a, w1)"
    and r: "(if GT_RefreshToken \<in> set (c_grant_types c)
            then bindE (draw (generate (e_crc32 e) TT_RefreshToken)) (\<lambda>refresh.
                 bindE (map_err DE_Repository (refresh_token_add s a refresh)) (\<lambda>r.
                   ret (Some (rt_refresh_token r))))
            else ret None) w1 = (Inr refresh, w2)"
    and i: "issue_id_token e c None b a None s DE_Internal w2 = (Inr idt, w')"
    and params: "ar_access_token params = at_access_token a" "ar_refresh_token params = refresh"
    by (auto simp: issue_device_tokens_def bindE_Inr draw_run map_err_Inr access_token_response_def)
  have db: "w_db w' = w_db w2"
    using i by (rule same_db_Inr [OF issue_id_token_same_db])
  obtain arow where arow: "w_db w1 = put_access_tokens (oauth2_access_tokens (w_db w) @ [arow]) (w_db w)"
      "db_ok (w_db w1)" "a = build_access_token arow" "oa_session_id arow = s_id s"
      "oa_revoked_at arow = None" "oa_first_used_at arow = None"
      "well_formed_token (e_crc32 e) TT_AccessToken (oa_access_token arow)"
    using a by (auto simp: access_token_add_Inr insert_row_Inr new_access_token_row_def generate_fst)
  show ?thesis
  proof (cases "GT_RefreshToken \<in> set (c_grant_types c)")
    case False
    then show ?thesis
      using r arow db params
      by (intro exI [of _ arow] exI [of _ "[]"])
        (simp add: device_tokens_def build_access_token_fields)
  next
    case True
    let ?rt = "generate (e_crc32 e) TT_RefreshToken (w_rng w1)"
    let ?w = "w1\<lparr>w_rng := snd ?rt\<rparr>"
    let ?r = "new_refresh_token_row (next_id ?w) (clock_reading ?w) s a (fst ?rt)"
    from True r have "w_db w2 = put_refresh_tokens (oauth2_refresh_tokens (w_db w1) @ [?r]) (w_db w1)"
      "db_ok (w_db w2)" "refresh = Some (fst ?rt)"
      by (auto simp: bindE_Inr draw_run map_err_Inr refresh_token_add_Inr insert_row_Inr
          new_refresh_token_def)
    then show ?thesis
      using True arow db params
      by (intro exI [of _ arow] exI [of _ "[?r]"])
        (simp add: device_tokens_def pair_rows_def build_access_token_fields
          new_refresh_token_row_def generate_fst)
  qed
qed

lemma exchange_device_Inr:
  assumes run: "exchange_device_code e ip ua dc c w = (Inr params, w')"
  shows "\<exists>g b row sid t f arow rrows. device_redeemable e dc c (w_db w) (clock_reading w) g b
    \<and> sid \<notin> os_id ` set (oauth2_sessions (w_db w))
    \<and> os_id row = sid \<and> os_user_id row = Some (u_id (bs_user b)) \<and> os_client_id row = c_id c
    \<and> os_scope_list row = dg_scope g \<and> device_tokens e c sid arow rrows \<and> ar_access_token params = oa_access_token arow
    \<and> ar_refresh_token params = (case rrows of [] \<Rightarrow> None | r # _ \<Rightarrow> Some (or_refresh_token r))
    \<and> w_db w' = (w_db w)\<lparr>oauth2_sessions := map f (oauth2_sessions (w_db w) @ [row]),
        oauth2_device_code_grant := upd_rows (\<lambda>r. od_id r = dg_id g) (exchange_device_row sid t)
          (oauth2_device_code_grant (w_db w)),
        oauth2_access_tokens := oauth2_access_tokens (w_db w) @ [arow],
        oauth2_refresh_tokens := oauth2_refresh_tokens (w_db w) @ rrows\<rparr>
    \<and> agent_update f \<and> db_ok (w_db w')"
proof -
  from run obtain g i t0 b s w1 w2 w3 w4 where
    g: "load_device_grant dc c w = (Inr g, tick w)" and st: "dg_state g = D_Fulfilled i t0"
    and b: "browser_session_lookup (e_ulid_string e) i (tick w) = (Inr (Some b), tick w)"
    and adm: "admin_scope_allowed (bs_user b) (dg_scope g)"
    and s: "start_device_session e ua c g b (tick w) = (Inr s, w1)"
    and tok: "issue_device_tokens e c s b w1 = (Inr params, w2)"
    and lock: "acquire_lock_for_sync (bs_user b) w2 = (Inr (), w3)"
    and dev: "provision_devices e DE_ProvisionDeviceFailed (bs_user b)
      (matrix_device_ids (s_scope s)) None w3 = (Inr (), w4)"
    and act: "record_oauth2_session ip s w4 = ((Inr (), w') :: (device_exchange_error + unit) \<times> world)"
    unfolding exchange_device_code_def
    by (auto simp: bindE_Inr thenE_Inr map_err_Inr ok_or_Inr ensure_Inr load_device_grant_Inr
        approving_session_Inr browser_session_lookup_Some)
  have red: "device_redeemable e dc c (w_db w) (clock_reading w) g b"
    using g st b adm
    by (auto simp: device_redeemable_def load_device_grant_Inr browser_session_lookup_Some
        dest: find_SomeD)
  from start_device_session_Inr [OF s] obtain row t f where
    w1: "w_db w1 = (w_db w)\<lparr>oauth2_sessions := map f (oauth2_sessions (w_db w) @ [row]),
        oauth2_device_code_grant := upd_rows (\<lambda>r. od_id r = dg_id g) (exchange_device_row (s_id s) t)
          (oauth2_device_code_grant (w_db w))\<rparr>" "agent_update f" "os_id row = s_id s"
      "os_user_id row = Some (u_id (bs_user b))" "os_client_id row = c_id c"
      "os_scope_list row = dg_scope g" "s_id s \<notin> os_id ` set (oauth2_sessions (w_db w))"
    by auto
  from issue_device_tokens_Inr [OF tok] obtain arow rrows where
    w2: "device_tokens e c (s_id s) arow rrows" "ar_access_token params = oa_access_token arow"
      "ar_refresh_token params = (case rrows of [] \<Rightarrow> None | r # _ \<Rightarrow> Some (or_refresh_token r))"
      "w_db w2 = (w_db w1)\<lparr>oauth2_access_tokens := oauth2_access_tokens (w_db w1) @ [arow],
        oauth2_refresh_tokens := oauth2_refresh_tokens (w_db w1) @ rrows\<rparr>" "db_ok (w_db w2)"
    by blast
  have "w_db w4 = w_db w3"
    using dev by (rule same_db_Inr [OF same_db_provision])
  then have "w_db w' = w_db w2"
    using lock act by (auto simp: acquire_lock_for_sync_def record_oauth2_session_run)
  then show ?thesis
    using red w1 w2
    by (intro exI [of _ g] exI [of _ b] exI [of _ row] exI [of _ "s_id s"] exI [of _ t] exI [of _ f]
        exI [of _ arow] exI [of _ rrows]) simp
qed

lemma device_exchange_keeps:
  assumes run: "exchange_device_code e ip ua dc c w = (Inr params, w')"
    and ok: "db_ok (w_db w)" "tokens_ok (w_db w)"
  shows "tokens_ok (w_db w')"
proof -
  let ?T = "oauth2_refresh_tokens (w_db w)" and ?G = "oauth2_authorization_grants (w_db w)"
  from exchange_device_Inr [OF run] obtain S D A sid arow rrows where
    new: "sid \<notin> os_id ` set (oauth2_sessions (w_db w))" and tok: "device_tokens e c sid arow rrows"
    and d: "w_db w' = (w_db w)\<lparr>oauth2_sessions := S, oauth2_device_code_grant := D,
      oauth2_access_tokens := A, oauth2_refresh_tokens := ?T @ rrows\<rparr>" and ok': "db_ok (w_db w')"
    by blast
  have w': "oauth2_refresh_tokens (w_db w') = ?T @ rrows" "oauth2_authorization_grants (w_db w') = ?G"
    by (simp_all add: d)
  show ?thesis
  proof (cases rrows)
    case Nil
    then show ?thesis
      using ok(2) by (simp add: tokens_ok_def w')
  next
    case (Cons r rs)
    with tok have r: "rrows = [r]" "or_session_id r = sid" "or_next_id r = None"
      by (auto simp: device_tokens_def pair_rows_def split: if_splits)
    have none: "or_session_id x \<noteq> or_session_id r" if "x \<in> set ?T" for x
      using db_ok_refresh_session [OF ok(1) that] new r by metis
    have "distinct (map or_id (?T @ [r]))"
      using db_ok_distinct(7) [OF ok'] by (simp add: w' r)
    then have "one_live (?T @ [r]) \<and> chained (?T @ [r])"
      using r none by (intro first_token_keeps ok) auto
    moreover have "fresh_codes ?G (?T @ [r])"
    proof (rule fresh_codes_snoc)
      fix g
      assume "g \<in> set ?G" "og_session_id g = Some (or_session_id r)"
      then show "og_exchanged_at g \<noteq> None"
        using db_ok_grant_session [OF ok(1)] new r by metis
    qed (use ok(2) in \<open>simp add: tokens_ok_def\<close>)
    ultimately show ?thesis
      using ok(2) by (simp add: tokens_ok_def w' r)
  qed
qed

text \<open>A granted token request keeps the invariant.\<close>

lemma token_post_granted:
  assumes run: "token_post e ip ua c form w = (Inr params, w')"
    and ok: "db_ok (w_db w)" "tokens_ok (w_db w)"
  shows "tokens_ok (w_db w')" "w_committed w' = w_db w'"
proof -
  from run obtain q w1 where w': "w' = w1\<lparr>w_committed := w_db w1, w_locks := []\<rparr>"
    and d: "dispatch_grant e ip ua c q w = (Inr params, w1)"
    by (auto simp: token_post_def request_Inr bindE_Inr ok_or_Inr)
  have "tokens_ok (w_db w1)"
    using d code_exchange_keeps [OF _ ok] refresh_keeps [OF _ ok] device_exchange_keeps [OF _ ok]
    by (cases q) (auto simp: dispatch_grant_def map_err_Inr client_credentials_fails)
  then show "tokens_ok (w_db w')" "w_committed w' = w_db w'"
    by (simp_all add: w')
qed

end
