(* ===== verification/Consent.thy ===== *)
theory Consent
  imports Authorization Personal_Listing Token_Effects User_Jobs
begin

text \<open>
  The decisions of the user: \<open>crates/backend/src/handlers/oauth2/access.rs\<close>, the consent to an
  authorization grant and to a device code, with the session counts of
  \<open>crates/backend/src/handlers/session.rs\<close>.

  The policy engine is the parameter \<open>policy\<close>: whether it allows the request, or \<open>None\<close> when it
  fails. The homeserver's names are the parameters \<open>mxid\<close> and \<open>display_name\<close>.
\<close>

datatype access_error =
    OE_NotFound
  | OE_GrantNotPending
  | OE_GrantExpired
  | OE_PolicyViolation
  | OE_Repository db_error
  | OE_Internal

record session_counts =
  sc_total :: nat
  sc_oauth2 :: nat
  sc_personal :: nat

definition count_user_sessions_for_limiting :: "user \<Rightarrow> (db_error, session_counts) io" where
  "count_user_sessions_for_limiting u =
     bindE (oauth2_session_count (oauth2_sessions_of (u_id u))) (\<lambda>num_oauth2.
     bindE (personal_session_count (no_personal_filter\<lparr>pf_actor_user := Some (u_id u),
              pf_owner_user := Some (u_id u), pf_state := Some True\<rparr>)) (\<lambda>num_personal.
       ret \<lparr>sc_total = num_oauth2 + num_personal, sc_oauth2 = num_oauth2, sc_personal = num_personal\<rparr>))"

datatype policy_grant_type = PG_AuthorizationCode | PG_DeviceCode

type_synonym grant_policy =
  "user \<Rightarrow> client \<Rightarrow> session_counts \<Rightarrow> scope \<Rightarrow> policy_grant_type \<Rightarrow> string option \<Rightarrow> string option \<Rightarrow>
   bool option"

definition has_policy_violation ::
    "grant_policy \<Rightarrow> browser_session \<Rightarrow> client \<Rightarrow> scope \<Rightarrow> policy_grant_type \<Rightarrow> string option \<Rightarrow>
     string option \<Rightarrow> (access_error, bool) io" where
  "has_policy_violation policy b client sc grant_type ip user_agent =
     (if \<not> admin_scope_allowed (bs_user b) sc then ret True
      else bindE (map_err OE_Repository (count_user_sessions_for_limiting (bs_user b))) (\<lambda>counts.
           bindE (ok_or OE_Internal (policy (bs_user b) client counts sc grant_type ip user_agent))
             (\<lambda>valid. ret (\<not> valid))))"

text \<open>Giving a repository back unsaved.\<close>

definition cancel :: "('e, unit) io" where
  "cancel w = (Inr (), drop_repo w)"

section \<open>Authorization grants\<close>

record authorization_response =
  rs_code :: "string option"
  rs_id_token :: "string option"

text \<open>The parameters the response serialises to.\<close>

definition response_params :: "authorization_response \<Rightarrow> (string \<times> string) list" where
  "response_params r =
     (case rs_code r of None \<Rightarrow> [] | Some c \<Rightarrow> [(''code'', c)])
     @ (case rs_id_token r of None \<Rightarrow> [] | Some t \<Rightarrow> [(''id_token'', t)])"

definition build_authorization_response ::
    "env \<Rightarrow> client \<Rightarrow> authorization_grant \<Rightarrow> browser_session \<Rightarrow>
     (access_error, authorization_response) io" where
  "build_authorization_response e client g b =
     bindE (if ag_response_type_id_token g
            then bindE (map_err OE_Repository (get_last_authentication b)) (\<lambda>last_authentication.
                 bindE (map_err (\<lambda>_. OE_Internal)
                   (generate_id_token e client (Some g) b None last_authentication)) (ret \<circ> Some))
            else ret None) (\<lambda>id_token.
       ret \<lparr>rs_code = map_option ac_code (ag_code g), rs_id_token = id_token\<rparr>)"

record consent_info =
  ci_grant :: authorization_grant
  ci_client :: client
  ci_mxid :: string
  ci_display_name :: "string option"
  ci_policy_violation :: bool
  ci_admin_required :: bool

definition load_authorization_consent ::
    "env \<Rightarrow> grant_policy \<Rightarrow> (string \<Rightarrow> string) \<Rightarrow> (string \<Rightarrow> string option) \<Rightarrow> browser_session \<Rightarrow> ulid \<Rightarrow>
     string option \<Rightarrow> string option \<Rightarrow> (access_error, consent_info) io" where
  "load_authorization_consent e policy mxid display_name b grant_id ip user_agent =
     bindE (map_err OE_Repository (grant_lookup (e_url_parse e) grant_id)) (\<lambda>g.
     bindE (ok_or OE_NotFound g) (\<lambda>g.
     thenE (ensure (ag_stage g = G_Pending) OE_GrantNotPending)
    (bindE (map_err OE_Repository (client_lookup (ag_client_id g))) (\<lambda>client.
     bindE (ok_or OE_NotFound client) (\<lambda>client.
     bindE (has_policy_violation policy b client (ag_scope g) PG_AuthorizationCode ip user_agent)
       (\<lambda>violation.
     thenE cancel
         (ret \<lparr>ci_grant = g, ci_client = client, ci_mxid = mxid (u_username (bs_user b)),
               ci_display_name = display_name (u_username (bs_user b)),
               ci_policy_violation = violation,
               ci_admin_required = (\<not> admin_scope_allowed (bs_user b) (ag_scope g))\<rparr>)))))))"

record consent_decision =
  cn_session :: session
  cn_callback :: callback_destination
  cn_params :: authorization_response

text \<open>A grant this user already consented to: the reply is built again, nothing is written.\<close>

definition replay_consent ::
    "env \<Rightarrow> browser_session \<Rightarrow> client \<Rightarrow> authorization_grant \<Rightarrow> callback_destination \<Rightarrow> ulid \<Rightarrow>
     (access_error, consent_decision) io" where
  "replay_consent e b client g callback session_id =
     bindE (map_err OE_Repository (oauth2_session_lookup session_id)) (\<lambda>s.
     bindE (ok_or OE_NotFound s) (\<lambda>s.
     thenE (ensure (s_user_id s = Some (u_id (bs_user b))) OE_GrantNotPending)
    (bindE (build_authorization_response e client g b) (\<lambda>params.
     thenE cancel
       (ret \<lparr>cn_session = s, cn_callback = callback, cn_params = params\<rparr>)))))"

definition fulfil_consent ::
    "env \<Rightarrow> grant_policy \<Rightarrow> browser_session \<Rightarrow> client \<Rightarrow> authorization_grant \<Rightarrow> callback_destination \<Rightarrow>
     string option \<Rightarrow> string option \<Rightarrow> (access_error, consent_decision) io" where
  "fulfil_consent e policy b client g callback ip user_agent =
     bindE (has_policy_violation policy b client (ag_scope g) PG_AuthorizationCode ip user_agent)
       (\<lambda>violation.
     thenE (ensure (\<not> violation) OE_PolicyViolation)
    (bindE (map_err OE_Repository (add_from_browser_session client b (ag_scope g))) (\<lambda>s.
     bindE (map_err OE_Repository (grant_fulfill_op s g)) (\<lambda>g.
     bindE (build_authorization_response e client g b) (\<lambda>params.
     thenE save
       (ret \<lparr>cn_session = s, cn_callback = callback, cn_params = params\<rparr>))))))"

definition load_consent_grant ::
    "env \<Rightarrow> url_api \<Rightarrow> ulid \<Rightarrow> (access_error, authorization_grant \<times> callback_destination \<times> client) io" where
  "load_consent_grant e api grant_id =
     bindE (map_err OE_Repository (grant_lookup (e_url_parse e) grant_id)) (\<lambda>g.
     bindE (ok_or OE_NotFound g) (\<lambda>g.
     bindE (map_err (\<lambda>_. OE_Internal) (of_result
              (callback_try_new api (ag_response_mode g) (ag_redirect_uri g) (ag_state g))))
       (\<lambda>callback.
     bindE (map_err OE_Repository (client_lookup (ag_client_id g))) (\<lambda>client.
     bindE (ok_or OE_NotFound client) (\<lambda>client.
       ret (g, callback, client))))))"

definition accept_authorization_consent ::
    "env \<Rightarrow> url_api \<Rightarrow> grant_policy \<Rightarrow> browser_session \<Rightarrow> ulid \<Rightarrow> string option \<Rightarrow> string option \<Rightarrow>
     (access_error, consent_decision) io" where
  "accept_authorization_consent e api policy b grant_id ip user_agent =
     bindE (load_consent_grant e api grant_id) (\<lambda>(g, callback, client).
       case ag_stage g of
         G_Fulfilled session_id _ \<Rightarrow> replay_consent e b client g callback session_id
       | G_Pending \<Rightarrow> fulfil_consent e policy b client g callback ip user_agent
       | _ \<Rightarrow> throw OE_GrantNotPending)"

section \<open>Device codes\<close>

definition dg_is_pending :: "device_code_grant \<Rightarrow> bool" where
  "dg_is_pending g \<longleftrightarrow> dg_state g = D_Pending"

definition dg_is_rejected :: "device_code_grant \<Rightarrow> bool" where
  "dg_is_rejected g \<longleftrightarrow> (case dg_state g of D_Rejected _ _ \<Rightarrow> True | _ \<Rightarrow> False)"

definition lookup_device_link :: "string \<Rightarrow> (access_error, ulid option) io" where
  "lookup_device_link code =
     bindE (map_err OE_Repository (find_by_user_code code)) (\<lambda>g.
     bindE (case g of
              None \<Rightarrow> ret None
            | Some g \<Rightarrow> if \<not> dg_is_pending g then ret None
                        else bindE now (\<lambda>at. ret (if dg_expires_at g > at then Some g else None)))
       (\<lambda>g. thenE cancel (ret (map_option dg_id g))))"

datatype device_consent_action = DC_Consent | DC_Reject

datatype device_consent_status = DS_Fulfilled | DS_Rejected

definition load_device_client ::
    "ulid \<Rightarrow> (access_error, device_code_grant \<times> client) io" where
  "load_device_client grant_id =
     bindE (map_err OE_Repository (device_grant_lookup grant_id)) (\<lambda>g.
     bindE (ok_or OE_NotFound g) (\<lambda>g.
     bindE now (\<lambda>at.
     thenE (ensure (\<not> dg_expires_at g < at) OE_GrantExpired)
    (bindE (map_err OE_Repository (client_lookup (dg_client_id g))) (\<lambda>client.
     bindE (ok_or OE_NotFound client) (\<lambda>client.
       ret (g, client)))))))"

record device_consent_screen =
  dn_grant_id :: ulid
  dn_client :: client
  dn_scope :: string
  dn_mxid :: string
  dn_display_name :: "string option"
  dn_policy_violation :: bool
  dn_admin_required :: bool

definition load_device_consent ::
    "grant_policy \<Rightarrow> (string \<Rightarrow> string) \<Rightarrow> (string \<Rightarrow> string option) \<Rightarrow> browser_session \<Rightarrow> ulid \<Rightarrow>
     string option \<Rightarrow> string option \<Rightarrow> (access_error, device_consent_screen) io" where
  "load_device_consent policy mxid display_name b grant_id ip user_agent =
     bindE (load_device_client grant_id) (\<lambda>(g, client).
     bindE (has_policy_violation policy b client (dg_scope g) PG_DeviceCode ip user_agent) (\<lambda>violation.
     thenE cancel
      (ret \<lparr>dn_grant_id = dg_id g, dn_client = client, dn_scope = display_scope (dg_scope g),
            dn_mxid = mxid (u_username (bs_user b)),
            dn_display_name = display_name (u_username (bs_user b)),
            dn_policy_violation = violation,
            dn_admin_required = (\<not> admin_scope_allowed (bs_user b) (dg_scope g))\<rparr>)))"

definition decide_device ::
    "device_consent_action \<Rightarrow> browser_session \<Rightarrow> device_code_grant \<Rightarrow> (db_error, device_consent_status) io" where
  "decide_device action b g =
     (if dg_is_pending g
      then (case action of
              DC_Consent \<Rightarrow> thenE (device_grant_fulfill_op b g) (ret DS_Fulfilled)
            | DC_Reject \<Rightarrow> thenE (device_grant_reject_op b g) (ret DS_Rejected))
      else ret (if dg_is_rejected g then DS_Rejected else DS_Fulfilled))"

definition submit_device_consent ::
    "grant_policy \<Rightarrow> browser_session \<Rightarrow> ulid \<Rightarrow> device_consent_action \<Rightarrow> string option \<Rightarrow> string option \<Rightarrow>
     (access_error, device_consent_status) io" where
  "submit_device_consent policy b grant_id action ip user_agent =
     bindE (load_device_client grant_id) (\<lambda>(g, client).
     bindE (has_policy_violation policy b client (dg_scope g) PG_DeviceCode ip user_agent) (\<lambda>violation.
     thenE (ensure (\<not> violation) OE_PolicyViolation)
    (bindE (map_err OE_Repository (decide_device action b g)) (\<lambda>status.
     thenE save
       (ret status)))))"

section \<open>Lemmas\<close>

lemma cancel_run: "cancel w = (Inr (), w\<lparr>w_db := w_committed w, w_locks := []\<rparr>)"
  by (simp add: cancel_def drop_repo_def)

lemma committed_cancel [intro!]: "keeps (committed_is d) cancel"
  by (simp add: keeps_def cancel_run committed_is_def)

lemma keeps_Pair [intro!]: "keeps P (Pair r)"
  by (simp add: keeps_def)

text \<open>The reading steps leave the world alone.\<close>

lemma count_sessions_run:
  "count_user_sessions_for_limiting u w =
     (Inr (let n = length (filter (session_filter_matches (w_db w) (oauth2_sessions_of (u_id u)))
                     (oauth2_sessions (w_db w)));
               m = length (filtered_sessions (w_db w) (no_personal_filter\<lparr>pf_actor_user := Some (u_id u),
                     pf_owner_user := Some (u_id u), pf_state := Some True\<rparr>))
           in \<lparr>sc_total = n + m, sc_oauth2 = n, sc_personal = m\<rparr>), w)"
  by (simp add: count_user_sessions_for_limiting_def oauth2_session_count_def personal_session_count_def
      bindE_def query_run Let_def)

lemma has_policy_violation_Inr:
  assumes "has_policy_violation policy b c sc gt ip ua w = (Inr v, w')"
  shows "w' = w"
    "\<not> v \<Longrightarrow> admin_scope_allowed (bs_user b) sc
       \<and> (\<exists>counts. fst (count_user_sessions_for_limiting (bs_user b) w) = Inr counts
            \<and> policy (bs_user b) c counts sc gt ip ua = Some True)"
  using assms
  by (auto simp: has_policy_violation_def bindE_Inr map_err_Inr ok_or_Inr count_sessions_run
      split: if_splits)

lemma keeps_reading [intro!]:
  "keeps P (has_policy_violation policy b c sc gt ip ua)" "keeps P (load_consent_grant e api i)"
proof -
  have "keeps P (count_user_sessions_for_limiting u)" for u
    by (simp add: keeps_def count_sessions_run)
  then show "keeps P (has_policy_violation policy b c sc gt ip ua)"
    unfolding has_policy_violation_def by (auto intro!: keeps_bindE)
  show "keeps P (load_consent_grant e api i)"
    unfolding load_consent_grant_def grant_lookup_def client_lookup_def by (auto intro!: keeps_bindE)
qed

lemma load_consent_grant_Inr:
  assumes "load_consent_grant e api i w = (Inr (g, callback, c), w')"
  shows "w' = w" "store (decode_grant (e_url_parse e)) og_id (oauth2_authorization_grants (w_db w)) i = Some g"
    "callback_try_new api (ag_response_mode g) (ag_redirect_uri g) (ag_state g) = Inr callback"
    "\<exists>row. row_by_id (c_id \<circ> cr_client) (oauth2_clients (w_db w)) (ag_client_id g) = Some row \<and> cr_client row = c"
  using assms
  by (auto simp: load_consent_grant_def bindE_Inr map_err_Inr ok_or_Inr grant_lookup_def client_lookup_def
      fetch_Some intro: store_Some)

lemma build_response_Inr:
  assumes "build_authorization_response e c g b w = (Inr params, w')"
  shows "w_db w' = w_db w" "w_committed w' = w_committed w" "rs_code params = map_option ac_code (ag_code g)"
proof -
  have db: "keeps (same_db d) (get_last_authentication b)" "keeps (committed_is d) (get_last_authentication b)" for d
    unfolding get_last_authentication_def by (auto intro!: keeps_bindE)
  have "keeps (same_db d) (build_authorization_response e c g b)"
    "keeps (committed_is d) (build_authorization_response e c g b)" for d
    unfolding build_authorization_response_def using db by (auto intro!: keeps_bindE)
  from keepsD [OF this(1) assms] keepsD [OF this(2) assms]
  show "w_db w' = w_db w" "w_committed w' = w_committed w"
    by (auto simp: same_db_def committed_is_def)
  show "rs_code params = map_option ac_code (ag_code g)"
    using assms by (auto simp: build_authorization_response_def bindE_Inr)
qed

text \<open>
  What a fulfilled consent commits: one new session, of the user who consented, for the client and
  the scope of the grant, and the grant fulfilled with it.
\<close>

definition consented ::
    "browser_session \<Rightarrow> client \<Rightarrow> authorization_grant \<Rightarrow> session \<Rightarrow> db \<Rightarrow> db \<Rightarrow> bool" where
  "consented b c g s d d' \<longleftrightarrow>
     s_id s \<notin> os_id ` set (oauth2_sessions d)
     \<and> (\<exists>t u. d' = d\<lparr>oauth2_sessions := oauth2_sessions d @
              [new_session_row (s_id s) t c (Some (bs_user b)) (Some b) (ag_scope g)],
            oauth2_authorization_grants := upd_rows (\<lambda>r. og_id r = ag_id g)
              (fulfill_grant_row (s_id s) u) (oauth2_authorization_grants d)\<rparr>)"

lemma fulfil_consent_Inr:
  assumes "fulfil_consent e policy b c g callback ip ua w = (Inr dec, w')"
  shows "consented b c g (cn_session dec) (w_db w) (w_db w')" "w_committed w' = w_db w'"
    "db_ok (w_db w')" "admin_scope_allowed (bs_user b) (ag_scope g)"
    "rs_code (cn_params dec) = map_option ac_code (ag_code g)"
    "\<exists>counts. fst (count_user_sessions_for_limiting (bs_user b) w) = Inr counts
       \<and> policy (bs_user b) c counts (ag_scope g) PG_AuthorizationCode ip ua = Some True"
proof -
  from assms obtain w0 s w1 g' w2 w3 params where
    pol: "has_policy_violation policy b c (ag_scope g) PG_AuthorizationCode ip ua w = (Inr False, w0)"
    and add0: "oauth2_session_add c (Some (bs_user b)) (Some b) (ag_scope g) w0 = (Inr s, w1)"
    and ful: "grant_fulfill_op s g w1 = (Inr g', w2)"
    and bld: "build_authorization_response e c g' b w2 = (Inr params, w3)"
    and w': "w_db w' = w_db w3" "w_committed w' = w_db w3"
    and dec: "dec = \<lparr>cn_session = s, cn_callback = callback, cn_params = params\<rparr>"
    unfolding fulfil_consent_def add_from_browser_session_def
    by (auto simp: bindE_Inr thenE_Inr map_err_Inr ensure_Inr save_def)
  have add: "oauth2_session_add c (Some (bs_user b)) (Some b) (ag_scope g) w = (Inr s, w1)"
    using add0 has_policy_violation_Inr(1) [OF pol] by simp
  note viol = has_policy_violation_Inr(2) [OF pol]
  show "admin_scope_allowed (bs_user b) (ag_scope g)"
    "\<exists>counts. fst (count_user_sessions_for_limiting (bs_user b) w) = Inr counts
       \<and> policy (bs_user b) c counts (ag_scope g) PG_AuthorizationCode ip ua = Some True"
    using viol by simp_all
  let ?row = "new_session_row (next_id w) (clock_reading w) c (Some (bs_user b)) (Some b) (ag_scope g)"
  from add have w1: "w_db w1 = put_sessions (oauth2_sessions (w_db w) @ [?row]) (w_db w)"
      "db_ok (w_db w1)" and s: "s_id s = next_id w"
    by (auto simp: oauth2_session_add_Inr insert_row_Inr new_session_def)
  from ful have w2: "w_db w2 = put_grants (upd_rows (\<lambda>r. og_id r = ag_id g)
        (fulfill_grant_row (s_id s) (clock_reading w1)) (oauth2_authorization_grants (w_db w1))) (w_db w1)"
      "db_ok (w_db w2)" and g': "ag_code g' = ag_code g"
    by (auto simp: grant_fulfill_op_def update_then_transition_Inr grant_fulfill_Inr)
  have "next_id w \<notin> os_id ` set (oauth2_sessions (w_db w))"
    using db_ok_distinct(4) [OF w1(2)] w1(1) by (auto simp: new_session_row_def)
  then show "consented b c g (cn_session dec) (w_db w) (w_db w')"
    using w' w1(1) w2(1) s dec build_response_Inr(1) [OF bld]
    by (auto simp: consented_def)
  show "w_committed w' = w_db w'" "db_ok (w_db w')"
    using w' w2(2) build_response_Inr(1) [OF bld] by simp_all
  show "rs_code (cn_params dec) = map_option ac_code (ag_code g)"
    using build_response_Inr(3) [OF bld] dec g' by simp
qed

lemma replay_consent_Inr:
  assumes "replay_consent e b c g callback sid w = (Inr dec, w')"
  shows "w_db w' = w_committed w" "w_committed w' = w_committed w" "s_user_id (cn_session dec) = Some (u_id (bs_user b))"
    "store decode_session os_id (oauth2_sessions (w_db w)) sid = Some (cn_session dec)"
    "rs_code (cn_params dec) = map_option ac_code (ag_code g)"
  using assms
  by (auto simp: replay_consent_def cancel_run bindE_Inr thenE_Inr map_err_Inr ok_or_Inr ensure_Inr
      oauth2_session_lookup_Inr intro: store_Some dest: build_response_Inr)

text \<open>Consent keeps the token invariant: the session it starts is new.\<close>

lemma consented_keeps:
  assumes c: "consented b c g s d d'" and ok: "db_ok d" "tokens_ok d"
  shows "tokens_ok d'"
proof -
  from c obtain u where new: "s_id s \<notin> os_id ` set (oauth2_sessions d)"
    and G: "oauth2_authorization_grants d' = upd_rows (\<lambda>r. og_id r = ag_id g)
      (fulfill_grant_row (s_id s) u) (oauth2_authorization_grants d)"
    and T: "oauth2_refresh_tokens d' = oauth2_refresh_tokens d"
    by (auto simp: consented_def)
  have G': "\<exists>k \<in> set (oauth2_authorization_grants d). og_id h = og_id k
      \<and> og_exchanged_at h = og_exchanged_at k
      \<and> (og_id k = ag_id g \<and> og_session_id h = Some (s_id s)
         \<or> og_id k \<noteq> ag_id g \<and> og_session_id h = og_session_id k)"
    if "h \<in> set (oauth2_authorization_grants d')" for h
  proof -
    from that obtain k where "k \<in> set (oauth2_authorization_grants d)"
      "h = (if og_id k = ag_id g then fulfill_grant_row (s_id s) u k else k)"
      by (auto simp: G upd_rows_def)
    then show ?thesis
      by (intro bexI [of _ k]) (simp_all add: fulfill_grant_row_def)
  qed
  have old: "og_session_id k \<noteq> Some (s_id s)" if "k \<in> set (oauth2_authorization_grants d)" for k
    using db_ok_grant_session [OF ok(1) that] new by blast
  have tok: "or_session_id r \<noteq> s_id s" if "r \<in> set (oauth2_refresh_tokens d)" for r
    using db_ok_refresh_session [OF ok(1) that] new by metis
  have "own_sessions (oauth2_authorization_grants d')"
    unfolding own_sessions_def
  proof (intro ballI allI impI)
    fix h h' i
    assume h: "h \<in> set (oauth2_authorization_grants d')" "h' \<in> set (oauth2_authorization_grants d')"
      "og_session_id h = Some i \<and> og_session_id h' = Some i"
    from G' [OF h(1)] G' [OF h(2)] h(3) old ok(2) show "og_id h = og_id h'"
      unfolding tokens_ok_def own_sessions_def by metis
  qed
  moreover have "fresh_codes (oauth2_authorization_grants d') (oauth2_refresh_tokens d)"
    unfolding fresh_codes_def
  proof (intro ballI impI)
    fix h r
    assume h: "h \<in> set (oauth2_authorization_grants d')" "r \<in> set (oauth2_refresh_tokens d)"
      "og_session_id h = Some (or_session_id r)"
    from G' [OF h(1)] h(2,3) tok ok(2) show "og_exchanged_at h \<noteq> None"
      unfolding tokens_ok_def fresh_codes_def by (metis option.inject)
  qed
  ultimately show ?thesis
    using ok(2) by (simp add: tokens_ok_def T)
qed

text \<open>
  What accepting a consent did: the grant was pending and is now fulfilled with a session of its own,
  or the same user had already consented and nothing was written.
\<close>

lemma accept_consent_Inr:
  assumes run: "accept_authorization_consent e api policy b i ip ua w = (Inr dec, w')"
  obtains g c where
    "store (decode_grant (e_url_parse e)) og_id (oauth2_authorization_grants (w_db w)) i = Some g"
    "row_by_id (c_id \<circ> cr_client) (oauth2_clients (w_db w)) (ag_client_id g) \<noteq> None"
    "rs_code (cn_params dec) = map_option ac_code (ag_code g)"
    "ag_stage g = G_Pending \<and> consented b c g (cn_session dec) (w_db w) (w_db w')
       \<and> w_committed w' = w_db w' \<and> db_ok (w_db w') \<and> c_id c = ag_client_id g
       \<and> admin_scope_allowed (bs_user b) (ag_scope g)
       \<and> (\<exists>counts. fst (count_user_sessions_for_limiting (bs_user b) w) = Inr counts
            \<and> policy (bs_user b) c counts (ag_scope g) PG_AuthorizationCode ip ua = Some True)
     \<or> (\<exists>t. ag_stage g = G_Fulfilled (s_id (cn_session dec)) t) \<and> w_db w' = w_committed w
       \<and> w_committed w' = w_committed w \<and> s_user_id (cn_session dec) = Some (u_id (bs_user b))"
proof -
  from run obtain g callback c w1 where load: "load_consent_grant e api i w = (Inr (g, callback, c), w1)"
    and rest: "(case ag_stage g of
         G_Fulfilled session_id _ \<Rightarrow> replay_consent e b c g callback session_id
       | G_Pending \<Rightarrow> fulfil_consent e policy b c g callback ip ua
       | _ \<Rightarrow> throw OE_GrantNotPending) w1 = (Inr dec, w')"
    by (auto simp: accept_authorization_consent_def bindE_Inr split: prod.splits)
  note loaded = load_consent_grant_Inr [OF load]
  from loaded(4) obtain row where row:
    "row_by_id (c_id \<circ> cr_client) (oauth2_clients (w_db w)) (ag_client_id g) = Some row" "cr_client row = c"
    by blast
  then have client: "c_id c = ag_client_id g"
    by (auto dest: row_by_id_SomeD)
  show thesis
  proof (cases "ag_stage g")
    case G_Pending
    with rest loaded(1) have ful: "fulfil_consent e policy b c g callback ip ua w = (Inr dec, w')"
      by simp
    show thesis
      using G_Pending client row loaded(2) fulfil_consent_Inr [OF ful] by (intro that [of g c]) simp_all
  next
    case (G_Fulfilled sid t)
    with rest loaded(1) have rep: "replay_consent e b c g callback sid w = (Inr dec, w')"
      by simp
    note replayed = replay_consent_Inr [OF rep]
    have "s_id (cn_session dec) = sid"
      using replayed(4) by (rule sessions.store_ident)
    then show thesis
      using G_Fulfilled row loaded(2) replayed by (intro that [of g c]) simp_all
  qed (use rest in \<open>simp_all add: throw_def\<close>)
qed

lemma committed_build_response: "keeps (committed_is d) (build_authorization_response e c g b)"
proof -
  have "keeps (committed_is d) (get_last_authentication b)"
    unfolding get_last_authentication_def by (auto intro!: keeps_bindE)
  then show ?thesis
    unfolding build_authorization_response_def by (auto intro!: keeps_bindE)
qed

lemma accept_consent_fails_clean: "fails_clean (accept_authorization_consent e api policy b i ip ua)"
proof -
  have "fails_clean (replay_consent e b c g callback sid)" for c g callback sid
    unfolding replay_consent_def oauth2_session_lookup_def
    by (rule fails_clean_committed) (auto intro!: keeps_bindE keeps_thenE committed_build_response)
  moreover have "fails_clean (fulfil_consent e policy b c g callback ip ua)" for c g callback
    unfolding fulfil_consent_def add_from_browser_session_def
    by (intro fails_clean_bindE fails_clean_thenE fails_clean_commit)
      (auto intro!: committed_build_response)
  ultimately show ?thesis
    unfolding accept_authorization_consent_def
    by (intro fails_clean_bindE) (auto intro: fails_clean_throw split: grant_stage.split)
qed

text \<open>
  A device code decided by its user: a pending one moves to the stage the user chose, one already
  decided stays as it is.
\<close>

definition decided :: "device_consent_action \<Rightarrow> browser_session \<Rightarrow> time \<Rightarrow> device_state" where
  "decided action b t = (case action of DC_Consent \<Rightarrow> D_Fulfilled (bs_id b) t | DC_Reject \<Rightarrow> D_Rejected (bs_id b) t)"

lemma load_device_client_Inr:
  assumes "load_device_client i w = (Inr (g, c), w')"
  shows "w' = tick w" "store decode_device_grant od_id (oauth2_device_code_grant (w_db w)) i = Some g"
    "\<not> dg_expires_at g < clock_reading w"
  using assms
  by (auto simp: load_device_client_def bindE_Inr thenE_Inr map_err_Inr ok_or_Inr ensure_Inr now_run
      device_grant_lookup_def client_lookup_def fetch_Some intro: store_Some)

lemma decide_device_Inr:
  assumes run: "decide_device action b g w = (Inr status, w')"
    and g: "store decode_device_grant od_id (oauth2_device_code_grant (w_db w)) i = Some g"
  shows "dg_state g = D_Pending \<Longrightarrow>
      status = (case action of DC_Consent \<Rightarrow> DS_Fulfilled | DC_Reject \<Rightarrow> DS_Rejected)
      \<and> store decode_device_grant od_id (oauth2_device_code_grant (w_db w')) =
          (store decode_device_grant od_id (oauth2_device_code_grant (w_db w)))
            (i \<mapsto> g\<lparr>dg_state := decided action b (clock_reading w)\<rparr>)"
    and "dg_state g \<noteq> D_Pending \<Longrightarrow> w_db w' = w_db w"
proof -
  have i: "dg_id g = i"
    using g by (rule device_grants.store_ident)
  with g have st: "store decode_device_grant od_id (oauth2_device_code_grant (w_db w)) (dg_id g) = Some g"
    by simp
  show "dg_state g \<noteq> D_Pending \<Longrightarrow> w_db w' = w_db w"
    using run by (simp add: decide_device_def dg_is_pending_def ret_def)
  assume "dg_state g = D_Pending"
  with run st i show "status = (case action of DC_Consent \<Rightarrow> DS_Fulfilled | DC_Reject \<Rightarrow> DS_Rejected)
      \<and> store decode_device_grant od_id (oauth2_device_code_grant (w_db w')) =
          (store decode_device_grant od_id (oauth2_device_code_grant (w_db w)))
            (i \<mapsto> g\<lparr>dg_state := decided action b (clock_reading w)\<rparr>)"
    by (cases action)
      (auto simp: decide_device_def dg_is_pending_def thenE_Inr decided_def device_grant_fulfill_op_def
        device_grant_reject_op_def device_grant_fulfill_Inr device_grant_reject_Inr
        transition_then_update_Inr
        intro!: device_fulfill_step.store_step device_reject_step.store_step)
qed

lemma submit_device_consent_Inr:
  assumes run: "submit_device_consent policy b i action ip ua w = (Inr status, w')"
  obtains g where
    "store decode_device_grant od_id (oauth2_device_code_grant (w_db w)) i = Some g"
    "\<not> dg_expires_at g < clock_reading w" "w_committed w' = w_db w'"
    "dg_state g = D_Pending \<Longrightarrow>
      status = (case action of DC_Consent \<Rightarrow> DS_Fulfilled | DC_Reject \<Rightarrow> DS_Rejected)
      \<and> store decode_device_grant od_id (oauth2_device_code_grant (w_db w')) =
          (store decode_device_grant od_id (oauth2_device_code_grant (w_db w)))
            (i \<mapsto> g\<lparr>dg_state := decided action b (clock_reading (tick w))\<rparr>)"
    "dg_state g \<noteq> D_Pending \<Longrightarrow> w_db w' = w_db w"
proof -
  from run obtain g c w1 w2 w3 where load: "load_device_client i w = (Inr (g, c), w1)"
    and pol: "has_policy_violation policy b c (dg_scope g) PG_DeviceCode ip ua w1 = (Inr False, w2)"
    and dec: "decide_device action b g w2 = (Inr status, w3)" and w': "w' = w3\<lparr>w_committed := w_db w3, w_locks := []\<rparr>"
    by (auto simp: submit_device_consent_def bindE_Inr thenE_Inr map_err_Inr ensure_Inr save_def)
  note loaded = load_device_client_Inr [OF load]
  have w2: "w2 = tick w"
    using has_policy_violation_Inr(1) [OF pol] loaded(1) by simp
  then have st: "store decode_device_grant od_id (oauth2_device_code_grant (w_db w2)) i = Some g"
    using loaded(2) by simp
  show thesis
    using decide_device_Inr [OF dec st] by (intro that [OF loaded(2,3)]) (simp_all add: w' w2)
qed

lemma submit_device_consent_frame:
  assumes frame: "\<And>t d. get (put_device_grants t d) = get d"
  shows "keeps (view_is get x) (submit_device_consent policy b i action ip ua)"
proof -
  have "keeps (view_is get x) (load_device_client i)"
    unfolding load_device_client_def device_grant_lookup_def client_lookup_def
    by (auto intro!: keeps_bindE keeps_thenE)
  moreover have "keeps (view_is get x) (decide_device action b g)" for g
    unfolding decide_device_def device_grant_fulfill_op_def device_grant_reject_op_def
    by (auto intro!: keeps_thenE view_transition_then_update frame split: device_consent_action.split)
  ultimately show ?thesis
    unfolding submit_device_consent_def by (auto intro!: keeps_bindE keeps_thenE keeps_map_err)
qed

lemma submit_device_consent_fails_clean:
  "fails_clean (submit_device_consent policy b i action ip ua)"
proof -
  have "keeps (committed_is d) (load_device_client i)" for d
    unfolding load_device_client_def client_lookup_def by (auto intro!: keeps_bindE keeps_thenE)
  moreover have "keeps (committed_is d) (decide_device action b g)" for d g
    unfolding decide_device_def by (auto intro!: keeps_thenE split: device_consent_action.split)
  ultimately show ?thesis
    unfolding submit_device_consent_def
    by (intro fails_clean_bindE fails_clean_thenE fails_clean_commit)
      (auto intro!: fails_clean_bindE fails_clean_thenE fails_clean_commit split: prod.splits)
qed

end
