(* ===== verification/Upstream_Logout.thy ===== *)
theory Upstream_Logout
  imports User_Jobs Token_Effects
begin

text \<open>
  Back-channel logout by an upstream provider, from the point where the logout token is verified and
  its claims are extracted: \<open>crates/backend/src/handlers/upstream_oauth2/backchannel_logout.rs\<close>.

  \<open>affected_users\<close> is the loop over the pages of matching browser sessions; its first argument bounds
  the number of pages and \<open>affected_users_complete\<close> shows that one more than the number of sessions is
  enough. The number of matching upstream sessions is only logged and not modelled.
\<close>

datatype on_backchannel_logout = DoNothing | LogoutBrowserOnly | LogoutAll

datatype backchannel_error = BE_Repository db_error | BE_NoSubOrSidClaim | BE_OutOfFuel

definition upstream_filter :: "ulid \<Rightarrow> string option \<Rightarrow> string option \<Rightarrow> upstream_session_filter" where
  "upstream_filter provider_id sub sid =
     \<lparr>uf_provider = Some provider_id, uf_sub_claim = sub, uf_sid_claim = sid\<rparr>"

definition authenticated_by :: "upstream_session_filter \<Rightarrow> browser_session_filter" where
  "authenticated_by f =
     \<lparr>bf_user = None, bf_state = None, bf_last_active_before = None, bf_last_active_after = None,
      bf_upstream = Some f\<rparr>"

definition for_browser_sessions :: "browser_session_filter \<Rightarrow> session_filter" where
  "for_browser_sessions f =
     \<lparr>sf_user = None, sf_any_user = None, sf_browser_session = None, sf_browser_session_filter = Some f,
      sf_device = None, sf_client = None, sf_client_static = None, sf_state = Some True,
      sf_scope = None, sf_last_active_before = None, sf_last_active_after = None\<rparr>"

text \<open>\<open>user_ids\<close> is a hash set; it is kept here as a list without repetitions.\<close>

fun affected_users ::
    "nat \<Rightarrow> (ulid \<Rightarrow> string) \<Rightarrow> browser_session_filter \<Rightarrow> pagination \<Rightarrow> ulid list \<Rightarrow>
     (db_error, ulid list option) io" where
  "affected_users 0 us f cursor user_ids = ret None"
| "affected_users (Suc fuel) us f cursor user_ids =
     bindE (browser_session_list us f cursor) (\<lambda>page.
       let user_ids = fold (\<lambda>(_, b). List.insert (u_id (bs_user b))) (edges page) user_ids;
           cursor = fold (\<lambda>(c, _) p. pagination_after c p) (edges page) cursor
       in if has_next_page page then affected_users fuel us f cursor user_ids
          else ret (Some user_ids))"

definition logout_all :: "env \<Rightarrow> browser_session_filter \<Rightarrow> (backchannel_error, unit) io" where
  "logout_all e f =
     bindE (map_err BE_Repository (query (\<lambda>d. length (user_sessions d)))) (\<lambda>n.
     bindE (map_err BE_Repository (affected_users (Suc n) (e_ulid_string e) f (pagination_first 1000) []))
       (\<lambda>user_ids.
     bindE (ok_or BE_OutOfFuel user_ids) (\<lambda>user_ids.
     thenE (map_err BE_Repository (browser_session_finish_bulk (f\<lparr>bf_state := Some True\<rparr>)))
    (thenE (map_err BE_Repository (oauth2_session_finish_bulk (for_browser_sessions f)))
       (forE user_ids (\<lambda>i. map_err BE_Repository (schedule_device_sync e i)))))))"

definition backchannel_logout ::
    "env \<Rightarrow> on_backchannel_logout \<Rightarrow> ulid \<Rightarrow> string option \<Rightarrow> string option \<Rightarrow>
     (backchannel_error, unit) io" where
  "backchannel_logout e on_logout provider_id sub sid =
     thenE (ensure (sub \<noteq> None \<or> sid \<noteq> None) BE_NoSubOrSidClaim)
    (let f = authenticated_by (upstream_filter provider_id sub sid)
     in thenE (case on_logout of
                 DoNothing \<Rightarrow> ret ()
               | LogoutBrowserOnly \<Rightarrow>
                   thenE (map_err BE_Repository (browser_session_finish_bulk (f\<lparr>bf_state := Some True\<rparr>)))
                     (ret ())
               | LogoutAll \<Rightarrow> logout_all e f)
          save)"

section \<open>The loop over the pages\<close>

text \<open>With the users of all sessions present, a page of sessions is a page of their rows.\<close>

lemma db_ok_session_owner:
  "db_ok d \<Longrightarrow> r \<in> set (user_sessions d) \<Longrightarrow> \<exists>u. row_by_id ur_id (users d) (us_user_id r) = Some u"
proof -
  assume "db_ok d" "r \<in> set (user_sessions d)"
  then have "us_user_id r \<in> ur_id ` set (users d)"
    by (auto simp: db_ok_def violations_defs)
  then show ?thesis
    unfolding row_by_id_def by (metis (mono_tags, lifting) find_None_iff image_iff not_Some_eq)
qed

lemma process_map: "process cursor p (map g rows) = page_map g (process (cursor \<circ> g) p rows)"
  by (auto simp: process_def page_map_def Let_def map_butlast [symmetric] rev_map comp_def
      split: direction.split)

lemma map_filter_total:
  "(\<And>x. x \<in> set xs \<Longrightarrow> f x = Some (g x)) \<Longrightarrow> List.map_filter f xs = map g xs"
  by (induction xs) (simp_all add: List.map_filter_def)

lemma session_page:
  assumes ok: "db_ok (w_db w)"
  shows "browser_session_list us f p w =
    (Inr (page_map (\<lambda>s. build_browser_session us s (the (row_by_id ur_id (users (w_db w)) (us_user_id s))))
       (list_page us_id p (filter (browser_filter_matches (w_db w) f) (user_sessions (w_db w))))), w)"
proof -
  let ?d = "w_db w"
  let ?q = "page_query us_id p (filter (browser_filter_matches ?d f) (user_sessions ?d))"
  let ?u = "\<lambda>s. the (row_by_id ur_id (users ?d) (us_user_id s))"
  have q: "set ?q \<subseteq> set (user_sessions ?d)"
    by (auto simp: page_query_def Let_def split: direction.splits dest!: in_set_takeD)
  have "List.map_filter (\<lambda>s. map_option (Pair s) (row_by_id ur_id (users ?d) (us_user_id s))) ?q =
      map (\<lambda>s. (s, ?u s)) ?q"
    using q db_ok_session_owner [OF ok] by (intro map_filter_total) fastforce
  then show ?thesis
    by (simp add: browser_session_list_def query_run process_map list_page_def page_map_def comp_def
        case_prod_beta)
qed

lemma affected_users_run:
  assumes ok: "db_ok (w_db w)"
  shows "affected_users fuel us f p ids w =
    (Inr (map_option (\<lambda>rows. fold (List.insert \<circ> us_user_id) rows ids)
       (collect_pages fuel us_id p (filter (browser_filter_matches (w_db w) f) (user_sessions (w_db w))))), w)"
proof (induction fuel arbitrary: p ids)
  case (Suc fuel)
  let ?rows = "filter (browser_filter_matches (w_db w) f) (user_sessions (w_db w))"
  let ?es = "edges (list_page us_id p ?rows)"
  have u: "u_id (bs_user (build_browser_session us r u)) = ur_id u" for r u
    by (simp add: build_browser_session_def build_user_def)
  have owner: "ur_id (the (row_by_id ur_id (users (w_db w)) (us_user_id r))) = us_user_id r"
    if "(c, r) \<in> set ?es" for c r
  proof -
    from that have "r \<in> set (user_sessions (w_db w))"
      by (auto simp: list_page_def process_def page_query_def Let_def split: direction.splits if_splits
          dest!: in_set_takeD in_set_butlastD)
    from db_ok_session_owner [OF ok this] show ?thesis
      by (auto dest: row_by_id_SomeD)
  qed
  have ids: "fold (\<lambda>(_, b). List.insert (u_id (bs_user b)))
      (map (\<lambda>(c, s). (c, build_browser_session us s (the (row_by_id ur_id (users (w_db w)) (us_user_id s)))))
        es) ids = fold (List.insert \<circ> us_user_id) (map snd es) ids"
    if "set es \<subseteq> set ?es" for es
    using that owner by (induction es arbitrary: ids) (auto simp: u owner)
  have cursor: "fold (\<lambda>(c, _) p. pagination_after c p)
      (map (\<lambda>(c, s). (c, build_browser_session us s (the (row_by_id ur_id (users (w_db w)) (us_user_id s)))))
        es) q = fold (\<lambda>(c, _) p. pagination_after c p) es q" for es q
    by (induction es arbitrary: q) auto
  show ?case
    using Suc.IH
    by (simp add: session_page [OF ok] bindE_def Let_def page_map_def ids cursor option.map_comp comp_def
        del: fold_map)
qed simp

text \<open>The loop ends, and it has seen the user of every matching session.\<close>

lemma affected_users_complete:
  assumes ok: "db_ok (w_db w)" and fuel: "length (user_sessions (w_db w)) < fuel"
  obtains ids where "affected_users fuel us f (pagination_first 1000) [] w = (Inr (Some ids), w)"
    "distinct ids"
    "set ids = us_user_id ` set (filter (browser_filter_matches (w_db w) f) (user_sessions (w_db w)))"
proof -
  let ?rows = "filter (browser_filter_matches (w_db w) f) (user_sessions (w_db w))"
  let ?m = "matching_rows us_id (pagination_first 1000) ?rows"
  have m: "set ?m = set ?rows" "length ?m = length ?rows"
    by (simp_all add: matching_rows_def pagination_first_def in_range_def comp_def)
  have "distinct (map us_id ?rows)"
    using db_ok_distinct(2) [OF ok] by (simp add: distinct_map_filter)
  moreover have "length ?m < fuel"
    using fuel m(2) length_filter_le [of "browser_filter_matches (w_db w) f" "user_sessions (w_db w)"]
    by linarith
  ultimately have "collect_pages fuel us_id (pagination_first 1000) ?rows = Some ?m"
    by (intro collect_pages_complete) (simp_all add: pagination_first_def reasonable_count_def)
  then have run: "affected_users fuel us f (pagination_first 1000) [] w =
      (Inr (Some (fold (List.insert \<circ> us_user_id) ?m [])), w)"
    by (simp add: affected_users_run [OF ok])
  have "distinct (fold (List.insert \<circ> us_user_id) rows ids) = distinct ids
      \<and> set (fold (List.insert \<circ> us_user_id) rows ids) = us_user_id ` set rows \<union> set ids"
    for rows :: "user_session_row list" and ids
    by (induction rows arbitrary: ids) auto
  then show thesis
    using m(1) by (intro that [OF run]) auto
qed

section \<open>What a logout finishes\<close>

text \<open>The browser sessions: those that authenticated with the provider, whatever the claims say.\<close>

definition by_provider :: "db \<Rightarrow> ulid \<Rightarrow> user_session_row \<Rightarrow> bool" where
  "by_provider d provider_id r \<longleftrightarrow>
     us_id r \<in> set (upstream_authenticated d (upstream_filter provider_id None None))"

lemma upstream_authenticated_claims:
  "upstream_authenticated d (upstream_filter p sub sid) = upstream_authenticated d (upstream_filter p None None)"
  by (simp add: upstream_authenticated_def upstream_filter_def)

lemma authenticated_by_matches [simp]:
  "browser_filter_matches d (authenticated_by (upstream_filter p sub sid)) = by_provider d p"
  "browser_filter_matches d ((authenticated_by (upstream_filter p sub sid))\<lparr>bf_state := Some True\<rparr>) =
     (\<lambda>r. by_provider d p r \<and> us_finished_at r = None)"
  using upstream_authenticated_claims [of d p sub sid]
  by (auto simp: fun_eq_iff browser_filter_matches_def authenticated_by_def opt_filter_def by_provider_def
      state_matches_def)

definition finish_browser :: "db \<Rightarrow> ulid \<Rightarrow> time \<Rightarrow> user_session_row \<Rightarrow> user_session_row" where
  "finish_browser d p t r =
     (if by_provider d p r \<and> us_finished_at r = None then r\<lparr>us_finished_at := Some t\<rparr> else r)"

lemma finish_upstream_browsers:
  "browser_session_finish_bulk ((authenticated_by (upstream_filter p sub sid))\<lparr>bf_state := Some True\<rparr>) w =
     (Inr n, w') \<Longrightarrow>
   w' = (tick w)\<lparr>w_db := (w_db w)\<lparr>user_sessions :=
      map (finish_browser (w_db w) p (clock_reading w)) (user_sessions (w_db w))\<rparr>\<rparr> \<and> db_ok (w_db w')"
  by (auto simp: browser_session_finish_bulk_def run_simps upd_rows_def finish_browser_def)

text \<open>The OAuth 2.0 sessions: every active one that was started from a browser.\<close>

definition finish_browser_started :: "time \<Rightarrow> session_row \<Rightarrow> session_row" where
  "finish_browser_started t r =
     (if os_user_session_id r \<noteq> None \<and> os_finished_at r = None then r\<lparr>os_finished_at := Some t\<rparr> else r)"

lemma finish_browser_sessions_oauth2:
  assumes run: "oauth2_session_finish_bulk (for_browser_sessions (authenticated_by f)) w = (Inr n, w')"
    and ok: "db_ok (w_db w)"
  shows "w_db w' = put_sessions (map (finish_browser_started (clock_reading w)) (oauth2_sessions (w_db w)))
      (w_db w)" "w_committed w' = w_committed w" "db_ok (w_db w')"
proof -
  let ?S = "oauth2_sessions (w_db w)" and ?f = "for_browser_sessions (authenticated_by f)"
  have ref: "i \<in> us_id ` set (user_sessions (w_db w))" if "r \<in> set ?S" "os_user_session_id r = Some i" for r i
    using ok that by (auto simp: db_ok_def violations_defs)
  have match: "session_filter_matches (w_db w) ?f r \<longleftrightarrow> os_user_session_id r \<noteq> None \<and> os_finished_at r = None"
    if "r \<in> set ?S" for r
    using ref [OF that]
    by (auto simp: session_filter_matches_def for_browser_sessions_def authenticated_by_def opt_filter_def
        filtered_browser_sessions_def state_matches_def split: option.split)
  have inj: "inj_on os_id (set ?S)"
    using db_ok_distinct(4) [OF ok] by (simp add: distinct_map)
  have sel: "os_id r \<in> os_id ` {r \<in> set ?S. session_filter_matches (w_db w) ?f r} \<longleftrightarrow>
      os_user_session_id r \<noteq> None \<and> os_finished_at r = None" if "r \<in> set ?S" for r
    using that match inj by (auto simp: inj_on_def)
  have "upd_rows (\<lambda>r. os_id r \<in> os_id ` {r \<in> set ?S. session_filter_matches (w_db w) ?f r})
      (\<lambda>r. r\<lparr>os_finished_at := Some (clock_reading w)\<rparr>) ?S =
      map (finish_browser_started (clock_reading w)) ?S"
    unfolding upd_rows_def finish_browser_started_def using sel by (intro map_cong) simp_all
  then show "w_db w' = put_sessions (map (finish_browser_started (clock_reading w)) ?S) (w_db w)"
    "w_committed w' = w_committed w" "db_ok (w_db w')"
    using run by (auto simp: oauth2_session_finish_bulk_def run_simps Let_def)
qed

lemma schedule_syncs_frame:
  "keeps (view_is (\<lambda>d. d\<lparr>queue_jobs := []\<rparr>) x) (forE ids (\<lambda>i. map_err BE_Repository (schedule_device_sync e i)))"
  unfolding schedule_device_sync_def
  by (intro keeps_forE keeps_map_err view_schedule_job) simp

lemma logout_all_Inr:
  assumes run: "logout_all e (authenticated_by (upstream_filter p sub sid)) w = (Inr (), w')"
    and ok: "db_ok (w_db w)"
  shows "(w_db w')\<lparr>queue_jobs := []\<rparr> = (w_db w)\<lparr>queue_jobs := [],
      user_sessions := map (finish_browser (w_db w) p (clock_reading w)) (user_sessions (w_db w)),
      oauth2_sessions := map (finish_browser_started (clock_reading (tick w))) (oauth2_sessions (w_db w))\<rparr>"
proof -
  let ?f = "authenticated_by (upstream_filter p sub sid)"
  obtain ids where ids: "affected_users (Suc (length (user_sessions (w_db w)))) (e_ulid_string e) ?f
      (pagination_first 1000) [] w = (Inr (Some ids), w)"
    using affected_users_complete [OF ok lessI] by metis
  from run ids obtain n1 w1 n2 w2 where
    r1: "browser_session_finish_bulk (?f\<lparr>bf_state := Some True\<rparr>) w = (Inr n1, w1)"
    and r2: "oauth2_session_finish_bulk (for_browser_sessions ?f) w1 = (Inr n2, w2)"
    and r3: "forE ids (\<lambda>i. map_err BE_Repository (schedule_device_sync e i)) w2 = (Inr (), w')"
    by (auto simp: logout_all_def bindE_Inr thenE_Inr map_err_Inr query_run ok_or_Inr)
  note b = finish_upstream_browsers [OF r1]
  note o = finish_browser_sessions_oauth2 [OF r2 b [THEN conjunct2]]
  have clock: "clock_reading w1 = clock_reading (tick w)"
    using b by (simp add: clock_reading_def)
  show ?thesis
    unfolding view_isD [OF schedule_syncs_frame r3] o(1) clock
    using b by (intro db.equality) simp_all
qed

lemma backchannel_logout_all_Inr:
  assumes run: "backchannel_logout e LogoutAll p sub sid w = (Inr (), w')" and ok: "db_ok (w_db w)"
  shows "w_committed w' = w_db w'"
    "oauth2_sessions (w_db w') =
       map (finish_browser_started (clock_reading (tick w))) (oauth2_sessions (w_db w))"
    "user_sessions (w_db w') = map (finish_browser (w_db w) p (clock_reading w)) (user_sessions (w_db w))"
    "oauth2_refresh_tokens (w_db w') = oauth2_refresh_tokens (w_db w)"
    "oauth2_authorization_grants (w_db w') = oauth2_authorization_grants (w_db w)"
proof -
  from run obtain w1 where all: "logout_all e (authenticated_by (upstream_filter p sub sid)) w = (Inr (), w1)"
    and w': "w_db w' = w_db w1" "w_committed w' = w_db w1"
    by (auto simp: backchannel_logout_def thenE_Inr ensure_Inr save_def Let_def)
  show "w_committed w' = w_db w'"
    by (simp add: w')
  note eq = logout_all_Inr [OF all ok]
  show "oauth2_sessions (w_db w') =
       map (finish_browser_started (clock_reading (tick w))) (oauth2_sessions (w_db w))"
    using arg_cong [OF eq, of oauth2_sessions] by (simp add: w')
  show "user_sessions (w_db w') = map (finish_browser (w_db w) p (clock_reading w)) (user_sessions (w_db w))"
    using arg_cong [OF eq, of user_sessions] by (simp add: w')
  show "oauth2_refresh_tokens (w_db w') = oauth2_refresh_tokens (w_db w)"
    using arg_cong [OF eq, of oauth2_refresh_tokens] by (simp add: w')
  show "oauth2_authorization_grants (w_db w') = oauth2_authorization_grants (w_db w)"
    using arg_cong [OF eq, of oauth2_authorization_grants] by (simp add: w')
qed

text \<open>The subject and the session identifier of the logout token make no difference.\<close>

lemma affected_users_claims:
  "affected_users n us (authenticated_by (upstream_filter p sub sid)) c ids =
   affected_users n us (authenticated_by (upstream_filter p sub' sid')) c ids"
proof (induction n arbitrary: c ids)
  case (Suc n)
  have "browser_session_list us (authenticated_by (upstream_filter p sub sid)) c =
      browser_session_list us (authenticated_by (upstream_filter p sub' sid')) c"
    by (simp add: browser_session_list_def)
  then show ?case
    unfolding affected_users.simps Suc.IH by simp
qed simp

lemma finish_bulk_claims:
  "browser_session_finish_bulk ((authenticated_by (upstream_filter p sub sid))\<lparr>bf_state := Some True\<rparr>) =
   browser_session_finish_bulk ((authenticated_by (upstream_filter p sub' sid'))\<lparr>bf_state := Some True\<rparr>)"
  "oauth2_session_finish_bulk (for_browser_sessions (authenticated_by (upstream_filter p sub sid))) =
   oauth2_session_finish_bulk (for_browser_sessions (authenticated_by (upstream_filter p sub' sid')))"
proof -
  have eq: "session_filter_matches d (for_browser_sessions (authenticated_by f)) =
      session_filter_matches d (for_browser_sessions (authenticated_by f'))" for d f f'
    by (simp add: fun_eq_iff session_filter_matches_def for_browser_sessions_def authenticated_by_def
        opt_filter_def filtered_browser_sessions_def split: option.split)
  show "oauth2_session_finish_bulk (for_browser_sessions (authenticated_by (upstream_filter p sub sid))) =
      oauth2_session_finish_bulk (for_browser_sessions (authenticated_by (upstream_filter p sub' sid')))"
    unfolding oauth2_session_finish_bulk_def
      eq [of _ "upstream_filter p sub sid" "upstream_filter p sub' sid'"] ..
qed (simp add: browser_session_finish_bulk_def)

lemma backchannel_claims:
  assumes "sub \<noteq> None \<or> sid \<noteq> None" and "sub' \<noteq> None \<or> sid' \<noteq> None"
  shows "backchannel_logout e on_logout p sub sid = backchannel_logout e on_logout p sub' sid'"
proof -
  have "(ensure (sub \<noteq> None \<or> sid \<noteq> None) BE_NoSubOrSidClaim :: (backchannel_error, unit) io) =
      ensure (sub' \<noteq> None \<or> sid' \<noteq> None) BE_NoSubOrSidClaim"
    using assms by simp
  then show ?thesis
    unfolding backchannel_logout_def logout_all_def Let_def
      affected_users_claims [of _ _ p sub sid _ _ sub' sid'] finish_bulk_claims [of p sub sid sub' sid']
    by simp
qed

lemma backchannel_fails_clean: "fails_clean (backchannel_logout e on_logout p sub sid)"
proof -
  have users: "keeps (committed_is d) (affected_users n us f c ids)" for d n us f c ids
    by (induction n arbitrary: c ids) (auto simp: browser_session_list_def Let_def intro!: keeps_bindE)
  have bulk: "keeps (committed_is d) (browser_session_finish_bulk f)"
    "keeps (committed_is d) (oauth2_session_finish_bulk g)" for d f g
    unfolding browser_session_finish_bulk_def oauth2_session_finish_bulk_def by (auto intro!: keeps_bindE)
  have sched: "keeps (committed_is d) (schedule_device_sync e i)" for d i
    unfolding schedule_device_sync_def schedule_job_def schedule_def by (auto intro!: keeps_bindE)
  have "keeps (committed_is d) (logout_all e f)" for d f
    unfolding logout_all_def using users bulk sched
    by (auto simp del: affected_users.simps intro!: keeps_bindE keeps_thenE keeps_forE keeps_map_err)
  moreover have "fails_clean save"
    by (simp add: fails_clean_def save_def)
  ultimately show ?thesis
    unfolding backchannel_logout_def Let_def using bulk
    by (intro fails_clean_thenE)
      (auto split: on_backchannel_logout.split intro!: keeps_thenE keeps_map_err)
qed

end
