(* ===== verification/Guards.thy ===== *)
theory Guards
  imports Consent Upstream_Logout
begin

text \<open>
  Properties of the database that the handlers keep, both in the view of the transaction and in what
  is committed. \<open>guards Q\<close> asks for the constraints and \<open>Q\<close> in both; the locales \<open>frame\<close> and
  \<open>token_frame\<close> say which writes \<open>Q\<close> has to survive, and every handler keeps a \<open>Q\<close> that does.
\<close>

definition guards :: "(db \<Rightarrow> bool) \<Rightarrow> world \<Rightarrow> bool" where
  "guards Q w \<longleftrightarrow> db_ok (w_db w) \<and> db_ok (w_committed w) \<and> Q (w_db w) \<and> Q (w_committed w)"

lemma guards_drop_repo [simp]: "guards Q (drop_repo w) \<longleftrightarrow> db_ok (w_committed w) \<and> Q (w_committed w)"
  by (auto simp: guards_def drop_repo_def)

lemma guards_effects [intro!]:
  "keeps (guards Q) now" "keeps (guards Q) (draw f)" "keeps (guards Q) (draw_id t)"
  "keeps (guards Q) (query g)" "keeps (guards Q) save"
  "keeps (guards Q) (record_oauth2_session ip s)"
  "keeps (guards Q) (record_personal_session ip ps)"
  "keeps (guards Q) (acquire_lock_for_sync user)"
  "keeps (guards Q) (upsert_device e err un di dn)"
  by (simp_all add: keeps_def guards_def now_run draw_def draw_id_def query_run save_def
      record_oauth2_session_def record_personal_session_def acquire_lock_for_sync_def upsert_device_def)

lemma guards_provision [intro!]: "keeps (guards Q) (provision_devices e err u ids dn)"
  unfolding provision_devices_def by (auto intro!: keeps_forE)

lemma guards_id_token [intro!]: "keeps (guards Q) (generate_id_token e c g b at la)"
  unfolding generate_id_token_def Let_def by (auto intro!: keeps_bindE)

lemma guards_execute:
  "(\<And>d. Q d \<Longrightarrow> Q (snd (f d))) \<Longrightarrow> keeps (guards Q) (execute f)"
  by (auto simp: keeps_def guards_def execute_def db_ok_def split: prod.splits list.splits)
    (metis snd_conv)

lemma guards_insert_row:
  "(\<And>t d. Q d \<Longrightarrow> Q (put t d)) \<Longrightarrow> keeps (guards Q) (insert_row get put r)"
  unfolding insert_row_def by (rule guards_execute) simp

lemma guards_update_table:
  "(\<And>t d. Q d \<Longrightarrow> Q (put t d)) \<Longrightarrow> keeps (guards Q) (update_table get put p f)"
  unfolding update_table_def by (rule guards_execute) simp

lemma guards_update_then_transition:
  "(\<And>t d. Q d \<Longrightarrow> Q (put t d)) \<Longrightarrow>
     keeps (guards Q) (update_then_transition get put key ident upd tr m)"
  unfolding update_then_transition_def by (auto intro!: keeps_bindE keeps_thenE guards_update_table)

lemma guards_transition_then_update:
  "(\<And>t d. Q d \<Longrightarrow> Q (put t d)) \<Longrightarrow>
     keeps (guards Q) (transition_then_update get put key ident upd tr m)"
  unfolding transition_then_update_def by (auto intro!: keeps_bindE keeps_thenE guards_update_table)

lemma guards_request:
  assumes "keeps (guards Q) m"
  shows "keeps (guards Q) (request m)"
proof -
  have "guards Q (snd (request m w))" if w: "guards Q w" for w
  proof (cases "m w")
    case (Pair r w1)
    then have "guards Q w1"
      using keepsD [OF assms Pair w] by simp
    with Pair show ?thesis
      by (cases r) (auto simp: request_def guards_def drop_repo_def save_def)
  qed
  then show ?thesis
    by (simp add: keeps_def)
qed

lemma keeps_case_prod [intro!]: "(\<And>x y. keeps P (f x y)) \<Longrightarrow> keeps P (case p of (x, y) \<Rightarrow> f x y)"
  by (cases p) simp

section \<open>Handlers that leave the token tables alone\<close>

text \<open>A session row may change, but it keeps its identity and an ended session stays ended.\<close>

definition advances :: "(session_row \<Rightarrow> session_row) \<Rightarrow> bool" where
  "advances f \<longleftrightarrow> (\<forall>r. os_id (f r) = os_id r \<and> (os_finished_at r \<noteq> None \<longrightarrow> os_finished_at (f r) \<noteq> None))"

locale frame =
  fixes Q :: "db \<Rightarrow> bool"
  assumes q_new_session: "Q d \<Longrightarrow> Q (d\<lparr>oauth2_sessions := oauth2_sessions d @ [r]\<rparr>)"
    and q_sessions: "Q d \<Longrightarrow> advances f \<Longrightarrow> Q (d\<lparr>oauth2_sessions := map f (oauth2_sessions d)\<rparr>)"
    and q_access_tokens: "Q d \<Longrightarrow> Q (d\<lparr>oauth2_access_tokens := t2\<rparr>)"
    and q_device_grants: "Q d \<Longrightarrow> Q (d\<lparr>oauth2_device_code_grant := t3\<rparr>)"
    and q_jobs: "Q d \<Longrightarrow> Q (d\<lparr>queue_jobs := t4\<rparr>)"
    and q_personal_sessions: "Q d \<Longrightarrow> Q (d\<lparr>personal_sessions := t5\<rparr>)"
    and q_personal_tokens: "Q d \<Longrightarrow> Q (d\<lparr>personal_access_tokens := t6\<rparr>)"
    and q_users: "Q d \<Longrightarrow> Q (d\<lparr>users := t7\<rparr>)"
    and q_user_sessions: "Q d \<Longrightarrow> Q (d\<lparr>user_sessions := t8\<rparr>)"
    and q_emails: "Q d \<Longrightarrow> Q (d\<lparr>user_emails := t9\<rparr>)"
begin

lemmas q_writes = q_access_tokens q_device_grants q_jobs q_personal_sessions
  q_personal_tokens q_users q_user_sessions q_emails

lemmas q_statements = guards_execute guards_insert_row guards_update_table
  guards_update_then_transition guards_transition_then_update

lemma guards_reads [intro!]:
  "keeps (guards Q) (user_lookup us i)" "keeps (guards Q) (oauth2_session_lookup i)"
  "keeps (guards Q) (browser_session_lookup us i)" "keeps (guards Q) (client_lookup i)"
  "keeps (guards Q) (access_token_lookup i)" "keeps (guards Q) (refresh_token_lookup i)"
  "keeps (guards Q) (access_token_find_by_token t)" "keeps (guards Q) (refresh_token_find_by_token t)"
  "keeps (guards Q) (personal_token_find_by_token h t)" "keeps (guards Q) (personal_session_lookup i)"
  "keeps (guards Q) (get_last_authentication b)"
  unfolding user_lookup_def oauth2_session_lookup_def browser_session_lookup_def client_lookup_def
    access_token_lookup_def refresh_token_lookup_def access_token_find_by_token_def
    refresh_token_find_by_token_def personal_token_find_by_token_def personal_session_lookup_def
    get_last_authentication_def
  by (auto intro!: keeps_bindE)

text \<open>The statements on \<open>oauth2_sessions\<close>.\<close>

lemma q_upd_sessions:
  "Q d \<Longrightarrow> (\<And>r. os_id (f r) = os_id r) \<Longrightarrow>
     (\<And>r. os_finished_at r \<noteq> None \<Longrightarrow> os_finished_at (f r) \<noteq> None) \<Longrightarrow>
     Q (put_sessions (upd_rows p f (oauth2_sessions d)) d)"
  unfolding upd_rows_def by (rule q_sessions) (auto simp: advances_def)

lemma guards_session_statements [intro!]:
  "keeps (guards Q) (oauth2_session_finish s)" "keeps (guards Q) (record_agent ua s)"
  "keeps (guards Q) (oauth2_session_add c u b sc)" "keeps (guards Q) (oauth2_session_finish_bulk sf)"
proof -
  have upd: "keeps (guards Q) (update_table oauth2_sessions put_sessions p f)"
    if "\<And>r. os_id (f r) = os_id r" "\<And>r. os_finished_at r \<noteq> None \<Longrightarrow> os_finished_at (f r) \<noteq> None" for p f
    unfolding update_table_def by (rule guards_execute) (simp add: q_upd_sessions that)
  show "keeps (guards Q) (oauth2_session_finish s)" "keeps (guards Q) (record_agent ua s)"
    unfolding oauth2_session_finish_def update_then_transition_def record_agent_def record_user_agent_def
    by (auto simp: finish_row_def intro!: keeps_bindE keeps_thenE upd split: option.split)
  show "keeps (guards Q) (oauth2_session_finish_bulk sf)"
    unfolding oauth2_session_finish_bulk_def Let_def
    by (auto intro!: keeps_bindE guards_execute q_upd_sessions)
  show "keeps (guards Q) (oauth2_session_add c u b sc)"
    unfolding oauth2_session_add_def insert_row_def
    by (auto intro!: keeps_bindE keeps_thenE guards_execute q_new_session)
qed

lemma guards_sessions [intro!]:
  "keeps (guards Q) (access_token_mark_used a)"
  "keeps (guards Q) (access_token_add s tok ttl)" "keeps (guards Q) (access_token_revoke_op a)"
  "keeps (guards Q) (personal_token_revoke_op pt)" "keeps (guards Q) (personal_session_revoke_op ps)"
  unfolding access_token_mark_used_def access_token_add_def access_token_revoke_op_def
    personal_token_revoke_op_def personal_session_revoke_op_def
  by (auto intro!: keeps_bindE keeps_thenE q_statements q_writes split: option.split)

lemma guards_jobs [intro!]: "keeps (guards Q) (schedule_device_sync e i)"
  unfolding schedule_device_sync_def schedule_job_def schedule_def
  by (auto intro!: keeps_bindE keeps_thenE q_statements q_writes)

lemma guards_introspection: "keeps (guards Q) (introspect_token e token hint)"
proof -
  have subj: "keeps (guards Q) (session_subject e s)" for s
    by (auto simp: session_subject_def load_valid_user_def intro!: keeps_bindE keeps_thenE
        split: option.split)
  have sess: "keeps (guards Q) (load_valid_session i)" for i
    by (auto simp: load_valid_session_def intro!: keeps_bindE keeps_thenE)
  have left: "keeps (guards Q) (expires_in t)" for t
    by (auto simp: expires_in_def intro!: keeps_bindE split: option.split)
  have "keeps (guards Q) (introspect_access_token e token)"
    unfolding introspect_access_token_def load_access_token_def note_first_use_def
    by (auto intro!: keeps_bindE keeps_thenE subj sess left)
  moreover have "keeps (guards Q) (introspect_refresh_token e token)"
    unfolding introspect_refresh_token_def load_refresh_token_def
    by (auto intro!: keeps_bindE keeps_thenE subj sess left)
  moreover have "keeps (guards Q) (introspect_personal_token e token)"
    unfolding introspect_personal_token_def load_personal_token_def personal_owner_def
      load_valid_user_def
    by (auto intro!: keeps_bindE keeps_thenE left split: personal_session_owner.split)
  ultimately show ?thesis
    unfolding introspect_token_def
    by (auto intro!: keeps_bindE keeps_thenE split: option.split token_type.split)
qed

lemma guards_revocation: "keeps (guards Q) (revoke_token e ip token hint client_id)"
proof -
  have "keeps (guards Q) (session_to_end hint tt token)" for tt
    by (cases "(hint, tt, token)" rule: session_to_end.cases)
      (auto simp: find_access_for_revocation_def find_refresh_for_revocation_def
        intro!: keeps_bindE keeps_thenE)
  moreover have "keeps (guards Q) (sync_session_user e s)" for s
    unfolding sync_session_user_def by (auto intro!: keeps_bindE split: option.split)
  ultimately show ?thesis
    unfolding revoke_token_def revoke_personal_token_def revoke_oauth2_token_def
      load_personal_for_revocation_def load_session_to_end_def
    by (auto intro!: keeps_bindE keeps_thenE)
qed

lemma guards_bulk [intro!]:
  "keeps (guards Q) (browser_session_finish_bulk bf)"
  "keeps (guards Q) (personal_session_revoke_bulk pf)" "keeps (guards Q) (email_remove_bulk lo lc ef)"
  "keeps (guards Q) (user_deactivate u)"
  unfolding browser_session_finish_bulk_def
    personal_session_revoke_bulk_def email_remove_bulk_def user_deactivate_def user_patch_op_def
    update_user_def
  by (auto simp: Let_def intro!: keeps_bindE keeps_thenE q_statements q_writes split: option.split)

lemma guards_deactivation:
  "keeps (guards Q) (run_deactivate_user e lower to_lowercase delete_user i hs_erase)"
  unfolding run_deactivate_user_def deactivate_locally_def terminate_all_sessions_for_def retry_on_def
  by (auto intro!: keeps_bindE keeps_thenE)

lemma guards_logout: "keeps (guards Q) (backchannel_logout e on_logout p sub sid)"
proof -
  have users: "keeps (guards Q) (affected_users n us f c ids)" for n us f c ids
    by (induction n arbitrary: c ids) (auto simp: browser_session_list_def Let_def intro!: keeps_bindE)
  have "keeps (guards Q) (logout_all e f)" for f
    unfolding logout_all_def using users
    by (auto simp del: affected_users.simps intro!: keeps_bindE keeps_thenE keeps_forE keeps_map_err)
  then show ?thesis
    unfolding backchannel_logout_def Let_def
    by (auto split: on_backchannel_logout.split intro!: keeps_thenE keeps_map_err)
qed

lemma guards_device_grants [intro!]:
  "keeps (guards Q) (device_grant_add dp)" "keeps (guards Q) (device_grant_lookup i)"
  "keeps (guards Q) (find_by_device_code dc)" "keeps (guards Q) (device_grant_exchange_op s dg)"
  "keeps (guards Q) (device_grant_fulfill_op b dg)" "keeps (guards Q) (device_grant_reject_op b dg)"
  unfolding device_grant_add_def device_grant_lookup_def find_by_device_code_def
    device_grant_exchange_op_def device_grant_fulfill_op_def device_grant_reject_op_def
  by (auto intro!: keeps_bindE keeps_thenE q_statements q_writes)

lemma guards_device_consent: "keeps (guards Q) (submit_device_consent policy b i action ip ua)"
  unfolding submit_device_consent_def load_device_client_def decide_device_def
  by (auto intro!: keeps_bindE keeps_thenE keeps_map_err split: device_consent_action.split)

lemma guards_device_authorization:
  "keeps (guards Q) (device_authorization_post ip ua device_code user_code sc c)"
  unfolding device_authorization_post_def Let_def by (auto intro!: keeps_bindE keeps_thenE)

end

section \<open>The token endpoint\<close>

text \<open>
  The token endpoint also writes refresh tokens, and it marks authorization grants as exchanged.
\<close>

locale token_frame = frame +
  assumes q_refresh_tokens: "Q d \<Longrightarrow> Q (d\<lparr>oauth2_refresh_tokens := t10\<rparr>)"
    and q_exchange: "Q d \<Longrightarrow> Q (d\<lparr>oauth2_authorization_grants :=
          upd_rows (\<lambda>r. og_id r = i) (exchange_grant_row at) (oauth2_authorization_grants d)\<rparr>)"
begin

lemma guards_token_storage [intro!]:
  "keeps (guards Q) (refresh_token_add s a tok)" "keeps (guards Q) (refresh_token_consume_op r n)"
  "keeps (guards Q) (refresh_token_revoke_op r)" "keeps (guards Q) (find_by_code up code)"
  unfolding refresh_token_add_def refresh_token_consume_op_def refresh_token_revoke_op_def find_by_code_def
  by (auto intro!: keeps_bindE keeps_thenE q_statements q_refresh_tokens)

lemma guards_grant_exchange [intro!]: "keeps (guards Q) (grant_exchange_op g)"
proof -
  have "keeps (guards Q) (update_table oauth2_authorization_grants put_grants (\<lambda>r. og_id r = i)
      (exchange_grant_row at))" for i at
    unfolding update_table_def by (rule guards_execute) (simp add: q_exchange)
  then show ?thesis
    unfolding grant_exchange_op_def transition_then_update_def update_then_transition_def
    by (auto intro!: keeps_bindE keeps_thenE)
qed

lemma guards_token_steps [intro!]:
  "keeps (guards Q) (session_may_keep_admin_scope e s)" "keeps (guards Q) (end_session err s)"
  "keeps (guards Q) (generate_token_pair e s ttl)" "keeps (guards Q) (issue_id_token e c g b a la s ie)"
  "keeps (guards Q) (check_pkce e ch v)"
  unfolding session_may_keep_admin_scope_def end_session_def generate_token_pair_def issue_id_token_def
    check_pkce_def
  by (auto intro!: keeps_bindE keeps_thenE keeps_map_err split: option.split)

lemma guards_code_exchange: "keeps (guards Q) (exchange_authorization_code e ip ua q c)"
proof -
  have redeem: "keeps (guards Q) (redeem_grant at g)" for at g
    unfolding redeem_grant_def replayed_code_def
    by (auto intro!: keeps_bindE keeps_thenE split: grant_stage.split)
  have checks: "keeps (guards Q) (check_code_owner e q c g s)" "keeps (guards Q) (check_code_admin e s)"
    "keeps (guards Q) (load_browser_session e i s)" "keeps (guards Q) (render_device_name e g c ua)"
    "keeps (guards Q) (load_grant e q c)" for g s i
    unfolding check_code_owner_def check_code_admin_def load_browser_session_def render_device_name_def
      load_grant_def Let_def
    by (auto intro!: keeps_bindE keeps_thenE)
  have "keeps (guards Q) (issue_code_tokens e c g s b)" "keeps (guards Q) (finish_code_exchange e ip g s b dn)"
    for g s b dn
    unfolding issue_code_tokens_def finish_code_exchange_def
    by (auto intro!: keeps_bindE keeps_thenE keeps_map_err)
  with redeem checks show ?thesis
    unfolding exchange_authorization_code_def
    by (intro keeps_bindE keeps_thenE keeps_map_err keeps_ok_or keeps_ret guards_effects guards_reads
        guards_session_statements)
qed

lemma guards_refresh: "keeps (guards Q) (handle_refresh_token e ip ua token c)"
proof -
  have "keeps (guards Q) (load_refresh_session ua token c)" "keeps (guards Q) (check_refresh_session e c s)" for s
    unfolding load_refresh_session_def check_refresh_session_def
    by (auto intro!: keeps_bindE keeps_thenE keeps_map_err)
  moreover have "keeps (guards Q) (double_refresh r)" for r
    unfolding double_refresh_def load_next_tokens_def
    by (auto intro!: keeps_bindE keeps_thenE keeps_map_err)
  moreover have "keeps (guards Q) (rotate_tokens e r s)" for r s
    unfolding rotate_tokens_def revoke_old_access_token_def
    by (auto simp: whenE_def intro!: keeps_bindE keeps_thenE split: option.split)
  ultimately show ?thesis
    unfolding handle_refresh_token_def by (auto intro!: keeps_bindE keeps_thenE keeps_map_err)
qed

lemma guards_client_credentials: "keeps (guards Q) (handle_client_credentials e ip ua sc c)"
  unfolding handle_client_credentials_def check_policy_def issue_client_token_def
    add_from_client_credentials_def Let_def
  by (auto intro!: keeps_bindE keeps_thenE keeps_map_err)

lemma guards_device_exchange: "keeps (guards Q) (exchange_device_code e ip ua dc c)"
proof -
  have "keeps (guards Q) (load_device_grant dc c)" "keeps (guards Q) (approving_session st)" for st
    unfolding load_device_grant_def approving_session_def
    by (auto intro!: keeps_bindE keeps_thenE keeps_map_err split: device_state.split)
  moreover have "keeps (guards Q) (start_device_session e ua c g b)"
    "keeps (guards Q) (issue_device_tokens e c s b)" for g b s
    unfolding start_device_session_def issue_device_tokens_def add_from_browser_session_def
    by (auto intro!: keeps_bindE keeps_thenE keeps_map_err)
  ultimately show ?thesis
    unfolding exchange_device_code_def by (auto intro!: keeps_bindE keeps_thenE keeps_map_err)
qed

lemma guards_token_post: "keeps (guards Q) (token_post e ip ua c form)"
proof -
  have "keeps (guards Q) (dispatch_grant e ip ua c q)" for q
    unfolding dispatch_grant_def using guards_code_exchange guards_refresh guards_client_credentials
      guards_device_exchange
    by (auto intro!: keeps_map_err split: token_request.split)
  then show ?thesis
    unfolding token_post_def by (intro guards_request keeps_bindE keeps_ok_or)
qed

end

end
