(* ===== verification/System.thy ===== *)
theory System
  imports Guards
begin

text \<open>
  The server as a whole: one request after another, each in a transaction of its own on what the
  requests before it committed. \<open>serve\<close> is one request (or the deactivation job); the lemmas show
  what every sequence of requests keeps, whatever the arguments of the requests are.
\<close>

inductive serve :: "world \<Rightarrow> world \<Rightarrow> bool" where
  token: "token_post e ip ua c form (drop_repo w) = (r, w') \<Longrightarrow> serve w w'"
| authorize: "authorization_get api us ulid_parse ip language cookie q (drop_repo w) = Some (r, w') \<Longrightarrow>
    serve w w'"
| consent: "accept_authorization_consent e api policy b i ip ua (drop_repo w) = (r, w') \<Longrightarrow> serve w w'"
| device_authorize: "device_authorization_post ip ua device_code user_code sc c (drop_repo w) = (r, w') \<Longrightarrow>
    serve w w'"
| device_consent: "submit_device_consent policy b i action ip ua (drop_repo w) = (r, w') \<Longrightarrow> serve w w'"
| introspect: "introspection_post e tok hint (drop_repo w) = (r, w') \<Longrightarrow> serve w w'"
| revoke: "revoke_post e ip tok hint client_id (drop_repo w) = (r, w') \<Longrightarrow> serve w w'"
| logout: "backchannel_logout e on_logout p sub sid (drop_repo w) = (r, w') \<Longrightarrow> serve w w'"
| deactivate: "run_deactivate_user e lower to_lowercase delete_user i hs_erase (drop_repo w) = (r, w') \<Longrightarrow>
    serve w w'"

abbreviation served :: "world \<Rightarrow> world \<Rightarrow> bool" where
  "served \<equiv> serve\<^sup>*\<^sup>*"

section \<open>What the handlers keep\<close>

definition token_tables :: "db \<Rightarrow> refresh_token_row list \<times> grant_row list" where
  "token_tables d = (oauth2_refresh_tokens d, oauth2_authorization_grants d)"

definition code_spent :: "string \<Rightarrow> db \<Rightarrow> bool" where
  "code_spent code d \<longleftrightarrow>
     (\<exists>g \<in> set (oauth2_authorization_grants d). og_authorization_code g = Some code \<and> og_exchanged_at g \<noteq> None)"

definition session_over :: "ulid \<Rightarrow> db \<Rightarrow> bool" where
  "session_over i d \<longleftrightarrow> (\<exists>r \<in> set (oauth2_sessions d). os_id r = i \<and> os_finished_at r \<noteq> None)"

interpretation frozen: frame "\<lambda>d. token_tables d = x" for x
  by unfold_locales (simp_all add: token_tables_def)

interpretation lawful: token_frame "\<lambda>_. True"
  by unfold_locales simp_all

lemma code_spent_upd:
  assumes "code_spent code d" and "\<And>r. og_authorization_code (f r) = og_authorization_code r"
    and "\<And>r. og_exchanged_at r \<noteq> None \<Longrightarrow> og_exchanged_at (f r) \<noteq> None"
  shows "code_spent code (put_grants (upd_rows p f (oauth2_authorization_grants d)) d)"
proof -
  from assms(1) obtain g where g: "g \<in> set (oauth2_authorization_grants d)"
    "og_authorization_code g = Some code" "og_exchanged_at g \<noteq> None"
    by (auto simp: code_spent_def)
  then show ?thesis
    unfolding code_spent_def upd_rows_def
    by (intro bexI [of _ "if p g then f g else g"]) (use assms(2,3) in auto)
qed

interpretation spent: token_frame "code_spent code" for code
proof unfold_locales
  show "code_spent code d \<Longrightarrow> code_spent code (put_grants (upd_rows (\<lambda>r. og_id r = i) (exchange_grant_row at)
      (oauth2_authorization_grants d)) d)" for d i at
    by (rule code_spent_upd) (simp_all add: exchange_grant_row_def)
qed (simp_all add: code_spent_def)

interpretation over: token_frame "session_over i" for i
  by unfold_locales (auto simp: session_over_def advances_def)

lemma guards_end:
  assumes "keeps (guards Q) m" "db_ok (w_committed w)" "Q (w_committed w)" "m (drop_repo w) = (r, w')"
  shows "db_ok (w_committed w') \<and> Q (w_committed w')"
proof -
  have "guards Q (drop_repo w)"
    using assms(2,3) by simp
  then show ?thesis
    using keepsD [OF assms(1,4)] by (simp add: guards_def)
qed

text \<open>Every request keeps a property that the token endpoint keeps, once grants and consent do too.\<close>

lemma serve_keeps:
  assumes q: "token_frame Q" and step: "serve w w'" and c: "db_ok (w_committed w)" "Q (w_committed w)"
    and grant: "\<And>i t p d. Q d \<Longrightarrow> Q (put_grants (oauth2_authorization_grants d @ [new_grant_row i t p]) d)"
    and fulfil: "\<And>i s t d. Q d \<Longrightarrow> Q (put_grants (upd_rows (\<lambda>r. og_id r = i) (fulfill_grant_row s t)
        (oauth2_authorization_grants d)) d)"
  shows "db_ok (w_committed w') \<and> Q (w_committed w')"
proof -
  have w: "guards Q (drop_repo w)"
    using c by simp
  have db: "w_committed (drop_repo w) = w_committed w" "w_db (drop_repo w) = w_committed w"
    by (simp_all add: drop_repo_def)
  have f: "frame Q"
    using q by (rule token_frame.axioms)
  note kept = guards_end [where Q = Q and w = w, OF _ c]
  show ?thesis
    using step
  proof cases
    case token
    then show ?thesis
      by (rule kept [OF token_frame.guards_token_post [OF q]])
  next
    case authorize
    from authorization_get_effect [OF authorize] show ?thesis
      using c grant by (auto simp: db)
  next
    case (consent e api policy b i ip ua r)
    show ?thesis
    proof (cases r)
      case (Inl err)
      with consent c show ?thesis
        using fails_cleanD [OF accept_consent_fails_clean] by (simp add: db)
    next
      case (Inr dec)
      from consent have run: "accept_authorization_consent e api policy b i ip ua (drop_repo w) = (Inr dec, w')"
        by (simp add: Inr)
      have "\<exists>g cl. consented b cl g (cn_session dec) (w_committed w) (w_db w')
          \<and> w_committed w' = w_db w' \<and> db_ok (w_db w') \<or> w_committed w' = w_committed w"
        by (rule accept_consent_Inr [OF run]) (metis db)
      then obtain g cl where "consented b cl g (cn_session dec) (w_committed w) (w_db w')
          \<and> w_committed w' = w_db w' \<and> db_ok (w_db w') \<or> w_committed w' = w_committed w"
        by blast
      then show ?thesis
      proof
        assume "w_committed w' = w_committed w"
        with c show ?thesis by simp
      next
        assume con: "consented b cl g (cn_session dec) (w_committed w) (w_db w')
          \<and> w_committed w' = w_db w' \<and> db_ok (w_db w')"
        then obtain row t where "w_db w' = put_grants (upd_rows (\<lambda>r. og_id r = ag_id g)
            (fulfill_grant_row (s_id (cn_session dec)) t) (oauth2_authorization_grants (w_committed w)))
            (put_sessions (oauth2_sessions (w_committed w) @ [row]) (w_committed w))"
          by (auto simp: consented_def)
        with con show ?thesis
          using fulfil [OF frame.q_new_session [OF f c(2)]] by simp
      qed
    qed
  next
    case device_authorize
    then show ?thesis
      by (rule kept [OF frame.guards_device_authorization [OF f]])
  next
    case device_consent
    then show ?thesis
      by (rule kept [OF frame.guards_device_consent [OF f]])
  next
    case introspect
    then show ?thesis
      using keepsD [OF guards_request [OF frame.guards_introspection [OF f]] _ w]
      by (auto simp: introspection_post_def guards_def split: prod.splits sum.splits)
  next
    case revoke
    then show ?thesis
      using keepsD [OF guards_request [OF frame.guards_revocation [OF f]] _ w]
      by (auto simp: revoke_post_def guards_def split: prod.splits sum.splits)
  next
    case logout
    then show ?thesis
      by (rule kept [OF frame.guards_logout [OF f]])
  next
    case deactivate
    then show ?thesis
      by (rule kept [OF frame.guards_deactivation [OF f]])
  qed
qed

section \<open>Reachable states\<close>

lemma serve_db_ok: "serve w w' \<Longrightarrow> db_ok (w_committed w) \<Longrightarrow> db_ok (w_committed w')"
  using serve_keeps [OF lawful.token_frame_axioms] by simp

lemma serve_spent:
  assumes "serve w w'" "db_ok (w_committed w)" "code_spent code (w_committed w)"
  shows "code_spent code (w_committed w')"
proof -
  have "db_ok (w_committed w') \<and> code_spent code (w_committed w')"
    by (rule serve_keeps [OF spent.token_frame_axioms assms])
      (simp add: code_spent_def, rule code_spent_upd, simp_all add: fulfill_grant_row_def)
  then show ?thesis ..
qed

lemma serve_over:
  assumes "serve w w'" "db_ok (w_committed w)" "session_over i (w_committed w)"
  shows "session_over i (w_committed w')"
  using serve_keeps [OF over.token_frame_axioms assms] by (simp add: session_over_def)

lemma tokens_ok_tables: "token_tables d = token_tables d' \<Longrightarrow> tokens_ok d = tokens_ok d'"
  by (simp add: token_tables_def tokens_ok_def)

lemma tokens_ok_pending:
  "tokens_ok d \<Longrightarrow> tokens_ok (put_grants (oauth2_authorization_grants d @ [new_grant_row i t p]) d)"
  by (auto simp: tokens_ok_def own_sessions_def fresh_codes_def new_grant_row_def Let_def)

lemma serve_tokens:
  assumes step: "serve w w'" and ok: "db_ok (w_committed w)" "tokens_ok (w_committed w)"
  shows "tokens_ok (w_committed w')"
proof -
  have db: "w_committed (drop_repo w) = w_committed w" "w_db (drop_repo w) = w_committed w"
    by (simp_all add: drop_repo_def)
  let ?x = "token_tables (w_committed w)"
  have same: "tokens_ok (w_committed w')" if "token_tables (w_committed w') = ?x"
    using tokens_ok_tables [OF that] ok(2) by simp
  have kept: "tokens_ok (w_committed w')" if "db_ok (w_committed w') \<and> token_tables (w_committed w') = ?x"
    using that same by blast
  note frozen_end = kept [OF guards_end [where Q = "\<lambda>d. token_tables d = ?x" and w = w, OF _ ok(1) refl]]
  have w: "guards (\<lambda>d. token_tables d = ?x) (drop_repo w)"
    using ok by simp
  show ?thesis
    using step
  proof cases
    case (token e ip ua c form r)
    show ?thesis
    proof (cases r)
      case (Inl err)
      with token have "but_sessions (w_committed w') = but_sessions (w_committed w)"
        using token_post_refused(1) db by metis
      from arg_cong [OF this, of token_tables] show ?thesis
        by (intro same) (simp add: token_tables_def but_sessions_def)
    next
      case (Inr params)
      with token ok show ?thesis
        using token_post_granted [of e ip ua c form "drop_repo w"] by (simp add: db)
    qed
  next
    case authorize
    from authorization_get_effect [OF authorize] ok(2) tokens_ok_pending show ?thesis
      by (auto simp: db)
  next
    case (consent e api policy b i ip ua r)
    show ?thesis
    proof (cases r)
      case (Inl err)
      with consent ok show ?thesis
        using fails_cleanD [OF accept_consent_fails_clean] by (simp add: db)
    next
      case (Inr dec)
      from consent have run: "accept_authorization_consent e api policy b i ip ua (drop_repo w) = (Inr dec, w')"
        by (simp add: Inr)
      show ?thesis
        by (rule accept_consent_Inr [OF run]) (metis db consented_keeps ok)
    qed
  next
    case device_authorize
    then show ?thesis
      by (rule frozen_end [OF frozen.guards_device_authorization])
  next
    case device_consent
    then show ?thesis
      by (rule frozen_end [OF frozen.guards_device_consent])
  next
    case introspect
    then show ?thesis
      using keepsD [OF guards_request [OF frozen.guards_introspection] _ w] same
      by (auto simp: introspection_post_def guards_def split: prod.splits sum.splits)
  next
    case revoke
    then show ?thesis
      using keepsD [OF guards_request [OF frozen.guards_revocation] _ w] same
      by (auto simp: revoke_post_def guards_def split: prod.splits sum.splits)
  next
    case logout
    then show ?thesis
      by (rule frozen_end [OF frozen.guards_logout])
  next
    case deactivate
    then show ?thesis
      by (rule frozen_end [OF frozen.guards_deactivation])
  qed
qed

lemma served_db_ok: "served w w' \<Longrightarrow> db_ok (w_committed w) \<Longrightarrow> db_ok (w_committed w')"
  by (induction rule: rtranclp_induct) (auto intro: serve_db_ok)

lemma served_tokens:
  "served w w' \<Longrightarrow> db_ok (w_committed w) \<Longrightarrow> tokens_ok (w_committed w) \<Longrightarrow> tokens_ok (w_committed w')"
  by (induction rule: rtranclp_induct) (auto intro: serve_tokens served_db_ok)

lemma served_spent:
  "served w w' \<Longrightarrow> db_ok (w_committed w) \<Longrightarrow> code_spent code (w_committed w) \<Longrightarrow>
     code_spent code (w_committed w')"
  by (induction rule: rtranclp_induct) (auto intro: serve_spent served_db_ok)

lemma served_over:
  "served w w' \<Longrightarrow> db_ok (w_committed w) \<Longrightarrow> session_over i (w_committed w) \<Longrightarrow>
     session_over i (w_committed w')"
  by (induction rule: rtranclp_induct) (auto intro: serve_over served_db_ok)

section \<open>Codes are used once, sessions end once\<close>

lemma distinct_map_filter_inj:
  "distinct (List.map_filter f xs) \<Longrightarrow> x \<in> set xs \<Longrightarrow> y \<in> set xs \<Longrightarrow> f x = Some k \<Longrightarrow> f y = Some k \<Longrightarrow> x = y"
  by (auto simp: List.map_filter_def distinct_map inj_on_def)

lemma spent_refused:
  assumes "code_spent (cq_code q) (w_db w)" "db_ok (w_db w)"
  shows "exchange_authorization_code e ip ua q c w \<noteq> (Inr params, w')"
proof
  assume "exchange_authorization_code e ip ua q c w = (Inr params, w')"
  from exchange_code_Inr [OF this] obtain g s where "redeemable e q c (w_db w) (clock_reading w) g s"
    by blast
  then obtain r f where r: "r \<in> set (oauth2_authorization_grants (w_db w))"
    "og_authorization_code r = Some (cq_code q)" "decode_grant (e_url_parse e) r = Inr g"
    "ag_stage g = G_Fulfilled (s_id s) f"
    by (auto simp: redeemable_def)
  from assms(1) obtain x where x: "x \<in> set (oauth2_authorization_grants (w_db w))"
    "og_authorization_code x = Some (cq_code q)" "og_exchanged_at x \<noteq> None"
    by (auto simp: code_spent_def)
  have "distinct (List.map_filter og_authorization_code (oauth2_authorization_grants (w_db w)))"
    using assms(2) by (simp add: db_ok_def violations_defs)
  from distinct_map_filter_inj [OF this r(1) x(1) r(2) x(2)] show False
    using x(3) fulfilled_row [OF r(3,4)] by simp
qed

lemma exchange_spends:
  assumes run: "token_post e ip ua c (Some (TR_AuthorizationCode q)) w = (Inr params, w')"
  shows "code_spent (cq_code q) (w_committed w')"
proof -
  from run obtain w1 where ex: "exchange_authorization_code e ip ua q c w = (Inr params, w1)"
    and w': "w_committed w' = w_db w1"
    by (auto simp: token_post_def request_Inr bindE_Inr ok_or_Inr dispatch_grant_def map_err_Inr)
  from exchange_code_Inr [OF ex] obtain g s at where "redeemable e q c (w_db w) (clock_reading w) g s"
    and G: "oauth2_authorization_grants (w_db w1) = upd_rows (\<lambda>r. og_id r = ag_id g) (exchange_grant_row at)
      (oauth2_authorization_grants (w_db w))"
    by auto
  then obtain r where "r \<in> set (oauth2_authorization_grants (w_db w))"
    "og_authorization_code r = Some (cq_code q)" "og_id r = ag_id g"
    by (auto simp: redeemable_def dest: fulfilled_row)
  then have "exchange_grant_row at r \<in> set (oauth2_authorization_grants (w_db w1))"
    by (auto simp: G upd_rows_def)
  with \<open>og_authorization_code r = _\<close> show ?thesis
    unfolding code_spent_def w' by (intro bexI) (simp_all add: exchange_grant_row_def)
qed

lemma finish_session_over:
  assumes "row_by_id os_id (oauth2_sessions d) i = Some r"
  shows "session_over i (put_sessions (upd_rows (\<lambda>r. os_id r = i) (finish_row t) (oauth2_sessions d)) d)"
proof -
  have r: "r \<in> set (oauth2_sessions d)" "os_id r = i"
    using row_by_id_SomeD [OF assms] by simp_all
  then have "finish_row t r \<in> set (upd_rows (\<lambda>r. os_id r = i) (finish_row t) (oauth2_sessions d))"
    by (auto simp: upd_rows_def)
  then show ?thesis
    unfolding session_over_def by (intro bexI) (simp_all add: finish_row_def r)
qed

lemma over_not_live: "session_over i d \<Longrightarrow> db_ok d \<Longrightarrow> \<not> live_session d i"
proof
  assume "session_over i d" "db_ok d" "live_session d i"
  then obtain r s where "r \<in> set (oauth2_sessions d)" "os_id r = i" "os_finished_at r \<noteq> None"
    "s \<in> set (oauth2_sessions d)" "os_id s = i" "os_finished_at s = None"
    by (auto simp: session_over_def live_session_def split: option.splits dest!: row_by_id_SomeD)
  moreover have "inj_on os_id (set (oauth2_sessions d))"
    using db_ok_distinct(4) [OF \<open>db_ok d\<close>] by (simp add: distinct_map)
  ultimately show False
    by (auto simp: inj_on_def)
qed

end
