(* ===== verification/Demo_Requests.thy ===== *)
theory Demo_Requests
  imports Demo_World System
begin

text \<open>
  The demonstration of \<open>Demo_World\<close> continued: whole requests on the demonstration databases, in the
  form in which the server serves them, a device grant, a consent and a back-channel logout.
\<close>

lemma drop_demo [simp]: "drop_repo (demo_world d) = demo_world d"
  by (simp add: drop_repo_def demo_world_def)

lemma token_post_Inr:
  "token_post e ip ua c (Some q) w = (Inr params, w') \<longleftrightarrow>
     (\<exists>w1. dispatch_grant e ip ua c q w = (Inr params, w1) \<and> w' = w1\<lparr>w_committed := w_db w1, w_locks := []\<rparr>)"
  by (auto simp: token_post_def request_def bindE_def ok_or_def save_def split: prod.splits sum.splits)

section \<open>Tokens\<close>

lemma demo_token_post:
  "\<exists>params w1. token_post demo_env None None demo_client (Some (TR_AuthorizationCode demo_code))
     (drop_repo (demo_world demo_db)) = (Inr params, w1)"
  using demo_exchange by (auto simp: token_post_Inr dispatch_grant_def map_err_def)

lemma demo_tokens_ok: "tokens_ok (demo_token_db t)" "tokens_ok demo_db"
  by (simp_all add: tokens_ok_def one_live_def chained_def own_sessions_def fresh_codes_def
      demo_token_defs demo_db_def demo_grant_def)

lemma distinct_mapI: "distinct (map f xs) \<Longrightarrow> distinct xs"
  by (simp add: distinct_map)

lemma length_filter_unique:
  assumes "distinct xs" "\<exists>x \<in> set xs. P x" "\<And>x y. x \<in> set xs \<Longrightarrow> P x \<Longrightarrow> y \<in> set xs \<Longrightarrow> P y \<Longrightarrow> x = y"
  shows "length (filter P xs) = 1"
proof -
  from assms(2) obtain x where x: "x \<in> set xs" "P x"
    by blast
  with assms(3) have "set (filter P xs) = {x}"
    by auto
  then show ?thesis
    using distinct_card [of "filter P xs"] assms(1) by simp
qed

lemma demo_refresh_post:
  "\<exists>params w'. token_post demo_env None None demo_client (Some (TR_RefreshToken ''refresh''))
       (drop_repo (demo_world (demo_token_db ''access''))) = (Inr params, w')
     \<and> (\<exists>r \<in> set (oauth2_refresh_tokens (w_committed w')). live r)
     \<and> (\<forall>r \<in> set (oauth2_refresh_tokens (w_committed w')). or_session_id r = 4)"
proof -
  let ?w = "demo_world (demo_token_db ''access'')"
  obtain params w1 where run: "handle_refresh_token demo_env None None ''refresh'' demo_client ?w = (Inr params, w1)"
    using demo_refresh by blast
  obtain r s arow rrow T1 t where may: "may_refresh demo_client (w_db ?w) ''refresh'' r s"
    and lost: "lost_pair_revoked r (oauth2_refresh_tokens (w_db ?w)) T1"
    and rows: "pair_rows demo_env (s_id s) arow rrow"
    and T: "oauth2_refresh_tokens (w_db w1) =
      upd_rows (\<lambda>x. or_id x = rt_id r) (consume_row (or_id rrow) t) (T1 @ [rrow])"
    and one: "n_rows (\<lambda>x. or_id x = rt_id r) (T1 @ [rrow]) = 1"
    using handle_refresh_Inr [OF run] by (auto simp: rotated_def demo_world_db demo_token_db_ok)
  have "decode_refresh_token demo_refresh_row = Inr r"
    using may by (auto simp: may_refresh_def demo_world_db demo_token_defs)
  then have r: "rt_id r = 7" "rt_session_id r = 4" "rt_is_valid r"
    by (auto simp: decode_refresh_token_def demo_refresh_row_def rt_is_valid_def)
  then have T1: "T1 = [demo_refresh_row]"
    using lost by (simp add: lost_pair_revoked_def demo_world_db demo_token_db_def)
  have "or_id rrow \<noteq> 7"
    using one by (auto simp: T1 r n_rows_def demo_refresh_row_def)
  moreover have "s_id s = 4"
    using may r by (simp add: may_refresh_def)
  ultimately have "\<exists>x \<in> set (oauth2_refresh_tokens (w_db w1)). live x"
    "\<forall>x \<in> set (oauth2_refresh_tokens (w_db w1)). or_session_id x = 4"
    using rows by (auto simp: T T1 r upd_rows_def live_def pair_rows_def demo_refresh_row_def consume_row_def)
  then show ?thesis
    using run by (auto simp: token_post_Inr dispatch_grant_def map_err_def)
qed

section \<open>Revocation\<close>

lemma demo_live_session: "live_session (demo_token_db t) 4"
  by (simp add: live_session_def good_subject_def good_user_def row_by_id_def demo_token_defs demo_db_def
      demo_session_def demo_user_def valid_token_def is_nqchar_def)

lemma demo_revoke_post:
  "\<exists>w'. revoke_post demo_env None demo_access_token None (Some 2) (drop_repo demo_live_world) = ((200, None), w')
     \<and> session_over 4 (w_committed w')"
proof -
  obtain w1 where run: "revoke_token demo_env None demo_access_token None (Some 2) demo_live_world = (Inr (), w1)"
    using demo_revoke by blast
  have post: "revoke_post demo_env None demo_access_token None (Some 2) (drop_repo demo_live_world)
      = ((200, None), w1\<lparr>w_committed := w_db w1, w_locks := []\<rparr>)"
    using run by (simp add: revoke_post_def request_def save_def)
  have "revoke_oauth2_token demo_env None demo_access_token None TT_AccessToken (Some 2) demo_live_world = (Inr (), w1)"
    using run by (simp add: revoke_token_def bindE_def map_err_def of_result_def demo_check)
  then obtain i t where "session_of_token (w_db demo_live_world) TT_AccessToken demo_access_token = Some i"
    "oauth2_sessions (w_db w1) = upd_rows (\<lambda>r. os_id r = i) (finish_row t) (oauth2_sessions (w_db demo_live_world))"
    by (rule revoke_oauth2_token_Inr)
  then have "session_over 4 (w_db w1)"
    by (simp add: session_of_token_def session_over_def demo_world_db demo_token_defs demo_db_def upd_rows_def
        finish_row_def demo_session_def)
  with post show ?thesis
    by auto
qed

section \<open>A device code\<close>

definition demo_device_row :: device_grant_row where
  "demo_device_row = fulfill_device_row 3 0 (new_device_grant_row 8 0
     \<lparr>dp_client = demo_client, dp_scope = [''openid''], dp_device_code = ''device'',
      dp_user_code = ''USER'', dp_expires_in = 1200000000, dp_ip_address = None, dp_user_agent = None\<rparr>)"

definition demo_device_db :: db where
  "demo_device_db = demo_db\<lparr>oauth2_device_code_grant := [demo_device_row]\<rparr>"

lemmas demo_device_defs = demo_device_db_def demo_device_row_def fulfill_device_row_def new_device_grant_row_def

definition demo_device_value :: device_code_grant where
  "demo_device_value =
     \<lparr>dg_id = 8, dg_state = D_Fulfilled 3 0, dg_client_id = 2, dg_scope = [''openid''],
      dg_user_code = ''USER'', dg_device_code = ''device'', dg_created_at = 0, dg_expires_at = 1200000000,
      dg_ip_address = None, dg_user_agent = None\<rparr>"

abbreviation device_session_row :: "ulid \<Rightarrow> time \<Rightarrow> session_row" where
  "device_session_row n t \<equiv>
     new_session_row n t demo_client (Some (bs_user demo_browser_session)) (Some demo_browser_session) [''openid'']"

abbreviation demo_started_db :: "ulid \<Rightarrow> time \<Rightarrow> time \<Rightarrow> db" where
  "demo_started_db n t u \<equiv> demo_device_db\<lparr>oauth2_sessions := [demo_session, device_session_row n t],
     oauth2_device_code_grant := [exchange_device_row n u demo_device_row]\<rparr>"

lemma demo_display: "display_scope [''openid''] = ''openid''"
  by (simp add: display_scope_join)

lemma demo_load_device:
  "load_device_grant ''device'' demo_client (demo_world demo_device_db)
     = (Inr demo_device_value, tick (demo_world demo_device_db))"
  by (simp add: load_device_grant_def find_by_device_code_def decode_device_grant_def decode_device_state_def
      demo_device_defs demo_device_value_def demo_display run_defs demo_defs decode_defs)

lemma demo_device_browser:
  "browser_session_lookup (e_ulid_string demo_env) 3 (tick (demo_world demo_device_db))
     = (Inr (Some demo_browser_session), tick (demo_world demo_device_db))"
  by (simp add: browser_session_lookup_def load_session_lookup_def run_defs
      demo_defs demo_device_db_def demo_browser_session_def)

lemma new_id_not_4 [simp]: "fst (new_id 1000000 g) \<noteq> 4" "4 \<noteq> fst (new_id 1000000 g)"
  "fst (new_id 1000000 g) \<noteq> 5" "5 \<noteq> fst (new_id 1000000 g)"
  using new_id_demo [of g] by auto

lemma demo_start_device:
  "\<exists>n t u w1. start_device_session demo_env None demo_client demo_device_value demo_browser_session
     (tick (demo_world demo_device_db))
       = (Inr (new_session n t demo_client (Some (bs_user demo_browser_session)) (Some demo_browser_session)
            [''openid'']), w1)
     \<and> w_db w1 = demo_started_db n t u \<and> 100 < n"
  using new_id_demo
  by (simp add: start_device_session_def add_from_browser_session_def oauth2_session_add_def
      device_grant_exchange_op_def transition_then_update_def update_then_transition_def
      device_grant_exchange_def to_invalid_operation_def ensure_affected_rows_def record_agent_def
      new_session_row_def new_session_def exchange_device_row_def demo_device_value_def
      demo_device_defs demo_browser_session_def build_browser_session_def build_user_def run_defs demo_defs)

lemma demo_issue_device:
  assumes "w_db w = demo_started_db n t u" "100 < n"
  shows "\<exists>params w1. issue_device_tokens demo_env demo_client
    (new_session n t demo_client (Some (bs_user demo_browser_session)) (Some demo_browser_session) [''openid''])
    demo_browser_session w = (Inr params, w1)"
  using assms
  by (simp add: issue_device_tokens_def access_token_add_def refresh_token_add_def new_access_token_row_def
      new_refresh_token_row_def issue_id_token_def scope_contains_def OPENID_def parse_scope_token_def
      is_nqchar_def generate_id_token_def opt_hash_def hash_token_def sha_family_for_def ends_with_def
      starts_with_def new_session_row_def new_session_def exchange_device_row_def demo_device_defs
      demo_browser_session_def build_browser_session_def build_user_def run_defs demo_defs)

lemma demo_provision:
  "\<exists>w'. acquire_lock_for_sync u w = (Inr (), w')"
  "provision_devices demo_env err v (matrix_device_ids [''openid'']) dn w = (Inr (), w)"
  "\<exists>w'. record_oauth2_session ip s w = (Inr (), w')"
  by (simp_all add: acquire_lock_for_sync_def provision_devices_def matrix_device_ids_def device_id_of_token_def
      strip_prefix_def starts_with_def List.map_filter_def record_oauth2_session_def)

lemma demo_device_post:
  "\<exists>params w'. token_post demo_env None None demo_client (Some (TR_DeviceCode ''device''))
     (demo_world demo_device_db) = (Inr params, w')"
proof -
  let ?w = "tick (demo_world demo_device_db)"
  obtain n t u w1 where start: "start_device_session demo_env None demo_client demo_device_value
      demo_browser_session ?w = (Inr (new_session n t demo_client (Some (bs_user demo_browser_session))
        (Some demo_browser_session) [''openid'']), w1)"
    and w1: "w_db w1 = demo_started_db n t u" "100 < n"
    using demo_start_device by blast
  obtain params w2 where issue: "issue_device_tokens demo_env demo_client (new_session n t demo_client
      (Some (bs_user demo_browser_session)) (Some demo_browser_session) [''openid'']) demo_browser_session w1
      = (Inr params, w2)"
    using demo_issue_device [OF w1] by blast
  obtain w3 where lock: "acquire_lock_for_sync (bs_user demo_browser_session) w2 = (Inr (), w3)"
    using demo_provision(1) by blast
  obtain w4 where activity: "record_oauth2_session None (new_session n t demo_client
      (Some (bs_user demo_browser_session)) (Some demo_browser_session) [''openid'']) w3 =
      ((Inr (), w4) :: (device_exchange_error + unit) \<times> world)"
    using demo_provision(3) by blast
  have fields: "dg_state demo_device_value = D_Fulfilled 3 0" "dg_scope demo_device_value = [''openid'']"
    by (simp_all add: demo_device_value_def)
  have "exchange_device_code demo_env None None ''device'' demo_client (demo_world demo_device_db)
      = (Inr params, w4)"
    unfolding exchange_device_code_def using start issue lock activity
    by (simp add: bindE_def thenE_def map_err_def ok_or_def ensure_def demo_load_device approving_session_def
        fields demo_device_browser admin_scope_allowed_def demo_not_admin new_session_def demo_provision(2))
  then show ?thesis
    by (auto simp: token_post_Inr dispatch_grant_def map_err_def)
qed

section \<open>A code presented again\<close>

definition demo_exchanged_grant :: "time \<Rightarrow> authorization_grant" where
  "demo_exchanged_grant x = demo_grant_value\<lparr>ag_stage := G_Exchanged 4 0 x\<rparr>"

definition demo_exchanged_db :: "string \<Rightarrow> time \<Rightarrow> db" where
  "demo_exchanged_db t x =
     (demo_token_db t)\<lparr>oauth2_authorization_grants := [exchange_grant_row x demo_grant]\<rparr>"

definition demo_ended_db :: "time \<Rightarrow> db" where
  "demo_ended_db x = demo_db\<lparr>oauth2_authorization_grants := [exchange_grant_row x demo_grant],
     oauth2_sessions := [demo_session\<lparr>os_finished_at := Some 0\<rparr>]\<rparr>"

lemma demo_exchanged_db_0: "demo_exchanged_db t 0 = demo_token_db t"
  by (simp add: demo_exchanged_db_def demo_token_db_def)

lemma demo_load_exchanged:
  "load_grant demo_env demo_code demo_client (demo_world (demo_exchanged_db t x))
     = (Inr (demo_exchanged_grant x), demo_world (demo_exchanged_db t x))"
  by (simp add: load_grant_def demo_defs run_defs find_by_code_def demo_code_def decode_defs
      demo_exchanged_db_def demo_token_defs demo_exchanged_grant_def demo_grant_value_def)

lemma demo_load_ended:
  "load_grant demo_env demo_code demo_client (demo_world (demo_ended_db x))
     = (Inr (demo_exchanged_grant x), demo_world (demo_ended_db x))"
  by (simp add: load_grant_def demo_defs run_defs find_by_code_def demo_code_def decode_defs
      demo_ended_db_def exchange_grant_row_def demo_exchanged_grant_def demo_grant_value_def)

lemma demo_exchanged_consistent: "consistent (demo_world (demo_exchanged_db t x))"
  by (simp add: consistent_def demo_exchanged_db_def db_ok_def demo_defs demo_token_defs run_defs)

lemma demo_ended_consistent: "consistent (demo_world (demo_ended_db x))"
  by (simp add: consistent_def demo_ended_db_def db_ok_def demo_defs exchange_grant_row_def run_defs)

lemma demo_exchanged_session:
  "row_by_id os_id (oauth2_sessions (demo_exchanged_db t x)) 4 = Some demo_session" "os_finished_at demo_session = None"
  by (simp_all add: demo_exchanged_db_def demo_token_db_def demo_db_def row_by_id_def demo_session_def)

lemma demo_ended_session:
  "row_by_id os_id (oauth2_sessions (demo_ended_db x)) 4 = Some (demo_session\<lparr>os_finished_at := Some 0\<rparr>)"
  by (simp add: demo_ended_db_def row_by_id_def demo_session_def)

lemma demo_session_decodes: "decode_session demo_session = Inr demo_session_value"
  by (simp add: demo_session_def demo_session_value_def decode_defs)

lemma demo_ended_decodes:
  "decode_session (demo_session\<lparr>os_finished_at := Some 0\<rparr>) = Inr (demo_session_value\<lparr>s_state := S_Finished 0\<rparr>)"
  by (simp add: demo_session_def demo_session_value_def decode_defs)

section \<open>An admin session\<close>

definition demo_admin_db :: db where
  "demo_admin_db = (demo_token_db demo_access_token)\<lparr>users := [demo_user\<lparr>ur_can_request_admin := True\<rparr>],
     oauth2_sessions := [demo_session\<lparr>os_scope_list := [''urn:pasion:admin'']\<rparr>]\<rparr>"

lemma demo_admin_consistent: "consistent (demo_world demo_admin_db)"
  by (simp add: consistent_def db_ok_def demo_admin_db_def demo_defs demo_token_defs run_defs)

lemma demo_admin_live:
  "live_token demo_env (w_db (demo_world demo_admin_db)) 1000000 demo_access_token None"
  by (simp add: live_token_def demo_check live_access_token_def live_session_def good_subject_def
      good_user_def row_by_id_def at_is_valid_def build_access_token_def demo_token_defs demo_db_def
      demo_world_def demo_session_def demo_user_def demo_admin_db_def at_is_expired_def valid_token_def
      is_nqchar_def)

lemma demo_admin_introspect:
  "\<exists>reply sc w'. introspect_token demo_env demo_access_token None (demo_world demo_admin_db) = (Inr reply, w')
     \<and> ir_scope reply = Some sc \<and> requires_admin sc"
proof -
  obtain reply w' where run: "introspect_token demo_env demo_access_token None (demo_world demo_admin_db)
      = (Inr reply, w')"
    using introspect_token_run [OF demo_admin_consistent, of demo_env demo_access_token None] demo_admin_live
    unfolding demo_clock by (auto simp: locked_actor_def demo_check)
  then have "introspect_access_token demo_env demo_access_token (demo_world demo_admin_db) = (Inr reply, w')"
    by (auto simp: introspect_token_Inr demo_check)
  then obtain r sr where
    "List.find (\<lambda>r. oa_access_token r = demo_access_token) (oauth2_access_tokens (w_db (demo_world demo_admin_db))) = Some r"
    "row_by_id os_id (oauth2_sessions (w_db (demo_world demo_admin_db))) (oa_session_id r) = Some sr"
    "ir_scope reply = Some (normalize_scope (strip_admin_scope_unless (collect_set (os_scope_list sr))
        (admin_subject (w_db (demo_world demo_admin_db)) (os_user_id sr))))"
    by (rule introspect_access_token_Inr)
  then have "ir_scope reply = Some (normalize_scope (collect_set [''urn:pasion:admin'']))"
    by (auto simp: demo_world_db demo_admin_db_def demo_token_defs demo_db_def demo_session_def demo_user_def
        row_by_id_def strip_admin_scope_unless_def admin_subject_def)
  moreover have "requires_admin (normalize_scope (collect_set [''urn:pasion:admin'']))"
    unfolding requires_admin_normalize
    by (simp add: requires_admin_def collect_set_def is_privileged_scope_token_def ADMIN_SCOPE_def)
  ultimately show ?thesis
    using run by blast
qed

section \<open>Authorization and consent\<close>

definition demo_api :: url_api where
  "demo_api =
     \<lparr>url_scheme = (\<lambda>_. ''https''), url_host_str = (\<lambda>_. Some ''app.example''), url_port = (\<lambda>_. None),
      url_without_port = Some, url_fragment = (\<lambda>_. None), url_query = (\<lambda>_. None),
      url_set_query = (\<lambda>q u. case q of None \<Rightarrow> u | Some q \<Rightarrow> u @ ''?'' @ q),
      url_set_fragment = (\<lambda>f u. case f of None \<Rightarrow> u | Some f \<Rightarrow> u @ ''#'' @ f),
      form_decode = (\<lambda>_. Some []), form_encode = (\<lambda>_. Some ''k=v''), form_post_page = (\<lambda>u _. Some u)\<rparr>"

definition demo_authorization :: authorization_request where
  "demo_authorization =
     \<lparr>az_client_id = ''client'', az_redirect_uri = Some ''https://app.example/'', az_raw_redirect_uri = None,
      az_response_type = [RT_Code], az_response_mode = None, az_scope = [''openid''], az_state = Some ''s'',
      az_nonce = None, az_login_hint = None, az_prompt = [], az_has_request = False,
      az_has_request_uri = False, az_has_registration = False, az_pkce = None\<rparr>"

definition demo_resolved :: resolved_request where
  "demo_resolved =
     \<lparr>rr_client = demo_client, rr_redirect_uri = ''https://app.example/'',
      rr_raw_redirect_uri = ''https://app.example/'', rr_response_mode = RM_Query,
      rr_callback = \<lparr>cd_mode = CM_Query [], cd_redirect_uri = ''https://app.example/'', cd_state = Some ''s''\<rparr>\<rparr>"

lemmas resolve_defs = resolve_request_def find_by_client_id_def client_lookup_def raw_uri_ok_def
  resolve_redirect_uri_def uri_matches_one_of_def LOCAL_HOSTS_def resolve_response_mode_def has_token_def
  has_id_token_def callback_try_new_def

lemma demo_resolve:
  "resolve_request demo_api (\<lambda>_. Some 2) demo_authorization (demo_world demo_db)
     = (Inr demo_resolved, demo_world demo_db)"
  by (simp add: resolve_defs demo_api_def demo_authorization_def demo_resolved_def run_defs demo_defs of_result_def)

lemma demo_authorization_callback:
  "\<exists>reply. authorization_get demo_api (\<lambda>_. ''ulid'') (\<lambda>_. Some 2) None ''en'' None
     (demo_authorization\<lparr>az_has_request := True\<rparr>) (demo_world demo_db)
     = Some (Inr (AR_Callback reply), demo_world demo_db)"
proof -
  have res: "resolve_request demo_api (\<lambda>_. Some 2) (demo_authorization\<lparr>az_has_request := True\<rparr>) (demo_world demo_db)
     = (Inr demo_resolved, demo_world demo_db)"
    by (simp add: resolve_defs demo_api_def demo_authorization_def demo_resolved_def run_defs demo_defs of_result_def)
  show ?thesis
    unfolding authorization_get_def res
    by (simp add: authorization_inner_def load_active_session_def refusal_def
        demo_authorization_def callback_go_def demo_resolved_def demo_api_def)
qed

lemma demo_generate_code:
  "\<exists>code g'. generate_code [] (w_rng (demo_world d)) = Some (code, g') \<and> length code = 32"
proof -
  have "filter ((\<lambda>b. b < (248 :: u8)) \<circ> word_of_nat) [0..<64] = [0..<64]"
    by (rule filter_True) (auto simp: word_less_nat_alt unat_of_nat)
  then have "32 \<le> length [] + acceptable (64 * 1) (w_rng (demo_world d))"
    by (simp add: acceptable_def demo_world_def fill_bytes_def)
  from generate_code_returns [OF _ this] show ?thesis
    by auto
qed

lemma demo_authorization_login:
  "\<exists>i w'. authorization_get demo_api (\<lambda>_. ''ulid'') (\<lambda>_. Some 2) None ''en'' None demo_authorization
     (demo_world demo_db) = Some (Inr (AR_Login i), w')
     \<and> length (oauth2_authorization_grants (w_committed w')) = 2"
proof -
  obtain code g' where code: "generate_code [] (w_rng (demo_world demo_db)) = Some (code, g')" "length code = 32"
    using demo_generate_code by blast
  then have "code \<noteq> ''code''"
    by auto
  then have "\<exists>i w'. start_grant None ''en'' demo_resolved demo_authorization None (Some code)
      ((demo_world demo_db)\<lparr>w_rng := g'\<rparr>) = (Inr (AR_Login i), w')
      \<and> length (oauth2_authorization_grants (w_committed w')) = 2"
    by (simp add: start_grant_def grant_add_def new_grant_row_def new_grant_def grant_params_of_def
        continue_grant_def demo_resolved_def demo_authorization_def run_defs demo_defs)
  then show ?thesis
    using code(1) unfolding authorization_get_def demo_resolve
    by (auto simp: authorization_inner_def load_active_session_def
        refusal_def demo_authorization_def has_code_def has_token_def has_id_token_def demo_resolved_def
        demo_client_def map_err_def)
qed

definition demo_pending_db :: db where
  "demo_pending_db = demo_db\<lparr>oauth2_sessions := [],
     oauth2_authorization_grants := [demo_grant\<lparr>og_fulfilled_at := None, og_session_id := None\<rparr>]\<rparr>"

definition demo_policy :: grant_policy where
  "demo_policy = (\<lambda>_ _ _ _ _ _ _. Some True)"

definition demo_pending_grant :: authorization_grant where
  "demo_pending_grant = demo_grant_value\<lparr>ag_stage := G_Pending\<rparr>"

definition demo_callback :: callback_destination where
  "demo_callback = \<lparr>cd_mode = CM_Query [], cd_redirect_uri = ''https://app.example/'', cd_state = None\<rparr>"

lemma demo_response_mode: "parse_response_mode ''query'' = RM_Query"
  by (simp add: parse_response_mode_def)

lemma demo_load_consent:
  "load_consent_grant demo_env demo_api 5 (demo_world demo_pending_db)
     = (Inr (demo_pending_grant, demo_callback, demo_client), demo_world demo_pending_db)"
  by (simp add: load_consent_grant_def grant_lookup_def client_lookup_def callback_try_new_def of_result_def
      demo_pending_db_def demo_pending_grant_def demo_grant_value_def demo_callback_def demo_api_def
      demo_response_mode run_defs demo_defs decode_defs)

lemma demo_no_violation:
  "has_policy_violation demo_policy demo_browser_session c [''openid''] gt ip ua w = (Inr False, w)"
  by (simp add: has_policy_violation_def admin_scope_allowed_def demo_not_admin count_sessions_run
      demo_policy_def bindE_def map_err_def ok_or_def Let_def)

lemma demo_fulfil:
  "\<exists>dec w'. fulfil_consent demo_env demo_policy demo_browser_session demo_client demo_pending_grant
     demo_callback None None (demo_world demo_pending_db) = (Inr dec, w')"
proof -
  have fields: "ag_scope demo_pending_grant = [''openid'']" "ag_id demo_pending_grant = 5"
    "ag_stage demo_pending_grant = G_Pending" "ag_response_type_id_token demo_pending_grant = False"
    by (simp_all add: demo_pending_grant_def demo_grant_value_def)
  show ?thesis
    unfolding fulfil_consent_def fields bindE_def [of "has_policy_violation _ _ _ _ _ _ _"] demo_no_violation
    by (simp add: fields add_from_browser_session_def oauth2_session_add_def grant_fulfill_op_def update_then_transition_def
        grant_fulfill_def to_invalid_operation_def ensure_affected_rows_def
        build_authorization_response_def new_session_row_def new_session_def fulfill_grant_row_def
        demo_browser_session_def build_browser_session_def build_user_def demo_pending_db_def run_defs demo_defs)
qed

lemma demo_consent:
  "\<exists>dec w'. accept_authorization_consent demo_env demo_api demo_policy demo_browser_session 5 None None
     (demo_world demo_pending_db) = (Inr dec, w')"
proof -
  have "ag_stage demo_pending_grant = G_Pending"
    by (simp add: demo_pending_grant_def)
  then show ?thesis
    using demo_fulfil by (simp add: accept_authorization_consent_def bindE_def demo_load_consent)
qed

text \<open>A device code that waits for its user.\<close>

definition demo_undecided_db :: db where
  "demo_undecided_db = demo_db\<lparr>oauth2_device_code_grant :=
     [demo_device_row\<lparr>od_fulfilled_at := None, od_user_session_id := None\<rparr>]\<rparr>"

definition demo_undecided_value :: device_code_grant where
  "demo_undecided_value = demo_device_value\<lparr>dg_state := D_Pending\<rparr>"

lemma demo_undecided_load:
  "load_device_client 8 (demo_world demo_undecided_db)
     = (Inr (demo_undecided_value, demo_client), tick (demo_world demo_undecided_db))"
  by (simp add: load_device_client_def device_grant_lookup_def client_lookup_def decode_device_grant_def
      decode_device_state_def demo_undecided_db_def demo_undecided_value_def demo_device_value_def
      demo_device_defs demo_display run_defs demo_defs decode_defs)

lemma demo_decide:
  "\<exists>w'. decide_device DC_Consent demo_browser_session demo_undecided_value (tick (demo_world demo_undecided_db))
     = (Inr DS_Fulfilled, w')"
  by (simp add: decide_device_def dg_is_pending_def device_grant_fulfill_op_def transition_then_update_def
      device_grant_fulfill_def to_invalid_operation_def ensure_affected_rows_def demo_undecided_db_def
      demo_undecided_value_def demo_device_value_def demo_device_defs demo_browser_session_def
      build_browser_session_def run_defs demo_defs)

lemma demo_device_consent:
  "\<exists>w'. submit_device_consent demo_policy demo_browser_session 8 DC_Consent None None
     (demo_world demo_undecided_db) = (Inr DS_Fulfilled, w')"
proof -
  obtain w' where decide: "decide_device DC_Consent demo_browser_session demo_undecided_value
      (tick (demo_world demo_undecided_db)) = (Inr DS_Fulfilled, w')"
    using demo_decide by blast
  have sc: "dg_scope demo_undecided_value = [''openid'']"
    by (simp add: demo_undecided_value_def demo_device_value_def)
  show ?thesis
    unfolding submit_device_consent_def bindE_def [of "load_device_client _"] demo_undecided_load
    by (simp add: sc bindE_def thenE_def demo_no_violation ensure_def map_err_def decide save_def)
qed

section \<open>Back-channel logout\<close>

lemma demo_logout_all:
  "\<exists>w'. logout_all demo_env (authenticated_by (upstream_filter 99 (Some ''someone'') None)) (demo_world demo_db)
     = (Inr (), w')"
proof -
  let ?f = "authenticated_by (upstream_filter 99 (Some ''someone'') None)" and ?w = "demo_world demo_db"
  have none: "by_provider demo_db 99 demo_user_session = False"
    by (simp add: by_provider_def upstream_authenticated_def demo_db_def)
  have ok: "db_ok (w_db ?w)" and one: "user_sessions demo_db = [demo_user_session]"
    by (simp_all add: demo_world_db demo_db_ok, simp add: demo_db_def)
  have users: "affected_users (Suc (length (user_sessions (w_db ?w)))) us ?f (pagination_first 1000) [] ?w
      = (Inr (Some []), ?w)" for us
    unfolding affected_users_run [OF ok]
    by (simp add: demo_world_db one none list_page_def page_query_def process_def pagination_first_def)
  have "\<exists>w1. browser_session_finish_bulk (?f\<lparr>bf_state := Some True\<rparr>) ?w = (Inr 0, w1) \<and> w_db w1 = demo_db"
  proof -
    have same: "demo_db\<lparr>user_sessions := [demo_user_session]\<rparr> = demo_db"
      by (simp add: demo_db_def)
    have "violations demo_db = []"
      using demo_db_ok by (simp add: db_ok_def)
    then show ?thesis
      by (simp add: same browser_session_finish_bulk_def bindE_def now_run execute_def demo_world_db one none
          n_rows_def upd_rows_def)
  qed
  then obtain w1 where b: "browser_session_finish_bulk (?f\<lparr>bf_state := Some True\<rparr>) ?w = (Inr 0, w1)"
    "w_db w1 = demo_db"
    by blast
  have "\<exists>n w2. oauth2_session_finish_bulk (for_browser_sessions ?f) w1 = (Inr n, w2)"
    by (simp add: oauth2_session_finish_bulk_def session_filter_matches_def for_browser_sessions_def
        filtered_browser_sessions_def authenticated_by_def opt_filter_def state_matches_def b(2) run_defs demo_defs)
  then obtain n w2 where "oauth2_session_finish_bulk (for_browser_sessions ?f) w1 = (Inr n, w2)"
    by blast
  with b show ?thesis
    by (simp add: logout_all_def bindE_def thenE_def map_err_def query_run users ok_or_def del: affected_users.simps)
qed

lemma demo_logout:
  "\<exists>w'. backchannel_logout demo_env LogoutAll 99 (Some ''someone'') None (demo_world demo_db) = (Inr (), w')"
  using demo_logout_all by (auto simp: backchannel_logout_def thenE_def bindE_def ensure_def save_def Let_def)

section \<open>Rows\<close>

definition demo_grant_params :: grant_params where
  "demo_grant_params = grant_params_of demo_resolved demo_authorization None ''en''"

lemma demo_grant_parsed: "parsed_params Some demo_grant_params \<and> pkce_readable demo_grant_params"
  by (simp add: parsed_params_def pkce_readable_def demo_grant_params_def grant_params_of_def demo_resolved_def
      demo_authorization_def valid_scope_def valid_token_def is_nqchar_def demo_response_mode)

lemma demo_grant_add: "\<exists>g w'. grant_add demo_grant_params (demo_world demo_db) = (Inr g, w')"
  by (simp add: grant_add_def new_grant_row_def demo_grant_params_def grant_params_of_def demo_resolved_def
      demo_authorization_def run_defs demo_defs)

lemma demo_device_authorization:
  "\<exists>resp w'. device_authorization_post None None ''device'' ''USER'' None demo_client (demo_world demo_db)
     = (Inr resp, w')"
  by (simp add: device_authorization_post_def device_grant_add_def new_device_grant_row_def run_defs demo_defs)

lemma demo_finish_session:
  "\<exists>s' w'. oauth2_session_finish demo_session_value (demo_world demo_db) = (Inr s', w')"
  by (simp add: oauth2_session_finish_def update_then_transition_def finish_row_def session_finish_def
      ensure_affected_rows_def to_invalid_operation_def demo_session_value_def run_defs demo_defs)

end
