(* ===== verification/Queue_Runtime.thy ===== *)
theory Queue_Runtime
  imports Queue_Storage
begin

text \<open>
  The queue worker of \<open>crates/tasks/src/new_queue\<close>: the tracker of running jobs
  (\<open>tracker.rs\<close>), a tick and the draining of a worker (\<open>repository.rs\<close>), the duties of the leader
  (\<open>leader.rs\<close>) and the constants of \<open>shared.rs\<close>.

  Tokio's \<open>JoinSet\<close> is the list of the tasks still running and the list of those that finished
  and were not joined yet; that a task ends is a step of the environment (\<open>task_ends\<close>). Metrics,
  spans and notifications are not modelled, and a cron expression is the function \<open>next_tick\<close>
  giving the first instant after another.
\<close>

section \<open>Constants\<close>

definition MAX_CONCURRENT_JOBS :: nat where "MAX_CONCURRENT_JOBS = 10"
definition MAX_JOBS_TO_FETCH :: nat where "MAX_JOBS_TO_FETCH = 5"
definition MAX_ATTEMPTS :: nat where "MAX_ATTEMPTS = 10"

text \<open>\<open>retry_delay\<close> in microseconds; the product of \<open>i64\<close> values wraps in a release build.\<close>

definition saturating_pow2 :: "nat \<Rightarrow> int" where
  "saturating_pow2 e = (if e < 63 then 2 ^ e else 2 ^ 63 - 1)"

definition retry_delay :: "nat \<Rightarrow> duration" where
  "retry_delay attempt =
     1000 * sint (word_of_int (saturating_pow2 (min attempt (2 ^ 32 - 1))) * 5000 :: 64 word)"

section \<open>The tracker\<close>

datatype job_error_decision = RetryJob | FailJob

datatype job_result = JobOk | JobErr job_error_decision string | JobCrashed string

record job_context =
  jc_id :: ulid
  jc_queue_name :: string
  jc_attempt :: nat

record job_tracker =
  tk_queues :: "string list"
  tk_running :: "nat list"
  tk_finished :: "(nat \<times> job_result) list"
  tk_contexts :: "nat \<rightharpoonup> job_context"
  tk_last :: "(nat \<times> job_result) option"
  tk_next_task :: nat

definition tracker_new :: job_tracker where
  "tracker_new =
     \<lparr>tk_queues = [], tk_running = [], tk_finished = [], tk_contexts = (\<lambda>_. None), tk_last = None,
      tk_next_task = 0\<rparr>"

definition register_queue :: "string \<Rightarrow> job_tracker \<Rightarrow> job_tracker" where
  "register_queue q tk = tk\<lparr>tk_queues := List.insert q (tk_queues tk)\<rparr>"

definition spawn_job :: "job_context \<Rightarrow> job_tracker \<Rightarrow> job_tracker" where
  "spawn_job context tk =
     tk\<lparr>tk_running := tk_running tk @ [tk_next_task tk],
        tk_contexts := (tk_contexts tk)(tk_next_task tk \<mapsto> context),
        tk_next_task := tk_next_task tk + 1\<rparr>"

definition build_context :: "job \<Rightarrow> job_context" where
  "build_context j = \<lparr>jc_id = j_id j, jc_queue_name = j_queue_name j, jc_attempt = j_attempt j\<rparr>"

definition spawn_reserved_jobs :: "job list \<Rightarrow> job_tracker \<Rightarrow> job_tracker" where
  "spawn_reserved_jobs jobs tk = fold (\<lambda>j. spawn_job (build_context j)) jobs tk"

definition has_jobs :: "job_tracker \<Rightarrow> bool" where
  "has_jobs tk \<longleftrightarrow> tk_running tk \<noteq> [] \<or> tk_finished tk \<noteq> []"

definition running_jobs :: "job_tracker \<Rightarrow> nat" where
  "running_jobs tk =
     length (tk_running tk) + length (tk_finished tk) + (if tk_last tk = None then 0 else 1)"

text \<open>The environment: a running task ends with a result.\<close>

definition task_ends :: "nat \<Rightarrow> job_result \<Rightarrow> job_tracker \<Rightarrow> job_tracker" where
  "task_ends i r tk =
     (if i \<in> set (tk_running tk)
      then tk\<lparr>tk_running := remove1 i (tk_running tk), tk_finished := tk_finished tk @ [(i, r)]\<rparr>
      else tk)"

text \<open>\<open>try_join_next_with_id\<close> into \<open>last_join_result\<close>.\<close>

definition try_join_next :: "job_tracker \<Rightarrow> job_tracker" where
  "try_join_next tk =
     (case tk_finished tk of
        [] \<Rightarrow> tk\<lparr>tk_last := None\<rparr>
      | x # xs \<Rightarrow> tk\<lparr>tk_last := Some x, tk_finished := xs\<rparr>)"

text \<open>
  \<open>collect_next_job\<close> waits until a task has finished. When none has, one of the running tasks does:
  \<open>ends\<close> says, for the tasks that are running, which one ends next (a position, taken modulo their
  number) and with what result. That an awaited task ends at all is an assumption: the call in the
  source has no time-out.
\<close>

type_synonym job_ends = "nat list \<Rightarrow> nat \<times> job_result"

definition next_to_end :: "job_ends \<Rightarrow> nat list \<Rightarrow> nat \<times> job_result" where
  "next_to_end ends tasks =
     (let (k, r) = ends tasks in (tasks ! (k mod length tasks), r))"

definition collect_next_job :: "job_ends \<Rightarrow> job_tracker \<Rightarrow> job_tracker" where
  "collect_next_job ends tk =
     (if tk_last tk \<noteq> None then tk
      else if tk_finished tk = [] \<and> tk_running tk \<noteq> []
      then let (i, r) = next_to_end ends (tk_running tk) in try_join_next (task_ends i r tk)
      else try_join_next tk)"

datatype queue_error = QRepository db_error | QPanic string | QNotLeader

text \<open>What the tracker does in the database for one joined task.\<close>

definition retry_failed :: "job_context \<Rightarrow> (db_error, unit) io" where
  "retry_failed context =
     whenE (jc_attempt context < MAX_ATTEMPTS) (retry (jc_id context) (retry_delay (jc_attempt context)))"

definition settle_job :: "job_context \<Rightarrow> job_result \<Rightarrow> (db_error, unit) io" where
  "settle_job context result =
     (case result of
        JobOk \<Rightarrow> mark_as_completed (jc_id context)
      | JobErr decision reason \<Rightarrow>
          thenE (mark_as_failed (jc_id context) reason)
            (case decision of FailJob \<Rightarrow> ret () | RetryJob \<Rightarrow> retry_failed context)
      | JobCrashed reason \<Rightarrow>
          thenE (mark_as_failed (jc_id context) reason) (retry_failed context))"

function process_loop :: "job_tracker \<Rightarrow> world \<Rightarrow> (queue_error + unit) \<times> job_tracker \<times> world" where
  "process_loop tk w =
     (case tk_last tk of
        None \<Rightarrow> (Inr (), tk, w)
      | Some (i, result) \<Rightarrow>
          (case tk_contexts tk i of
             None \<Rightarrow> (Inl (QPanic ''Job context not found''), tk\<lparr>tk_last := None\<rparr>, w)
           | Some context \<Rightarrow>
               let tk = tk\<lparr>tk_last := None, tk_contexts := (tk_contexts tk)(i := None)\<rparr>
               in (case settle_job context result w of
                     (Inl e, w) \<Rightarrow> (Inl (QRepository e), tk, w)
                   | (Inr _, w) \<Rightarrow> process_loop (try_join_next tk) w)))"
  by pat_completeness auto
termination
  by (relation "measure (\<lambda>(tk, _). length (tk_finished tk) + (if tk_last tk = None then 0 else 1))")
    (auto simp: try_join_next_def split: list.splits)

definition process_jobs :: "job_tracker \<Rightarrow> world \<Rightarrow> (queue_error + unit) \<times> job_tracker \<times> world" where
  "process_jobs tk w =
     process_loop (if tk_last tk = None then try_join_next tk else tk) w"

section \<open>A worker\<close>

record worker_state =
  ws_world :: world
  ws_tracker :: job_tracker
  ws_last_heartbeat :: time

type_synonym 'a worker_io = "(worker_state, queue_error, 'a) exc"

definition in_world :: "(db_error, 'a) io \<Rightarrow> 'a worker_io" where
  "in_world m s =
     (case m (ws_world s) of
        (Inl e, w) \<Rightarrow> (Inl (QRepository e), s\<lparr>ws_world := w\<rparr>)
      | (Inr x, w) \<Rightarrow> (Inr x, s\<lparr>ws_world := w\<rparr>))"

definition run_process_jobs :: "unit worker_io" where
  "run_process_jobs s =
     (let (r, tk, w) = process_jobs (ws_tracker s) (ws_world s)
      in (r, s\<lparr>ws_tracker := tk, ws_world := w\<rparr>))"

definition jobs_to_fetch_capacity :: "nat \<Rightarrow> nat" where
  "jobs_to_fetch_capacity running = min (MAX_CONCURRENT_JOBS - running) MAX_JOBS_TO_FETCH"

definition set_last_heartbeat :: "time \<Rightarrow> unit worker_io" where
  "set_last_heartbeat t s = (Inr (), s\<lparr>ws_last_heartbeat := t\<rparr>)"

definition send_heartbeat :: "ulid \<Rightarrow> time \<Rightarrow> duration \<Rightarrow> unit worker_io" where
  "send_heartbeat registration at heartbeat_age =
     whenE (heartbeat_age \<ge> 60 * 1000 * 1000)
       (thenE (in_world (worker_heartbeat registration)) (set_last_heartbeat at))"

definition spawn_jobs :: "job list \<Rightarrow> unit worker_io" where
  "spawn_jobs jobs s = (Inr (), s\<lparr>ws_tracker := spawn_reserved_jobs jobs (ws_tracker s)\<rparr>)"

definition fetch_jobs :: "(json \<Rightarrow> job_metadata option) \<Rightarrow> ulid \<Rightarrow> unit worker_io" where
  "fetch_jobs parse_metadata registration =
     bindE (gets (\<lambda>s. jobs_to_fetch_capacity (running_jobs (ws_tracker s)))) (\<lambda>max_jobs_to_fetch.
     whenE (max_jobs_to_fetch \<noteq> 0)
       (bindE (gets (tk_queues \<circ> ws_tracker)) (\<lambda>queues.
        bindE (in_world (reserve parse_metadata registration queues max_jobs_to_fetch)) spawn_jobs)))"

definition tick_worker :: "(json \<Rightarrow> job_metadata option) \<Rightarrow> time \<Rightarrow> ulid \<Rightarrow> bool worker_io" where
  "tick_worker parse_metadata db_now registration =
     bindE (in_world now) (\<lambda>at.
     bindE (gets (\<lambda>s. at - ws_last_heartbeat s)) (\<lambda>heartbeat_age.
     thenE (send_heartbeat registration at heartbeat_age)
    (thenE (in_world (remove_leader_lease_if_expired db_now))
    (bindE (in_world (try_get_leader_lease db_now registration)) (\<lambda>leader.
     thenE run_process_jobs
    (thenE (fetch_jobs parse_metadata registration)
       (ret leader)))))))"

text \<open>Draining: \<open>ends\<close> says in which order and with what results the running tasks will end.\<close>

declare process_loop.simps [simp del]

lemma try_join_next_fields [simp]:
  "tk_running (try_join_next tk) = tk_running tk"
  "tk_contexts (try_join_next tk) = tk_contexts tk"
  "tk_queues (try_join_next tk) = tk_queues tk"
  "tk_next_task (try_join_next tk) = tk_next_task tk"
  "tk_last (try_join_next tk) = None \<longleftrightarrow> tk_finished tk = []"
  "tk_finished (try_join_next tk) = tl (tk_finished tk)"
  by (simp_all add: try_join_next_def split: list.split)

definition settled :: "nat \<Rightarrow> job_tracker \<Rightarrow> job_tracker" where
  "settled i tk = tk\<lparr>tk_last := None, tk_contexts := (tk_contexts tk)(i := None)\<rparr>"

lemma settled_fields [simp]:
  "tk_running (settled i tk) = tk_running tk" "tk_finished (settled i tk) = tk_finished tk"
  "tk_queues (settled i tk) = tk_queues tk" "tk_last (settled i tk) = None"
  "tk_contexts (settled i tk) = (tk_contexts tk)(i := None)"
  "tk_next_task (settled i tk) = tk_next_task tk"
  by (simp_all add: settled_def)

lemma process_loop_None: "tk_last tk = None \<Longrightarrow> process_loop tk w = (Inr (), tk, w)"
  by (simp add: process_loop.simps)

lemma process_loop_Some:
  "tk_last tk = Some (i, res) \<Longrightarrow> process_loop tk w =
     (case tk_contexts tk i of
        None \<Rightarrow> (Inl (QPanic ''Job context not found''), tk\<lparr>tk_last := None\<rparr>, w)
      | Some context \<Rightarrow>
          (case settle_job context res w of
             (Inl e, w) \<Rightarrow> (Inl (QRepository e), settled i tk, w)
           | (Inr _, w) \<Rightarrow> process_loop (try_join_next (settled i tk)) w))"
  by (subst process_loop.simps) (simp add: settled_def Let_def split: option.split prod.split sum.split)

text \<open>How a run of the loop ends, given an invariant of its iterations.\<close>

lemma process_loop_run:
  assumes "process_loop tk w = (r, tk', w')" and "P tk w"
    and step: "\<And>tk w i res c w1. P tk w \<Longrightarrow> tk_last tk = Some (i, res) \<Longrightarrow> tk_contexts tk i = Some c \<Longrightarrow>
      settle_job c res w = (Inr (), w1) \<Longrightarrow> P (try_join_next (settled i tk)) w1"
  shows "(r = Inr () \<and> P tk' w' \<and> tk_last tk' = None) \<or>
    (\<exists>tk1 w1 i res. P tk1 w1 \<and> tk_last tk1 = Some (i, res) \<and>
       (tk_contexts tk1 i = None \<and> r = Inl (QPanic ''Job context not found'')
          \<and> tk' = tk1\<lparr>tk_last := None\<rparr> \<and> w' = w1 \<or>
        (\<exists>c e. tk_contexts tk1 i = Some c \<and> settle_job c res w1 = (Inl e, w')
          \<and> r = Inl (QRepository e) \<and> tk' = settled i tk1)))"
  using assms(1,2)
proof (induction "length (tk_finished tk) + (if tk_last tk = None then 0 else 1)"
    arbitrary: tk w rule: less_induct)
  case less
  show ?case
  proof (cases "tk_last tk")
    case None
    with less.prems show ?thesis
      by (auto simp: process_loop_None)
  next
    case (Some x)
    obtain i res where x: "x = (i, res)" by fastforce
    show ?thesis
    proof (cases "\<exists>c w1. tk_contexts tk i = Some c \<and> settle_job c res w = (Inr (), w1)")
      case True
      then obtain c w1 where c: "tk_contexts tk i = Some c" "settle_job c res w = (Inr (), w1)"
        by blast
      with less.prems Some x have "process_loop (try_join_next (settled i tk)) w1 = (r, tk', w')"
        by (simp add: process_loop_Some)
      moreover have "P (try_join_next (settled i tk)) w1"
        using step less.prems(2) Some x c by blast
      ultimately show ?thesis
        using less.hyps [of "try_join_next (settled i tk)" w1] Some
        by (cases "tk_finished tk") auto
    next
      case False
      with less.prems Some x
      have "tk_contexts tk i = None \<and> r = Inl (QPanic ''Job context not found'')
            \<and> tk' = tk\<lparr>tk_last := None\<rparr> \<and> w' = w \<or>
          (\<exists>c e. tk_contexts tk i = Some c \<and> settle_job c res w = (Inl e, w')
            \<and> r = Inl (QRepository e) \<and> tk' = settled i tk)"
        by (auto simp: process_loop_Some split: option.splits prod.splits sum.splits)
      with less.prems(2) Some x show ?thesis
        by blast
    qed
  qed
qed

text \<open>Processing leaves the running tasks alone and, when it succeeds, joins every finished one.\<close>

lemma process_loop_tracker:
  assumes "process_loop tk w = (r, tk', w')" and "tk_last tk = None \<Longrightarrow> tk_finished tk = []"
  shows "tk_running tk' = tk_running tk \<and> tk_queues tk' = tk_queues tk \<and>
    (r = Inr () \<longrightarrow> tk_last tk' = None \<and> tk_finished tk' = [])"
  using process_loop_run [OF assms(1), of "\<lambda>k _. tk_running k = tk_running tk \<and>
      tk_queues k = tk_queues tk \<and> (tk_last k = None \<longrightarrow> tk_finished k = [])"] assms(2)
  by auto

lemma process_jobs_running_jobs:
  assumes "process_jobs tk w = (Inr u, tk', w')"
  shows "running_jobs tk' = length (tk_running tk)" "tk_queues tk' = tk_queues tk"
    "tk_running tk' = tk_running tk" "tk_last tk' = None" "tk_finished tk' = []"
  using assms process_loop_tracker
    [of "if tk_last tk = None then try_join_next tk else tk" w "Inr ()" tk' w']
  by (auto simp: process_jobs_def running_jobs_def split: if_splits)

lemma running_jobs_try_join_next [simp]:
  "tk_last tk = None \<Longrightarrow> running_jobs (try_join_next tk) = running_jobs tk"
  by (simp add: running_jobs_def try_join_next_def split: list.split)

lemma next_to_end_running: "tasks \<noteq> [] \<Longrightarrow> fst (next_to_end ends tasks) \<in> set tasks"
  by (simp add: next_to_end_def split_def Let_def)

lemma collect_next_job_last:
  assumes "0 < running_jobs tk"
  shows "tk_last (collect_next_job ends tk) \<noteq> None"
    "running_jobs (collect_next_job ends tk) = running_jobs tk"
proof -
  have "tk_last (collect_next_job ends tk) \<noteq> None \<and>
      running_jobs (collect_next_job ends tk) = running_jobs tk"
  proof (cases "tk_last tk = None \<and> tk_finished tk = []")
    case True
    with assms obtain i ts where "tk_running tk = i # ts"
      by (cases "tk_running tk") (auto simp: running_jobs_def)
    then obtain j r where "next_to_end ends (tk_running tk) = (j, r)" "j \<in> set (tk_running tk)"
      using next_to_end_running [of "tk_running tk" ends] by (cases "next_to_end ends (tk_running tk)") auto
    with True show ?thesis
      by (auto simp: collect_next_job_def task_ends_def running_jobs_def try_join_next_def length_remove1)
  qed (auto simp: collect_next_job_def simp del: not_None_eq split_paired_Ex)
  then show "tk_last (collect_next_job ends tk) \<noteq> None"
    "running_jobs (collect_next_job ends tk) = running_jobs tk"
    by auto
qed

lemma process_jobs_decreases:
  assumes "process_jobs tk w = (Inr u, tk', w')" and "tk_last tk \<noteq> None"
  shows "running_jobs tk' < running_jobs tk"
proof -
  have "running_jobs tk' = length (tk_running tk)"
    using assms(1) by (rule process_jobs_running_jobs)
  also have "\<dots> < running_jobs tk"
    using assms(2) by (simp add: running_jobs_def del: not_None_eq)
  finally show ?thesis .
qed

lemma drain_decreases:
  assumes "0 < running_jobs tk" and "process_jobs (collect_next_job ends tk) w = (Inr u, tk', w')"
  shows "running_jobs tk' < running_jobs tk"
  using process_jobs_decreases [OF assms(2) collect_next_job_last(1) [OF assms(1)]]
  by (simp add: collect_next_job_last(2) [OF assms(1)])

function drain_jobs ::
    "job_ends \<Rightarrow> job_tracker \<Rightarrow> world \<Rightarrow> (queue_error + unit) \<times> job_tracker \<times> world" where
  "drain_jobs ends tk w =
     (if running_jobs tk = 0 then (Inr (), tk, w)
      else (case process_jobs (collect_next_job ends tk) w of
              (Inl e, tk', w') \<Rightarrow> (Inl e, tk', w')
            | (Inr _, tk', w') \<Rightarrow> drain_jobs ends tk' w'))"
  by pat_completeness auto

termination
  by (relation "measure (\<lambda>(_, tk, _). running_jobs tk)")
    (auto dest!: drain_decreases [rotated, OF sym])

declare drain_jobs.simps [simp del]


definition shutdown_worker :: "job_ends \<Rightarrow> ulid \<Rightarrow> unit worker_io" where
  "shutdown_worker ends registration s =
     (case drain_jobs ends (ws_tracker s) (ws_world s) of
        (Inl e, tk, w) \<Rightarrow> (Inl e, s\<lparr>ws_tracker := tk, ws_world := w\<rparr>)
      | (Inr _, tk, w) \<Rightarrow>
          in_world (worker_shutdown registration) (s\<lparr>ws_tracker := tk, ws_world := w\<rparr>))"

section \<open>The leader\<close>

definition advisory_lock_key :: "(string \<Rightarrow> u32) \<Rightarrow> string \<Rightarrow> int" where
  "advisory_lock_key crc32 name = uint (crc32 name)"

record schedule_definition =
  sd_name :: string
  sd_next_tick :: "time \<Rightarrow> time option"
  sd_queue_name :: string
  sd_payload :: json

definition missing_schedule_names ::
    "schedule_definition list \<Rightarrow> schedule_status list \<Rightarrow> string list" where
  "missing_schedule_names schedules statuses =
     map sd_name (filter (\<lambda>sd. \<not> list_ex (\<lambda>st. ss_name st = sd_name sd) statuses) schedules)"

definition recover_abandoned_jobs :: "(db_error, unit) io" where
  "recover_abandoned_jobs =
     thenE (shutdown_dead_workers (2 * 60 * 1000 * 1000))
    (bindE (mark_abandoned_jobs_as_failed ''worker lost heartbeat'') (\<lambda>jobs.
       forE jobs (\<lambda>(i, attempt). whenE (attempt < MAX_ATTEMPTS) (retry i 0))))"

definition not_due :: "time \<Rightarrow> schedule_status \<Rightarrow> bool" where
  "not_due at st =
     (case ss_last_scheduled_at st of
        None \<Rightarrow> False
      | Some next_time \<Rightarrow> at < next_time \<or> ss_last_job_completed st = Some False)"

definition schedule_next ::
    "time \<Rightarrow> schedule_status list \<Rightarrow> schedule_definition \<Rightarrow> (queue_error, unit) io" where
  "schedule_next at statuses sd =
     (case List.find (\<lambda>st. ss_name st = sd_name sd) statuses of
        None \<Rightarrow> ret ()
      | Some st \<Rightarrow>
          if not_due at st then ret ()
          else (case sd_next_tick sd at of
                  None \<Rightarrow> throw (QPanic ''called Option::unwrap on a None value'')
                | Some next_tick \<Rightarrow>
                    map_err QRepository (schedule_later (sd_queue_name sd) (sd_payload sd) (JObj [])
                      next_tick (Some (sd_name sd)))))"

definition repaired_statuses ::
    "schedule_definition list \<Rightarrow> schedule_status list \<Rightarrow> (db_error, schedule_status list) io" where
  "repaired_statuses schedules statuses =
     (let missing = missing_schedule_names schedules statuses
      in if missing = [] then ret statuses else thenE (schedule_setup missing) schedule_list)"

definition leader_work :: "schedule_definition list \<Rightarrow> (queue_error, unit) io" where
  "leader_work schedules =
     thenE (map_err QRepository recover_abandoned_jobs)
    (bindE (map_err QRepository schedule_list) (\<lambda>statuses.
     bindE (map_err QRepository (repaired_statuses schedules statuses)) (\<lambda>statuses.
     bindE now (\<lambda>at.
     thenE (forE schedules (schedule_next at statuses))
    (bindE (map_err QRepository schedule_available_jobs) (\<lambda>_. ret ()))))))"

text \<open>
  The session-level advisory locks of the pooled connections: a connection takes a lock unless
  another one holds it, and may take it again. The pool hands a connection out only after its
  recycling hook has run, which releases every lock the connection still holds
  (\<open>pg_advisory_unlock_all\<close>); a fresh connection holds none. The checkout itself does not fail here.
\<close>

record leader_state =
  ls_world :: world
  ls_locks :: "(nat \<times> int) list"

definition lock_free :: "nat \<Rightarrow> int \<Rightarrow> leader_state \<Rightarrow> bool" where
  "lock_free conn key s \<longleftrightarrow> list_all (\<lambda>(c, k). k = key \<longrightarrow> c = conn) (ls_locks s)"

definition cleanup_pooled_postgres_connection :: "nat \<Rightarrow> leader_state \<Rightarrow> leader_state" where
  "cleanup_pooled_postgres_connection conn s =
     s\<lparr>ls_locks := filter (\<lambda>(c, k). c \<noteq> conn) (ls_locks s)\<rparr>"

definition get_connection :: "nat \<Rightarrow> leader_state \<Rightarrow> leader_state" where
  "get_connection conn = cleanup_pooled_postgres_connection conn"

definition run_leader_duties ::
    "int \<Rightarrow> nat \<Rightarrow> schedule_definition list \<Rightarrow> (leader_state, queue_error, unit) exc" where
  "run_leader_duties lock_key conn schedules s =
     (let s = get_connection conn s
      in if \<not> lock_free conn lock_key s then (Inr (), s)
         else let s = s\<lparr>ls_locks := (conn, lock_key) # ls_locks s\<rparr>
              in (case leader_work schedules (ls_world s) of
                    (Inl e, w) \<Rightarrow> (Inl e, s\<lparr>ls_world := w\<rparr>)
                  | (Inr _, w) \<Rightarrow>
                      (Inr (), s\<lparr>ls_world := w, ls_locks := remove1 (conn, lock_key) (ls_locks s)\<rparr>)))"

definition perform_leader_duties ::
    "bool \<Rightarrow> int \<Rightarrow> nat \<Rightarrow> schedule_definition list \<Rightarrow> (leader_state, queue_error, unit) exc" where
  "perform_leader_duties am_i_leader lock_key conn schedules =
     thenE (ensure am_i_leader QNotLeader) (run_leader_duties lock_key conn schedules)"

section \<open>Lemmas\<close>

lemma retry_delay_exact:
  assumes "attempt < MAX_ATTEMPTS"
  shows "retry_delay attempt = 5000000 * 2 ^ attempt"
proof -
  from assms have "attempt \<in> {0, 1, 2, 3, 4, 5, 6, 7, 8, 9}"
    by (auto simp: MAX_ATTEMPTS_def)
  then show ?thesis
    by (elim insertE) (simp_all add: retry_delay_def saturating_pow2_def)
qed

text \<open>
  The tracker's bookkeeping: tasks are tracked once, have not been used up, and each has the
  context of its job.
\<close>

definition task_ids :: "job_tracker \<Rightarrow> nat list" where
  "task_ids tk =
     (case tk_last tk of None \<Rightarrow> [] | Some (i, _) \<Rightarrow> [i]) @ map fst (tk_finished tk) @ tk_running tk"

definition tracker_ok :: "job_tracker \<Rightarrow> bool" where
  "tracker_ok tk \<longleftrightarrow>
     distinct (task_ids tk) \<and> set (task_ids tk) = dom (tk_contexts tk) \<and>
     (\<forall>i \<in> set (task_ids tk). i < tk_next_task tk)"

lemma length_task_ids: "length (task_ids tk) = running_jobs tk"
  by (simp add: task_ids_def running_jobs_def split: option.split)

lemma tracker_ok_new: "tracker_ok tracker_new"
  by (simp add: tracker_ok_def tracker_new_def task_ids_def)

lemma task_ids_spawn: "task_ids (spawn_job c tk) = task_ids tk @ [tk_next_task tk]"
  by (simp add: task_ids_def spawn_job_def)

lemma tracker_ok_spawn: "tracker_ok tk \<Longrightarrow> tracker_ok (spawn_job c tk)"
  unfolding tracker_ok_def task_ids_spawn by (auto simp: spawn_job_def intro: less_SucI)

lemma tracker_ok_context:
  assumes "tracker_ok tk" and "tk_last tk = Some (i, res)"
  shows "tk_contexts tk i \<noteq> None"
proof -
  have "i \<in> set (task_ids tk)"
    using assms(2) by (simp add: task_ids_def)
  with assms(1) show ?thesis
    by (simp add: tracker_ok_def domIff del: not_None_eq)
qed

lemma tracker_ok_spawn_reserved: "tracker_ok tk \<Longrightarrow> tracker_ok (spawn_reserved_jobs jobs tk)"
  unfolding spawn_reserved_jobs_def by (induction jobs arbitrary: tk) (auto intro: tracker_ok_spawn)

lemma running_jobs_spawn [simp]:
  "running_jobs (spawn_reserved_jobs jobs tk) = running_jobs tk + length jobs"
  unfolding spawn_reserved_jobs_def
  by (induction jobs arbitrary: tk) (simp_all add: spawn_job_def running_jobs_def)

lemma tracker_ok_task_ends: "tracker_ok tk \<Longrightarrow> tracker_ok (task_ends i r tk)"
  by (auto simp: tracker_ok_def task_ends_def task_ids_def set_remove1_eq split: option.splits)

lemma task_ends_fields [simp]:
  "tk_last (task_ends i r tk) = tk_last tk" "tk_contexts (task_ends i r tk) = tk_contexts tk"
  by (simp_all add: task_ends_def)

lemma task_ids_try_join_next: "tk_last tk = None \<Longrightarrow> task_ids (try_join_next tk) = task_ids tk"
  by (simp add: task_ids_def try_join_next_def split: list.split)

lemma tracker_ok_try_join_next: "tk_last tk = None \<Longrightarrow> tracker_ok tk \<Longrightarrow> tracker_ok (try_join_next tk)"
  by (simp add: tracker_ok_def task_ids_try_join_next)

lemma tracker_ok_settled:
  assumes "tracker_ok tk" and "tk_last tk = Some (i, res)"
  shows "tracker_ok (settled i tk)"
  using assms by (auto simp: tracker_ok_def task_ids_def settled_def)

lemma tracker_ok_collect: "tracker_ok tk \<Longrightarrow> tracker_ok (collect_next_job ends tk)"
  using tracker_ok_try_join_next [OF _ tracker_ok_task_ends]
  by (simp add: collect_next_job_def tracker_ok_try_join_next task_ends_fields split_def Let_def del: not_None_eq)

text \<open>Every joined task has a context: the tracker does not panic, and stays sound.\<close>

lemma process_jobs_ok:
  assumes "process_jobs tk w = (r, tk', w')" and "tracker_ok tk"
  shows "tracker_ok tk' \<and> (\<forall>m. r \<noteq> Inl (QPanic m))"
proof -
  let ?tk = "if tk_last tk = None then try_join_next tk else tk"
  have "process_loop ?tk w = (r, tk', w')" and "tracker_ok ?tk"
    using assms by (auto simp: process_jobs_def intro: tracker_ok_try_join_next)
  from process_loop_run [OF this(1), of "\<lambda>k _. tracker_ok k", OF this(2)]
  have "r = Inr () \<and> tracker_ok tk' \<or>
    (\<exists>tk1 i res. tracker_ok tk1 \<and> tk_last tk1 = Some (i, res) \<and>
       (tk_contexts tk1 i = None \<or> (\<exists>e. r = Inl (QRepository e) \<and> tk' = settled i tk1)))"
    by (fastforce intro: tracker_ok_try_join_next tracker_ok_settled)
  then show ?thesis
  proof (elim disjE exE conjE)
    fix tk1 i res
    assume "tracker_ok tk1" "tk_last tk1 = Some (i, res)" "tk_contexts tk1 i = None"
    then show ?thesis
      using tracker_ok_context by blast
  qed (auto intro: tracker_ok_settled)
qed

end
