(* ===== verification/Queue_Attempts.thy ===== *)
theory Queue_Attempts
  imports Queue_Runtime
begin

text \<open>
  Attempts are bounded: a job is only retried below \<open>MAX_ATTEMPTS\<close>, and what the tracker
  remembers of a job's attempt is what its row says. The theory proves both for the operations of
  a worker's tick and of the leader.
\<close>

definition attempts_ok :: "job_row list \<Rightarrow> bool" where
  "attempts_ok t \<longleftrightarrow> (\<forall>r \<in> set t. qj_attempt r \<le> int MAX_ATTEMPTS)"

definition bounded :: "world \<Rightarrow> bool" where
  "bounded w \<longleftrightarrow> consistent w \<and> attempts_ok (queue_jobs (w_db w))"

definition attempt_is :: "ulid \<Rightarrow> nat \<Rightarrow> world \<Rightarrow> bool" where
  "attempt_is i n w \<longleftrightarrow> (\<exists>r \<in> set (queue_jobs (w_db w)). qj_id r = i \<and> qj_attempt r = int n)"

lemma keeps_after: "P (snd (m s)) \<Longrightarrow> (\<And>x. keeps P (f x)) \<Longrightarrow> P (snd (bindE m f s))"
  by (auto simp: bindE_def keeps_def split: prod.splits sum.splits)

lemma evolved_attempt_is: "evolved (queue_jobs (w_db w)) w' \<Longrightarrow> attempt_is i n w \<Longrightarrow> attempt_is i n w'"
  unfolding evolved_def jobs_evolve_def attempt_is_def by (metis job_evolves_def)

lemma keeps_attempt_is:
  assumes "\<And>t. keeps (evolved t) m" and "consistent w" and "attempt_is i n w"
  shows "attempt_is i n (snd (m w))" "consistent (snd (m w))"
proof -
  have "evolved (queue_jobs (w_db w)) w"
    using assms(2) by (simp add: evolved_def)
  then have "evolved (queue_jobs (w_db w)) (snd (m w))"
    by (rule keeps_snd [OF assms(1)])
  then show "attempt_is i n (snd (m w))" "consistent (snd (m w))"
    using assms(3) evolved_attempt_is by (auto simp: evolved_def)
qed

lemma bounded_execute:
  assumes "\<And>d. db_ok d \<Longrightarrow> attempts_ok (queue_jobs d) \<Longrightarrow> attempts_ok (queue_jobs (snd (f d)))"
  shows "keeps bounded (execute f)"
proof (rule keepsI)
  fix w
  assume "bounded w"
  with assms [of "w_db w"] show "bounded (snd (execute f w))"
    by (auto simp: execute_def bounded_def consistent_def db_ok_def split: prod.splits list.splits)
qed

lemma bounded_simple [intro!]:
  "keeps bounded now" "keeps bounded (draw_id i)" "keeps bounded (query g)"
  by (simp_all add: keeps_def now_run draw_id_run query_run bounded_def consistent_def)

lemma bounded_update_jobs:
  assumes "\<And>r. qj_attempt (f r) = qj_attempt r"
  shows "keeps bounded (update_table queue_jobs put_jobs p f)"
  unfolding update_table_def
  by (intro bounded_execute) (auto simp: attempts_ok_def upd_rows_def assms)

lemma bounded_other [intro!]:
  "keeps bounded (update_table queue_schedules put_schedules ps fs)"
  "keeps bounded (update_table queue_workers put_workers pw fw)"
  "keeps bounded (delete_leader pl)"
  unfolding update_table_def insert_row_def delete_leader_def by (intro bounded_execute; simp)+

lemma bounded_mark [intro!]:
  "keeps bounded (mark_as_completed i)" "keeps bounded (mark_as_failed i reason)"
  "keeps bounded (schedule_available_jobs)"
  unfolding mark_as_completed_def mark_as_failed_def schedule_available_jobs_def
  by (intro keeps_bindE bounded_simple bounded_update_jobs consistent_ensure_affected_rows; simp)+

lemma bounded_insert_job [intro!]:
  "qj_attempt r \<le> int MAX_ATTEMPTS \<Longrightarrow> keeps bounded (insert_row queue_jobs put_jobs r)"
  unfolding insert_row_def by (intro bounded_execute) (simp add: attempts_ok_def)

lemma bounded_schedule [intro!]:
  "keeps bounded (schedule q p m)" "keeps bounded (schedule_later q p m at n)"
  unfolding schedule_def schedule_later_def
  by (auto intro!: keeps_bindE keeps_thenE simp: new_job_row_def split: option.split)

lemma bounded_reserve [intro!]: "keeps bounded (reserve pm k qs n)"
  unfolding reserve_def
  by (intro keeps_bindE bounded_execute bounded_simple keeps_of_result)
    (auto simp: Let_def attempts_ok_def upd_rows_def)

lemma bounded_abandoned [intro!]: "keeps bounded (mark_abandoned_jobs_as_failed reason)"
  unfolding mark_abandoned_jobs_as_failed_def
  by (intro keeps_bindE bounded_execute bounded_simple keeps_of_result)
    (auto simp: attempts_ok_def upd_rows_def)

lemma bounded_workers [intro!]:
  "keeps bounded (worker_heartbeat i)" "keeps bounded (worker_shutdown i)"
  "keeps bounded (shutdown_dead_workers dur)"
  "keeps bounded (remove_leader_lease_if_expired db_now)"
  "keeps bounded (try_get_leader_lease db_now i)" "keeps bounded (schedule_setup names)"
  unfolding worker_heartbeat_def worker_shutdown_def shutdown_dead_workers_def
    remove_leader_lease_if_expired_def try_get_leader_lease_def schedule_setup_def
  by (auto intro!: keeps_bindE keeps_thenE bounded_execute simp: Let_def upsert_leader_def)

lemma bounded_insert_retry:
  assumes "bounded w" and "attempt_is i n w" and "n < MAX_ATTEMPTS"
  shows "bounded (snd (insert_retry k c at i w))"
proof -
  let ?rows = "filter (\<lambda>r. qj_id r = i \<and> qj_status r = ''failed'') (queue_jobs (w_db w))"
  have "qj_attempt r = int n" if "r \<in> set (queue_jobs (w_db w))" "qj_id r = i" for r
    using assms that db_ok_distinct(11) [of "w_db w"] unfolding bounded_def consistent_def attempt_is_def
    by (metis distinct_map_key_inj)
  then have "attempts_ok (queue_jobs (w_db w) @ map (retry_row k c at) ?rows)"
    using assms by (auto simp: bounded_def attempts_ok_def retry_row_def)
  with assms(1) show ?thesis
    by (auto simp: insert_retry_def Let_def execute_def bounded_def consistent_def db_ok_def
        split: list.split)
qed

lemma bounded_retry:
  assumes "bounded w" and "attempt_is i n w" and "n < MAX_ATTEMPTS"
  shows "bounded (snd (retry i delay w))"
proof -
  have "keeps bounded (link_retry i k at x)" for k at x
    unfolding link_retry_def
    by (intro keeps_bindE keeps_thenE bounded_other bounded_update_jobs consistent_ensure_affected_rows)
      simp
  moreover have "bounded (after_new_id w)" "attempt_is i n (after_new_id w)"
    using assms by (simp_all add: bounded_def attempt_is_def consistent_def)
  ultimately show ?thesis
    unfolding retry_run using assms(3)
    by (intro keeps_after [where P = bounded] bounded_insert_retry [where n = n])
qed

section \<open>A worker's tick\<close>

lemma evolved_settle_job [intro!]: "keeps (evolved t) (settle_job c res)"
  unfolding settle_job_def retry_failed_def
  by (auto intro!: keeps_thenE keeps_whenE split: job_result.split job_error_decision.split)

lemma bounded_retry_failed:
  assumes "bounded w" and "attempt_is (jc_id c) (jc_attempt c) w"
  shows "bounded (snd (retry_failed c w))"
  using assms bounded_retry [OF assms] by (simp add: retry_failed_def whenE_run)

lemma bounded_settle_job:
  assumes "bounded w" and "attempt_is (jc_id c) (jc_attempt c) w"
  shows "bounded (snd (settle_job c res w))"
proof -
  have mark: "bounded (snd (mark_as_completed (jc_id c) w))"
    using assms(1) by (intro keeps_snd [where P = bounded] bounded_mark)
  have "bounded (snd (thenE (mark_as_failed (jc_id c) reason) m w))"
    if m: "m = ret () \<or> m = retry_failed c" for reason m
  proof -
    let ?w = "snd (mark_as_failed (jc_id c) reason w)"
    have "bounded ?w"
      using assms(1) by (intro keeps_snd [where P = bounded] bounded_mark)
    moreover have "attempt_is (jc_id c) (jc_attempt c) ?w"
      using assms by (intro keeps_attempt_is evolved_mark) (auto simp: bounded_def)
    ultimately have "bounded (snd (m ?w))"
      using m bounded_retry_failed by auto
    with \<open>bounded ?w\<close> show ?thesis
      by (auto simp: thenE_def bindE_def split: prod.splits sum.splits)
  qed
  with mark show ?thesis
    by (auto simp: settle_job_def split: job_result.split job_error_decision.split)
qed

definition contexts_agree :: "job_tracker \<Rightarrow> world \<Rightarrow> bool" where
  "contexts_agree tk w \<longleftrightarrow> (\<forall>i c. tk_contexts tk i = Some c \<longrightarrow> attempt_is (jc_id c) (jc_attempt c) w)"

lemma contexts_agree_evolved:
  "contexts_agree tk w \<Longrightarrow> evolved (queue_jobs (w_db w)) w' \<Longrightarrow> contexts_agree tk w'"
  unfolding contexts_agree_def using evolved_attempt_is by blast

lemma contexts_agree_keeps:
  assumes "\<And>t. keeps (evolved t) m" and "consistent w" and "contexts_agree tk w"
  shows "contexts_agree tk (snd (m w))"
proof (rule contexts_agree_evolved [OF assms(3)])
  have "evolved (queue_jobs (w_db w)) w"
    using assms(2) by (simp add: evolved_def)
  then show "evolved (queue_jobs (w_db w)) (snd (m w))"
    by (rule keeps_snd [OF assms(1)])
qed

text \<open>What holds of a worker between ticks.\<close>

definition worker_ok :: "worker_state \<Rightarrow> bool" where
  "worker_ok s \<longleftrightarrow>
     tracker_ok (ws_tracker s) \<and> running_jobs (ws_tracker s) \<le> MAX_CONCURRENT_JOBS \<and>
     bounded (ws_world s) \<and> contexts_agree (ws_tracker s) (ws_world s)"

lemma worker_ok_in_world [intro]:
  assumes "keeps bounded m" and "\<And>t. keeps (evolved t) m"
  shows "keeps worker_ok (in_world m)"
proof (rule keepsI)
  fix s
  assume s: "worker_ok s"
  have "bounded (snd (m (ws_world s)))"
    using s by (intro keeps_snd [where P = bounded] assms(1)) (simp add: worker_ok_def)
  moreover have "contexts_agree (ws_tracker s) (snd (m (ws_world s)))"
    using s assms(2) by (intro contexts_agree_keeps) (auto simp: worker_ok_def bounded_def)
  moreover have "snd (in_world m s) = s\<lparr>ws_world := snd (m (ws_world s))\<rparr>"
    by (simp add: in_world_def split: prod.split sum.split)
  ultimately show "worker_ok (snd (in_world m s))"
    using s by (simp add: worker_ok_def)
qed

lemma process_jobs_agree:
  assumes run: "process_jobs tk w = (r, tk', w')" and ok: "tracker_ok tk"
    and inv: "bounded w" "contexts_agree tk w"
  shows "bounded w' \<and> contexts_agree tk' w' \<and> running_jobs tk' \<le> running_jobs tk"
proof -
  let ?tk = "if tk_last tk = None then try_join_next tk else tk"
  let ?P = "\<lambda>k v. bounded v \<and> contexts_agree k v \<and> running_jobs k \<le> running_jobs tk"
  have agree: "contexts_agree (try_join_next (settled i k)) v" "contexts_agree (settled i k) v"
    if "contexts_agree k v" for i k v
    using that by (auto simp: contexts_agree_def)
  have fewer: "running_jobs (settled i k) \<le> running_jobs k" for i k
    by (simp add: running_jobs_def)
  have settle: "bounded (snd (settle_job c res v)) \<and> contexts_agree k (snd (settle_job c res v))"
    if "?P k v" and "tk_contexts k i = Some c" for k v c i res
    using that bounded_settle_job [of v c res] contexts_agree_keeps [OF evolved_settle_job, of v k c res]
    by (auto simp: contexts_agree_def bounded_def)
  have "process_loop ?tk w = (r, tk', w')"
    using run by (simp add: process_jobs_def)
  moreover have "?P ?tk w"
    using inv by (auto simp: contexts_agree_def)
  moreover have "?P (try_join_next (settled i k)) v1"
    if P: "?P k v" and c: "tk_contexts k i = Some c" and set: "settle_job c res v = (Inr (), v1)"
    for k v i res c v1
  proof -
    have "bounded v1" "contexts_agree k v1"
      using settle [OF P c, of res] set by simp_all
    then show ?thesis
      using agree(1) P fewer [of i k] by auto
  qed
  ultimately consider "?P tk' w'" | k v where "?P k v" "tk' = k\<lparr>tk_last := None\<rparr>" "w' = v"
    | k v i res c e where "?P k v" "tk_contexts k i = Some c" "settle_job c res v = (Inl e, w')"
        "tk' = settled i k"
    using process_loop_run [of ?tk w r tk' w' ?P] by blast
  then show ?thesis
  proof cases
    case (3 k v i res c e)
    with settle [OF 3(1,2), of res] agree(2) [of k w' i] fewer [of i k] show ?thesis
      by auto
  qed (auto simp: contexts_agree_def running_jobs_def)
qed

lemma worker_ok_process [intro!]: "keeps worker_ok run_process_jobs"
proof (rule keepsI)
  fix s
  assume s: "worker_ok s"
  obtain r tk w where run: "process_jobs (ws_tracker s) (ws_world s) = (r, tk, w)"
    by (metis prod_cases3)
  with s process_jobs_ok [OF run] process_jobs_agree [OF run]
  show "worker_ok (snd (run_process_jobs s))"
    by (auto simp: worker_ok_def run_process_jobs_def)
qed

lemma map_Inr_mem: "map f xs = map Inr ys \<Longrightarrow> y \<in> set ys \<Longrightarrow> \<exists>x \<in> set xs. f x = Inr y"
  by (induction xs arbitrary: ys) auto

lemma reserve_attempts:
  assumes run: "reserve pm k qs n w = (Inr jobs, w')" and ok: "consistent w" and j: "j \<in> set jobs"
  shows "attempt_is (j_id j) (j_attempt j) w'"
proof -
  have "evolved (queue_jobs (w_db w)) w'"
    using ok by (intro keepsD [OF evolved_reserve run]) (simp add: evolved_def)
  moreover have "attempt_is (j_id j) (j_attempt j) w"
  proof -
    from reserve_Inr(1) [OF run] j obtain r
      where "r \<in> set (queue_jobs (w_db w))" "decode_job pm r = Inr j"
      using map_Inr_mem by fastforce
    then show ?thesis
      unfolding attempt_is_def by (metis decode_job_fields(1,4))
  qed
  ultimately show ?thesis
    by (rule evolved_attempt_is)
qed

lemma contexts_agree_spawn:
  assumes "contexts_agree tk w" and "\<forall>j \<in> set jobs. attempt_is (j_id j) (j_attempt j) w"
  shows "contexts_agree (spawn_reserved_jobs jobs tk) w"
  using assms unfolding spawn_reserved_jobs_def
proof (induction jobs arbitrary: tk)
  case (Cons j jobs)
  have "contexts_agree (spawn_job (build_context j) tk) w"
    using Cons.prems by (auto simp: contexts_agree_def spawn_job_def build_context_def)
  with Cons show ?case
    by simp
qed simp

lemma worker_ok_spawn:
  assumes "worker_ok s" and "running_jobs (ws_tracker s) + length jobs \<le> MAX_CONCURRENT_JOBS"
    and "\<forall>j \<in> set jobs. attempt_is (j_id j) (j_attempt j) (ws_world s)"
  shows "worker_ok (snd (spawn_jobs jobs s))"
  using assms by (simp add: worker_ok_def spawn_jobs_def tracker_ok_spawn_reserved contexts_agree_spawn)

lemma worker_ok_fetch [intro!]: "keeps worker_ok (fetch_jobs pm k)"
proof (rule keepsI)
  fix s
  assume s: "worker_ok s"
  let ?n = "jobs_to_fetch_capacity (running_jobs (ws_tracker s))"
  let ?m = "reserve pm k (tk_queues (ws_tracker s)) ?n"
  have world: "worker_ok (snd (in_world ?m s))"
    using s by (intro keeps_snd [where P = worker_ok] worker_ok_in_world) auto
  have "worker_ok (snd (bindE (in_world ?m) spawn_jobs s))"
  proof (cases "fst (?m (ws_world s))")
    case (Inr jobs)
    then obtain w where run: "?m (ws_world s) = (Inr jobs, w)"
      by (metis fst_conv surj_pair)
    have ok: "consistent (ws_world s)"
      using s by (simp add: worker_ok_def bounded_def)
    have "worker_ok (s\<lparr>ws_world := w\<rparr>)"
      using world run by (simp add: in_world_def)
    then have "worker_ok (snd (spawn_jobs jobs (s\<lparr>ws_world := w\<rparr>)))"
      using reserved_count [OF run ok] reserve_attempts [OF run ok] s
      by (intro worker_ok_spawn) (auto simp: jobs_to_fetch_capacity_def worker_ok_def)
    with run show ?thesis
      by (simp add: bindE_def in_world_def)
  next
    case (Inl e)
    with world show ?thesis
      by (auto simp: bindE_def in_world_def split: prod.splits sum.splits)
  qed
  with s show "worker_ok (snd (fetch_jobs pm k s))"
    by (simp add: fetch_jobs_def whenE_run bindE_def [of "gets _"])
qed

lemma worker_ok_heartbeat [intro!]: "keeps worker_ok (send_heartbeat k at age)"
proof -
  have "keeps worker_ok (set_last_heartbeat at)"
    by (simp add: keeps_def set_last_heartbeat_def worker_ok_def)
  then show ?thesis
    unfolding send_heartbeat_def by (intro keeps_whenE keeps_thenE worker_ok_in_world) auto
qed

lemma worker_ok_tick: "keeps worker_ok (tick_worker pm db_now k)"
  unfolding tick_worker_def
  by (intro keeps_bindE keeps_thenE worker_ok_in_world worker_ok_heartbeat worker_ok_process
      worker_ok_fetch keeps_gets keeps_ret) auto

section \<open>The leader\<close>

lemma evolved_forE [intro]:
  "(\<And>x. x \<in> set xs \<Longrightarrow> keeps P (f x)) \<Longrightarrow> keeps P (forE xs f)"
  by (induction xs) (auto intro!: keeps_thenE)

lemma evolved_recover [intro!]: "keeps (evolved t) recover_abandoned_jobs"
  unfolding recover_abandoned_jobs_def
  by (intro keeps_thenE keeps_bindE evolved_workers evolved_abandoned evolved_forE)
    (auto intro!: keeps_whenE)

lemma bounded_retries:
  assumes "bounded w" and "\<forall>(i, n) \<in> set jobs. attempt_is i n w"
  shows "bounded (snd (forE jobs (\<lambda>(i, n). whenE (n < MAX_ATTEMPTS) (retry i 0)) w))"
  using assms
proof (induction jobs arbitrary: w)
  case (Cons job jobs)
  obtain i n where job: "job = (i, n)" by fastforce
  let ?m = "whenE (n < MAX_ATTEMPTS) (retry i 0)"
  have b: "bounded (snd (?m w))"
    using Cons.prems job bounded_retry [of w i n 0] by (auto simp: whenE_run)
  have "attempt_is j m (snd (?m w))" if "attempt_is j m w" for j m
    using Cons.prems(1) that by (intro keeps_attempt_is keeps_whenE evolved_retry) (simp_all add: bounded_def)
  with Cons.prems(2) have "\<forall>(i, n) \<in> set jobs. attempt_is i n (snd (?m w))"
    by auto
  from Cons.IH [OF b this] b job show ?case
    by (auto simp: thenE_def bindE_def split: prod.splits sum.splits)
qed simp

lemma abandoned_attempts:
  assumes run: "mark_abandoned_jobs_as_failed reason w = (Inr jobs, w')" and ok: "consistent w"
  shows "\<forall>(i, n) \<in> set jobs. attempt_is i n w'"
proof -
  have ev: "evolved (queue_jobs (w_db w)) w'"
    using ok by (intro keepsD [OF evolved_abandoned run]) (simp add: evolved_def)
  have "map decode_abandoned (filter (abandoned (w_db w)) (queue_jobs (w_db w))) = map Inr jobs"
    using run by (auto simp: mark_abandoned_jobs_as_failed_def run_simps collect_results_Inr)
  then have from_row: "\<exists>r \<in> set (queue_jobs (w_db w)). decode_abandoned r = Inr job"
    if "job \<in> set jobs" for job
    using map_Inr_mem that by fastforce
  have "attempt_is i n w'" if job: "(i, n) \<in> set jobs" for i n
  proof -
    from from_row [OF job] obtain r where "r \<in> set (queue_jobs (w_db w))"
        "decode_abandoned r = Inr (i, n)"
      by blast
    then have "attempt_is i n w"
      unfolding attempt_is_def decode_abandoned_def by (intro bexI [of _ r]) (auto split: if_splits)
    with ev show ?thesis
      by (rule evolved_attempt_is)
  qed
  then show ?thesis
    by blast
qed

lemma bounded_recover: "keeps bounded recover_abandoned_jobs"
proof (rule keepsI)
  fix w
  assume "bounded w"
  then have w1: "bounded (snd (shutdown_dead_workers (2 * 60 * 1000 * 1000) w))"
    by (intro keeps_snd [where P = bounded] bounded_workers)
  let ?retries = "\<lambda>jobs. forE jobs (\<lambda>(i, n). whenE (n < MAX_ATTEMPTS) (retry i 0))"
  have "bounded (snd (bindE (mark_abandoned_jobs_as_failed reason) ?retries v))"
    if v: "bounded v" for reason v
  proof (cases "fst (mark_abandoned_jobs_as_failed reason v)")
    case (Inr jobs)
    then obtain v1 where run: "mark_abandoned_jobs_as_failed reason v = (Inr jobs, v1)"
      by (metis fst_conv surj_pair)
    have "bounded v1"
      using v by (rule keepsD [OF bounded_abandoned run])
    with run show ?thesis
      using abandoned_attempts [OF run] v bounded_retries [of v1 jobs] by (simp add: bindE_def bounded_def)
  next
    case (Inl e)
    with keeps_snd [where P = bounded, OF bounded_abandoned v, of reason] show ?thesis
      by (auto simp: bindE_def split: prod.splits sum.splits)
  qed
  from this [OF w1] w1 show "bounded (snd (recover_abandoned_jobs w))"
    by (auto simp: recover_abandoned_jobs_def thenE_def bindE_def [of "shutdown_dead_workers _"]
        split: prod.splits sum.splits)
qed

lemma bounded_leader_work: "keeps bounded (leader_work schedules)"
proof -
  have "keeps bounded (schedule_next at statuses sd)" for at statuses sd
    unfolding schedule_next_def
    by (auto intro!: keeps_map_err split: option.split)
  moreover have "keeps bounded (repaired_statuses schedules statuses)" for statuses
    unfolding repaired_statuses_def schedule_list_def Let_def
    by (auto intro!: keeps_thenE)
  ultimately show ?thesis
    unfolding leader_work_def schedule_list_def
    by (intro keeps_bindE keeps_thenE keeps_map_err bounded_recover evolved_forE bounded_simple
        bounded_mark keeps_ret)
qed

text \<open>After recovery no running job belongs to a worker that was shut down.\<close>

definition none_abandoned :: "world \<Rightarrow> bool" where
  "none_abandoned w \<longleftrightarrow> (\<forall>r \<in> set (queue_jobs (w_db w)). \<not> abandoned (w_db w) r)"

lemma none_abandoned_execute:
  assumes "\<And>d. \<forall>r \<in> set (queue_jobs d). \<not> abandoned d r \<Longrightarrow>
    \<forall>r \<in> set (queue_jobs (snd (f d))). \<not> abandoned (snd (f d)) r"
  shows "keeps none_abandoned (execute f)"
proof (rule keepsI)
  fix w
  assume "none_abandoned w"
  with assms [of "w_db w"] show "none_abandoned (snd (execute f w))"
    by (auto simp: execute_def none_abandoned_def split: prod.splits list.splits)
qed

lemma none_abandoned_retry: "keeps none_abandoned (retry i delay)"
proof -
  have "keeps none_abandoned now" "\<And>t. keeps none_abandoned (draw_id t)"
    by (simp_all add: keeps_def now_run draw_id_run none_abandoned_def)
  moreover have "keeps none_abandoned (insert_retry k c at j)" for k c at j
  proof -
    have "keeps none_abandoned (execute (\<lambda>d. (n, put_jobs (queue_jobs d @ map (retry_row k c at) rows) d)))"
      for n :: nat and rows
      by (rule none_abandoned_execute) (auto simp: abandoned_def retry_row_def new_job_row_def)
    then show ?thesis
      by (intro keepsI) (simp add: insert_retry_def Let_def keeps_def)
  qed
  moreover have "keeps none_abandoned (link_retry j k at n)" for j k at n
    unfolding link_retry_def update_table_def
    by (intro keeps_bindE keeps_thenE none_abandoned_execute consistent_ensure_affected_rows)
      (auto simp: abandoned_def upd_rows_def)
  ultimately show ?thesis
    unfolding retry_def by (intro keeps_bindE)
qed

lemma none_abandoned_after_mark:
  "mark_abandoned_jobs_as_failed reason w = (Inr jobs, w') \<Longrightarrow> none_abandoned w'"
  by (auto simp: mark_abandoned_jobs_as_failed_def run_simps none_abandoned_def upd_rows_def abandoned_def)

lemma recover_none_abandoned:
  assumes "recover_abandoned_jobs w = (Inr u, w')"
  shows "none_abandoned w'"
proof -
  let ?retries = "\<lambda>jobs. forE jobs (\<lambda>(i, n). whenE (n < MAX_ATTEMPTS) (retry i 0))"
  from assms obtain jobs w1 w2 where
    "mark_abandoned_jobs_as_failed ''worker lost heartbeat'' w1 = (Inr jobs, w2)"
    and run: "?retries jobs w2 = (Inr u, w')"
    by (auto simp: recover_abandoned_jobs_def run_simps)
  then have "none_abandoned w2"
    by (intro none_abandoned_after_mark)
  moreover have "keeps none_abandoned (?retries jobs)"
    by (intro evolved_forE) (auto intro!: keeps_whenE none_abandoned_retry)
  ultimately show ?thesis
    using run by (metis keeps_snd snd_conv)
qed

section \<open>Draining\<close>

text \<open>A worker that shuts down successfully has first settled every job it was running.\<close>

lemma drain_jobs_done:
  assumes "drain_jobs ends tk w = (Inr u, tk', w')"
  shows "running_jobs tk' = 0"
  using assms
proof (induction ends tk w rule: drain_jobs.induct)
  case (1 ends tk w)
  show ?case
  proof (cases "running_jobs tk = 0")
    case False
    from False "1.prems" obtain tk1 w1 where
      "process_jobs (collect_next_job ends tk) w = (Inr (), tk1, w1)"
      "drain_jobs ends tk1 w1 = (Inr u, tk', w')"
      by (subst (asm) drain_jobs.simps) (auto split: prod.splits sum.splits)
    with "1.IH" [OF False] show ?thesis
      by (metis (full_types))
  qed (use "1.prems" in \<open>simp add: drain_jobs.simps\<close>)
qed

lemma drain_jobs_ok:
  assumes "tracker_ok tk" and "drain_jobs ends tk w = (r, tk', w')"
  shows "r \<noteq> Inl (QPanic m)"
  using assms
proof (induction ends tk w rule: drain_jobs.induct)
  case (1 ends tk w)
  show ?case
  proof (cases "running_jobs tk = 0")
    case True
    with "1.prems" show ?thesis
      by (auto simp: drain_jobs.simps)
  next
    case False
    obtain r1 tk1 w1 where run: "process_jobs (collect_next_job ends tk) w = (r1, tk1, w1)"
      by (metis prod_cases3)
    have ok: "tracker_ok tk1" "r1 \<noteq> Inl (QPanic m)"
      using process_jobs_ok [OF run tracker_ok_collect [OF "1.prems"(1)]] by auto
    show ?thesis
    proof (cases r1)
      case (Inl e)
      with "1.prems"(2) False run ok show ?thesis
        by (subst (asm) drain_jobs.simps) auto
    next
      case (Inr u)
      with "1.prems"(2) False run have "drain_jobs ends tk1 w1 = (r, tk', w')"
        by (subst (asm) drain_jobs.simps) auto
      with "1.IH" [OF False run [symmetric] Inr refl] ok show ?thesis
        by auto
    qed
  qed
qed

lemma process_loop_not_leader:
  assumes "process_loop tk w = (r, tk', w')"
  shows "r \<noteq> Inl QNotLeader"
  using assms
  by (induction tk w rule: process_loop.induct)
    (subst (asm) (2) process_loop.simps,
     auto simp: Let_def split: option.splits prod.splits sum.splits)

lemma drain_jobs_not_leader:
  assumes "drain_jobs ends tk w = (r, tk', w')"
  shows "r \<noteq> Inl QNotLeader"
  using assms
proof (induction ends tk w rule: drain_jobs.induct)
  case (1 ends tk w)
  obtain r1 tk1 w1 where run: "process_jobs (collect_next_job ends tk) w = (r1, tk1, w1)"
    by (metis prod_cases3)
  have r1: "r1 \<noteq> Inl QNotLeader"
    using run unfolding process_jobs_def by (rule process_loop_not_leader)
  show ?case
  proof (cases "running_jobs tk = 0")
    case True
    with "1.prems" show ?thesis
      by (auto simp: drain_jobs.simps)
  next
    case False
    show ?thesis
    proof (cases r1)
      case (Inl e)
      with "1.prems" False run r1 show ?thesis
        by (subst (asm) drain_jobs.simps) auto
    next
      case (Inr u)
      with "1.prems" False run have "drain_jobs ends tk1 w1 = (r, tk', w')"
        by (subst (asm) drain_jobs.simps) auto
      with "1.IH" [OF False run [symmetric] Inr refl] show ?thesis
        by auto
    qed
  qed
qed

section \<open>The leader's lock\<close>

lemma lock_free_recycled: "lock_free conn key (get_connection conn s) \<longleftrightarrow> lock_free conn key s"
  by (auto simp: lock_free_def get_connection_def cleanup_pooled_postgres_connection_def list_all_iff)

lemma leader_lock_after:
  assumes "run_leader_duties key conn schedules s = (r, s')" and "lock_free conn key s"
  shows "ls_locks s' = (case r of Inl _ \<Rightarrow> [(conn, key)] | Inr _ \<Rightarrow> []) @ ls_locks (get_connection conn s)"
  using assms
  by (auto simp: run_leader_duties_def lock_free_recycled Let_def split: prod.splits sum.splits)

lemma recycled_lock_free:
  assumes "lock_free conn key s"
  shows "lock_free c key (get_connection conn s)"
  using assms
  by (auto simp: lock_free_def get_connection_def cleanup_pooled_postgres_connection_def list_all_iff)

lemma recycled_twice:
  "ls_locks s' = ls @ ls_locks (get_connection conn s) \<Longrightarrow> list_all (\<lambda>(c, k). c = conn) ls \<Longrightarrow>
     ls_locks (get_connection conn s') = ls_locks (get_connection conn s)"
  by (auto simp: get_connection_def cleanup_pooled_postgres_connection_def list_all_iff filter_empty_conv
      conj_commute)

end
