(* ===== verification/Demo_Queue.thy ===== *)
theory Demo_Queue
  imports Demo_World Queue_Attempts
begin

text \<open>
  Concrete queues: a job that waits, a job that its dead worker left behind, one that cannot be decoded,
  and the e-mail addresses of a user.
\<close>

definition demo_job :: job_row where
  "demo_job = new_job_row 21 0 ''sync-devices'' JNull JNull"

definition demo_worker :: worker_row where
  "demo_worker = \<lparr>qw_id = 20, qw_registered_at = 0, qw_last_seen_at = 0, qw_shutdown_at = None\<rparr>"

definition demo_metadata :: "json \<Rightarrow> job_metadata option" where
  "demo_metadata = (\<lambda>_. Some \<lparr>jm_trace_id = [], jm_span_id = [], jm_trace_flags = 0\<rparr>)"

definition demo_queue_db :: db where
  "demo_queue_db = demo_db\<lparr>queue_jobs := [demo_job], queue_workers := [demo_worker]\<rparr>"

lemmas demo_queue_defs = demo_queue_db_def demo_job_def demo_worker_def new_job_row_def

lemma demo_queue_consistent: "consistent (demo_world demo_queue_db)"
  by (simp add: consistent_def db_ok_def demo_queue_defs demo_defs run_defs)

lemma demo_reserve:
  "\<exists>j w'. reserve demo_metadata 20 [''sync-devices''] 5 (demo_world demo_queue_db) = (Inr [j], w') \<and> j_id j = 21"
  by (simp add: reserve_def lockable_jobs_def decode_job_def demo_metadata_def of_result_def demo_queue_defs
      run_defs demo_defs)

lemma demo_lease: "\<exists>w'. try_get_leader_lease 0 20 (demo_world demo_queue_db) = (Inr True, w')"
  by (simp add: try_get_leader_lease_def upsert_leader_def demo_queue_defs run_defs demo_defs)

text \<open>A job whose worker is gone.\<close>

definition demo_lost_db :: "int \<Rightarrow> db" where
  "demo_lost_db attempt = demo_db\<lparr>queue_workers := [demo_worker\<lparr>qw_shutdown_at := Some 0\<rparr>],
     queue_jobs := [demo_job\<lparr>qj_status := ''running'', qj_started_at := Some 0, qj_started_by := Some 20,
       qj_attempt := attempt\<rparr>]\<rparr>"

lemma demo_lost_abandoned: "\<not> none_abandoned (demo_world (demo_lost_db n))"
  by (simp add: none_abandoned_def abandoned_def demo_lost_db_def demo_queue_defs demo_defs)

lemma new_id_not_21 [simp]: "fst (new_id 1000000 g) \<noteq> 21" "21 \<noteq> fst (new_id 1000000 g)"
  using new_id_demo [of g] by auto

lemma demo_recover: "\<exists>w'. recover_abandoned_jobs (demo_world (demo_lost_db 0)) = (Inr (), w')"
  by (simp add: recover_abandoned_jobs_def shutdown_dead_workers_def mark_abandoned_jobs_as_failed_def abandoned_def
      decode_abandoned_def of_result_def retry_def insert_retry_def link_retry_def retry_row_def
      ensure_affected_rows_def MAX_ATTEMPTS_def demo_lost_db_def demo_queue_defs run_defs demo_defs)

lemma demo_recover_fails:
  "\<exists>err w'. recover_abandoned_jobs (demo_world (demo_lost_db (- 1))) = (Inl err, w')"
  by (simp add: recover_abandoned_jobs_def shutdown_dead_workers_def mark_abandoned_jobs_as_failed_def abandoned_def
      decode_abandoned_def of_result_def demo_lost_db_def demo_queue_defs run_defs demo_defs)

definition demo_leader :: "db \<Rightarrow> leader_state" where
  "demo_leader d = \<lparr>ls_world = demo_world d, ls_locks = []\<rparr>"

lemma demo_leader_fails:
  "\<exists>err s'. run_leader_duties 1 0 [] (demo_leader (demo_lost_db (- 1))) = (Inl err, s')"
  using demo_recover_fails
  by (auto simp: run_leader_duties_def demo_leader_def get_connection_def
      cleanup_pooled_postgres_connection_def lock_free_def leader_work_def thenE_def bindE_def map_err_def Let_def)

definition demo_worker_state :: worker_state where
  "demo_worker_state =
     \<lparr>ws_world = demo_world demo_queue_db, ws_tracker = register_queue ''sync-devices'' tracker_new,
      ws_last_heartbeat = 0\<rparr>"

lemma demo_worker_ok: "worker_ok demo_worker_state"
  using demo_queue_consistent
  by (simp add: worker_ok_def demo_worker_state_def tracker_ok_def task_ids_def running_jobs_def
      register_queue_def tracker_new_def MAX_CONCURRENT_JOBS_def bounded_def attempts_ok_def contexts_agree_def
      MAX_ATTEMPTS_def demo_world_db demo_queue_defs)

definition demo_tracker :: job_tracker where
  "demo_tracker = spawn_job \<lparr>jc_id = 21, jc_queue_name = ''sync-devices'', jc_attempt = 0\<rparr> tracker_new"

lemma demo_tracker_ok: "tracker_ok demo_tracker"
  by (simp add: demo_tracker_def tracker_ok_spawn tracker_ok_new)

lemma demo_completed: "\<exists>w'. mark_as_completed 21 (demo_world (demo_lost_db 0)) = (Inr (), w')"
  by (simp add: mark_as_completed_def ensure_affected_rows_def demo_lost_db_def demo_queue_defs run_defs demo_defs)

lemma demo_drain:
  "\<exists>tk' w'. drain_jobs (\<lambda>_. (0, JobOk)) demo_tracker (demo_world (demo_lost_db 0)) = (Inr (), tk', w')"
  using demo_completed
  by (auto simp: demo_tracker_def spawn_job_def tracker_new_def running_jobs_def collect_next_job_def
      next_to_end_def task_ends_def process_jobs_def try_join_next_def settle_job_def map_err_def process_loop.simps drain_jobs.simps)

section \<open>E-mail addresses\<close>

definition demo_email :: "ulid \<Rightarrow> bool \<Rightarrow> user_email_row" where
  "demo_email i primary =
     \<lparr>em_id = i, em_user_id = 1, em_email = ''a@b.c'', em_created_at = 0, em_updated_at = 0,
      em_confirmed_at = Some 0, em_is_primary = primary\<rparr>"

definition demo_second_email :: user_email_row where
  "demo_second_email = (demo_email 12 False)\<lparr>em_email := ''x@b.c''\<rparr>"

definition demo_email_db :: db where
  "demo_email_db = demo_db\<lparr>user_emails := [demo_email 11 True, demo_second_email]\<rparr>"

definition make_primary :: user_email_patch where
  "make_primary = \<lparr>ep_email = None, ep_confirmed = None, ep_is_primary = Some True\<rparr>"

lemma demo_email_consistent: "consistent (demo_world demo_email_db)"
  by (simp add: consistent_def db_ok_def demo_email_db_def demo_second_email_def demo_email_def demo_defs run_defs)

lemma demo_email_patch:
  "\<exists>e w'. email_patch (build_user_email demo_second_email) make_primary
     (demo_world demo_email_db) = (Inr e, w')
     \<and> map em_is_primary (user_emails (w_db w')) = [False, True]"
  by (simp add: email_patch_def email_patch_is_empty_def make_primary_def patch_confirmed_def patch_address_def
      patch_primary_def demote_others_def write_email_def ensure_affected_rows_def build_user_email_def
      demo_email_db_def demo_second_email_def demo_email_def run_defs demo_defs)

end
