(* ===== verification/Spec2Isabelle.thy ===== *)
theory Spec2Isabelle
  imports Demo_Requests Demo_Queue
begin

text \<open>
  A verification development for Pasion, an OAuth 2.0 and OpenID Connect provider written in Rust.
  All paths below are under \<open>src/crates\<close>.

  \<^bold>\<open>The program.\<close> HTTP handlers (\<open>backend/src/handlers\<close>) open a repository, a PostgreSQL transaction,
  call service functions on it and save it when they succeed; a repository that is dropped is rolled
  back. The repositories (\<open>data/src/pg\<close>) translate rows to the domain types of \<open>data/src\<close>, whose state
  machines say which transitions a token, session or grant may make. Background work goes through a job
  queue (\<open>tasks/src/new_queue\<close>, \<open>data/src/pg/queue\<close>) with workers and an elected leader.

  \<^bold>\<open>How it is modelled.\<close> Fallible and stateful code is a function in an exception and state monad
  (\<open>exc\<close> of \<open>Prelude\<close>: \<open>bindE\<close>, \<open>throw\<close>, \<open>ok_or\<close>, \<open>ensure\<close>). The state \<open>world\<close> of \<open>Database\<close> holds the view
  of the open transaction (\<open>w_db\<close>), the committed database (\<open>w_committed\<close>), the clock, the random
  generator and the activity that was recorded. A table is the list of its rows; \<open>execute\<close> runs a statement
  and fails when the resulting database violates a constraint of the schema (\<open>violations\<close>). The
  readings of the clock are an arbitrary sequence. Machine integers keep their width where they can overflow
  (identifiers, checksums, retry delays). Code that is not in the repository is an argument: cryptography,
  encodings, the homeserver, templates (\<open>env\<close> of \<open>Service_Env\<close>), URL parsing (\<open>url_api\<close> of
  \<open>Authorization\<close>), the policy engine (\<open>grant_policy\<close> of \<open>Consent\<close>).

  \<^bold>\<open>The theories.\<close>
  \<^item> \<open>Prelude\<close>: the monad with its inversion rules (\<open>run_simps\<close>), the predicate \<open>keeps\<close>, rows and strings.
  \<^item> Data: \<open>Identifiers\<close> (\<open>data/src/clock.rs\<close>, \<open>new_id\<close>), \<open>Token_Format\<close> (\<open>data/src/tokens.rs\<close>), \<open>Scope\<close>, \<open>Pkce\<close>
    and \<open>Protocol_Types\<close> (\<open>oauth2-types/src\<close>), \<open>OAuth_Model\<close> (the domain types and their state machines;
    locale \<open>one_shot\<close> for transitions that happen once).
  \<^item> Storage: \<open>Database\<close> (schema and transactions), \<open>Repository\<close> (the shape the repositories share; the locale
    \<open>repository\<close> is the contract of a table seen as a partial map from identifiers, \<open>repository_step\<close> that
    of an operation that implements a state machine), \<open>Pagination\<close>, and on top of them \<open>Session_Storage\<close>,
    \<open>Token_Storage\<close>, \<open>Grant_Storage\<close>, \<open>Personal_Storage\<close>, \<open>Personal_Listing\<close>, \<open>User_Storage\<close>, \<open>Account_Storage\<close> and
    \<open>Queue_Storage\<close>, which interpret the two locales on their operations.
  \<^item> Services: \<open>Service_Env\<close> and \<open>Token_Service\<close> (\<open>oauth2/token.rs\<close>, \<open>oauth2/token_service.rs\<close>), \<open>Introspection\<close>,
    \<open>Revocation\<close>, \<open>Authorization\<close> (\<open>oauth2/authorization\<close>, \<open>oauth2/device\<close>), \<open>Consent\<close> (\<open>oauth2/access.rs\<close>),
    \<open>Upstream_Logout\<close> (\<open>upstream_oauth2/backchannel_logout.rs\<close>), \<open>User_Jobs\<close> (\<open>tasks/src/user.rs\<close>), \<open>Queue_Runtime\<close>
    (\<open>tasks/src/new_queue\<close>).
  \<^item> Reasoning: \<open>Token_Steps\<close>, \<open>Refresh_Rotation\<close> and \<open>Token_Effects\<close> (what token requests commit, and the invariant
    \<open>tokens_ok\<close>), \<open>Frames\<close> (what an operation leaves alone), \<open>Guards\<close> (locales \<open>frame\<close> and \<open>token_frame\<close>: properties
    of the database that every handler keeps), \<open>Queue_Attempts\<close> (the invariant of a worker), \<open>System\<close>
    (\<open>serve\<close>, the relation of one served request, which interprets the locales of \<open>Guards\<close>).
  \<^item> Instances: \<open>Demo_World\<close>, \<open>Demo_Requests\<close> and \<open>Demo_Queue\<close>, concrete worlds on which the properties are applied.

  \<^bold>\<open>What is shown here.\<close> Over all sequences of requests: a code is exchanged once, a session has one usable
  refresh token, an ended session stays ended. For the token endpoint: what each grant requires and exactly
  what it commits, what a refused request may commit, and the treatment of replayed codes. For
  introspection and revocation: which tokens are live, who gets administrative scopes, that revoked tokens and
  deactivated users are locked out and nobody else is. For authorization and consent: where users are redirected, which
  grants and sessions are started and by whom. For the data types: round trips, exactness of the token and
  PKCE checks, ordering of identifiers, refinement of the state machines by the repositories. For the queue:
  a job is handed out once, the bookkeeping of workers, recovery, draining, the leader's lease and lock.
  Some theorems state behaviour that the code hardly intends: client credentials are never granted, a late
  replay after the end of its session is a server error, a back-channel logout ignores its claims and ends
  sessions of other providers, a device grant without a scope and an authorization grant with an unknown
  PKCE method cannot be read, and introspection refuses personal tokens of locked actors, which the
  documentation allows.

  \<^bold>\<open>Loops, bounds and fuel.\<close> The loops of the tracker (\<open>process_loop\<close>, \<open>drain_jobs\<close>) and the base 62 encoding
  are total functions with termination proofs. The rejection sampling of codes (\<open>generate_code\<close>) is partial
  and may not return; \<open>generate_code_returns\<close> says when it does. The loop over the pages of a back-channel
  logout has as fuel one more than the number of browser sessions, which \<open>affected_users_complete\<close> shows
  to be enough; \<open>collect_pages\<close> is a client of the listings and needs one page more than there are rows.

  \<^bold>\<open>Simplifications.\<close> Time is counted in whole microseconds, the resolution of the stored timestamps; the
  clock of the code may read finer instants, which storing cuts off. The foreign keys into tables that are
  not modelled are left out (\<open>Database\<close> lists them). A task that the queue waits for is assumed to end, in
  any order and with any result (\<open>next_to_end\<close>). Checking a connection out of the pool does not fail, and
  releases the advisory locks that the connection still held, as the recycling hook of \<open>backend/src/util.rs\<close>
  does (\<open>get_connection\<close>). Requests are served one after another, and nothing is said about two transactions
  that are open at once. \<open>serve\<close> has the token, authorization, consent, device authorization, device consent,
  introspection, revocation and back-channel logout requests and the deactivation job; the theorems over
  sequences of requests are about these, not about handlers that are not modelled or the clean-up jobs. The query parameters of a redirect URI, a hash map in
  the code, are a list. Metrics, logs and tracing are left out.

  \<^bold>\<open>Not modelled.\<close> Client authentication at the token, introspection, revocation and device endpoints
  (the model starts with the authenticated client) and the verification of logout tokens, because they
  consist of HTTP extraction and cryptography of other crates. The admin and account APIs, the login,
  registration and recovery flows, upstream logins, dynamic client registration and the repositories
  that only they use: handlers of the same shape as those modelled, left for further work. The activity
  worker, the listener, the server set-up, configuration, command line, messaging, templates, translations and
  the homeserver connection: input and output. JOSE, the key store, password hashing, rate limiting and the policy
  engine: third-party code behind a thin interface. The front end and the generators of the IANA registries.
  Inside modelled parts: the device filter of personal sessions (raw SQL), the activity batch and
  the clean-up of browser sessions, and the writing of clients.
\<close>

section \<open>The server over a sequence of requests\<close>

text \<open>
  C1. An authorization code is exchanged at most once: after a token request has exchanged it, no
  sequence of further requests leads to a state in which a token request for the same code succeeds,
  whichever client sends it.
\<close>

theorem code_exchanged_once:
  assumes "token_post e ip ua c (Some (TR_AuthorizationCode q)) (drop_repo w) = (Inr params, w1)"
    and "db_ok (w_committed w)" and "served w1 w2" and "cq_code q' = cq_code q"
  shows "token_post e' ip' ua' c' (Some (TR_AuthorizationCode q')) (drop_repo w2) \<noteq> (Inr params', w3)"
proof
  assume "token_post e' ip' ua' c' (Some (TR_AuthorizationCode q')) (drop_repo w2) = (Inr params', w3)"
  then obtain w4 where "exchange_authorization_code e' ip' ua' q' c' (drop_repo w2) = (Inr params', w4)"
    by (auto simp: token_post_def request_Inr bindE_Inr ok_or_Inr dispatch_grant_def map_err_Inr)
  moreover have "db_ok (w_committed w1)"
    using serve_db_ok [OF serve.token [OF assms(1)] assms(2)] .
  ultimately show False
    using served_spent [OF assms(3) _ exchange_spends [OF assms(1)]] served_db_ok [OF assms(3)]
      spent_refused [of q' "drop_repo w2"] assms(4)
    by (simp add: drop_repo_def)
qed

theorem code_exchanged_once_witness:
  "\<exists>params w1. token_post demo_env None None demo_client (Some (TR_AuthorizationCode demo_code))
       (drop_repo (demo_world demo_db)) = (Inr params, w1)
     \<and> (\<forall>params' w3. token_post demo_env None None demo_client (Some (TR_AuthorizationCode demo_code))
          (drop_repo w1) \<noteq> (Inr params', w3))"
proof -
  obtain params w1 where run: "token_post demo_env None None demo_client
      (Some (TR_AuthorizationCode demo_code)) (drop_repo (demo_world demo_db)) = (Inr params, w1)"
    using demo_token_post by blast
  have "db_ok (w_committed (demo_world demo_db))"
    by (simp add: demo_world_db demo_db_ok)
  with run show ?thesis
    using code_exchanged_once [OF run] by blast
qed

text \<open>
  C2. At every moment a session has at most one usable refresh token: the invariant of the token
  tables, kept by every sequence of requests, from any database that satisfies it.
\<close>

theorem one_live_refresh_token:
  assumes "served w w'" and "db_ok (w_committed w)" and "tokens_ok (w_committed w)"
    and "x \<in> set (oauth2_refresh_tokens (w_committed w'))" and "live x"
    and "y \<in> set (oauth2_refresh_tokens (w_committed w'))" and "live y"
    and "or_session_id x = or_session_id y"
  shows "x = y"
proof -
  have "one_live (oauth2_refresh_tokens (w_committed w'))"
    using served_tokens [OF assms(1-3)] by (simp add: tokens_ok_def)
  then have "or_id x = or_id y"
    unfolding one_live_def using assms(4-8) by blast
  moreover have "distinct (map or_id (oauth2_refresh_tokens (w_committed w')))"
    by (rule db_ok_distinct(7) [OF served_db_ok [OF assms(1,2)]])
  ultimately show ?thesis
    using assms(4,6) unfolding distinct_map inj_on_def by blast
qed

theorem one_live_refresh_token_witness:
  "\<exists>params w'. token_post demo_env None None demo_client (Some (TR_RefreshToken ''refresh''))
       (drop_repo (demo_world (demo_token_db ''access''))) = (Inr params, w')
     \<and> length (filter live (oauth2_refresh_tokens (w_committed w'))) = 1"
proof -
  let ?w = "demo_world (demo_token_db ''access'')"
  obtain params w' where run: "token_post demo_env None None demo_client
      (Some (TR_RefreshToken ''refresh'')) (drop_repo ?w) = (Inr params, w')"
    and new: "\<exists>r \<in> set (oauth2_refresh_tokens (w_committed w')). live r"
    and own: "\<forall>r \<in> set (oauth2_refresh_tokens (w_committed w')). or_session_id r = 4"
    using demo_refresh_post by (elim exE conjE) (rule that)
  let ?T = "oauth2_refresh_tokens (w_committed w')"
  have steps: "served ?w w'"
    by (rule r_into_rtranclp) (rule serve.token [OF run])
  have ok: "db_ok (w_committed ?w)" "tokens_ok (w_committed ?w)"
    by (simp_all add: demo_world_db demo_token_db_ok demo_tokens_ok)
  have eq: "x = y" if "x \<in> set ?T" "live x" "y \<in> set ?T" "live y" for x y
    using own that(1,3) by (intro one_live_refresh_token [OF steps ok that]) simp
  have "distinct ?T"
    using db_ok_distinct(7) [OF served_db_ok [OF steps ok(1)]] by (rule distinct_mapI)
  then have "length (filter live ?T) = 1"
    using new eq by (rule length_filter_unique)
  with run show ?thesis
    by blast
qed

text \<open>
  C3. A session that has ended never comes back: whatever requests follow, no token of it is
  accepted by the introspection endpoint, because the session is not live again.
\<close>

theorem ended_session_stays_ended:
  assumes "served w w'" and "db_ok (w_committed w)" and "session_over i (w_committed w)"
  shows "\<not> live_session (w_committed w') i"
  using over_not_live [OF served_over [OF assms] served_db_ok [OF assms(1,2)]] .

theorem ended_session_stays_ended_witness:
  "\<exists>w'. revoke_post demo_env None demo_access_token None (Some 2) (drop_repo demo_live_world) = ((200, None), w')
     \<and> live_session (w_committed demo_live_world) 4 \<and> \<not> live_session (w_committed w') 4"
proof -
  obtain w' where run: "revoke_post demo_env None demo_access_token None (Some 2)
      (drop_repo demo_live_world) = ((200, None), w')" and over: "session_over 4 (w_committed w')"
    using demo_revoke_post by blast
  have "db_ok (w_committed w')"
    using serve_db_ok [OF serve.revoke [OF run]] by (simp add: demo_world_db demo_token_db_ok)
  from ended_session_stays_ended [OF rtranclp.rtrancl_refl this over] show ?thesis
    using run demo_live_session by (simp add: demo_world_db)
qed

section \<open>The token endpoint\<close>

text \<open>
  C4. A token request that exchanges an authorization code succeeds only for a fulfilled grant of that
  code, at most ten minutes old, whose session belongs to the client, with the redirect URI of the
  authorization request and the PKCE proof; it commits exactly a new token pair for that session, the
  grant marked as exchanged and, at most, the user agent of sessions.
\<close>

theorem code_exchange_sound:
  assumes "token_post e ip ua c (Some (TR_AuthorizationCode q)) w = (Inr params, w')"
  shows "\<exists>g s at arow rrow f. redeemable e q c (w_db w) (clock_reading w) g s
    \<and> pair_rows e (s_id s) arow rrow \<and> ar_access_token params = oa_access_token arow
    \<and> ar_refresh_token params = Some (or_refresh_token rrow) \<and> ar_scope params = Some (s_scope s)
    \<and> agent_update f \<and> w_committed w' = (add_pair arow rrow (w_db w))
         \<lparr>oauth2_sessions := map f (oauth2_sessions (w_db w)),
          oauth2_authorization_grants := upd_rows (\<lambda>r. og_id r = ag_id g) (exchange_grant_row at)
            (oauth2_authorization_grants (w_db w))\<rparr>"
proof -
  from assms obtain w1 where "exchange_authorization_code e ip ua q c w = (Inr params, w1)"
    and w': "w_committed w' = w_db w1"
    by (auto simp: token_post_Inr dispatch_grant_def map_err_Inr)
  from exchange_code_Inr [OF this(1)] show ?thesis
    unfolding w' by blast
qed

theorem code_exchange_sound_witness:
  "\<exists>params w'. token_post demo_env None None demo_client (Some (TR_AuthorizationCode demo_code))
       (demo_world demo_db) = (Inr params, w')
     \<and> (\<exists>g s. redeemable demo_env demo_code demo_client demo_db 1000000 g s
            \<and> ar_scope params = Some (s_scope s))"
proof -
  obtain params w' where run: "token_post demo_env None None demo_client
      (Some (TR_AuthorizationCode demo_code)) (demo_world demo_db) = (Inr params, w')"
    using demo_token_post by auto
  from code_exchange_sound [OF run] show ?thesis
    using run by (auto simp: demo_world_db demo_clock)
qed

text \<open>
  C5. A token request with a refresh token succeeds only for a token that was not revoked, of a valid
  session of the client, and commits exactly the rotation of its pair: the new pair is added for the
  session, the old refresh token is consumed in favour of the new one, the old access token is revoked
  if it was not yet, and the user agent of the session is recorded when the request names one. If the
  token had been consumed before, neither token of the pair it was exchanged for had been used, and
  both are revoked as well. No other session and no other token changes, and nothing else does.
\<close>

theorem refresh_sound:
  assumes "token_post e ip ua c (Some (TR_RefreshToken token)) w = (Inr params, w')"
    and "db_ok (w_db w)"
  shows "\<exists>r s arow rrow T1 t0 t1 t2. may_refresh c (w_db w) token r s
    \<and> lost_pair_revoked r (oauth2_refresh_tokens (w_db w)) T1
    \<and> lost_unused r (oauth2_refresh_tokens (w_db w)) (oauth2_access_tokens (w_db w))
    \<and> pair_rows e (s_id s) arow rrow
    \<and> ar_access_token params = oa_access_token arow
    \<and> ar_refresh_token params = Some (or_refresh_token rrow) \<and> ar_scope params = Some (s_scope s)
    \<and> w_committed w' = (w_db w)\<lparr>
        oauth2_sessions := agent_rows ua (s_id s) (oauth2_sessions (w_db w)),
        oauth2_access_tokens := revoke_in (rt_access_token_id r) t2
          (revoke_in (lost_access r (oauth2_refresh_tokens (w_db w))) t0
            (oauth2_access_tokens (w_db w))) @ [arow],
        oauth2_refresh_tokens := upd_rows (\<lambda>x. or_id x = rt_id r) (consume_row (or_id rrow) t1)
          (T1 @ [rrow])\<rparr>"
proof -
  from assms(1) obtain w1 where "handle_refresh_token e ip ua token c w = (Inr params, w1)"
    and w': "w_committed w' = w_db w1"
    by (auto simp: token_post_Inr dispatch_grant_def map_err_Inr)
  from handle_refresh_Inr [OF this(1) assms(2)] show ?thesis
    unfolding w' rotated_def by blast
qed

theorem refresh_sound_witness:
  "\<exists>params w'. token_post demo_env None None demo_client (Some (TR_RefreshToken ''refresh''))
       (demo_world (demo_token_db ''access'')) = (Inr params, w')
     \<and> (\<exists>r s. may_refresh demo_client (demo_token_db ''access'') ''refresh'' r s
            \<and> ar_scope params = Some (s_scope s))"
proof -
  obtain params w' where run: "token_post demo_env None None demo_client
      (Some (TR_RefreshToken ''refresh'')) (demo_world (demo_token_db ''access'')) = (Inr params, w')"
    using demo_refresh_post unfolding drop_demo by blast
  have "db_ok (w_db (demo_world (demo_token_db ''access'')))"
    by (simp add: demo_world_db demo_token_db_ok)
  from refresh_sound [OF run this] obtain r s where
    "may_refresh demo_client (demo_token_db ''access'') ''refresh'' r s" "ar_scope params = Some (s_scope s)"
    unfolding demo_world_db by (elim exE conjE) (rule that)
  with run show ?thesis
    by blast
qed

text \<open>
  C6. A device code is exchanged only when its user has approved it, before it expires and by its own
  client; the request commits a new session of that user with the scope of the grant, its access token
  and, for a client that may refresh, a refresh token, and the grant marked as exchanged, and no other
  session, token or grant changes beyond a user agent.
\<close>

theorem device_exchange_sound:
  assumes "token_post e ip ua c (Some (TR_DeviceCode code)) w = (Inr params, w')"
  shows "\<exists>g b row sid t f arow rrows. device_redeemable e code c (w_db w) (clock_reading w) g b
    \<and> sid \<notin> os_id ` set (oauth2_sessions (w_db w)) \<and> os_id row = sid
    \<and> os_user_id row = Some (u_id (bs_user b)) \<and> os_client_id row = c_id c
    \<and> os_scope_list row = dg_scope g \<and> device_tokens e c sid arow rrows \<and> ar_access_token params = oa_access_token arow
    \<and> agent_update f
    \<and> w_committed w' = (w_db w)\<lparr>oauth2_sessions := map f (oauth2_sessions (w_db w) @ [row]),
        oauth2_device_code_grant := upd_rows (\<lambda>r. od_id r = dg_id g) (exchange_device_row sid t)
          (oauth2_device_code_grant (w_db w)),
        oauth2_access_tokens := oauth2_access_tokens (w_db w) @ [arow],
        oauth2_refresh_tokens := oauth2_refresh_tokens (w_db w) @ rrows\<rparr>"
proof -
  from assms obtain w1 where "exchange_device_code e ip ua code c w = (Inr params, w1)"
    and w': "w_committed w' = w_db w1"
    by (auto simp: token_post_Inr dispatch_grant_def map_err_Inr)
  from exchange_device_Inr [OF this(1)] show ?thesis
    unfolding w' by blast
qed

theorem device_exchange_sound_witness:
  "\<exists>params w'. token_post demo_env None None demo_client (Some (TR_DeviceCode ''device''))
       (demo_world demo_device_db) = (Inr params, w')
     \<and> (\<exists>g b. device_redeemable demo_env ''device'' demo_client demo_device_db 1000000 g b)"
proof -
  obtain params w' where run: "token_post demo_env None None demo_client
      (Some (TR_DeviceCode ''device'')) (demo_world demo_device_db) = (Inr params, w')"
    using demo_device_post by blast
  from device_exchange_sound [OF run] show ?thesis
    using run by (auto simp: demo_world_db demo_clock)
qed

text \<open>
  C7. A refused token request commits nothing but the end and the user agent of sessions: the sessions
  are otherwise the same, every other table of the committed database is unchanged, and the transaction is
  closed.
\<close>

theorem refused_token_request:
  assumes "token_post e ip ua c form w = (Inl err, w')" and "w_committed w = w_db w"
  shows "(w_committed w')\<lparr>oauth2_sessions := map unended (oauth2_sessions (w_committed w'))\<rparr> =
      (w_committed w)\<lparr>oauth2_sessions := map unended (oauth2_sessions (w_committed w))\<rparr>
    \<and> w_db w' = w_committed w'"
  using token_post_refused [OF assms] by (simp add: but_sessions_def)

theorem refused_token_request_witness:
  "\<exists>err w'. token_post demo_env None None demo_client (Some (TR_RefreshToken ''other'')) (demo_world demo_db)
       = (Inl err, w')
     \<and> (w_committed w')\<lparr>oauth2_sessions := map unended (oauth2_sessions (w_committed w'))\<rparr> =
         demo_db\<lparr>oauth2_sessions := map unended (oauth2_sessions demo_db)\<rparr>"
proof -
  have "\<exists>err w'. token_post demo_env None None demo_client (Some (TR_RefreshToken ''other''))
      (demo_world demo_db) = (Inl err, w')"
    by (simp add: token_post_def request_def dispatch_grant_def handle_refresh_token_def
        load_refresh_session_def refresh_token_find_by_token_def run_defs demo_defs)
  then obtain err w' where run: "token_post demo_env None None demo_client
      (Some (TR_RefreshToken ''other'')) (demo_world demo_db) = (Inl err, w')"
    by blast
  from refused_token_request [OF run] show ?thesis
    using run by (simp add: demo_world_db)
qed

text \<open>
  C8. A client credentials request is never granted: the session it needs has no user, which the
  database refuses.
\<close>

theorem client_credentials_never_granted:
  "token_post e ip ua c (Some (TR_ClientCredentials sc)) w \<noteq> (Inr params, w')"
  using client_credentials_fails by (auto simp: token_post_Inr dispatch_grant_def map_err_Inr)

text \<open>
  C9. A code presented again within twenty seconds of its exchange is refused as an invalid grant, and
  nothing is written.
\<close>

theorem replay_soon_refused:
  assumes "load_grant e q c w = (Inr g, w)" and "ag_stage g = G_Exchanged sid ft x"
    and "clock_reading w - x \<le> 20 * 1000 * 1000"
  shows "exchange_authorization_code e ip ua q c w = (Inl (CE_InvalidGrant (ag_id g)), tick w)"
  by (rule exchanged_code_run [OF assms(1,2)]) (use assms(3) in \<open>simp add: replayed_recent\<close>)

theorem replay_soon_refused_witness:
  "exchange_authorization_code demo_env None None demo_code demo_client (demo_world (demo_token_db ''access''))
     = (Inl (CE_InvalidGrant 5), tick (demo_world (demo_token_db ''access'')))"
  using replay_soon_refused [OF demo_load_exchanged [of "''access''" 0], of 4 0 0]
  by (simp add: demo_exchanged_grant_def demo_grant_value_def demo_clock demo_exchanged_db_0)

text \<open>
  C10. A code presented again more than twenty seconds after its exchange ends the session that it
  started: the request is refused, and the end of the session is committed nevertheless.
\<close>

theorem replay_late_ends_session:
  assumes "load_grant e q c w = (Inr g, w)" and "ag_stage g = G_Exchanged sid ft x"
    and "20 * 1000 * 1000 < clock_reading w - x" and "consistent w"
    and "row_by_id os_id (oauth2_sessions (w_db w)) sid = Some r" and "decode_session r = Inr s"
    and "os_finished_at r = None"
  shows "\<exists>w'. exchange_authorization_code e ip ua q c w = (Inl (CE_InvalidGrant (ag_id g)), w')
    \<and> session_over sid (w_committed w')"
proof -
  have s: "s_id s = sid" "s_state s = S_Valid"
    using assms(5-7) by (auto simp: decode_session_Inr dest: row_by_id_SomeD)
  let ?w = "tick w"
  have row: "row_by_id os_id (oauth2_sessions (w_db ?w)) (s_id s) = Some r"
    using assms(5) s by simp
  have ok: "consistent ?w"
    using assms(4) by (simp add: consistent_def)
  let ?d = "(w_db w)\<lparr>oauth2_sessions := upd_rows (\<lambda>r. os_id r = sid) (finish_row (clock_reading ?w))
    (oauth2_sessions (w_db w))\<rparr>"
  let ?w' = "(tick ?w)\<lparr>w_db := ?d, w_committed := ?d, w_locks := []\<rparr>"
  have es: "end_session CE_Repository s ?w = (Inr (), ?w')"
    by (simp add: end_session_valid [OF ok row s(2)] s(1) Let_def)
  have "replayed_code (clock_reading w) g sid x ?w =
      ((Inl (CE_InvalidGrant (ag_id g)), ?w') :: (code_exchange_error + ulid) \<times> world)"
    using es assms(3,5,6) by (simp add: replayed_old)
  from exchanged_code_run [OF assms(1,2) this] have
    "exchange_authorization_code e ip ua q c w = (Inl (CE_InvalidGrant (ag_id g)), ?w')" .
  moreover have "session_over sid ?d"
    by (rule finish_session_over [OF assms(5)])
  ultimately show ?thesis
    by auto
qed

theorem replay_late_ends_session_witness:
  "\<exists>w'. exchange_authorization_code demo_env None None demo_code demo_client
       (demo_world (demo_exchanged_db ''access'' (- 30000000))) = (Inl (CE_InvalidGrant 5), w')
     \<and> session_over 4 (w_committed w')"
  using replay_late_ends_session [OF demo_load_exchanged [of "''access''" "- 30000000"], of 4 0 "- 30000000" demo_session
      demo_session_value None None]
  by (simp add: demo_exchanged_grant_def demo_grant_value_def demo_clock demo_exchanged_consistent
      demo_exchanged_session demo_session_decodes demo_world_db)

text \<open>
  C11. When the session of a late replayed code has already ended, the same request fails with an
  internal repository error instead of the invalid grant error, and commits nothing.
\<close>

theorem replay_after_end_errors:
  assumes "load_grant e q c w = (Inr g, w)" and "ag_stage g = G_Exchanged sid ft x"
    and "20 * 1000 * 1000 < clock_reading w - x" and "consistent w"
    and "row_by_id os_id (oauth2_sessions (w_db w)) sid = Some r" and "decode_session r = Inr s"
    and "os_finished_at r = Some y"
  shows "\<exists>w'. exchange_authorization_code e ip ua q c w = (Inl (CE_Repository InvalidOperation), w')
    \<and> w_committed w' = w_committed w"
proof -
  have s: "s_id s = sid" "s_state s = S_Finished y"
    using assms(5-7) by (auto simp: decode_session_Inr dest: row_by_id_SomeD)
  let ?w = "tick w"
  have row: "row_by_id os_id (oauth2_sessions (w_db ?w)) (s_id s) = Some r"
    using assms(5) s by simp
  have ok: "consistent ?w"
    using assms(4) by (simp add: consistent_def)
  obtain w' where fin: "end_session CE_Repository s ?w = (Inl (CE_Repository InvalidOperation), w')"
    "w_committed w' = w_committed w"
    using end_session_finished [OF ok row s(2)] by auto
  have "replayed_code (clock_reading w) g sid x ?w =
      ((Inl (CE_Repository InvalidOperation), w') :: (code_exchange_error + ulid) \<times> world)"
    using fin assms(3,5,6) by (simp add: replayed_old)
  from exchanged_code_run [OF assms(1,2) this] fin(2) show ?thesis
    by auto
qed

theorem replay_after_end_errors_witness:
  "\<exists>w'. exchange_authorization_code demo_env None None demo_code demo_client
       (demo_world (demo_ended_db (- 30000000))) = (Inl (CE_Repository InvalidOperation), w')
     \<and> w_committed w' = demo_ended_db (- 30000000)"
  using replay_after_end_errors [OF demo_load_ended [of "- 30000000"], of 4 0 "- 30000000"
      "demo_session\<lparr>os_finished_at := Some 0\<rparr>" "demo_session_value\<lparr>s_state := S_Finished 0\<rparr>" 0 None None]
  by (simp add: demo_exchanged_grant_def demo_grant_value_def demo_clock demo_ended_consistent
      demo_ended_session demo_ended_decodes demo_world_db)

section \<open>Introspection, revocation and deactivation\<close>



text \<open>
  C13. Introspection reports an admin scope only for a token whose subject may hold it: the user named
  in the reply exists and may request admin scopes, whatever scopes the session was granted before.
\<close>

theorem admin_scope_needs_admin:
  assumes "introspect_token e token hint w = (Inr reply, w')" and "ir_scope reply = Some sc"
    and "requires_admin sc"
  shows "\<exists>u. u \<in> set (users (w_db w)) \<and> ur_can_request_admin u \<and> ir_username reply = Some (ur_username u)"
  using introspect_token_admin [OF assms] by blast

theorem admin_scope_needs_admin_witness:
  "\<exists>reply sc w'. introspect_token demo_env demo_access_token None (demo_world demo_admin_db) = (Inr reply, w')
     \<and> ir_scope reply = Some sc \<and> requires_admin sc \<and> ir_username reply = Some ''alice''"
proof -
  obtain reply sc w' where
    run: "introspect_token demo_env demo_access_token None (demo_world demo_admin_db) = (Inr reply, w')"
    and sc: "ir_scope reply = Some sc" "requires_admin sc"
    using demo_admin_introspect by blast
  from admin_scope_needs_admin [OF run sc] have "ir_username reply = Some ''alice''"
    by (auto simp: demo_world_db demo_admin_db_def demo_user_def)
  with run sc show ?thesis
    by blast
qed

text \<open>
  C14. A revoked token is dead, and its session with it, and nothing else is. Once the revocation
  service has accepted a token and the request is committed, the token belonged to a session, and a
  token of any kind is live, under whatever hint and at whatever time, exactly when it was and belongs
  to another session; an OAuth 2.0 session is live exactly when it was and is not the token's, and so
  is a personal session.
\<close>

theorem revoked_token_dead:
  assumes "request (revoke_token e ip token hint client_id) w = (Inr u, w')"
  shows "\<exists>i. token_session e (w_db w) token = Some i
    \<and> (\<forall>at hint'. \<not> live_token e (w_committed w') at token hint')
    \<and> (\<forall>at other hint'. live_token e (w_committed w') at other hint' \<longleftrightarrow>
         live_token e (w_db w) at other hint' \<and> token_session e (w_db w) other \<noteq> Some i)
    \<and> (\<forall>j. live_session (w_committed w') j \<longleftrightarrow> live_session (w_db w) j \<and> i \<noteq> (SK_OAuth2, j))
    \<and> (\<forall>j. live_personal_session (w_committed w') j \<longleftrightarrow>
         live_personal_session (w_db w) j \<and> i \<noteq> (SK_Personal, j))"
proof -
  from assms obtain w1 where run: "revoke_token e ip token hint client_id w = (Inr u, w1)"
    and w': "w_committed w' = w_db w1"
    by (auto simp: request_Inr)
  from revoke_token_exact [OF run] obtain i where "token_session e (w_db w) token = Some i"
      "ends_session e (Some i) (w_db w) (w_db w1)"
    by auto
  then show ?thesis
    unfolding w' ends_session_def by (intro exI [of _ i]) simp
qed

theorem revoked_token_dead_witness:
  "\<exists>w'. request (revoke_token demo_env None demo_access_token None (Some 2)) demo_live_world = (Inr (), w')
     \<and> live_token demo_env (w_db demo_live_world) 1000000 demo_access_token None
     \<and> \<not> live_token demo_env (w_committed w') 1000000 demo_access_token None
     \<and> live_session (w_committed w') 9 = live_session (w_db demo_live_world) 9
     \<and> live_personal_session (w_committed w') 9 = live_personal_session (w_db demo_live_world) 9"
proof -
  obtain w1 where "revoke_token demo_env None demo_access_token None (Some 2) demo_live_world = (Inr (), w1)"
    using demo_revoke by blast
  then obtain w' where run: "request (revoke_token demo_env None demo_access_token None (Some 2))
      demo_live_world = (Inr (), w')"
    by (auto simp: request_def save_def)
  have "token_session demo_env (w_db demo_live_world) demo_access_token = Some (SK_OAuth2, 4)"
    by (simp add: token_session_def demo_check session_of_token_def demo_world_db demo_token_defs demo_db_def)
  with revoked_token_dead [OF run] run demo_live_token show ?thesis
    by auto
qed

text \<open>
  C15. The deactivation job ends everything of the user and nothing of anybody else, also when its call
  to the homeserver fails and it is to be retried: in the committed database the user is deactivated,
  every browser session and every OAuth 2.0 session of the user is finished, every personal session in
  which the user acts or which the user owns is revoked, no e-mail address of the user is left, and the
  users, sessions and addresses that are not the user's are the ones of before.
\<close>

theorem deactivated_user_locked_out:
  assumes "run_deactivate_user e lower to_lowercase delete_user i hs_erase w = (r, w')"
    and "consistent w" and "r = Inr () \<or> r = Inl (JE_Retry None)"
  shows "(\<exists>u. row_by_id ur_id (users (w_committed w')) i = Some u \<and> ur_deactivated_at u \<noteq> None)
    \<and> (\<forall>s \<in> set (user_sessions (w_committed w')). us_user_id s = i \<longrightarrow> us_finished_at s \<noteq> None)
    \<and> (\<forall>s \<in> set (oauth2_sessions (w_committed w')). os_user_id s = Some i \<longrightarrow> os_finished_at s \<noteq> None)
    \<and> (\<forall>s \<in> set (personal_sessions (w_committed w')).
         pr_actor_user_id s = i \<or> pr_owner_user_id s = Some i \<longrightarrow> pr_revoked_at s \<noteq> None)
    \<and> (\<forall>m \<in> set (user_emails (w_committed w')). em_user_id m \<noteq> i)
    \<and> others i (w_committed w') = others i (w_db w)"
  using run_deactivate_user_saved [OF assms]
  by (auto simp: deactivated_def no_sessions_of_def split: option.splits)

theorem deactivated_user_locked_out_witness:
  "\<exists>w'. run_deactivate_user demo_env id id (\<lambda>_ _. False) 1 True (demo_world demo_db)
       = (Inl (JE_Retry None), w')
     \<and> (\<exists>u. row_by_id ur_id (users (w_committed w')) 1 = Some u \<and> ur_deactivated_at u \<noteq> None)
     \<and> (\<nexists>s. s \<in> set (oauth2_sessions (w_committed w')) \<and> os_user_id s = Some 1 \<and> os_finished_at s = None)"
proof -
  obtain w' where run: "run_deactivate_user demo_env id id (\<lambda>_ _. False) 1 True (demo_world demo_db)
      = (Inl (JE_Retry None), w')"
    using demo_deactivate by blast
  have "consistent (demo_world demo_db)"
    by (simp add: consistent_def demo_world_db demo_db_ok)
  from deactivated_user_locked_out [OF run this] run show ?thesis
    by blast
qed

section \<open>Authorization, consent and logout\<close>

text \<open>
  C16. The authorization endpoint sends nobody to an address that the client did not register: every
  callback it replies with is built for a redirect URI of the client named in the request, registered
  up to the port of a loopback address.
\<close>

theorem authorization_redirects_registered:
  assumes "authorization_get api us ulid_parse ip language cookie q w = Some (Inr (AR_Callback reply), w')"
  shows "\<exists>i row uri mode dest params. ulid_parse (az_client_id q) = Some i
    \<and> row_by_id (c_id \<circ> cr_client) (oauth2_clients (w_db w)) i = Some row
    \<and> registered_uri api (cr_client row) uri \<and> callback_try_new api mode uri (az_state q) = Inr dest
    \<and> callback_go api dest params = Some reply"
proof -
  obtain rr params where res: "resolve_request api ulid_parse q w = (Inr rr, w)"
    and go: "callback_go api (rr_callback rr) params = Some reply"
    using assms by (rule authorization_get_callback)
  from resolve_request_Inr(6) [OF res] obtain i row where "ulid_parse (az_client_id q) = Some i"
    "row_by_id (c_id \<circ> cr_client) (oauth2_clients (w_db w)) i = Some row" "cr_client row = rr_client rr"
    by blast
  with resolve_request_Inr(5) [OF res] resolve_redirect_uri_registered(1) [OF resolve_request_Inr(2) [OF res]] go
  show ?thesis
    by metis
qed

theorem authorization_redirects_registered_witness:
  "\<exists>reply row uri. authorization_get demo_api (\<lambda>_. ''ulid'') (\<lambda>_. Some 2) None ''en'' None
       (demo_authorization\<lparr>az_has_request := True\<rparr>) (demo_world demo_db)
       = Some (Inr (AR_Callback reply), demo_world demo_db)
     \<and> row_by_id (c_id \<circ> cr_client) (oauth2_clients demo_db) 2 = Some row
     \<and> registered_uri demo_api (cr_client row) uri"
proof -
  obtain reply where run: "authorization_get demo_api (\<lambda>_. ''ulid'') (\<lambda>_. Some 2) None ''en'' None
      (demo_authorization\<lparr>az_has_request := True\<rparr>) (demo_world demo_db)
      = Some (Inr (AR_Callback reply), demo_world demo_db)"
    using demo_authorization_callback by blast
  from authorization_redirects_registered [OF run] run show ?thesis
    unfolding demo_world_db by (metis option.inject)
qed

text \<open>
  C17. An authorization request commits nothing, or exactly one new pending grant that records the
  request: of the named client, with a registered redirect URI, and with a code exactly when the
  response type asks for one.
\<close>

theorem authorization_starts_one_grant:
  assumes "authorization_get api us ulid_parse ip language cookie q w = Some (r, w')"
    and "w_committed w = w_db w"
  shows "w_committed w' = w_db w \<or> (\<exists>i t rr code ci row.
    ulid_parse (az_client_id q) = Some ci
    \<and> row_by_id (c_id \<circ> cr_client) (oauth2_clients (w_db w)) ci = Some row \<and> cr_client row = rr_client rr
    \<and> registered_uri api (rr_client rr) (rr_redirect_uri rr) \<and> refusal (rr_client rr) q = None
    \<and> (code \<noteq> None \<longleftrightarrow> has_code (az_response_type q)) \<and> db_ok (w_committed w')
    \<and> w_committed w' = put_grants (oauth2_authorization_grants (w_db w)
        @ [new_grant_row i t (grant_params_of rr q code language)]) (w_db w))"
proof -
  note effect = authorization_get_effect [OF assms]
  show ?thesis
  proof (cases "w_db w' = w_db w")
    case False
    with effect obtain i t rr code where res: "resolve_request api ulid_parse q w = (Inr rr, w)"
      and rest: "refusal (rr_client rr) q = None" "db_ok (w_db w')"
        "code \<noteq> None \<longleftrightarrow> has_code (az_response_type q)"
        "w_db w' = put_grants (oauth2_authorization_grants (w_db w)
            @ [new_grant_row i t (grant_params_of rr q code language)]) (w_db w)"
      by blast
    obtain ci row where "ulid_parse (az_client_id q) = Some ci"
      "row_by_id (c_id \<circ> cr_client) (oauth2_clients (w_db w)) ci = Some row" "cr_client row = rr_client rr"
      using resolve_request_Inr(6) [OF res] by blast
    with rest resolve_redirect_uri_registered(1) [OF resolve_request_Inr(2) [OF res]] effect show ?thesis
      by metis
  qed (use effect in simp)
qed

theorem authorization_starts_one_grant_witness:
  "\<exists>i w' (rr :: resolved_request). authorization_get demo_api (\<lambda>_. ''ulid'') (\<lambda>_. Some 2) None ''en'' None demo_authorization
       (demo_world demo_db) = Some (Inr (AR_Login i), w')
     \<and> registered_uri demo_api (rr_client rr) (rr_redirect_uri rr)
     \<and> length (oauth2_authorization_grants (w_committed w')) = 2"
proof -
  obtain i w' where run: "authorization_get demo_api (\<lambda>_. ''ulid'') (\<lambda>_. Some 2) None ''en'' None
      demo_authorization (demo_world demo_db) = Some (Inr (AR_Login i), w')"
    and two: "length (oauth2_authorization_grants (w_committed w')) = 2"
    using demo_authorization_login by blast
  have one: "length (oauth2_authorization_grants demo_db) = 1"
    by (simp add: demo_db_def)
  have "w_committed w' \<noteq> w_db (demo_world demo_db)"
    using two one by (auto simp: demo_world_db)
  with authorization_starts_one_grant [OF run] obtain rr :: resolved_request where
    "registered_uri demo_api (rr_client rr) (rr_redirect_uri rr)"
    by (auto simp: demo_world_db)
  with run two show ?thesis
    by blast
qed

text \<open>
  C18. A consent is accepted for a pending grant, when the policy allows it and the user may hold its
  scopes: it commits one new session of that user for the client and scope of the grant and fulfils the
  grant with it. Or the same user had consented before, and nothing is written. The reply carries the
  code of the grant.
\<close>

theorem consent_fulfils_grant:
  assumes "accept_authorization_consent e api policy b i ip ua w = (Inr dec, w')"
  shows "\<exists>g c. store (decode_grant (e_url_parse e)) og_id (oauth2_authorization_grants (w_db w)) i = Some g
    \<and> rs_code (cn_params dec) = map_option ac_code (ag_code g)
    \<and> (ag_stage g = G_Pending \<and> consented b c g (cn_session dec) (w_db w) (w_committed w')
         \<and> c_id c = ag_client_id g \<and> admin_scope_allowed (bs_user b) (ag_scope g)
         \<and> (\<exists>counts. fst (count_user_sessions_for_limiting (bs_user b) w) = Inr counts
              \<and> policy (bs_user b) c counts (ag_scope g) PG_AuthorizationCode ip ua = Some True)
       \<or> (\<exists>t. ag_stage g = G_Fulfilled (s_id (cn_session dec)) t)
         \<and> s_user_id (cn_session dec) = Some (u_id (bs_user b)) \<and> w_committed w' = w_committed w)"
  by (rule accept_consent_Inr [OF assms]) metis

theorem consent_fulfils_grant_witness:
  "\<exists>dec w' g. accept_authorization_consent demo_env demo_api demo_policy demo_browser_session 5 None None
       (demo_world demo_pending_db) = (Inr dec, w')
     \<and> store (decode_grant (e_url_parse demo_env)) og_id (oauth2_authorization_grants demo_pending_db) 5 = Some g
     \<and> rs_code (cn_params dec) = map_option ac_code (ag_code g)"
proof -
  obtain dec w' where run: "accept_authorization_consent demo_env demo_api demo_policy demo_browser_session 5
      None None (demo_world demo_pending_db) = (Inr dec, w')"
    using demo_consent by blast
  from consent_fulfils_grant [OF run] run show ?thesis
    unfolding demo_world_db by blast
qed

text \<open>
  C19. A consent that fails, for whatever reason, commits nothing.
\<close>

theorem failed_consent_commits_nothing:
  assumes "accept_authorization_consent e api policy b i ip ua w = (Inl err, w')"
  shows "w_committed w' = w_committed w"
  by (rule fails_cleanD [OF accept_consent_fails_clean assms])

theorem failed_consent_commits_nothing_witness:
  "\<exists>err w'. accept_authorization_consent demo_env demo_api demo_policy demo_browser_session 99 None None
       (demo_world demo_db) = (Inl err, w') \<and> w_committed w' = demo_db"
proof -
  have run: "accept_authorization_consent demo_env demo_api demo_policy demo_browser_session 99 None None
      (demo_world demo_db) = (Inl OE_NotFound, demo_world demo_db)"
    by (simp add: accept_authorization_consent_def load_consent_grant_def grant_lookup_def run_defs demo_defs)
  from failed_consent_commits_nothing [OF run] run show ?thesis
    by (auto simp: demo_world_db)
qed

text \<open>
  C20. The decision on a device code refines the state machine of the grant: an unexpired pending grant
  moves to the stage that the user chose and every other grant stays as it was; a grant already decided
  is not changed.
\<close>

theorem device_consent_refines:
  assumes "submit_device_consent policy b i action ip ua w = (Inr status, w')"
  shows "\<exists>g. store decode_device_grant od_id (oauth2_device_code_grant (w_db w)) i = Some g
    \<and> \<not> dg_expires_at g < clock_reading w
    \<and> store decode_device_grant od_id (oauth2_device_code_grant (w_committed w')) =
        (if dg_state g = D_Pending
         then (store decode_device_grant od_id (oauth2_device_code_grant (w_db w)))
                (i \<mapsto> g\<lparr>dg_state := decided action b (clock_reading (tick w))\<rparr>)
         else store decode_device_grant od_id (oauth2_device_code_grant (w_db w)))"
proof -
  obtain g where "store decode_device_grant od_id (oauth2_device_code_grant (w_db w)) i = Some g"
    "\<not> dg_expires_at g < clock_reading w" "w_committed w' = w_db w'"
    "dg_state g = D_Pending \<Longrightarrow>
      store decode_device_grant od_id (oauth2_device_code_grant (w_db w')) =
          (store decode_device_grant od_id (oauth2_device_code_grant (w_db w)))
            (i \<mapsto> g\<lparr>dg_state := decided action b (clock_reading (tick w))\<rparr>)"
    "dg_state g \<noteq> D_Pending \<Longrightarrow> w_db w' = w_db w"
    using assms by (rule submit_device_consent_Inr) blast
  then show ?thesis
    by (intro exI [of _ g]) simp
qed

theorem device_consent_refines_witness:
  "\<exists>w' g. submit_device_consent demo_policy demo_browser_session 8 DC_Consent None None
       (demo_world demo_undecided_db) = (Inr DS_Fulfilled, w')
     \<and> store decode_device_grant od_id (oauth2_device_code_grant demo_undecided_db) 8 = Some g
     \<and> \<not> dg_expires_at g < 1000000"
proof -
  obtain w' where run: "submit_device_consent demo_policy demo_browser_session 8 DC_Consent None None
      (demo_world demo_undecided_db) = (Inr DS_Fulfilled, w')"
    using demo_device_consent by blast
  from device_consent_refines [OF run] run show ?thesis
    unfolding demo_world_db demo_clock by blast
qed

text \<open>
  C21. A back-channel logout with the policy to log out everything ends every active OAuth 2.0 session
  that was started from a browser, of every user and whatever the provider: the restriction to the
  sessions that authenticated with the provider does not reach the query.
\<close>

theorem backchannel_logout_ends_everything:
  assumes "backchannel_logout e LogoutAll p sub sid w = (Inr (), w')" and "db_ok (w_db w)"
    and "r \<in> set (oauth2_sessions (w_committed w'))" and "os_user_session_id r \<noteq> None"
  shows "os_finished_at r \<noteq> None"
  using backchannel_logout_all_Inr(1,2) [OF assms(1,2)] assms(3,4)
  by (auto simp: finish_browser_started_def split: if_splits)

theorem backchannel_logout_ends_everything_witness:
  "\<exists>w' r. backchannel_logout demo_env LogoutAll 99 (Some ''someone'') None (demo_world demo_db) = (Inr (), w')
     \<and> upstream_oauth_authorization_sessions demo_db = [] \<and> os_finished_at demo_session = None
     \<and> oauth2_sessions (w_committed w') = [r] \<and> os_id r = os_id demo_session \<and> os_finished_at r \<noteq> None"
proof -
  obtain w' where run: "backchannel_logout demo_env LogoutAll 99 (Some ''someone'') None (demo_world demo_db)
      = (Inr (), w')"
    using demo_logout by blast
  have ok: "db_ok (w_db (demo_world demo_db))"
    by (simp add: demo_world_db demo_db_ok)
  let ?r = "finish_browser_started (clock_reading (tick (demo_world demo_db))) demo_session"
  have S: "oauth2_sessions (w_committed w') = [?r]"
    using backchannel_logout_all_Inr(1,2) [OF run ok] by (simp add: demo_world_db demo_db_def)
  have "os_user_session_id ?r \<noteq> None" and id: "os_id ?r = os_id demo_session"
    by (simp_all add: finish_browser_started_def demo_session_def)
  then have "os_finished_at ?r \<noteq> None"
    using backchannel_logout_ends_everything [OF run ok, of ?r] S by simp
  with run S id show ?thesis
    by (intro exI [of _ w'] exI [of _ ?r]) (simp add: demo_db_def demo_session_def)
qed

text \<open>
  C22. The subject and the session identifier of a logout token make no difference: logout requests of
  one provider that name different subjects have the same effect.
\<close>

theorem backchannel_logout_ignores_claims:
  assumes "sub \<noteq> None \<or> sid \<noteq> None" and "sub' \<noteq> None \<or> sid' \<noteq> None"
  shows "backchannel_logout e on_logout p sub sid = backchannel_logout e on_logout p sub' sid'"
  by (rule backchannel_claims [OF assms])

theorem backchannel_logout_ignores_claims_witness:
  "backchannel_logout demo_env LogoutAll 99 (Some ''alice'') None =
   backchannel_logout demo_env LogoutAll 99 (Some ''bob'') None"
  by (rule backchannel_logout_ignores_claims) simp_all

section \<open>Tokens, identifiers and protocol values\<close>

text \<open>
  C23. A generated token passes \<open>TokenType::check\<close>, which recovers its type, for every random
  generator state, when the Base64 decoder rejects inputs of an impossible length.
\<close>

theorem generated_token_checks:
  assumes "rejects_impossible_length decode_vec"
  shows "check crc decode_vec (fst (generate crc t g)) = Inr t"
  using assms generate_well_formed [of crc t g] well_formed_not_macaroon
  by (cases "generate crc t g") (auto simp: check_Inr_iff)

theorem generated_token_checks_witness:
  "check (\<lambda>_. 7) (\<lambda>_. None)
     (fst (generate (\<lambda>_. 7) TT_RefreshToken \<lparr>rng_bytes = of_nat, rng_pos = 0\<rparr>)) =
   Inr TT_RefreshToken"
  by (rule generated_token_checks) (simp add: rejects_impossible_length_def)

text \<open>
  C24. The format check types tokens: it accepts exactly the strings made of the prefix of the type, an
  underscore, thirty characters that are not underscores, an underscore and the six character checksum
  of what precedes, unless they look like a macaroon; no string has two types.
\<close>

theorem token_check_exact:
  "(check crc decode_vec token = Inr t \<longleftrightarrow>
      well_formed_token crc t token \<and> \<not> is_likely_palpo_macaroon decode_vec token)
    \<and> \<not> (t \<noteq> t' \<and> well_formed_token crc t token \<and> well_formed_token crc t' token)"
  using check_Inr_iff well_formed_token_type_unique by blast

text \<open>
  C25. Identifiers are ordered by time: of two identifiers drawn at different milliseconds, before the
  48 bits of the timestamp run out, the later one is greater, whatever the random bytes are; and every
  identifier fits 128 bits.
\<close>

theorem new_ids_ordered:
  assumes "id_millis t < id_millis u" and "id_millis u < 2 ^ 48"
  shows "fst (new_id t g) < fst (new_id u h) \<and> fst (new_id u h) < 2 ^ 128"
proof -
  obtain r where r: "fst (new_id t g) = id_millis t mod 2 ^ 48 * 2 ^ 80 + r" "r < 2 ^ 80"
    by (rule new_id_split)
  obtain s where s: "fst (new_id u h) = id_millis u mod 2 ^ 48 * 2 ^ 80 + s" "s < 2 ^ 80"
    by (rule new_id_split)
  from assms r s show ?thesis
    by simp
qed

theorem new_ids_ordered_witness:
  "fst (new_id 1000 \<lparr>rng_bytes = (\<lambda>_. 255), rng_pos = 0\<rparr>) < fst (new_id 2000 \<lparr>rng_bytes = (\<lambda>_. 0), rng_pos = 0\<rparr>)"
  using new_ids_ordered [of 1000 2000] by (simp add: id_millis_def timestamp_millis_def)

text \<open>
  C26. A scope is read back from its string form: parsing what a non-empty scope displays as gives the
  same scope.
\<close>

theorem scope_roundtrip:
  assumes "valid_scope sc" and "sc \<noteq> []"
  shows "parse_scope (display_scope sc) = Some sc"
  by (rule parse_display [OF assms])

theorem scope_roundtrip_witness:
  "parse_scope (display_scope [''email'', ''openid'']) = Some [''email'', ''openid'']"
  by (rule scope_roundtrip) (code_simp, simp)

text \<open>
  C27. PKCE verification accepts exactly the verifiers of 43 to 128 unreserved characters whose
  challenge, plain or hashed, is the one of the grant.
\<close>

theorem pkce_verify_exact:
  "verify (s256 e) m challenge v = Inr u \<longleftrightarrow>
     43 \<le> length v \<and> length v \<le> 128 \<and> list_all is_unreserved v
     \<and> (m = Plain \<and> challenge = v \<or> m = S256 \<and> challenge = s256 e v)"
  by (rule verify_ok)

text \<open>
  C28. What a new authorization grant reads back as. When the parameters are as parsing leaves them,
  the repository maps the identifier of the grant that was added to that grant, up to its creation
  time, if there is no PKCE challenge or its method is \<open>plain\<close> or \<open>S256\<close>; with any other method, which
  the endpoint accepts, the row that was stored can never be read. The other identifiers are mapped as
  before.
\<close>

theorem added_grant_read:
  assumes "grant_add p w = (Inr g, w')" and "parsed_params url_parse p"
  shows "\<exists>t. store (decode_grant url_parse) og_id (oauth2_authorization_grants (w_db w')) =
    (store (decode_grant url_parse) og_id (oauth2_authorization_grants (w_db w)))
      (ag_id g := if pkce_readable p then Some (g\<lparr>ag_created_at := t\<rparr>) else None)"
proof -
  let ?row = "new_grant_row (next_id w) (clock_reading w) p"
  from assms(1) have ins: "insert_row oauth2_authorization_grants put_grants ?row (after_new_id w) = (Inr (), w')"
    and g: "g = new_grant (next_id w) (clock_reading w) p"
    by (auto simp: grant_add_Inr)
  have "og_id ?row = ag_id g" "g\<lparr>ag_created_at := clock_reading w\<rparr> = g"
    by (simp_all add: g new_grant_def new_grant_row_def Let_def)
  then show ?thesis
    using grants.store_insert_row [OF ins, of url_parse] decode_new_grant [OF assms(2)]
    by (intro exI [of _ "clock_reading w"]) (simp add: g)
qed

theorem added_grant_read_witness:
  "\<exists>g w' t. grant_add demo_grant_params (demo_world demo_db) = (Inr g, w')
     \<and> store (decode_grant Some) og_id (oauth2_authorization_grants (w_db w')) (ag_id g)
         = Some (g\<lparr>ag_created_at := t\<rparr>)"
proof -
  obtain g w' where run: "grant_add demo_grant_params (demo_world demo_db) = (Inr g, w')"
    using demo_grant_add by blast
  from added_grant_read [OF run conjunct1 [OF demo_grant_parsed]] run show ?thesis
    using demo_grant_parsed by auto
qed

text \<open>
  C29. A device authorization request without a scope is stored in a form that can never be read: the
  row of the new grant does not decode, so every later lookup of the grant fails.
\<close>

theorem empty_scope_device_grant_unreadable:
  assumes "device_authorization_post ip ua device_code user_code None c w = (Inr resp, w')"
  shows "\<exists>r. r \<in> set (oauth2_device_code_grant (w_committed w')) \<and> od_device_code r = dr_device_code resp
    \<and> decode_device_grant r = Inl (Inconsistency ''oauth2_device_code_grant'' (Some ''scope'') (Some (od_id r)))"
proof -
  let ?p = "\<lparr>dp_client = c, dp_scope = [], dp_device_code = device_code, dp_user_code = user_code,
    dp_expires_in = 1200000000, dp_ip_address = ip, dp_user_agent = ua\<rparr>"
  from assms obtain g w1 where add: "device_grant_add ?p w = (Inr g, w1)"
    and w': "w_committed w' = w_db w1" and resp: "dr_device_code resp = dg_device_code g"
    by (auto simp: device_authorization_post_def thenE_Inr bindE_Inr map_err_Inr ensure_Inr save_def Let_def)
  let ?r = "new_device_grant_row (next_id w) (clock_reading w) ?p"
  from add have "?r \<in> set (oauth2_device_code_grant (w_db w1))" "od_device_code ?r = dg_device_code g"
    by (auto simp: device_grant_add_Inr insert_row_Inr new_device_grant_def new_device_grant_row_def)
  moreover have "decode_device_grant ?r =
      Inl (Inconsistency ''oauth2_device_code_grant'' (Some ''scope'') (Some (od_id ?r)))"
    by (subst decode_empty_scope_device_grant) (simp_all add: new_device_grant_row_def)
  ultimately show ?thesis
    unfolding w' resp by blast
qed

theorem empty_scope_device_grant_unreadable_witness:
  "\<exists>resp w' r. device_authorization_post None None ''device'' ''USER'' None demo_client (demo_world demo_db)
       = (Inr resp, w')
     \<and> r \<in> set (oauth2_device_code_grant (w_committed w')) \<and> od_device_code r = dr_device_code resp
     \<and> (\<nexists>g. decode_device_grant r = Inr g)"
proof -
  obtain resp w' where run: "device_authorization_post None None ''device'' ''USER'' None demo_client
      (demo_world demo_db) = (Inr resp, w')"
    using demo_device_authorization by blast
  from empty_scope_device_grant_unreadable [OF run] obtain r where
    "r \<in> set (oauth2_device_code_grant (w_committed w'))" "od_device_code r = dr_device_code resp"
    "decode_device_grant r = Inl (Inconsistency ''oauth2_device_code_grant'' (Some ''scope'') (Some (od_id r)))"
    by blast
  with run show ?thesis
    by (metis sum.distinct(1))
qed

text \<open>
  C30. Finishing a session refines its state machine: when the operation succeeds on a session that the
  repository holds, the repository maps its identifier to the finished session and every other
  identifier as before, and the session was not finished before. The instant of the end is the one
  stored, to the microsecond.
\<close>

theorem session_finish_refines:
  assumes "oauth2_session_finish s w = (Inr s', w')"
    and "store decode_session os_id (oauth2_sessions (w_db w)) (s_id s) = Some s"
  shows "store decode_session os_id (oauth2_sessions (w_db w')) =
      (store decode_session os_id (oauth2_sessions (w_db w)))(s_id s \<mapsto> s')
    \<and> s_state s = S_Valid \<and> s' = s\<lparr>s_state := S_Finished (clock_reading w)\<rparr>"
proof -
  have run: "update_then_transition oauth2_sessions put_sessions os_id s_id finish_row session_finish s w = (Inr s', w')"
    using assms(1) by (simp add: oauth2_session_finish_def)
  have "s_state s = S_Valid \<and> s' = s\<lparr>s_state := S_Finished (clock_reading w)\<rparr>"
    using run by (auto simp: update_then_transition_Inr session_finish_Inr)
  with session_finish_step.update_first_refines [OF run assms(2)] show ?thesis
    by simp
qed

theorem session_finish_refines_witness:
  "\<exists>s' w'. oauth2_session_finish demo_session_value (demo_world demo_db) = (Inr s', w')
     \<and> store decode_session os_id (oauth2_sessions (w_db w')) 4 = Some s' \<and> s_state s' = S_Finished 1000000"
proof -
  obtain s' w' where run: "oauth2_session_finish demo_session_value (demo_world demo_db) = (Inr s', w')"
    using demo_finish_session by blast
  have i: "s_id demo_session_value = 4"
    by (simp add: demo_session_value_def)
  have "store decode_session os_id (oauth2_sessions (w_db (demo_world demo_db))) (s_id demo_session_value)
      = Some demo_session_value"
    by (rule store_Some [where r = demo_session])
      (simp_all add: demo_session_decodes, simp add: i demo_world_db demo_db_def row_by_id_def demo_session_def)
  from session_finish_refines [OF run this] run show ?thesis
    by (auto simp: i demo_clock)
qed

text \<open>
  C31. Reading a table page by page reads all of it: following the cursors ends within one page more
  than there are rows and gives every matching row exactly once, in the order of the identifiers.
\<close>

theorem paging_reads_everything:
  assumes "distinct (map cursor rows)" and "0 < n" and "n < 2 ^ 63 - 1" and "length rows < fuel"
  shows "collect_pages fuel cursor (pagination_first n) rows = Some (sort_key cursor rows)"
proof -
  have m: "matching_rows cursor (pagination_first n) rows = sort_key cursor rows"
    by (simp add: matching_rows_def pagination_first_def in_range_def comp_def)
  have "collect_pages fuel cursor (pagination_first n) rows =
      Some (matching_rows cursor (pagination_first n) rows)"
    using assms
    by (intro collect_pages_complete) (simp_all add: m, simp_all add: pagination_first_def reasonable_count_def)
  then show ?thesis
    by (simp add: m)
qed

theorem paging_reads_everything_witness:
  "collect_pages 4 id (pagination_first 1) [30, 10, 20] = Some [10, 20, 30]"
  using paging_reads_everything [of id "[30, 10, 20]" 1 4] by simp



text \<open>
  C33. The rejection sampling loop that draws authorization codes ends with a code of 32 alphanumeric
  characters as soon as some number of its 64 byte blocks hold 32 acceptable bytes.
\<close>

theorem authorization_code_drawn:
  assumes "32 \<le> acceptable (64 * n) g"
  shows "\<exists>code g'. generate_code [] g = Some (code, g') \<and> length code = 32
    \<and> set code \<subseteq> set alphanumeric_charset"
  using generate_code_returns [of "[]" n g] assms by simp

theorem authorization_code_drawn_witness:
  "\<exists>code g'. generate_code [] \<lparr>rng_bytes = (\<lambda>i. if even i then 255 else 1), rng_pos = 0\<rparr> = Some (code, g')
     \<and> length code = 32"
proof -
  have "32 \<le> acceptable (64 * 1) \<lparr>rng_bytes = (\<lambda>i. if even i then 255 else 1), rng_pos = 0\<rparr>"
    by code_simp
  from authorization_code_drawn [OF this] show ?thesis
    by blast
qed

section \<open>The job queue\<close>

text \<open>
  C34. A job is handed out once. Whatever the queue operations other than the clean-up of old jobs do after
  a worker reserved it, in any order and by any worker, no later reservation returns the same job.
\<close>

theorem job_reserved_once:
  assumes "consistent w" and "reserve pm k qs n w = (Inr jobs, w1)" and "queue_step\<^sup>*\<^sup>* w1 w2"
    and "reserve pm' k' qs' n' w2 = (Inr jobs', w3)"
  shows "set (map j_id jobs) \<inter> set (map j_id jobs') = {}"
proof -
  have False if j: "j \<in> set jobs" and j': "j' \<in> set jobs'" and same: "j_id j = j_id j'" for j j'
  proof -
    have "evolved (queue_jobs (w_db w)) w1"
      using keepsD [OF evolved_reserve assms(2), of "queue_jobs (w_db w)"] assms(1) by (simp add: evolved_def)
    then have e: "evolved (queue_jobs (w_db w1)) w2"
      using queue_steps_evolved [OF assms(3), of "queue_jobs (w_db w1)"] by (simp add: evolved_def)
    obtain r where r: "r \<in> set (queue_jobs (w_db w1))" "qj_id r = j_id j" "qj_status r = ''running''"
      using reserved_rank [OF assms(2,1) j] by blast
    obtain r' where r': "r' \<in> set (queue_jobs (w_db w2))" "qj_id r' = j_id j'" "qj_status r' = ''available''"
      using reserved_was_available [OF assms(4) j'] by blast
    show False
      using never_available_again [OF e r(1) _ r'(1)] r r' same by (simp add: status_rank_def)
  qed
  then show ?thesis
    by auto
qed

theorem job_reserved_once_witness:
  "\<exists>j w1. reserve demo_metadata 20 [''sync-devices''] 5 (demo_world demo_queue_db) = (Inr [j], w1)
     \<and> j_id j = 21
     \<and> 21 \<notin> {j_id j' |j' jobs'. reserve demo_metadata 20 [''sync-devices''] 5 w1 = (Inr jobs', snd (reserve demo_metadata 20 [''sync-devices''] 5 w1)) \<and> j' \<in> set jobs'}"
proof -
  obtain j w1 where run: "reserve demo_metadata 20 [''sync-devices''] 5 (demo_world demo_queue_db) = (Inr [j], w1)"
    and id: "j_id j = 21"
    using demo_reserve by blast
  show ?thesis
    using job_reserved_once [OF demo_queue_consistent run rtranclp.rtrancl_refl] run id by fastforce
qed

text \<open>
  C35. The bookkeeping of a worker. Whatever one tick does (settle the tasks that ended, renew the
  heartbeat, fetch and start more jobs), also when it fails in the middle, afterwards every task has its
  context, at most ten run, no job is attempted more than eleven times, and the attempt a task was started
  with is the attempt of its row.
\<close>

theorem worker_tick_invariant:
  assumes "worker_ok s"
  shows "worker_ok (snd (tick_worker pm db_now k s))"
  by (rule keeps_snd [OF worker_ok_tick assms])

theorem worker_tick_invariant_witness:
  "worker_ok (snd (tick_worker demo_metadata 0 20 demo_worker_state))"
  by (rule worker_tick_invariant [OF demo_worker_ok])

text \<open>
  C36. Jobs of dead workers do not stay behind: when the recovery step of the leader succeeds, no running job
  belongs to a worker that is shut down.
\<close>

theorem abandoned_jobs_recovered:
  assumes "recover_abandoned_jobs w = (Inr (), w')" and "r \<in> set (queue_jobs (w_db w'))"
    and "qj_status r = ''running''" and "k \<in> set (queue_workers (w_db w'))" and "qj_started_by r = Some (qw_id k)"
  shows "qw_shutdown_at k = None"
  using recover_none_abandoned [OF assms(1)] assms(2-)
  by (auto simp: none_abandoned_def abandoned_def list_ex_iff)

theorem abandoned_jobs_recovered_witness:
  "\<not> none_abandoned (demo_world (demo_lost_db 0))
   \<and> (\<exists>w'. recover_abandoned_jobs (demo_world (demo_lost_db 0)) = (Inr (), w')
         \<and> [r \<leftarrow> queue_jobs (w_db w'). qj_status r = ''running'' \<and> qj_started_by r = Some 20
              \<and> [k \<leftarrow> queue_workers (w_db w'). qw_id k = 20 \<and> qw_shutdown_at k \<noteq> None] \<noteq> []] = [])"
proof -
  obtain w' where run: "recover_abandoned_jobs (demo_world (demo_lost_db 0)) = (Inr (), w')"
    using demo_recover by blast
  show ?thesis
    using abandoned_jobs_recovered [OF run] run demo_lost_abandoned by (fastforce simp: filter_empty_conv)
qed

text \<open>
  C37. Shutting a worker down waits for its jobs: provided every task it waits for ends, in whatever order
  and with whatever results, the drain loop ends, it never trips over a task without a context, and
  unless the database refuses a write no task is left afterwards.
\<close>

theorem drain_ends_empty:
  assumes "tracker_ok tk"
  shows "\<exists>r tk' w'. drain_jobs ends tk w = (r, tk', w')
    \<and> (r = Inr () \<and> running_jobs tk' = 0 \<or> (\<exists>e. r = Inl (QRepository e)))"
proof -
  obtain r tk' w' where run: "drain_jobs ends tk w = (r, tk', w')"
    by (cases "drain_jobs ends tk w")
  show ?thesis
  proof (cases r)
    case (Inl e)
    then show ?thesis
      using run drain_jobs_ok [OF assms run] drain_jobs_not_leader [OF run] by (cases e) auto
  next
    case (Inr u)
    then show ?thesis
      using run drain_jobs_done [of ends tk w u tk' w'] by simp
  qed
qed

theorem drain_ends_empty_witness:
  "\<exists>tk' w'. drain_jobs (\<lambda>_. (0, JobOk)) demo_tracker (demo_world (demo_lost_db 0)) = (Inr (), tk', w')
     \<and> running_jobs demo_tracker = 1 \<and> running_jobs tk' = 0"
  using drain_ends_empty [OF demo_tracker_ok, of "\<lambda>_. (0, JobOk)" "demo_world (demo_lost_db 0)"] demo_drain
  by (auto simp: demo_tracker_def spawn_job_def tracker_new_def running_jobs_def)

text \<open>
  C38. The leader lease is exclusive: a worker gets it exactly when no other worker holds the active
  row, and the row it then holds is its own.
\<close>

theorem leader_lease_exclusive:
  assumes "consistent w" and "try_get_leader_lease db_now i w = (Inr b, w')"
  shows "(b \<longleftrightarrow> (\<forall>r \<in> set (queue_leader (w_db w)). ql_active r \<longrightarrow> ql_worker_id r = i))
    \<and> (b \<longrightarrow> (\<exists>r \<in> set (queue_leader (w_db w')). ql_active r \<and> ql_worker_id r = i
               \<and> ql_expires_at r = db_now + 5000000))"
  using try_get_leader_lease_Inr [OF assms(2,1)] by blast

theorem leader_lease_exclusive_witness:
  "\<exists>w'. try_get_leader_lease 0 20 (demo_world demo_queue_db) = (Inr True, w')
     \<and> (\<exists>r \<in> set (queue_leader (w_db w')). ql_active r \<and> ql_worker_id r = 20)"
  using demo_lease leader_lease_exclusive [OF demo_queue_consistent, of 0 20 True] by blast

text \<open>
  C39. The lock of the leader's duties does not outlive the use of its connection. A run that takes the
  lock gives it back when it succeeds; when it fails, the idle connection still holds that one lock, so
  every other connection skips the duties without touching the database; and as soon as the pool hands
  that connection out again, for whatever purpose, its recycling hook has released the lock and any
  connection can take it. The locks of the other connections stay as they are.
\<close>

theorem leader_lock_released_on_reuse:
  assumes "run_leader_duties key conn schedules s = (r, s')" and "lock_free conn key s"
  shows "ls_locks s' = (case r of Inl _ \<Rightarrow> [(conn, key)] | Inr _ \<Rightarrow> [])
        @ filter (\<lambda>(c, k). c \<noteq> conn) (ls_locks s)
    \<and> (\<forall>err c sch. r = Inl err \<and> c \<noteq> conn \<longrightarrow>
         run_leader_duties key c sch s' = (Inr (), get_connection c s'))
    \<and> (\<forall>c. lock_free c key (get_connection conn s'))"
proof -
  have locks: "ls_locks s' = (case r of Inl _ \<Rightarrow> [(conn, key)] | Inr _ \<Rightarrow> []) @ ls_locks (get_connection conn s)"
    by (rule leader_lock_after [OF assms])
  have "run_leader_duties key c sch s' = (Inr (), get_connection c s')"
    if "r = Inl err" "c \<noteq> conn" for err c sch
  proof -
    have "\<not> lock_free c key s'"
      using that by (simp add: lock_free_def locks)
    then show ?thesis
      by (simp add: run_leader_duties_def lock_free_recycled Let_def)
  qed
  moreover have "ls_locks (get_connection conn s') = ls_locks (get_connection conn s)"
    by (rule recycled_twice [OF locks]) (simp split: sum.split)
  then have "lock_free c key (get_connection conn s')" for c
    using recycled_lock_free [OF assms(2), of c] by (simp add: lock_free_def)
  moreover have "ls_locks (get_connection conn s) = filter (\<lambda>(c, k). c \<noteq> conn) (ls_locks s)"
    by (simp add: get_connection_def cleanup_pooled_postgres_connection_def)
  ultimately show ?thesis
    using locks by simp
qed

theorem leader_lock_released_on_reuse_witness:
  "\<exists>err s'. run_leader_duties 1 0 [] (demo_leader (demo_lost_db (- 1))) = (Inl err, s')
     \<and> run_leader_duties 1 7 [] s' = (Inr (), get_connection 7 s')
     \<and> lock_free 7 1 (get_connection 0 s')"
proof -
  have free: "lock_free 0 1 (demo_leader (demo_lost_db (- 1)))"
    by (simp add: lock_free_def demo_leader_def)
  obtain err s' where run: "run_leader_duties 1 0 [] (demo_leader (demo_lost_db (- 1))) = (Inl err, s')"
    using demo_leader_fails by blast
  show ?thesis
    using leader_lock_released_on_reuse [OF run free] run by auto
qed

section \<open>Accounts\<close>

text \<open>
  C40. A user has at most one primary e-mail address, and changing an address of theirs (its text,
  whether it is confirmed, whether it is the primary one) keeps it so.
\<close>

theorem one_primary_email:
  assumes "consistent w" and "one_primary w" and "row_by_id em_id (user_emails (w_db w)) (ue_id e) = Some r"
    and "em_user_id r = ue_user_id e" and "email_patch e p w = (Inr e', w')"
  shows "one_primary w'"
  by (rule email_patch_one_primary [OF assms(5,2,1,3,4)])

theorem one_primary_email_witness:
  "\<exists>e w'. email_patch (build_user_email demo_second_email) make_primary
     (demo_world demo_email_db) = (Inr e, w')
     \<and> map em_is_primary (user_emails (w_db w')) = [False, True] \<and> one_primary w'"
proof -
  have one: "one_primary (demo_world demo_email_db)"
    by (simp add: one_primary_def single_primary_def demo_email_db_def demo_second_email_def demo_email_def demo_defs)
  obtain e w' where run: "email_patch (build_user_email demo_second_email) make_primary
     (demo_world demo_email_db) = (Inr e, w')" "map em_is_primary (user_emails (w_db w')) = [False, True]"
    using demo_email_patch by (elim exE conjE) (rule that)
  have "one_primary w'"
    by (rule one_primary_email [OF demo_email_consistent one _ _ run(1), of demo_second_email])
      (simp_all add: demo_email_db_def demo_second_email_def demo_email_def build_user_email_def row_by_id_def demo_defs)
  then show ?thesis
    by (intro exI conjI) (rule run(1), rule run(2))
qed

end
